(* ===== verification/Gm_Prelude.thy ===== *)
theory Gm_Prelude
  imports Main "HOL-Library.Word" "HOL-Library.Sublist"
begin

text \<open>
  Shared vocabulary of the development: byte strings, the outcome of a Go call (a returned
  value, an error value or a panic), the string functions of the Go standard library that the
  sources use, decimal numerals, and clock values.  The lemmas collected here carry the proofs
  of the component theories.
\<close>

unbundle bit_operations_syntax

named_theorems go_simps \<open>unfolding rules of the small Go library functions\<close>

section \<open>Types\<close>

type_synonym byte = "8 word"
type_synonym bytes = "byte list"

text \<open>A clock value counts nanoseconds since the Unix epoch; a duration counts nanoseconds.\<close>

type_synonym time = int
type_synonym duration = int

section \<open>Outcomes of Go calls\<close>

datatype ('e, 'a) outcome = Return 'a | Error 'e | Panic string

fun bind_outcome :: "('e, 'a) outcome \<Rightarrow> ('a \<Rightarrow> ('e, 'b) outcome) \<Rightarrow> ('e, 'b) outcome" where
  "bind_outcome (Return x) f = f x"
| "bind_outcome (Error e) f = Error e"
| "bind_outcome (Panic p) f = Panic p"

fun panics :: "('e, 'a) outcome \<Rightarrow> bool" where
  "panics (Panic p) = True"
| "panics _ = False"

lemma bind_outcome_Return_iff:
  "bind_outcome r f = Return y \<longleftrightarrow> (\<exists>x. r = Return x \<and> f x = Return y)"
  by (cases r) auto

lemma panics_bind:
  "panics (bind_outcome r f) \<longleftrightarrow> panics r \<or> (\<exists>x. r = Return x \<and> panics (f x))"
  by (cases r) auto

section \<open>Byte strings\<close>

text \<open>Big-endian serialisation of a word into \<open>n\<close> bytes, and the number a byte string denotes.\<close>

definition be_bytes :: "nat \<Rightarrow> 'a::len word \<Rightarrow> bytes" where
  "be_bytes n w = map (\<lambda>i. ucast (drop_bit (8 * (n - 1 - i)) w)) [0..<n]"

definition be_word :: "bytes \<Rightarrow> 'a::len word" where
  "be_word bs = foldl (\<lambda>w b. push_bit 8 w OR ucast b) 0 bs"

lemma length_be_bytes [simp]: "length (be_bytes n w) = n"
  by (simp add: be_bytes_def)

definition xor_bytes :: "bytes \<Rightarrow> bytes \<Rightarrow> bytes" where
  "xor_bytes xs ks = map2 (XOR) xs ks"

lemma length_xor_bytes [simp]: "length (xor_bytes xs ks) = min (length xs) (length ks)"
  by (simp add: xor_bytes_def)

lemma xor_bytes_Nil [simp]: "xor_bytes [] ks = []"
  by (simp add: xor_bytes_def)

lemma xor_bytes_involution:
  assumes "length xs \<le> length ks"
  shows "xor_bytes (xor_bytes xs ks) ks = xs"
  using assms
proof (induction xs arbitrary: ks)
  case Nil
  then show ?case by simp
next
  case (Cons x xs)
  then obtain k ks' where "ks = k # ks'" by (cases ks) auto
  with Cons show ?case by (simp add: xor_bytes_def xor.assoc)
qed

text \<open>Splitting off the last \<open>n\<close> bytes, as the slice expressions \<open>d[len(d)-n:]\<close> do.\<close>

lemma take_append_suffix [simp]: "length s = n \<Longrightarrow> take (length (p @ s) - n) (p @ s) = p"
  by simp

lemma drop_append_suffix [simp]: "length s = n \<Longrightarrow> drop (length (p @ s) - n) (p @ s) = s"
  by simp

section \<open>Strings\<close>

text \<open>\<open>strings.HasPrefix\<close>, \<open>strings.HasSuffix\<close>, \<open>strings.TrimPrefix\<close>, \<open>strings.ContainsRune\<close>
  (for an ASCII rune) and \<open>strings.SplitN(s, c, 2)\<close>.\<close>

definition has_prefix :: "string \<Rightarrow> string \<Rightarrow> bool" where
  [go_simps]: "has_prefix s p = prefix p s"

definition has_suffix :: "string \<Rightarrow> string \<Rightarrow> bool" where
  [go_simps]: "has_suffix s p = suffix p s"

definition trim_prefix :: "string \<Rightarrow> string \<Rightarrow> string" where
  [go_simps]: "trim_prefix s p = (if prefix p s then drop (length p) s else s)"

definition contains_char :: "string \<Rightarrow> char \<Rightarrow> bool" where
  [go_simps]: "contains_char s c = (c \<in> set s)"

fun split2 :: "char \<Rightarrow> string \<Rightarrow> (string \<times> string) option" where
  "split2 c [] = None"
| "split2 c (x # xs) =
     (if x = c then Some ([], xs) else map_option (\<lambda>(p, q). (x # p, q)) (split2 c xs))"

lemma split2_append: "c \<notin> set p \<Longrightarrow> split2 c (p @ c # q) = Some (p, q)"
  by (induction p) auto

lemma split2_Some: "split2 c s = Some (p, q) \<Longrightarrow> s = p @ c # q \<and> c \<notin> set p"
  by (induction s arbitrary: p q) (auto split: if_splits)

lemma split2_None_iff: "split2 c s = None \<longleftrightarrow> c \<notin> set s"
  by (induction s) auto

text \<open>\<open>strings.Split\<close> on a single separator character.\<close>

fun split_char :: "char \<Rightarrow> string \<Rightarrow> string list" where
  "split_char c [] = [[]]"
| "split_char c (x # xs) =
     (if x = c then [] # split_char c xs
      else case split_char c xs of [] \<Rightarrow> [[x]] | p # ps \<Rightarrow> (x # p) # ps)"

lemma split_char_nonempty [simp]: "split_char c s \<noteq> []"
  by (induction s) (auto split: list.splits)

text \<open>\<open>strings.Split\<close> on a separator string.\<close>

fun split_str_from :: "string \<Rightarrow> string \<Rightarrow> nat \<Rightarrow> string \<Rightarrow> string list" where
  "split_str_from sep acc k [] = [rev acc]"
| "split_str_from sep acc (Suc k) (x # xs) = split_str_from sep acc k xs"
| "split_str_from sep acc 0 (x # xs) =
     (if prefix sep (x # xs) then rev acc # split_str_from sep [] (length sep - 1) xs
      else split_str_from sep (x # acc) 0 xs)"

definition split_str :: "string \<Rightarrow> string \<Rightarrow> string list" where
  "split_str sep s = split_str_from sep [] 0 s"

text \<open>\<open>strings.TrimSpace\<close>: the white space characters of Unicode in UTF-8.\<close>

definition space_runes :: "string list" where
  "space_runes =
     map (\<lambda>n. [char_of (n::nat)]) [9, 10, 11, 12, 13, 32]
     @ [[CHR 0xC2, CHR 0x85], [CHR 0xC2, CHR 0xA0], [CHR 0xE1, CHR 0x9A, CHR 0x80]]
     @ map (\<lambda>n. [CHR 0xE2, CHR 0x80, char_of (n::nat)]) [128..<139]
     @ [[CHR 0xE2, CHR 0x80, CHR 0xA8], [CHR 0xE2, CHR 0x80, CHR 0xA9], [CHR 0xE2, CHR 0x80, CHR 0xAF],
        [CHR 0xE2, CHR 0x81, CHR 0x9F], [CHR 0xE3, CHR 0x80, CHR 0x80]]"

fun trim_runes :: "nat \<Rightarrow> string list \<Rightarrow> string \<Rightarrow> string" where
  "trim_runes 0 rs s = s"
| "trim_runes (Suc n) rs s =
     (case find (\<lambda>r. prefix r s) rs of None \<Rightarrow> s | Some r \<Rightarrow> trim_runes n rs (drop (length r) s))"

definition trim_space :: "string \<Rightarrow> string" where
  "trim_space s =
     (let l = trim_runes (length s) space_runes s
      in rev (trim_runes (length l) (map rev space_runes) (rev l)))"

section \<open>Decimal numerals\<close>

text \<open>\<open>fmt\<close> with the verb d, and \<open>strconv.ParseInt(s, 10, bits)\<close> / \<open>strconv.Atoi\<close>: an
  optional sign, at least one digit, and a range check.\<close>

definition digit_char :: "nat \<Rightarrow> char" where
  "digit_char d = char_of (48 + d)"

definition char_digit :: "char \<Rightarrow> nat option" where
  "char_digit c = (let n = of_char c :: nat in if 48 \<le> n \<and> n \<le> 57 then Some (n - 48) else None)"

fun show_nat :: "nat \<Rightarrow> string" where
  "show_nat n = (if n < 10 then [digit_char n] else show_nat (n div 10) @ [digit_char (n mod 10)])"

declare show_nat.simps [simp del]

definition show_int :: "int \<Rightarrow> string" where
  "show_int i = (if i < 0 then CHR ''-'' # show_nat (nat (- i)) else show_nat (nat i))"

fun parse_digits :: "nat \<Rightarrow> string \<Rightarrow> nat option" where
  "parse_digits acc [] = Some acc"
| "parse_digits acc (c # cs) =
     (case char_digit c of None \<Rightarrow> None | Some d \<Rightarrow> parse_digits (10 * acc + d) cs)"

definition parse_nat :: "string \<Rightarrow> nat option" where
  "parse_nat s = (if s = '''' then None else parse_digits 0 s)"

definition in_range :: "nat \<Rightarrow> int \<Rightarrow> bool" where
  "in_range bits i \<longleftrightarrow> - (2 ^ (bits - 1)) \<le> i \<and> i < 2 ^ (bits - 1)"

definition parse_int :: "nat \<Rightarrow> string \<Rightarrow> int option" where
  "parse_int bits s =
     (let r = (case s of [] \<Rightarrow> None
               | c # cs \<Rightarrow> if c = CHR ''-'' then map_option (\<lambda>n. - int n) (parse_nat cs)
                          else if c = CHR ''+'' then map_option int (parse_nat cs)
                          else map_option int (parse_nat s))
      in case r of None \<Rightarrow> None | Some i \<Rightarrow> if in_range bits i then Some i else None)"

lemma of_char_digit_char: "d < 10 \<Longrightarrow> (of_char (digit_char d) :: nat) = 48 + d"
  by (simp add: digit_char_def)

lemma char_digit_digit_char [simp]: "d < 10 \<Longrightarrow> char_digit (digit_char d) = Some d"
  by (simp add: char_digit_def of_char_digit_char)

lemma digit_char_neq: "d < 10 \<Longrightarrow> of_char c < (48::nat) \<or> 57 < (of_char c :: nat) \<Longrightarrow> digit_char d \<noteq> c"
  using of_char_digit_char [of d] by auto

lemma show_nat_digits: "c \<in> set (show_nat n) \<Longrightarrow> \<exists>d<10. c = digit_char d"
proof (induction n rule: show_nat.induct)
  case (1 n)
  have "n mod 10 < 10" by simp
  moreover have "c \<in> set (if n < 10 then [digit_char n] else show_nat (n div 10) @ [digit_char (n mod 10)])"
    using 1(2) by (subst (asm) show_nat.simps)
  ultimately show ?case using 1(1) by (auto split: if_splits intro: exI [of _ "n mod 10"])
qed

lemma not_in_show_nat:
  "of_char c < (48::nat) \<or> 57 < (of_char c :: nat) \<Longrightarrow> c \<notin> set (show_nat n)"
  using show_nat_digits digit_char_neq by blast

lemma show_nat_nonempty [simp]: "show_nat n \<noteq> ''''"
  by (subst show_nat.simps) simp

lemma parse_digits_append:
  "parse_digits a (xs @ ys) = Option.bind (parse_digits a xs) (\<lambda>b. parse_digits b ys)"
  by (induction xs arbitrary: a) (auto split: option.splits)

lemma parse_digits_show_nat: "parse_digits 0 (show_nat n) = Some n"
proof (induction n rule: show_nat.induct)
  case (1 n)
  show ?case
    by (subst show_nat.simps) (use 1 in \<open>simp add: parse_digits_append\<close>)
qed

lemma parse_nat_show_nat [simp]: "parse_nat (show_nat n) = Some n"
  by (simp add: parse_nat_def parse_digits_show_nat)

lemma show_nat_not_sign: "show_nat n \<noteq> CHR ''-'' # cs" "show_nat n \<noteq> CHR ''+'' # cs"
  using not_in_show_nat [of "CHR ''-''" n] not_in_show_nat [of "CHR ''+''" n] by auto

lemma parse_int_show_int: "in_range bits i \<Longrightarrow> parse_int bits (show_int i) = Some i"
proof -
  assume r: "in_range bits i"
  obtain c cs where n: "show_nat (nat i) = c # cs" by (cases "show_nat (nat i)") auto
  then have "c \<noteq> CHR ''-''" "c \<noteq> CHR ''+''" using show_nat_not_sign by auto
  moreover have "parse_nat (c # cs) = Some (nat i)" using parse_nat_show_nat [of "nat i"] n by simp
  ultimately show ?thesis using r n by (simp add: parse_int_def show_int_def)
qed

lemma not_in_show_int:
  "c \<noteq> CHR ''-'' \<Longrightarrow> of_char c < (48::nat) \<or> 57 < (of_char c :: nat) \<Longrightarrow> c \<notin> set (show_int i)"
  by (simp add: show_int_def not_in_show_nat)

section \<open>Clock\<close>

definition second :: duration where [go_simps]: "second = 1000000000"
definition minute :: duration where [go_simps]: "minute = 60 * second"
definition hour :: duration where [go_simps]: "hour = 60 * minute"
definition microsecond :: duration where [go_simps]: "microsecond = 1000"
definition millisecond :: duration where [go_simps]: "millisecond = 1000000"

text \<open>Two's complement wrap-around of a 64-bit signed operation, and \<open>Time.Sub\<close>, which saturates.\<close>

definition wrap64 :: "int \<Rightarrow> int" where
  "wrap64 i = (i + 2 ^ 63) mod 2 ^ 64 - 2 ^ 63"

definition max_duration :: duration where [go_simps]: "max_duration = 2 ^ 63 - 1"
definition min_duration :: duration where [go_simps]: "min_duration = - (2 ^ 63)"

definition time_sub :: "time \<Rightarrow> time \<Rightarrow> duration" where
  "time_sub t u = max min_duration (min max_duration (t - u))"

text \<open>The zero \<open>time.Time\<close>: January 1 of year 1, in nanoseconds since the Unix epoch.\<close>

definition zero_time :: time where [go_simps]: "zero_time = - 62135596800 * second"

lemma wrap64_range: "- (2 ^ 63) \<le> wrap64 i \<and> wrap64 i < 2 ^ 63"
  unfolding wrap64_def using pos_mod_bound [of "2 ^ 64" "i + 2 ^ 63"] pos_mod_sign [of "2 ^ 64" "i + 2 ^ 63"]
  by simp

lemma wrap64_id: "in_range 64 i \<Longrightarrow> wrap64 i = i"
  by (simp add: wrap64_def in_range_def)

lemma time_sub_less_iff: "min_duration < d \<Longrightarrow> d \<le> max_duration \<Longrightarrow> time_sub t u < d \<longleftrightarrow> t - u < d"
  by (auto simp: time_sub_def)

lemma time_sub_le_iff: "min_duration \<le> d \<Longrightarrow> d < max_duration \<Longrightarrow> time_sub t u \<le> d \<longleftrightarrow> t - u \<le> d"
  by (auto simp: time_sub_def)

end
