(* ===== verification/Gm_Crypto.thy ===== *)
theory Gm_Crypto
  imports Gm_Prelude
begin

text \<open>
  Model of \<^verbatim>\<open>pkg/libgm/crypto\<close>: the encrypt-then-MAC helper \<open>AESCTRHelper\<close> that protects the
  RPC traffic with the phone, and the chunked AES-GCM helper \<open>AESGCMHelper\<close> that protects media.

  The AES block function and SHA-256 are parameters (\<open>aes\<close>, \<open>sha256\<close>) of unconstrained
  functions with the right widths; counter mode, HMAC and GCM are written out, so the theorems need
  no assumption about the primitives.  Random bytes (initialisation vectors, nonces) are
  arguments.
\<close>

section \<open>Primitives of the Go standard library\<close>

type_synonym aes_block = "bytes \<Rightarrow> 128 word \<Rightarrow> 128 word"
type_synonym sha256_fun = "bytes \<Rightarrow> 256 word"

text \<open>\<open>aes.NewCipher\<close> accepts keys of 16, 24 and 32 bytes.\<close>

definition aes_key_ok :: "bytes \<Rightarrow> bool" where
  "aes_key_ok key \<longleftrightarrow> length key = 16 \<or> length key = 24 \<or> length key = 32"

text \<open>The key stream of counter mode: the block function applied to consecutive counters.\<close>

definition keystream :: "(nat \<Rightarrow> 128 word) \<Rightarrow> (128 word \<Rightarrow> 128 word) \<Rightarrow> nat \<Rightarrow> bytes" where
  "keystream ctr blk n =
     take n (concat (map (\<lambda>i. be_bytes 16 (blk (ctr i))) [0..<(n + 15) div 16]))"

lemma length_concat_blocks:
  "length (concat (map (\<lambda>i. be_bytes 16 (f i)) [0..<m])) = 16 * m"
  by (induction m) auto

lemma length_keystream [simp]: "length (keystream ctr blk n) = n"
  unfolding keystream_def length_take length_concat_blocks by linarith

definition XORKeyStream :: "(nat \<Rightarrow> 128 word) \<Rightarrow> (128 word \<Rightarrow> 128 word) \<Rightarrow> bytes \<Rightarrow> bytes" where
  "XORKeyStream ctr blk src = xor_bytes src (keystream ctr blk (length src))"

lemma length_XORKeyStream [simp]: "length (XORKeyStream ctr blk src) = length src"
  by (simp add: XORKeyStream_def)

lemma XORKeyStream_involution [simp]: "XORKeyStream ctr blk (XORKeyStream ctr blk src) = src"
  by (simp add: XORKeyStream_def xor_bytes_involution)

text \<open>\<open>cipher.NewCTR\<close>: the whole 128-bit block is the counter.\<close>

definition ctr128 :: "bytes \<Rightarrow> nat \<Rightarrow> 128 word" where
  "ctr128 iv i = be_word iv + of_nat i"

text \<open>\<open>hmac.New(sha256.New, key)\<close> (RFC 2104 with a block size of 64 bytes).\<close>

definition sum256 :: "sha256_fun \<Rightarrow> bytes \<Rightarrow> bytes" where
  "sum256 sha256 m = be_bytes 32 (sha256 m)"

definition hmac_sha256 :: "sha256_fun \<Rightarrow> bytes \<Rightarrow> bytes \<Rightarrow> bytes" where
  "hmac_sha256 sha256 key m =
     (let k0 = (if length key > 64 then sum256 sha256 key else key);
          k = k0 @ replicate (64 - length k0) 0;
          ipad = map (\<lambda>b. b XOR 0x36) k;
          opad = map (\<lambda>b. b XOR 0x5C) k
      in sum256 sha256 (opad @ sum256 sha256 (ipad @ m)))"

lemma length_sum256 [simp]: "length (sum256 sha256 m) = 32"
  by (simp add: sum256_def)

lemma length_hmac_sha256 [simp]: "length (hmac_sha256 sha256 key m) = 32"
  by (simp add: hmac_sha256_def Let_def)

section \<open>AESCTRHelper\<close>

record AESCTRHelper =
  AESKey :: bytes
  HMACKey :: bytes

datatype crypto_error =
    KeySizeError nat
  | InputTooShort
  | HMACMismatch
  | UnsupportedKeyLength nat
  | InvalidEncryptedLength nat
  | AuthenticationFailed
  | InvalidHeader byte
  | ChunkFailed "32 word" crypto_error

text \<open>
  \<open>GenerateKey\<close> reads from the random source, here a stream of bytes.  \<open>crypto/rand\<close> is
  documented never to return an error, so the panic branch of \<open>GenerateKey\<close> is not reachable.
\<close>

definition GenerateKey :: "(nat \<Rightarrow> byte) \<Rightarrow> nat \<Rightarrow> bytes" where
  "GenerateKey rnd len = map rnd [0..<len]"

definition NewAESCTRHelper :: "(nat \<Rightarrow> byte) \<Rightarrow> AESCTRHelper" where
  "NewAESCTRHelper rnd =
     \<lparr>AESKey = GenerateKey rnd 32, HMACKey = GenerateKey (\<lambda>i. rnd (32 + i)) 32\<rparr>"

lemma length_GenerateKey [simp]: "length (GenerateKey rnd n) = n"
  by (simp add: GenerateKey_def)

lemma NewAESCTRHelper_key_ok: "aes_key_ok (AESKey (NewAESCTRHelper rnd))"
  by (simp add: NewAESCTRHelper_def aes_key_ok_def)

definition Encrypt :: "aes_block \<Rightarrow> sha256_fun \<Rightarrow> AESCTRHelper \<Rightarrow> bytes \<Rightarrow> bytes \<Rightarrow> crypto_error + bytes"
where
  "Encrypt aes sha256 c iv plaintext =
     (if \<not> aes_key_ok (AESKey c) then Inl (KeySizeError (length (AESKey c)))
      else
        let ciphertext = XORKeyStream (ctr128 iv) (aes (AESKey c)) plaintext @ iv
        in Inr (ciphertext @ hmac_sha256 sha256 (HMACKey c) ciphertext))"

text \<open>
  \<open>Decrypt\<close> runs \<open>XORKeyStream\<close> in place: besides its result it leaves the plaintext in the
  buffer the caller passed.  The second component is that buffer after the call.
\<close>

definition Decrypt ::
  "aes_block \<Rightarrow> sha256_fun \<Rightarrow> AESCTRHelper \<Rightarrow> bytes \<Rightarrow> (crypto_error + bytes) \<times> bytes" where
  "Decrypt aes sha256 c encryptedData =
     (let n = length encryptedData in
      if n < 48 then (Inl InputTooShort, encryptedData)
      else
        let hmacSignature = drop (n - 32) encryptedData;
            withoutHMAC = take (n - 32) encryptedData;
            expectedHMAC = hmac_sha256 sha256 (HMACKey c) withoutHMAC
        in if hmacSignature \<noteq> expectedHMAC then (Inl HMACMismatch, encryptedData)
        else
          let m = length withoutHMAC;
              iv = drop (m - 16) withoutHMAC;
              body = take (m - 16) withoutHMAC
          in if \<not> aes_key_ok (AESKey c)
             then (Inl (KeySizeError (length (AESKey c))), encryptedData)
             else
               let plain = XORKeyStream (ctr128 iv) (aes (AESKey c)) body
               in (Inr plain, plain @ iv @ hmacSignature))"

lemma Encrypt_length:
  "Encrypt aes sha256 c iv p = Inr d \<Longrightarrow> length d = length p + length iv + 32"
  by (auto simp: Encrypt_def Let_def split: if_splits)

lemma Decrypt_Encrypt_buffer:
  assumes "length iv = 16" and "Encrypt aes sha256 c iv p = Inr d"
  shows "Decrypt aes sha256 c d =
    (Inr p, p @ iv @ hmac_sha256 sha256 (HMACKey c)
                       (XORKeyStream (ctr128 iv) (aes (AESKey c)) p @ iv))"
proof -
  let ?x = "XORKeyStream (ctr128 iv) (aes (AESKey c)) p"
  let ?h = "hmac_sha256 sha256 (HMACKey c) (?x @ iv)"
  have key: "aes_key_ok (AESKey c)" and d: "d = (?x @ iv) @ ?h"
    using assms by (auto simp: Encrypt_def Let_def split: if_splits)
  have "drop (length d - 32) d = ?h" and t: "take (length d - 32) d = ?x @ iv"
    unfolding d by simp_all
  moreover have "drop (length (?x @ iv) - 16) (?x @ iv) = iv"
    and "take (length (?x @ iv) - 16) (?x @ iv) = ?x"
    using assms(1) by simp_all
  moreover have "\<not> length d < 48" using d assms(1) by simp
  ultimately show ?thesis using key by (simp add: Decrypt_def Let_def)
qed

lemma Decrypt_Inr_Encrypt:
  assumes "fst (Decrypt aes sha256 c d) = Inr p"
  shows "\<exists>iv. length iv = 16 \<and> Encrypt aes sha256 c iv p = Inr d"
proof -
  define w where "w = take (length d - 32) d"
  define iv where "iv = drop (length w - 16) w"
  define body where "body = take (length w - 16) w"
  define h where "h = hmac_sha256 sha256 (HMACKey c) w"
  have len: "48 \<le> length d" and mac: "drop (length d - 32) d = h" and key: "aes_key_ok (AESKey c)"
    and p: "p = XORKeyStream (ctr128 iv) (aes (AESKey c)) body"
    using assms by (auto simp: Decrypt_def Let_def w_def iv_def body_def h_def split: if_splits)
  have "length w = length d - 32" by (simp add: w_def)
  then have iv: "length iv = 16" using len by (simp add: iv_def)
  have w: "w = body @ iv" by (simp add: body_def iv_def)
  have d: "d = w @ h" using mac by (metis append_take_drop_id w_def)
  have "Encrypt aes sha256 c iv p = Inr ((body @ iv) @ hmac_sha256 sha256 (HMACKey c) (body @ iv))"
    using key by (simp add: Encrypt_def Let_def p)
  then show ?thesis using iv d w h_def by auto
qed

section \<open>Galois counter mode\<close>

text \<open>
  \<open>cipher.NewGCM\<close> (NIST SP 800-38D) with 12-byte nonces and 16-byte tags: multiplication in the
  field of 128-bit blocks, the GHASH function, and sealing and opening of one message.
\<close>

definition gcm_nonce_size :: nat where
  [simp]: "gcm_nonce_size = 12"

definition gcm_overhead :: nat where
  [simp]: "gcm_overhead = 16"

fun gf_mult_loop :: "nat \<Rightarrow> 128 word \<Rightarrow> 128 word \<Rightarrow> 128 word \<Rightarrow> 128 word" where
  "gf_mult_loop 0 x z v = z"
| "gf_mult_loop (Suc n) x z v =
     gf_mult_loop n x
       (if bit x n then z XOR v else z)
       (if bit v 0 then drop_bit 1 v XOR push_bit 120 0xE1 else drop_bit 1 v)"

definition gf_mult :: "128 word \<Rightarrow> 128 word \<Rightarrow> 128 word" where
  "gf_mult x y = gf_mult_loop 128 x 0 y"

definition pad16 :: "bytes \<Rightarrow> bytes" where
  "pad16 bs = bs @ replicate ((16 - length bs mod 16) mod 16) 0"

fun blocks128 :: "nat \<Rightarrow> bytes \<Rightarrow> 128 word list" where
  "blocks128 0 bs = []"
| "blocks128 (Suc n) bs = be_word (take 16 bs) # blocks128 n (drop 16 bs)"

definition ghash :: "128 word \<Rightarrow> bytes \<Rightarrow> bytes \<Rightarrow> 128 word" where
  "ghash h aad ct =
     (let lens = be_bytes 8 (of_nat (8 * length aad) :: 64 word)
                 @ be_bytes 8 (of_nat (8 * length ct) :: 64 word);
          all = pad16 aad @ pad16 ct @ lens
      in foldl (\<lambda>y b. gf_mult (y XOR b) h) 0 (blocks128 (length all div 16) all))"

text \<open>The pre-counter block is the nonce followed by the 32-bit counter 1; only the low 32 bits count.\<close>

definition gcm_j0 :: "bytes \<Rightarrow> 128 word" where
  "gcm_j0 nonce = be_word (nonce @ [0, 0, 0, 1])"

definition gcm_ctr :: "bytes \<Rightarrow> nat \<Rightarrow> 128 word" where
  "gcm_ctr nonce i = (gcm_j0 nonce AND NOT (mask 32)) OR take_bit 32 (gcm_j0 nonce + of_nat (i + 1))"

definition gcm_tag :: "aes_block \<Rightarrow> bytes \<Rightarrow> bytes \<Rightarrow> bytes \<Rightarrow> bytes \<Rightarrow> bytes" where
  "gcm_tag aes key nonce ct aad =
     be_bytes 16 (ghash (aes key 0) aad ct XOR aes key (gcm_j0 nonce))"

definition Seal :: "aes_block \<Rightarrow> bytes \<Rightarrow> bytes \<Rightarrow> bytes \<Rightarrow> bytes \<Rightarrow> bytes" where
  "Seal aes key nonce plaintext aad =
     (let ct = XORKeyStream (gcm_ctr nonce) (aes key) plaintext
      in ct @ gcm_tag aes key nonce ct aad)"

definition Open :: "aes_block \<Rightarrow> bytes \<Rightarrow> bytes \<Rightarrow> bytes \<Rightarrow> bytes \<Rightarrow> bytes option" where
  "Open aes key nonce ciphertext aad =
     (if length ciphertext < gcm_overhead then None
      else
        let ct = take (length ciphertext - gcm_overhead) ciphertext;
            tag = drop (length ciphertext - gcm_overhead) ciphertext
        in if tag = gcm_tag aes key nonce ct aad
           then Some (XORKeyStream (gcm_ctr nonce) (aes key) ct) else None)"

lemma length_gcm_tag [simp]: "length (gcm_tag aes key nonce ct aad) = 16"
  by (simp add: gcm_tag_def)

lemma length_Seal [simp]: "length (Seal aes key nonce p aad) = length p + 16"
  by (simp add: Seal_def Let_def)

lemma Open_Seal [simp]: "Open aes key nonce (Seal aes key nonce p aad) aad = Some p"
  by (simp add: Open_def Seal_def Let_def)

lemma Open_Some_Seal: "Open aes key nonce d aad = Some p \<Longrightarrow> d = Seal aes key nonce p aad"
proof -
  assume "Open aes key nonce d aad = Some p"
  then have tag: "drop (length d - 16) d = gcm_tag aes key nonce (take (length d - 16) d) aad"
    and p: "p = XORKeyStream (gcm_ctr nonce) (aes key) (take (length d - 16) d)"
    by (auto simp: Open_def Let_def split: if_splits)
  have "d = take (length d - 16) d @ drop (length d - 16) d" by simp
  then show ?thesis unfolding p Seal_def Let_def XORKeyStream_involution tag [symmetric] by simp
qed

section \<open>AESGCMHelper\<close>

record AESGCMHelper =
  gcm_key :: bytes

definition NewAESGCMHelper :: "bytes \<Rightarrow> crypto_error + AESGCMHelper" where
  "NewAESGCMHelper key =
     (if length key \<noteq> 32 then Inl (UnsupportedKeyLength (length key))
      else Inr \<lparr>gcm_key = key\<rparr>)"

definition encryptChunk :: "aes_block \<Rightarrow> AESGCMHelper \<Rightarrow> bytes \<Rightarrow> bytes \<Rightarrow> bytes \<Rightarrow> bytes" where
  "encryptChunk aes c nonce data aad = nonce @ Seal aes (gcm_key c) nonce data aad"

definition decryptChunk :: "aes_block \<Rightarrow> AESGCMHelper \<Rightarrow> bytes \<Rightarrow> bytes \<Rightarrow> crypto_error + bytes" where
  "decryptChunk aes c data aad =
     (if length data < gcm_nonce_size then Inl (InvalidEncryptedLength (length data))
      else
        let nonce = take gcm_nonce_size data; ciphertext = drop gcm_nonce_size data
        in case Open aes (gcm_key c) nonce ciphertext aad of
             None \<Rightarrow> Inl AuthenticationFailed
           | Some decrypted \<Rightarrow> Inr decrypted)"

definition calculateAAD :: "32 word \<Rightarrow> bool \<Rightarrow> bytes" where
  "calculateAAD index isLastChunk = (if isLastChunk then 1 else 0) # be_bytes 4 index"

definition outgoingRawChunkSize :: nat where
  [simp]: "outgoingRawChunkSize = 32768"

text \<open>
  The loop of \<open>EncryptData\<close>.  \<open>chunkSize\<close> is the loop variable of that name, which is positive
  whenever the loop runs; the nonce of the chunk that starts at offset \<open>i\<close> is \<open>nonce i\<close>.
\<close>

function encryptLoop ::
  "aes_block \<Rightarrow> AESGCMHelper \<Rightarrow> (nat \<Rightarrow> 96 word) \<Rightarrow> bytes \<Rightarrow> nat \<Rightarrow> nat \<Rightarrow> 32 word \<Rightarrow> bytes \<Rightarrow> bytes"
where
  "encryptLoop aes c nonce data i chunkSize chunkIndex encrypted =
     (if i < length data \<and> 0 < chunkSize then
        let isLastChunk = (i + chunkSize \<ge> length data);
            chunkSize' = (if isLastChunk then length data - i else chunkSize);
            aad = calculateAAD chunkIndex isLastChunk;
            chunk = encryptChunk aes c (be_bytes 12 (nonce i)) (take chunkSize' (drop i data)) aad
        in encryptLoop aes c nonce data (i + chunkSize') chunkSize' (chunkIndex + 1) (encrypted @ chunk)
      else encrypted)"
  by pat_completeness auto
termination
  by (relation "measure (\<lambda>(aes, c, nonce, data, i, cs, idx, enc). length data - i)") auto

declare encryptLoop.simps [simp del]

definition EncryptData :: "aes_block \<Rightarrow> AESGCMHelper \<Rightarrow> (nat \<Rightarrow> 96 word) \<Rightarrow> bytes \<Rightarrow> bytes" where
  "EncryptData aes c nonce data =
     (let chunkOverhead = gcm_nonce_size + gcm_overhead;
          chunkSize = outgoingRawChunkSize - chunkOverhead
      in encryptLoop aes c nonce data 0 chunkSize 0 [0, 15])"

text \<open>
  \<open>1 << b\<close> on a 64-bit \<open>int\<close>, for a shift count that is a byte: the sign bit for 63, zero from 64 on.
\<close>

definition shl1 :: "byte \<Rightarrow> int" where
  "shl1 b = (if unat b < 63 then 2 ^ unat b else if unat b = 63 then - (2 ^ 63) else 0)"

definition ceil_div :: "nat \<Rightarrow> nat \<Rightarrow> nat" where
  "ceil_div a b = (a + b - 1) div b"

text \<open>
  The capacity passed to \<open>make([]byte, 0, len - 28*chunkCount)\<close>.  For a chunk size that is not
  positive the quotient is \<open>-0\<close> or infinite, and \<open>28*chunkCount\<close> does not exceed the length.
\<close>

definition decryptCapacity :: "nat \<Rightarrow> int \<Rightarrow> int" where
  "decryptCapacity len chunkSize =
     (if 0 < chunkSize then int len - 28 * int (ceil_div len (nat chunkSize)) else int len)"

lemma decryptChunk_Inr_length: "decryptChunk aes c d aad = Inr p \<Longrightarrow> 28 \<le> length d"
  by (auto simp: decryptChunk_def Open_def Let_def split: if_splits option.splits)

function decryptLoop ::
  "aes_block \<Rightarrow> AESGCMHelper \<Rightarrow> bytes \<Rightarrow> nat \<Rightarrow> int \<Rightarrow> 32 word \<Rightarrow> bytes \<Rightarrow> (crypto_error, bytes) outcome"
where
  "decryptLoop aes c data i chunkSize chunkIndex decrypted =
     (if i < length data then
        let isLastChunk = (int i + chunkSize \<ge> int (length data));
            chunkSize' = (if isLastChunk then int (length data) - int i else chunkSize);
            aad = calculateAAD chunkIndex isLastChunk
        in if chunkSize' < 0 then Panic ''makeslice: len out of range''
           else case decryptChunk aes c (take (nat chunkSize') (drop i data)) aad of
                  Inl e \<Rightarrow> Error (ChunkFailed (chunkIndex + 1) e)
                | Inr chunk \<Rightarrow>
                    decryptLoop aes c data (i + nat chunkSize') chunkSize' (chunkIndex + 1)
                      (decrypted @ chunk)
      else Return decrypted)"
  by pat_completeness auto
termination
proof (relation "measure (\<lambda>(aes, c, data, i, cs, idx, dec). length data - i)", goal_cases)
  case 1
  then show ?case by simp
next
  case (2 aes c data i cs idx dec lst cs' aad chunk)
  then have "28 \<le> length (take (nat cs') (drop i data))"
    by (metis decryptChunk_Inr_length)
  then have "0 < nat cs'" unfolding length_take by linarith
  with 2 show ?case by auto
qed

declare decryptLoop.simps [simp del]

definition DecryptData ::
  "aes_block \<Rightarrow> AESGCMHelper \<Rightarrow> bytes \<Rightarrow> (crypto_error, bytes) outcome" where
  "DecryptData aes c encryptedData =
     (if encryptedData = [] \<or> length (gcm_key c) \<noteq> 32 then Return encryptedData
      else if hd encryptedData \<noteq> 0 then Error (InvalidHeader (hd encryptedData))
      else if length encryptedData < 2 then Panic ''index out of range''
      else
        let chunkSize = shl1 (encryptedData ! 1);
            rest = drop 2 encryptedData
        in if decryptCapacity (length rest) chunkSize < 0 then Panic ''makeslice: cap out of range''
           else decryptLoop aes c rest 0 chunkSize 0 [])"

section \<open>Chunked round trip\<close>

lemma length_calculateAAD [simp]: "length (calculateAAD idx lst) = 5"
  by (simp add: calculateAAD_def)

lemma length_encryptChunk [simp]:
  "length (encryptChunk aes c (be_bytes 12 n) p aad) = length p + 28"
  by (simp add: encryptChunk_def)

lemma decryptChunk_encryptChunk [simp]:
  "decryptChunk aes c (encryptChunk aes c (be_bytes 12 n) p aad) aad = Inr p"
  by (simp add: decryptChunk_def encryptChunk_def)

lemma encryptLoop_done [simp]:
  "length data \<le> i \<Longrightarrow> encryptLoop aes c nonce data i cs idx acc = acc"
  by (simp add: encryptLoop.simps)

lemma encryptLoop_last:
  assumes "i < length data" "0 < cs" "length data \<le> i + cs"
  shows "encryptLoop aes c nonce data i cs idx acc =
    acc @ encryptChunk aes c (be_bytes 12 (nonce i)) (drop i data) (calculateAAD idx True)"
  using assms by (subst encryptLoop.simps) simp

lemma encryptLoop_step:
  assumes "i + cs < length data" "0 < cs"
  shows "encryptLoop aes c nonce data i cs idx acc =
    encryptLoop aes c nonce data (i + cs) cs (idx + 1)
      (acc @ encryptChunk aes c (be_bytes 12 (nonce i)) (take cs (drop i data)) (calculateAAD idx False))"
  using assms by (subst encryptLoop.simps) (simp add: Let_def)

lemma encryptLoop_acc:
  "encryptLoop aes c nonce data i cs idx acc = acc @ encryptLoop aes c nonce data i cs idx []"
proof (induction "length data - i" arbitrary: i idx acc rule: less_induct)
  case less
  consider "length data \<le> i \<or> cs = 0" | "i < length data" "0 < cs" "length data \<le> i + cs"
    | "i + cs < length data" "0 < cs" by linarith
  then show ?case
  proof cases
    case 1
    then show ?thesis by (subst (1 2) encryptLoop.simps) auto
  next
    case 2
    then show ?thesis by (simp add: encryptLoop_last)
  next
    case 3
    then have "length data - (i + cs) < length data - i" by linarith
    note IH = less [OF this, of "idx + 1"]
    show ?thesis
      unfolding encryptLoop_step [OF 3]
      by (subst (1 2) IH) simp
  qed
qed

text \<open>The raw chunk size of \<open>EncryptData\<close> and the length of what its loop appends.\<close>

abbreviation raw_chunk :: nat where
  "raw_chunk \<equiv> 32740"

lemma ceil_div_step:
  assumes "0 < b" "b < a"
  shows "ceil_div a b = Suc (ceil_div (a - b) b)"
proof -
  have "ceil_div a b = ((a - b + b - 1) + b) div b"
    using assms unfolding ceil_div_def by (intro arg_cong [where f = "\<lambda>x. x div b"]) linarith
  also have "\<dots> = (a - b + b - 1) div b + 1"
    using assms by (intro div_add_self2) simp
  finally show ?thesis by (simp add: ceil_div_def)
qed

lemma ceil_div_le_one: "0 < a \<Longrightarrow> a \<le> b \<Longrightarrow> ceil_div a b = 1"
  unfolding ceil_div_def by (rule div_nat_eqI) auto

lemma ceil_div_bound:
  assumes "0 < b"
  shows "ceil_div a b \<le> k \<longleftrightarrow> a \<le> b * k"
proof -
  have "ceil_div a b \<le> k \<longleftrightarrow> a + b - 1 < Suc k * b"
    using div_less_iff_less_mult [OF assms, of "a + b - 1" "Suc k"]
    by (simp add: ceil_div_def less_Suc_eq_le)
  also have "\<dots> \<longleftrightarrow> a \<le> b * k"
    using assms by (auto simp: mult.commute)
  finally show ?thesis .
qed

lemma length_encryptLoop:
  "length (encryptLoop aes c nonce data i raw_chunk idx []) =
     length data - i + 28 * ceil_div (length data - i) raw_chunk"
proof (induction "length data - i" arbitrary: i idx rule: less_induct)
  case less
  consider "length data \<le> i" | "i < length data" "length data \<le> i + raw_chunk"
    | "i + raw_chunk < length data" by linarith
  then show ?case
  proof cases
    case 1
    then show ?thesis by (simp add: ceil_div_def)
  next
    case 2
    then show ?thesis by (simp add: encryptLoop_last ceil_div_le_one)
  next
    case 3
    have IH: "length (encryptLoop aes c nonce data (i + raw_chunk) raw_chunk (idx + 1) []) =
        length data - (i + raw_chunk) + 28 * ceil_div (length data - (i + raw_chunk)) raw_chunk"
      using 3 by (intro less) linarith
    have "ceil_div (length data - i) raw_chunk = Suc (ceil_div (length data - (i + raw_chunk)) raw_chunk)"
      using ceil_div_step [of raw_chunk "length data - i"] 3 by simp
    with 3 IH show ?thesis
      by (simp add: encryptLoop_step) (subst encryptLoop_acc, simp)
  qed
qed

lemma decryptLoop_done [simp]:
  "length data \<le> i \<Longrightarrow> decryptLoop aes c data i cs idx acc = Return acc"
  by (simp add: decryptLoop.simps)

lemma decryptLoop_last:
  assumes "chunk \<noteq> []" "int (length chunk) \<le> cs"
    and "decryptChunk aes c chunk (calculateAAD idx True) = Inr p"
  shows "decryptLoop aes c (pre @ chunk) (length pre) cs idx acc = Return (acc @ p)"
  using assms by (subst decryptLoop.simps) simp

lemma decryptLoop_step:
  assumes "int (length chunk) = cs" "rest \<noteq> []" "chunk \<noteq> []"
    and "decryptChunk aes c chunk (calculateAAD idx False) = Inr p"
  shows "decryptLoop aes c (pre @ chunk @ rest) (length pre) cs idx acc =
    decryptLoop aes c ((pre @ chunk) @ rest) (length (pre @ chunk)) cs (idx + 1) (acc @ p)"
proof -
  have cs: "nat cs = length chunk" "\<not> cs < 0" using assms by auto
  have last: "(int (length pre) + cs \<ge> int (length (pre @ chunk @ rest))) = False"
    using assms by (simp flip: assms(1))
  show ?thesis
    using assms cs by (subst decryptLoop.simps, unfold last) simp
qed

lemma decryptLoop_encryptLoop:
  "decryptLoop aes c (pre @ encryptLoop aes c nonce data i raw_chunk idx []) (length pre)
     32768 idx acc = Return (acc @ drop i data)"
proof (induction "length data - i" arbitrary: i idx acc pre rule: less_induct)
  case less
  consider "length data \<le> i" | "i < length data" "length data \<le> i + raw_chunk"
    | "i + raw_chunk < length data" by linarith
  then show ?case
  proof cases
    case 1
    then show ?thesis by simp
  next
    case 2
    then show ?thesis
      by (simp add: encryptLoop_last decryptLoop_last flip: length_greater_0_conv)
  next
    case 3
    let ?chunk = "encryptChunk aes c (be_bytes 12 (nonce i)) (take raw_chunk (drop i data))
                    (calculateAAD idx False)"
    let ?rest = "encryptLoop aes c nonce data (i + raw_chunk) raw_chunk (idx + 1) []"
    have enc: "encryptLoop aes c nonce data i raw_chunk idx [] = ?chunk @ ?rest"
      using 3 by (simp add: encryptLoop_step) (subst encryptLoop_acc, simp)
    have "length ?rest \<noteq> 0"
      unfolding length_encryptLoop using 3 by simp
    then have rest: "?rest \<noteq> []" by auto
    have len: "length ?chunk = 32768" using 3 by simp
    then have chunk: "?chunk \<noteq> []" by fastforce
    have "decryptLoop aes c (pre @ ?chunk @ ?rest) (length pre) 32768 idx acc =
          decryptLoop aes c ((pre @ ?chunk) @ ?rest) (length (pre @ ?chunk)) 32768 (idx + 1)
            (acc @ take raw_chunk (drop i data))"
      by (rule decryptLoop_step) (use len rest chunk in simp_all)
    also have "\<dots> = Return ((acc @ take raw_chunk (drop i data)) @ drop (i + raw_chunk) data)"
      using 3 by (intro less) linarith
    also have "\<dots> = Return (acc @ drop i data)"
      using append_take_drop_id [of raw_chunk "drop i data"] by (simp add: add.commute)
    finally show ?thesis unfolding enc .
  qed
qed

lemma EncryptData_eq:
  "EncryptData aes c nonce data = [0, 15] @ encryptLoop aes c nonce data 0 raw_chunk 0 []"
  unfolding EncryptData_def Let_def by (subst encryptLoop_acc) simp

lemma decryptCapacity_EncryptData:
  "0 \<le> decryptCapacity (length (encryptLoop aes c nonce data 0 raw_chunk 0 [])) 32768"
proof -
  let ?k = "ceil_div (length data) raw_chunk"
  let ?n = "length data + 28 * ?k"
  have "length data \<le> raw_chunk * ?k"
    using ceil_div_bound [of raw_chunk "length data" ?k] by simp
  then have "ceil_div ?n 32768 \<le> ?k"
    by (subst ceil_div_bound) simp_all
  then show ?thesis
    unfolding length_encryptLoop by (simp add: decryptCapacity_def)
qed

lemma shl1_15: "shl1 15 = 32768"
  by (simp add: shl1_def)

section \<open>When decryption panics\<close>

lemma decryptLoop_no_panic: "0 \<le> cs \<Longrightarrow> \<not> panics (decryptLoop aes c data i cs idx acc)"
proof (induction aes c data i cs idx acc rule: decryptLoop.induct)
  case (1 aes c data i cs idx acc)
  show ?case
  proof (cases "i < length data")
    case False
    then show ?thesis by simp
  next
    case True
    let ?last = "int (length data) \<le> int i + cs"
    let ?cs = "if ?last then int (length data) - int i else cs"
    have cs: "0 \<le> ?cs" using "1.prems" True by simp
    show ?thesis
    proof (cases "decryptChunk aes c (take (nat ?cs) (drop i data)) (calculateAAD idx ?last)")
      case (Inl e)
      then show ?thesis using True cs by (subst decryptLoop.simps) (simp add: Let_def)
    next
      case (Inr p)
      have "\<not> panics (decryptLoop aes c data (i + nat ?cs) ?cs (idx + 1) (acc @ p))"
        using cs Inr True by (intro "1.IH") auto
      then show ?thesis using True cs Inr by (subst decryptLoop.simps) (simp add: Let_def)
    qed
  qed
qed

lemma decryptLoop_negative:
  assumes "cs < 0" "data \<noteq> []"
  shows "panics (decryptLoop aes c data 0 cs idx acc)"
  using assms by (subst decryptLoop.simps) (auto simp: Let_def)

lemma panics_decryptLoop_shl1:
  "panics (decryptLoop aes c rest 0 (shl1 b) 0 []) \<longleftrightarrow> unat b = 63 \<and> rest \<noteq> []"
proof (cases "unat b = 63")
  case True
  then have "shl1 b < 0" by (simp add: shl1_def)
  then show ?thesis
    using True decryptLoop_negative [of "shl1 b" rest] by (cases "rest = []") auto
next
  case False
  then have "0 \<le> shl1 b" by (simp add: shl1_def)
  then show ?thesis using False decryptLoop_no_panic by blast
qed

lemma decryptCapacity_shl1:
  "decryptCapacity n (shl1 b) < 0 \<longleftrightarrow> unat b < 63 \<and> n < 28 * ceil_div n (2 ^ unat b)"
proof (cases "unat b < 63")
  case True
  then have s: "shl1 b = 2 ^ unat b" "nat (shl1 b) = 2 ^ unat b" "0 < shl1 b"
    by (simp_all add: shl1_def nat_power_eq)
  then have "decryptCapacity n (shl1 b) = int n - int (28 * ceil_div n (2 ^ unat b))"
    by (simp add: decryptCapacity_def nat_power_eq)
  with True show ?thesis by linarith
next
  case False
  then have "\<not> 0 < shl1 b" by (simp add: shl1_def)
  with False show ?thesis by (simp add: decryptCapacity_def)
qed

section \<open>The cipher interface\<close>

text \<open>
  What the callers of both helpers rely on: for a usable key and fresh randomness decryption
  inverts encryption, and whatever decrypts was produced by an encryption under the same key.
\<close>

locale message_cipher =
  fixes usable :: "'k \<Rightarrow> 'r \<Rightarrow> bool"
    and enc :: "'k \<Rightarrow> 'r \<Rightarrow> bytes \<Rightarrow> bytes"
    and dec :: "'k \<Rightarrow> bytes \<Rightarrow> bytes option"
  assumes dec_enc: "usable k r \<Longrightarrow> dec k (enc k r p) = Some p"
    and dec_sound: "dec k d = Some p \<Longrightarrow> \<exists>r. usable k r \<and> d = enc k r p"
begin

lemma dec_iff: "dec k d = Some p \<longleftrightarrow> (\<exists>r. usable k r \<and> d = enc k r p)"
  using dec_enc dec_sound by blast

lemma enc_injective: "usable k r \<Longrightarrow> usable k r' \<Longrightarrow> enc k r p = enc k r' q \<Longrightarrow> p = q"
  using dec_enc by (metis option.inject)

lemma tampering_detected: "(\<And>r q. usable k r \<Longrightarrow> d \<noteq> enc k r q) \<Longrightarrow> dec k d = None"
  using dec_sound by (metis option.exhaust)

end

definition ctr_enc :: "aes_block \<Rightarrow> sha256_fun \<Rightarrow> AESCTRHelper \<Rightarrow> bytes \<Rightarrow> bytes \<Rightarrow> bytes" where
  "ctr_enc aes sha256 c iv p = (case Encrypt aes sha256 c iv p of Inr d \<Rightarrow> d | Inl e \<Rightarrow> [])"

definition ctr_dec :: "aes_block \<Rightarrow> sha256_fun \<Rightarrow> AESCTRHelper \<Rightarrow> bytes \<Rightarrow> bytes option" where
  "ctr_dec aes sha256 c d =
     (case fst (Decrypt aes sha256 c d) of Inr p \<Rightarrow> Some p | Inl e \<Rightarrow> None)"

lemma Encrypt_ok: "aes_key_ok (AESKey c) \<Longrightarrow> \<exists>d. Encrypt aes sha256 c iv p = Inr d"
  by (simp add: Encrypt_def Let_def)

interpretation ctr: message_cipher
  "\<lambda>c iv. aes_key_ok (AESKey c) \<and> length iv = 16" "ctr_enc aes sha256" "ctr_dec aes sha256"
  for aes sha256
proof (unfold_locales, goal_cases)
  case (1 c iv p)
  then obtain d where "Encrypt aes sha256 c iv p = Inr d" using Encrypt_ok by blast
  with 1 show ?case
    using Decrypt_Encrypt_buffer [of iv aes sha256 c p d] by (simp add: ctr_enc_def ctr_dec_def)
next
  case (2 c d p)
  then have "fst (Decrypt aes sha256 c d) = Inr p"
    by (auto simp: ctr_dec_def split: sum.splits)
  then obtain iv where "length iv = 16" "Encrypt aes sha256 c iv p = Inr d"
    using Decrypt_Inr_Encrypt by blast
  then show ?case
    by (intro exI [of _ iv]) (auto simp: ctr_enc_def Encrypt_def split: if_splits)
qed

interpretation gcm_chunk: message_cipher
  "\<lambda>c nonce. length nonce = 12" "\<lambda>c nonce p. encryptChunk aes c nonce p aad"
  "\<lambda>c d. case decryptChunk aes c d aad of Inr p \<Rightarrow> Some p | Inl e \<Rightarrow> None"
  for aes aad
proof (unfold_locales, goal_cases)
  case (1 c nonce p)
  then show ?case by (simp add: encryptChunk_def decryptChunk_def)
next
  case (2 c d p)
  then have len: "12 \<le> length d"
    and op: "Open aes (gcm_key c) (take 12 d) (drop 12 d) aad = Some p"
    by (auto simp: decryptChunk_def Let_def split: sum.splits if_splits option.splits)
  have "d = encryptChunk aes c (take 12 d) p aad"
    unfolding encryptChunk_def Open_Some_Seal [OF op, symmetric] by simp
  then show ?case using len by (intro exI [of _ "take 12 d"]) auto
qed

section \<open>Properties\<close>

text \<open>
  (C6) \<open>AESCTRHelper.Decrypt\<close> accepts exactly the byte strings that \<open>Encrypt\<close> produces under the same
  two keys from some 16-byte initialisation vector, and it then returns the plaintext.  In particular
  decryption inverts encryption, and no other string is ever accepted.
\<close>

theorem Decrypt_iff_Encrypt:
  "fst (Decrypt aes sha256 c d) = Inr p \<longleftrightarrow>
     (\<exists>iv. length iv = 16 \<and> Encrypt aes sha256 c iv p = Inr d)"
  using Decrypt_Encrypt_buffer [of _ aes sha256 c p d] Decrypt_Inr_Encrypt [of aes sha256 c d p]
  by fastforce

text \<open>
  A call of \<open>Decrypt\<close> that fails leaves the caller's buffer as it was; a call that succeeds
  overwrites its front with the plaintext (the in-place \<open>XORKeyStream\<close>) and keeps the
  initialisation vector and the MAC behind it.
\<close>

lemma Decrypt_buffer:
  "case Decrypt aes sha256 c d of
     (Inl e, buf) \<Rightarrow> buf = d
   | (Inr p, buf) \<Rightarrow> buf = p @ drop (length d - 48) d \<and> length p + 48 = length d"
proof (cases "fst (Decrypt aes sha256 c d)")
  case (Inl e)
  then show ?thesis by (auto simp: Decrypt_def Let_def split: if_splits)
next
  case (Inr p)
  then obtain iv where iv: "length iv = 16" "Encrypt aes sha256 c iv p = Inr d"
    using Decrypt_Inr_Encrypt by blast
  then have "d = (XORKeyStream (ctr128 iv) (aes (AESKey c)) p @ iv)
      @ hmac_sha256 sha256 (HMACKey c) (XORKeyStream (ctr128 iv) (aes (AESKey c)) p @ iv)"
    by (auto simp: Encrypt_def Let_def split: if_splits)
  with iv Decrypt_Encrypt_buffer [OF iv] show ?thesis by simp
qed

lemma chunked_round_trip:
  assumes "length (gcm_key c) = 32"
  shows "DecryptData aes c (EncryptData aes c nonce data) = Return data"
proof -
  have "\<not> decryptCapacity (length (encryptLoop aes c nonce data 0 raw_chunk 0 [])) 32768 < 0"
    using decryptCapacity_EncryptData by (simp add: not_less)
  then show ?thesis
    using assms decryptLoop_encryptLoop [of aes c "[]" nonce data 0 0 "[]"]
    by (simp add: DecryptData_def EncryptData_eq shl1_15)
qed

lemma NewAESGCMHelper_key: "NewAESGCMHelper key = Inr c \<longleftrightarrow> length key = 32 \<and> c = \<lparr>gcm_key = key\<rparr>"
  by (auto simp: NewAESGCMHelper_def)

text \<open>
  (C15) Chunked media encryption round trip: for a helper made by \<open>NewAESGCMHelper\<close>, \<open>DecryptData\<close>
  returns the bytes that \<open>EncryptData\<close> was given, for every length of the data (empty, one partial
  chunk, many chunks) and every choice of nonces; it neither fails nor panics.
\<close>

theorem DecryptData_EncryptData:
  assumes "NewAESGCMHelper key = Inr c"
  shows "DecryptData aes c (EncryptData aes c nonce data) = Return data"
  using assms by (intro chunked_round_trip) (auto simp: NewAESGCMHelper_key)

theorem DecryptData_EncryptData_witness:
  "DecryptData (\<lambda>k b. b XOR 5) \<lparr>gcm_key = replicate 32 7\<rparr>
     (EncryptData (\<lambda>k b. b XOR 5) \<lparr>gcm_key = replicate 32 7\<rparr> (\<lambda>i. of_nat i) [1, 2, 3]) = Return [1, 2, 3]"
  by (rule DecryptData_EncryptData [of "replicate 32 7"]) (simp add: NewAESGCMHelper_def)

text \<open>
  (C24) The exact inputs on which \<open>DecryptData\<close> panics instead of returning an error: a lone zero byte;
  a header with the shift count 63 followed by at least one byte; and a body shorter than the 28
  bytes of overhead per chunk that its length implies, for which the capacity of the output slice is
  negative.  Any such response of the media server crashes the caller.
\<close>

theorem DecryptData_panics_iff:
  assumes "length (gcm_key c) = 32"
  shows "panics (DecryptData aes c d) \<longleftrightarrow>
    d = [0] \<or>
    (\<exists>b rest. d = 0 # b # rest \<and> rest \<noteq> [] \<and>
       (unat b = 63 \<or> unat b < 63 \<and> length rest < 28 * ceil_div (length rest) (2 ^ unat b)))"
proof (cases d)
  case Nil
  then show ?thesis by (simp add: DecryptData_def)
next
  case (Cons x xs)
  show ?thesis
  proof (cases xs)
    case Nil
    with Cons assms show ?thesis by (simp add: DecryptData_def)
  next
    case (Cons b rest)
    have "length rest < 28 * ceil_div (length rest) (2 ^ unat b) \<Longrightarrow> rest \<noteq> []"
      by (auto simp: ceil_div_def)
    then show ?thesis
      using assms \<open>d = x # xs\<close> Cons
      by (auto simp: DecryptData_def Let_def panics_decryptLoop_shl1 decryptCapacity_shl1)
  qed
qed

theorem DecryptData_panics_iff_witness:
  "panics (DecryptData (\<lambda>k b. b) \<lparr>gcm_key = replicate 32 0\<rparr> [0, 15, 42])"
  by (subst DecryptData_panics_iff) (simp_all add: ceil_div_def)

end
