(* ===== verification/Gm_Proto.thy ===== *)
theory Gm_Proto
  imports Gm_Prelude
begin

text \<open>
  The protocol data of \<^verbatim>\<open>pkg/libgm/gmproto\<close> that the bridge logic reads: enumerations (open, as in
  proto3: an unknown wire number is representable), and one record per message type with the
  fields the sources use.  A submessage that may be absent is an option; the accessor functions
  (\<open>GetX\<close> in Go) return the zero value for an absent submessage.  The hand-written emoji table
  \<^verbatim>\<open>emojitype.go\<close> is modelled with UTF-8 byte strings.
\<close>

section \<open>Enumerations\<close>

datatype EmojiType =
    EmojiType_REACTION_TYPE_UNSPECIFIED
  | EmojiType_LIKE
  | EmojiType_LOVE
  | EmojiType_LAUGH
  | EmojiType_SURPRISED
  | EmojiType_SAD
  | EmojiType_ANGRY
  | EmojiType_DISLIKE
  | EmojiType_CUSTOM
  | EmojiType_QUESTIONING
  | EmojiType_CRYING_FACE
  | EmojiType_POUTING_FACE
  | EmojiType_RED_HEART
  | EmojiType_EMOTIFY
  | EmojiType_Unrecognized int

datatype ConversationSendMode =
    ConversationSendMode_SEND_MODE_AUTO
  | ConversationSendMode_SEND_MODE_XMS
  | ConversationSendMode_SEND_MODE_XMS_LATCH
  | ConversationSendMode_Unrecognized int

datatype ConversationType =
    ConversationType_UNKNOWN_CONVERSATION_TYPE
  | ConversationType_SMS
  | ConversationType_RCS
  | ConversationType_Unrecognized int

datatype ConversationStatus =
    ConversationStatus_UNKNOWN_CONVERSATION_STATUS
  | ConversationStatus_ACTIVE
  | ConversationStatus_ARCHIVED
  | ConversationStatus_DELETED
  | ConversationStatus_KEEP_ARCHIVED
  | ConversationStatus_SPAM_FOLDER
  | ConversationStatus_BLOCKED_FOLDER
  | ConversationStatus_CROSS_COUNTRY_FOLDER
  | ConversationStatus_Unrecognized int

datatype AlertType =
    AlertType_ALERT_TYPE_UNKNOWN
  | AlertType_BROWSER_INACTIVE
  | AlertType_BROWSER_ACTIVE
  | AlertType_MOBILE_DATA_CONNECTION
  | AlertType_MOBILE_WIFI_CONNECTION
  | AlertType_MOBILE_BATTERY_LOW
  | AlertType_MOBILE_BATTERY_RESTORED
  | AlertType_BROWSER_INACTIVE_FROM_TIMEOUT
  | AlertType_BROWSER_INACTIVE_FROM_INACTIVITY
  | AlertType_RCS_CONNECTION
  | AlertType_OBSERVER_REGISTERED
  | AlertType_MOBILE_DATABASE_SYNCING
  | AlertType_MOBILE_DATABASE_SYNC_COMPLETE
  | AlertType_MOBILE_DATABASE_SYNC_STARTED
  | AlertType_MOBILE_DATABASE_PARTIAL_SYNC_COMPLETED
  | AlertType_MOBILE_DATABASE_PARTIAL_SYNC_STARTED
  | AlertType_CONTACTS_REFRESH_STARTED
  | AlertType_CONTACTS_REFRESH_COMPLETED
  | AlertType_DISCONNECTED_FROM_SATELLITE
  | AlertType_BR_MESSAGE_RESTORING
  | AlertType_BR_MESSAGE_RESTORE_COMPLETED
  | AlertType_BR_MESSAGE_RESTORE_STARTED
  | AlertType_PUSH_THROTTLING
  | AlertType_PUSH_THROTTLE_STARTED
  | AlertType_PUSH_THROTTLE_ENDED
  | AlertType_PUSH_THROTTLE_STARTED_IN_DARK_LAUNCH
  | AlertType_PUSH_THROTTLE_ENDED_IN_DARK_LAUNCH
  | AlertType_PUSH_THROTTLING_IN_DARK_LAUNCH
  | AlertType_Unrecognized int

datatype TypingTypes =
    TypingTypes_STOPPED_TYPING
  | TypingTypes_STARTED_TYPING
  | TypingTypes_Unrecognized int

datatype BugleRoute =
    BugleRoute_Unknown
  | BugleRoute_DataEvent
  | BugleRoute_PairEvent
  | BugleRoute_GaiaEvent
  | BugleRoute_Unrecognized int

datatype ActionType =
    ActionType_UNSPECIFIED
  | ActionType_LIST_CONVERSATIONS
  | ActionType_LIST_MESSAGES
  | ActionType_SEND_MESSAGE
  | ActionType_MESSAGE_UPDATES
  | ActionType_LIST_CONTACTS
  | ActionType_CONVERSATION_UPDATES
  | ActionType_GET_OR_CREATE_CONVERSATION
  | ActionType_MESSAGE_READ
  | ActionType_BROWSER_PRESENCE_CHECK
  | ActionType_TYPING_UPDATES
  | ActionType_SETTINGS_UPDATE
  | ActionType_USER_ALERT
  | ActionType_UPDATE_CONVERSATION
  | ActionType_GET_UPDATES
  | ActionType_ACK_BROWSER_PRESENCE
  | ActionType_LIST_STICKER_SETS
  | ActionType_LEAVE_RCS_GROUP
  | ActionType_ADD_PARTICIPANT_TO_RCS_GROUP
  | ActionType_GET_CONVERSATION_TYPE
  | ActionType_NOTIFY_DITTO_ACTIVITY
  | ActionType_DELETE_MESSAGE
  | ActionType_INSTALL_STICKER_SET
  | ActionType_RESEND_MESSAGE
  | ActionType_GET_CONTACT_RCS_GROUP_STATUS
  | ActionType_DOWNLOAD_MESSAGE
  | ActionType_LIST_TOP_CONTACTS
  | ActionType_GET_CONTACTS_THUMBNAIL
  | ActionType_CHANGE_PARTICIPANT_COLOR
  | ActionType_IS_BUGLE_DEFAULT
  | ActionType_STICKER_USER_CONTEXT
  | ActionType_FAVORITE_STICKER_PACKS
  | ActionType_RECENT_STICKERS
  | ActionType_UPDATE_RECENT_STICKERS
  | ActionType_GET_FULL_SIZE_IMAGE
  | ActionType_GET_PARTICIPANTS_THUMBNAIL
  | ActionType_SEND_REACTION
  | ActionType_SEND_REPLY
  | ActionType_GET_BLOB_FOR_ATTACHMENT
  | ActionType_GET_DEVICES_AVAILABLE_FOR_GAIA_PAIRING
  | ActionType_CREATE_GAIA_PAIRING
  | ActionType_GET_CONVERSATION
  | ActionType_CREATE_GAIA_PAIRING_CLIENT_INIT
  | ActionType_CREATE_GAIA_PAIRING_CLIENT_FINISHED
  | ActionType_UNPAIR_GAIA_PAIRING
  | ActionType_CANCEL_GAIA_PAIRING
  | ActionType_PREWARM
  | ActionType_CONVERSATION_GROUP_NAME_SEARCH
  | ActionType_LINK_RCS_IDENTITY
  | ActionType_UNLINK_RCS_IDENTITY
  | ActionType_Unrecognized int

datatype MessageType =
    MessageType_UNKNOWN_MESSAGE_TYPE
  | MessageType_BUGLE_MESSAGE
  | MessageType_GAIA_1
  | MessageType_BUGLE_ANNOTATION
  | MessageType_GAIA_2
  | MessageType_Unrecognized int

datatype GaiaPairingErrorCode =
    GaiaPairingErrorCode_NONE
  | GaiaPairingErrorCode_UKEY2_ALERT_ERROR
  | GaiaPairingErrorCode_REQUEST_OUT_OF_DATE
  | GaiaPairingErrorCode_REQUEST_NOT_RECEIVED_QUICKLY
  | GaiaPairingErrorCode_INVALID_USER
  | GaiaPairingErrorCode_WRONG_VERIFICATION_CODE_SELECTED
  | GaiaPairingErrorCode_VERIFICATION_TIMED_OUT
  | GaiaPairingErrorCode_USER_CANCELED_VERIFICATION
  | GaiaPairingErrorCode_UKEY2_OTHER_ERROR
  | GaiaPairingErrorCode_VERIFICATION_EMOJI_DOWNLOAD_FAILED
  | GaiaPairingErrorCode_NOT_LATEST_ATTEMPT
  | GaiaPairingErrorCode_VERIFICATION_DATA_SERVICE_NOT_PRESENT
  | GaiaPairingErrorCode_VERIFICATION_INTENTS_NOT_PRESENT
  | GaiaPairingErrorCode_WRONG_UKEY2_MESSAGE_TYPE
  | GaiaPairingErrorCode_REQUEST_COMPLETE_WITH_UNKNOWN_RESULT
  | GaiaPairingErrorCode_PHONE_NOT_AWAITING_CONFIRMATION
  | GaiaPairingErrorCode_UKEY2_MESSAGE_MISSING
  | GaiaPairingErrorCode_CLIENT_INIT_TIMEOUT
  | GaiaPairingErrorCode_CLIENT_FINISHED_TIMEOUT
  | GaiaPairingErrorCode_UNKNOWN
  | GaiaPairingErrorCode_WEB_CANCEL_BUTTON_CLICKED
  | GaiaPairingErrorCode_WEB_BACK_BUTTON_CLICKED
  | GaiaPairingErrorCode_WEB_LEAVE_PAIR_PAGE
  | GaiaPairingErrorCode_NEW_REQUEST_WHILE_WAITING_FOR_VERIFICATION
  | GaiaPairingErrorCode_UKEY2_HANDSHAKE_ERROR
  | GaiaPairingErrorCode_VERIFICATION_CODE_REVISION_MISMATCH
  | GaiaPairingErrorCode_USER_CANCELED_VERIFICATION_ON_WEB
  | GaiaPairingErrorCode_USER_DENIED_VERIFICATION_NOT_ME
  | GaiaPairingErrorCode_KEY_DERIVATION_REVISION_MISMATCH
  | GaiaPairingErrorCode_CMS_BACKUP_KEY_NOT_FOUND
  | GaiaPairingErrorCode_UNABLE_TO_ENCRYPT_CMS_BACKUP_KEY
  | GaiaPairingErrorCode_UNABLE_TO_DECRYPT_CMS_BACKUP_KEY
  | GaiaPairingErrorCode_Unrecognized int

text \<open>
  Message statuses are compared by number (1 to 99 outgoing, 100 to 199 incoming, 200 to 299
  tombstones), so the type stays numeric and the constants are abbreviations.
\<close>

type_synonym MessageStatusType = int

abbreviation (input) MessageStatusType_STATUS_UNKNOWN :: MessageStatusType where
  "MessageStatusType_STATUS_UNKNOWN \<equiv> 0"

abbreviation (input) MessageStatusType_OUTGOING_COMPLETE :: MessageStatusType where
  "MessageStatusType_OUTGOING_COMPLETE \<equiv> 1"

abbreviation (input) MessageStatusType_OUTGOING_DELIVERED :: MessageStatusType where
  "MessageStatusType_OUTGOING_DELIVERED \<equiv> 2"

abbreviation (input) MessageStatusType_OUTGOING_DISPLAYED :: MessageStatusType where
  "MessageStatusType_OUTGOING_DISPLAYED \<equiv> 11"

abbreviation (input) MessageStatusType_OUTGOING_DRAFT :: MessageStatusType where
  "MessageStatusType_OUTGOING_DRAFT \<equiv> 3"

abbreviation (input) MessageStatusType_OUTGOING_SEND_AFTER_PROCESSING :: MessageStatusType where
  "MessageStatusType_OUTGOING_SEND_AFTER_PROCESSING \<equiv> 10"

abbreviation (input) MessageStatusType_OUTGOING_YET_TO_SEND :: MessageStatusType where
  "MessageStatusType_OUTGOING_YET_TO_SEND \<equiv> 4"

abbreviation (input) MessageStatusType_OUTGOING_SENDING :: MessageStatusType where
  "MessageStatusType_OUTGOING_SENDING \<equiv> 5"

abbreviation (input) MessageStatusType_OUTGOING_RESENDING :: MessageStatusType where
  "MessageStatusType_OUTGOING_RESENDING \<equiv> 6"

abbreviation (input) MessageStatusType_OUTGOING_AWAITING_RETRY :: MessageStatusType where
  "MessageStatusType_OUTGOING_AWAITING_RETRY \<equiv> 7"

abbreviation (input) MessageStatusType_OUTGOING_FAILED_GENERIC :: MessageStatusType where
  "MessageStatusType_OUTGOING_FAILED_GENERIC \<equiv> 8"

abbreviation (input) MessageStatusType_OUTGOING_FAILED_EMERGENCY_NUMBER :: MessageStatusType where
  "MessageStatusType_OUTGOING_FAILED_EMERGENCY_NUMBER \<equiv> 9"

abbreviation (input) MessageStatusType_OUTGOING_CANCELED :: MessageStatusType where
  "MessageStatusType_OUTGOING_CANCELED \<equiv> 12"

abbreviation (input) MessageStatusType_OUTGOING_FAILED_TOO_LARGE :: MessageStatusType where
  "MessageStatusType_OUTGOING_FAILED_TOO_LARGE \<equiv> 13"

abbreviation (input) MessageStatusType_OUTGOING_NOT_DELIVERED_YET :: MessageStatusType where
  "MessageStatusType_OUTGOING_NOT_DELIVERED_YET \<equiv> 14"

abbreviation (input) MessageStatusType_OUTGOING_REVOCATION_PENDING :: MessageStatusType where
  "MessageStatusType_OUTGOING_REVOCATION_PENDING \<equiv> 15"

abbreviation (input) MessageStatusType_OUTGOING_SCHEDULED :: MessageStatusType where
  "MessageStatusType_OUTGOING_SCHEDULED \<equiv> 16"

abbreviation (input) MessageStatusType_OUTGOING_FAILED_RECIPIENT_LOST_RCS :: MessageStatusType where
  "MessageStatusType_OUTGOING_FAILED_RECIPIENT_LOST_RCS \<equiv> 17"

abbreviation (input) MessageStatusType_OUTGOING_FAILED_NO_RETRY_NO_FALLBACK :: MessageStatusType where
  "MessageStatusType_OUTGOING_FAILED_NO_RETRY_NO_FALLBACK \<equiv> 18"

abbreviation (input) MessageStatusType_OUTGOING_FAILED_RECIPIENT_DID_NOT_DECRYPT :: MessageStatusType where
  "MessageStatusType_OUTGOING_FAILED_RECIPIENT_DID_NOT_DECRYPT \<equiv> 19"

abbreviation (input) MessageStatusType_OUTGOING_VALIDATING :: MessageStatusType where
  "MessageStatusType_OUTGOING_VALIDATING \<equiv> 20"

abbreviation (input) MessageStatusType_OUTGOING_FAILED_RECIPIENT_LOST_ENCRYPTION :: MessageStatusType where
  "MessageStatusType_OUTGOING_FAILED_RECIPIENT_LOST_ENCRYPTION \<equiv> 21"

abbreviation (input) MessageStatusType_OUTGOING_FAILED_RECIPIENT_DID_NOT_DECRYPT_NO_MORE_RETRY :: MessageStatusType where
  "MessageStatusType_OUTGOING_FAILED_RECIPIENT_DID_NOT_DECRYPT_NO_MORE_RETRY \<equiv> 22"

abbreviation (input) MessageStatusType_INCOMING_COMPLETE :: MessageStatusType where
  "MessageStatusType_INCOMING_COMPLETE \<equiv> 100"

abbreviation (input) MessageStatusType_INCOMING_YET_TO_MANUAL_DOWNLOAD :: MessageStatusType where
  "MessageStatusType_INCOMING_YET_TO_MANUAL_DOWNLOAD \<equiv> 101"

abbreviation (input) MessageStatusType_INCOMING_RETRYING_MANUAL_DOWNLOAD :: MessageStatusType where
  "MessageStatusType_INCOMING_RETRYING_MANUAL_DOWNLOAD \<equiv> 102"

abbreviation (input) MessageStatusType_INCOMING_MANUAL_DOWNLOADING :: MessageStatusType where
  "MessageStatusType_INCOMING_MANUAL_DOWNLOADING \<equiv> 103"

abbreviation (input) MessageStatusType_INCOMING_RETRYING_AUTO_DOWNLOAD :: MessageStatusType where
  "MessageStatusType_INCOMING_RETRYING_AUTO_DOWNLOAD \<equiv> 104"

abbreviation (input) MessageStatusType_INCOMING_AUTO_DOWNLOADING :: MessageStatusType where
  "MessageStatusType_INCOMING_AUTO_DOWNLOADING \<equiv> 105"

abbreviation (input) MessageStatusType_INCOMING_DOWNLOAD_FAILED :: MessageStatusType where
  "MessageStatusType_INCOMING_DOWNLOAD_FAILED \<equiv> 106"

abbreviation (input) MessageStatusType_INCOMING_EXPIRED_OR_NOT_AVAILABLE :: MessageStatusType where
  "MessageStatusType_INCOMING_EXPIRED_OR_NOT_AVAILABLE \<equiv> 107"

abbreviation (input) MessageStatusType_INCOMING_DELIVERED :: MessageStatusType where
  "MessageStatusType_INCOMING_DELIVERED \<equiv> 108"

abbreviation (input) MessageStatusType_INCOMING_DISPLAYED :: MessageStatusType where
  "MessageStatusType_INCOMING_DISPLAYED \<equiv> 109"

abbreviation (input) MessageStatusType_INCOMING_DOWNLOAD_CANCELED :: MessageStatusType where
  "MessageStatusType_INCOMING_DOWNLOAD_CANCELED \<equiv> 110"

abbreviation (input) MessageStatusType_INCOMING_DOWNLOAD_FAILED_TOO_LARGE :: MessageStatusType where
  "MessageStatusType_INCOMING_DOWNLOAD_FAILED_TOO_LARGE \<equiv> 111"

abbreviation (input) MessageStatusType_INCOMING_DOWNLOAD_FAILED_SIM_HAS_NO_DATA :: MessageStatusType where
  "MessageStatusType_INCOMING_DOWNLOAD_FAILED_SIM_HAS_NO_DATA \<equiv> 112"

abbreviation (input) MessageStatusType_INCOMING_FAILED_TO_DECRYPT :: MessageStatusType where
  "MessageStatusType_INCOMING_FAILED_TO_DECRYPT \<equiv> 113"

abbreviation (input) MessageStatusType_INCOMING_DECRYPTION_ABORTED :: MessageStatusType where
  "MessageStatusType_INCOMING_DECRYPTION_ABORTED \<equiv> 114"

abbreviation (input) MessageStatusType_TOMBSTONE_PARTICIPANT_JOINED :: MessageStatusType where
  "MessageStatusType_TOMBSTONE_PARTICIPANT_JOINED \<equiv> 200"

abbreviation (input) MessageStatusType_TOMBSTONE_PARTICIPANT_LEFT :: MessageStatusType where
  "MessageStatusType_TOMBSTONE_PARTICIPANT_LEFT \<equiv> 201"

abbreviation (input) MessageStatusType_TOMBSTONE_SELF_LEFT :: MessageStatusType where
  "MessageStatusType_TOMBSTONE_SELF_LEFT \<equiv> 202"

abbreviation (input) MessageStatusType_TOMBSTONE_RCS_GROUP_CREATED :: MessageStatusType where
  "MessageStatusType_TOMBSTONE_RCS_GROUP_CREATED \<equiv> 203"

abbreviation (input) MessageStatusType_TOMBSTONE_MMS_GROUP_CREATED :: MessageStatusType where
  "MessageStatusType_TOMBSTONE_MMS_GROUP_CREATED \<equiv> 204"

abbreviation (input) MessageStatusType_TOMBSTONE_SMS_BROADCAST_CREATED :: MessageStatusType where
  "MessageStatusType_TOMBSTONE_SMS_BROADCAST_CREATED \<equiv> 205"

abbreviation (input) MessageStatusType_TOMBSTONE_ONE_ON_ONE_SMS_CREATED :: MessageStatusType where
  "MessageStatusType_TOMBSTONE_ONE_ON_ONE_SMS_CREATED \<equiv> 206"

abbreviation (input) MessageStatusType_TOMBSTONE_ONE_ON_ONE_RCS_CREATED :: MessageStatusType where
  "MessageStatusType_TOMBSTONE_ONE_ON_ONE_RCS_CREATED \<equiv> 207"

abbreviation (input) MessageStatusType_TOMBSTONE_SWITCH_TO_GROUP_MMS :: MessageStatusType where
  "MessageStatusType_TOMBSTONE_SWITCH_TO_GROUP_MMS \<equiv> 208"

abbreviation (input) MessageStatusType_TOMBSTONE_SWITCH_TO_BROADCAST_SMS :: MessageStatusType where
  "MessageStatusType_TOMBSTONE_SWITCH_TO_BROADCAST_SMS \<equiv> 209"

abbreviation (input) MessageStatusType_TOMBSTONE_SHOW_LINK_PREVIEWS :: MessageStatusType where
  "MessageStatusType_TOMBSTONE_SHOW_LINK_PREVIEWS \<equiv> 210"

abbreviation (input) MessageStatusType_TOMBSTONE_GROUP_RENAMED_LOCAL :: MessageStatusType where
  "MessageStatusType_TOMBSTONE_GROUP_RENAMED_LOCAL \<equiv> 211"

abbreviation (input) MessageStatusType_TOMBSTONE_VERIFIED_SMS_APPLICABLE :: MessageStatusType where
  "MessageStatusType_TOMBSTONE_VERIFIED_SMS_APPLICABLE \<equiv> 212"

abbreviation (input) MessageStatusType_TOMBSTONE_ENCRYPTED_ONE_ON_ONE_RCS_CREATED :: MessageStatusType where
  "MessageStatusType_TOMBSTONE_ENCRYPTED_ONE_ON_ONE_RCS_CREATED \<equiv> 213"

abbreviation (input) MessageStatusType_TOMBSTONE_PROTOCOL_SWITCH_TO_TEXT :: MessageStatusType where
  "MessageStatusType_TOMBSTONE_PROTOCOL_SWITCH_TO_TEXT \<equiv> 214"

abbreviation (input) MessageStatusType_TOMBSTONE_PROTOCOL_SWITCH_TO_RCS :: MessageStatusType where
  "MessageStatusType_TOMBSTONE_PROTOCOL_SWITCH_TO_RCS \<equiv> 215"

abbreviation (input) MessageStatusType_TOMBSTONE_PROTOCOL_SWITCH_TO_ENCRYPTED_RCS :: MessageStatusType where
  "MessageStatusType_TOMBSTONE_PROTOCOL_SWITCH_TO_ENCRYPTED_RCS \<equiv> 216"

abbreviation (input) MessageStatusType_TOMBSTONE_GROUP_RENAMED_GLOBAL :: MessageStatusType where
  "MessageStatusType_TOMBSTONE_GROUP_RENAMED_GLOBAL \<equiv> 217"

abbreviation (input) MessageStatusType_TOMBSTONE_GROUP_NAME_CLEARED_GLOBAL :: MessageStatusType where
  "MessageStatusType_TOMBSTONE_GROUP_NAME_CLEARED_GLOBAL \<equiv> 218"

abbreviation (input) MessageStatusType_TOMBSTONE_PROTOCOL_SWITCH_TO_ENCRYPTED_RCS_INFO :: MessageStatusType where
  "MessageStatusType_TOMBSTONE_PROTOCOL_SWITCH_TO_ENCRYPTED_RCS_INFO \<equiv> 219"

abbreviation (input) MessageStatusType_TOMBSTONE_SELF_REMOVED_FROM_GROUP :: MessageStatusType where
  "MessageStatusType_TOMBSTONE_SELF_REMOVED_FROM_GROUP \<equiv> 220"

abbreviation (input) MessageStatusType_MESSAGE_STATUS_TOMBSTONE_PARTICIPANT_REMOVED_FROM_GROUP :: MessageStatusType where
  "MessageStatusType_MESSAGE_STATUS_TOMBSTONE_PARTICIPANT_REMOVED_FROM_GROUP \<equiv> 221"

abbreviation (input) MessageStatusType_MESSAGE_STATUS_TOMBSTONE_SMS_NORM_PARTICIPANT_UPGRADED :: MessageStatusType where
  "MessageStatusType_MESSAGE_STATUS_TOMBSTONE_SMS_NORM_PARTICIPANT_UPGRADED \<equiv> 222"

abbreviation (input) MessageStatusType_MESSAGE_STATUS_TOMBSTONE_RCS_NORM_PARTICIPANT_UPGRADED :: MessageStatusType where
  "MessageStatusType_MESSAGE_STATUS_TOMBSTONE_RCS_NORM_PARTICIPANT_UPGRADED \<equiv> 223"

abbreviation (input) MessageStatusType_MESSAGE_STATUS_TOMBSTONE_ENCRYPTED_RCS_NORM_PARTICIPANT_UPGRADED :: MessageStatusType where
  "MessageStatusType_MESSAGE_STATUS_TOMBSTONE_ENCRYPTED_RCS_NORM_PARTICIPANT_UPGRADED \<equiv> 224"

abbreviation (input) MessageStatusType_MESSAGE_STATUS_TOMBSTONE_ENCRYPTED_GROUP_PARTICIPANT_JOINED :: MessageStatusType where
  "MessageStatusType_MESSAGE_STATUS_TOMBSTONE_ENCRYPTED_GROUP_PARTICIPANT_JOINED \<equiv> 225"

abbreviation (input) MessageStatusType_MESSAGE_STATUS_TOMBSTONE_ENCRYPTED_GROUP_PARTICIPANT_JOINED_INFO :: MessageStatusType where
  "MessageStatusType_MESSAGE_STATUS_TOMBSTONE_ENCRYPTED_GROUP_PARTICIPANT_JOINED_INFO \<equiv> 226"

abbreviation (input) MessageStatusType_MESSAGE_STATUS_TOMBSTONE_ENCRYPTED_GROUP_PARTICIPANT_LEFT :: MessageStatusType where
  "MessageStatusType_MESSAGE_STATUS_TOMBSTONE_ENCRYPTED_GROUP_PARTICIPANT_LEFT \<equiv> 227"

abbreviation (input) MessageStatusType_MESSAGE_STATUS_TOMBSTONE_ENCRYPTED_GROUP_SELF_LEFT :: MessageStatusType where
  "MessageStatusType_MESSAGE_STATUS_TOMBSTONE_ENCRYPTED_GROUP_SELF_LEFT \<equiv> 228"

abbreviation (input) MessageStatusType_MESSAGE_STATUS_TOMBSTONE_ENCRYPTED_GROUP_CREATED :: MessageStatusType where
  "MessageStatusType_MESSAGE_STATUS_TOMBSTONE_ENCRYPTED_GROUP_CREATED \<equiv> 229"

abbreviation (input) MessageStatusType_MESSAGE_STATUS_TOMBSTONE_SELF_REMOVED_FROM_ENCRYPTED_GROUP :: MessageStatusType where
  "MessageStatusType_MESSAGE_STATUS_TOMBSTONE_SELF_REMOVED_FROM_ENCRYPTED_GROUP \<equiv> 230"

abbreviation (input) MessageStatusType_MESSAGE_STATUS_TOMBSTONE_PARTICIPANT_REMOVED_FROM_ENCRYPTED_GROUP :: MessageStatusType where
  "MessageStatusType_MESSAGE_STATUS_TOMBSTONE_PARTICIPANT_REMOVED_FROM_ENCRYPTED_GROUP \<equiv> 231"

abbreviation (input) MessageStatusType_MESSAGE_STATUS_TOMBSTONE_SUGGESTION_SHORTCUT_STAR_TOOLSTONE :: MessageStatusType where
  "MessageStatusType_MESSAGE_STATUS_TOMBSTONE_SUGGESTION_SHORTCUT_STAR_TOOLSTONE \<equiv> 232"

abbreviation (input) MessageStatusType_MESSAGE_STATUS_TOMBSTONE_GROUP_PROTOCOL_SWITCH_RCS_TO_E2EE :: MessageStatusType where
  "MessageStatusType_MESSAGE_STATUS_TOMBSTONE_GROUP_PROTOCOL_SWITCH_RCS_TO_E2EE \<equiv> 233"

abbreviation (input) MessageStatusType_MESSAGE_STATUS_TOMBSTONE_GROUP_PROTOCOL_SWITCH_E2EE_TO_RCS :: MessageStatusType where
  "MessageStatusType_MESSAGE_STATUS_TOMBSTONE_GROUP_PROTOCOL_SWITCH_E2EE_TO_RCS \<equiv> 234"

abbreviation (input) MessageStatusType_MESSAGE_STATUS_TOMBSTONE_PROTOCOL_SWITCH_TEXT_TO_E2EE :: MessageStatusType where
  "MessageStatusType_MESSAGE_STATUS_TOMBSTONE_PROTOCOL_SWITCH_TEXT_TO_E2EE \<equiv> 235"

abbreviation (input) MessageStatusType_MESSAGE_STATUS_TOMBSTONE_PROTOCOL_SWITCH_E2EE_TO_TEXT :: MessageStatusType where
  "MessageStatusType_MESSAGE_STATUS_TOMBSTONE_PROTOCOL_SWITCH_E2EE_TO_TEXT \<equiv> 236"

abbreviation (input) MessageStatusType_MESSAGE_STATUS_TOMBSTONE_PROTOCOL_SWITCH_RCS_TO_E2EE :: MessageStatusType where
  "MessageStatusType_MESSAGE_STATUS_TOMBSTONE_PROTOCOL_SWITCH_RCS_TO_E2EE \<equiv> 237"

abbreviation (input) MessageStatusType_MESSAGE_STATUS_TOMBSTONE_PROTOCOL_SWITCH_E2EE_TO_RCS :: MessageStatusType where
  "MessageStatusType_MESSAGE_STATUS_TOMBSTONE_PROTOCOL_SWITCH_E2EE_TO_RCS \<equiv> 238"

abbreviation (input) MessageStatusType_MESSAGE_STATUS_TOMBSTONE_SATELLITE_EDUCATION :: MessageStatusType where
  "MessageStatusType_MESSAGE_STATUS_TOMBSTONE_SATELLITE_EDUCATION \<equiv> 239"

abbreviation (input) MessageStatusType_MESSAGE_STATUS_TOMBSTONE_RBM_SIM_SWITCH :: MessageStatusType where
  "MessageStatusType_MESSAGE_STATUS_TOMBSTONE_RBM_SIM_SWITCH \<equiv> 240"

abbreviation (input) MessageStatusType_MESSAGE_STATUS_TOMBSTONE_RBM_PRIVACY_NOTICE :: MessageStatusType where
  "MessageStatusType_MESSAGE_STATUS_TOMBSTONE_RBM_PRIVACY_NOTICE \<equiv> 241"

abbreviation (input) MessageStatusType_MESSAGE_STATUS_TOMBSTONE_PENPAL_CONVERSATION_NOTICE :: MessageStatusType where
  "MessageStatusType_MESSAGE_STATUS_TOMBSTONE_PENPAL_CONVERSATION_NOTICE \<equiv> 242"

abbreviation (input) MessageStatusType_MESSAGE_STATUS_TOMBSTONE_MEET_OTHER_PARTICIPANT_REACHABLE :: MessageStatusType where
  "MessageStatusType_MESSAGE_STATUS_TOMBSTONE_MEET_OTHER_PARTICIPANT_REACHABLE \<equiv> 243"

abbreviation (input) MessageStatusType_MESSAGE_STATUS_TOMBSTONE_MISSED_VIDEO_CALL :: MessageStatusType where
  "MessageStatusType_MESSAGE_STATUS_TOMBSTONE_MISSED_VIDEO_CALL \<equiv> 244"

abbreviation (input) MessageStatusType_MESSAGE_STATUS_TOMBSTONE_PARTICIPANT_THEME_CHANGE :: MessageStatusType where
  "MessageStatusType_MESSAGE_STATUS_TOMBSTONE_PARTICIPANT_THEME_CHANGE \<equiv> 245"

abbreviation (input) MessageStatusType_MESSAGE_STATUS_TOMBSTONE_SATELLITE_END_OF_EMERGENCY_SUCCESS_HELP_STILL_NEEDED :: MessageStatusType where
  "MessageStatusType_MESSAGE_STATUS_TOMBSTONE_SATELLITE_END_OF_EMERGENCY_SUCCESS_HELP_STILL_NEEDED \<equiv> 246"

abbreviation (input) MessageStatusType_MESSAGE_STATUS_TOMBSTONE_SATELLITE_END_OF_EMERGENCY_SUCCESS_HELP_NO_LONGER_NEEDED :: MessageStatusType where
  "MessageStatusType_MESSAGE_STATUS_TOMBSTONE_SATELLITE_END_OF_EMERGENCY_SUCCESS_HELP_NO_LONGER_NEEDED \<equiv> 247"

abbreviation (input) MessageStatusType_MESSAGE_STATUS_TOMBSTONE_SATELLITE_END_OF_EMERGENCY_FAILURE_HELP_STILL_NEEDED :: MessageStatusType where
  "MessageStatusType_MESSAGE_STATUS_TOMBSTONE_SATELLITE_END_OF_EMERGENCY_FAILURE_HELP_STILL_NEEDED \<equiv> 248"

abbreviation (input) MessageStatusType_MESSAGE_STATUS_TOMBSTONE_SATELLITE_END_OF_EMERGENCY_FAILURE_HELP_NO_LONGER_NEEDED :: MessageStatusType where
  "MessageStatusType_MESSAGE_STATUS_TOMBSTONE_SATELLITE_END_OF_EMERGENCY_FAILURE_HELP_NO_LONGER_NEEDED \<equiv> 249"

abbreviation (input) MessageStatusType_MESSAGE_STATUS_TOMBSTONE_SATELLITE_END_OF_EMERGENCY_UNEXPECTED_END :: MessageStatusType where
  "MessageStatusType_MESSAGE_STATUS_TOMBSTONE_SATELLITE_END_OF_EMERGENCY_UNEXPECTED_END \<equiv> 250"

abbreviation (input) MessageStatusType_MESSAGE_STATUS_TOMBSTONE_SATELLITE_MESSAGING_TOOLSTONE :: MessageStatusType where
  "MessageStatusType_MESSAGE_STATUS_TOMBSTONE_SATELLITE_MESSAGING_TOOLSTONE \<equiv> 251"

abbreviation (input) MessageStatusType_MESSAGE_STATUS_TOMBSTONE_GROUP_PROTOCOL_SWITCH_E2EE_TO_MMS :: MessageStatusType where
  "MessageStatusType_MESSAGE_STATUS_TOMBSTONE_GROUP_PROTOCOL_SWITCH_E2EE_TO_MMS \<equiv> 252"

abbreviation (input) MessageStatusType_MESSAGE_STATUS_TOMBSTONE_PENPAL_PROACTIVE_MESSAGE_NOTICE :: MessageStatusType where
  "MessageStatusType_MESSAGE_STATUS_TOMBSTONE_PENPAL_PROACTIVE_MESSAGE_NOTICE \<equiv> 253"

abbreviation (input) MessageStatusType_MESSAGE_STATUS_TOMBSTONE_SUGGESTION_POSSIBLE_SCAM_TOOLSTONE :: MessageStatusType where
  "MessageStatusType_MESSAGE_STATUS_TOMBSTONE_SUGGESTION_POSSIBLE_SCAM_TOOLSTONE \<equiv> 254"

abbreviation (input) MessageStatusType_MESSAGE_STATUS_TOMBSTONE_CHATBOT_UNSUBSCRIBE_SENT :: MessageStatusType where
  "MessageStatusType_MESSAGE_STATUS_TOMBSTONE_CHATBOT_UNSUBSCRIBE_SENT \<equiv> 255"

abbreviation (input) MessageStatusType_MESSAGE_STATUS_TOMBSTONE_CHATBOT_SUBSCRIBE_SENT :: MessageStatusType where
  "MessageStatusType_MESSAGE_STATUS_TOMBSTONE_CHATBOT_SUBSCRIBE_SENT \<equiv> 256"

abbreviation (input) MessageStatusType_MESSAGE_STATUS_TOMBSTONE_CHATBOT_UNSUBSCRIBE_CONFIRMED :: MessageStatusType where
  "MessageStatusType_MESSAGE_STATUS_TOMBSTONE_CHATBOT_UNSUBSCRIBE_CONFIRMED \<equiv> 257"

abbreviation (input) MessageStatusType_MESSAGE_STATUS_TOMBSTONE_CHATBOT_SUBSCRIBE_CONFIRMED :: MessageStatusType where
  "MessageStatusType_MESSAGE_STATUS_TOMBSTONE_CHATBOT_SUBSCRIBE_CONFIRMED \<equiv> 258"

abbreviation (input) MessageStatusType_MESSAGE_STATUS_TOMBSTONE_ACTIVE_SELF_IDENTITY_CHANGED :: MessageStatusType where
  "MessageStatusType_MESSAGE_STATUS_TOMBSTONE_ACTIVE_SELF_IDENTITY_CHANGED \<equiv> 259"

abbreviation (input) MessageStatusType_MESSAGE_STATUS_TOMBSTONE_GROUP_ICON_CHANGED_GLOBAL :: MessageStatusType where
  "MessageStatusType_MESSAGE_STATUS_TOMBSTONE_GROUP_ICON_CHANGED_GLOBAL \<equiv> 260"

abbreviation (input) MessageStatusType_MESSAGE_STATUS_TOMBSTONE_GROUP_ICON_CLEARED_GLOBAL :: MessageStatusType where
  "MessageStatusType_MESSAGE_STATUS_TOMBSTONE_GROUP_ICON_CLEARED_GLOBAL \<equiv> 261"

abbreviation (input) MessageStatusType_MESSAGE_STATUS_TOMBSTONE_CHATBOT_UNSUBSCRIBE_ERROR :: MessageStatusType where
  "MessageStatusType_MESSAGE_STATUS_TOMBSTONE_CHATBOT_UNSUBSCRIBE_ERROR \<equiv> 262"

abbreviation (input) MessageStatusType_MESSAGE_STATUS_TOMBSTONE_CHATBOT_SUBSCRIBE_ERROR :: MessageStatusType where
  "MessageStatusType_MESSAGE_STATUS_TOMBSTONE_CHATBOT_SUBSCRIBE_ERROR \<equiv> 263"

abbreviation (input) MessageStatusType_MESSAGE_STATUS_TOMBSTONE_EMERGENCY_CONVERSATION_CREATED :: MessageStatusType where
  "MessageStatusType_MESSAGE_STATUS_TOMBSTONE_EMERGENCY_CONVERSATION_CREATED \<equiv> 264"

abbreviation (input) MessageStatusType_MESSAGE_STATUS_TOMBSTONE_SENSITIVE_CONTENT_WARNING_TOOLSTONE :: MessageStatusType where
  "MessageStatusType_MESSAGE_STATUS_TOMBSTONE_SENSITIVE_CONTENT_WARNING_TOOLSTONE \<equiv> 265"

abbreviation (input) MessageStatusType_MESSAGE_STATUS_TOMBSTONE_CHATBOT_UNSUBSCRIBE_CONFIRMED_NO_LINK :: MessageStatusType where
  "MessageStatusType_MESSAGE_STATUS_TOMBSTONE_CHATBOT_UNSUBSCRIBE_CONFIRMED_NO_LINK \<equiv> 266"

abbreviation (input) MessageStatusType_MESSAGE_STATUS_TOMBSTONE_CHATBOT_SUBSCRIBE_CONFIRMED_NO_LINK :: MessageStatusType where
  "MessageStatusType_MESSAGE_STATUS_TOMBSTONE_CHATBOT_SUBSCRIBE_CONFIRMED_NO_LINK \<equiv> 267"

abbreviation (input) MessageStatusType_MESSAGE_STATUS_TOMBSTONE_EMERGENCY_QUESTIONNAIRE :: MessageStatusType where
  "MessageStatusType_MESSAGE_STATUS_TOMBSTONE_EMERGENCY_QUESTIONNAIRE \<equiv> 268"

abbreviation (input) MessageStatusType_MESSAGE_STATUS_TOMBSTONE_CHATBOT_UNSUBSCRIBE_SENT_NO_LINK :: MessageStatusType where
  "MessageStatusType_MESSAGE_STATUS_TOMBSTONE_CHATBOT_UNSUBSCRIBE_SENT_NO_LINK \<equiv> 269"

abbreviation (input) MessageStatusType_MESSAGE_STATUS_TOMBSTONE_CHATBOT_SUBSCRIBE_SENT_NO_LINK :: MessageStatusType where
  "MessageStatusType_MESSAGE_STATUS_TOMBSTONE_CHATBOT_SUBSCRIBE_SENT_NO_LINK \<equiv> 270"

abbreviation (input) MessageStatusType_MESSAGE_STATUS_TOMBSTONE_RCS_GROUP_JOINED_BY_LINK :: MessageStatusType where
  "MessageStatusType_MESSAGE_STATUS_TOMBSTONE_RCS_GROUP_JOINED_BY_LINK \<equiv> 271"

abbreviation (input) MessageStatusType_MESSAGE_STATUS_TOMBSTONE_INVITE_LINK_ENABLED :: MessageStatusType where
  "MessageStatusType_MESSAGE_STATUS_TOMBSTONE_INVITE_LINK_ENABLED \<equiv> 272"

abbreviation (input) MessageStatusType_MESSAGE_STATUS_TOMBSTONE_INVITE_LINK_DISABLED :: MessageStatusType where
  "MessageStatusType_MESSAGE_STATUS_TOMBSTONE_INVITE_LINK_DISABLED \<equiv> 273"

abbreviation (input) MessageStatusType_MESSAGE_STATUS_TOMBSTONE_INVITE_LINK_RESET_MANUALLY :: MessageStatusType where
  "MessageStatusType_MESSAGE_STATUS_TOMBSTONE_INVITE_LINK_RESET_MANUALLY \<equiv> 274"

abbreviation (input) MessageStatusType_MESSAGE_STATUS_TOMBSTONE_INVITE_LINK_RESET_AUTOMATICALLY :: MessageStatusType where
  "MessageStatusType_MESSAGE_STATUS_TOMBSTONE_INVITE_LINK_RESET_AUTOMATICALLY \<equiv> 275"

abbreviation (input) MessageStatusType_MESSAGE_DELETED :: MessageStatusType where
  "MessageStatusType_MESSAGE_DELETED \<equiv> 300"

definition MessageStatusType_name :: "(int \<times> string) list" where
  "MessageStatusType_name = [
    (0, ''STATUS_UNKNOWN''),
    (1, ''OUTGOING_COMPLETE''),
    (2, ''OUTGOING_DELIVERED''),
    (11, ''OUTGOING_DISPLAYED''),
    (3, ''OUTGOING_DRAFT''),
    (10, ''OUTGOING_SEND_AFTER_PROCESSING''),
    (4, ''OUTGOING_YET_TO_SEND''),
    (5, ''OUTGOING_SENDING''),
    (6, ''OUTGOING_RESENDING''),
    (7, ''OUTGOING_AWAITING_RETRY''),
    (8, ''OUTGOING_FAILED_GENERIC''),
    (9, ''OUTGOING_FAILED_EMERGENCY_NUMBER''),
    (12, ''OUTGOING_CANCELED''),
    (13, ''OUTGOING_FAILED_TOO_LARGE''),
    (14, ''OUTGOING_NOT_DELIVERED_YET''),
    (15, ''OUTGOING_REVOCATION_PENDING''),
    (16, ''OUTGOING_SCHEDULED''),
    (17, ''OUTGOING_FAILED_RECIPIENT_LOST_RCS''),
    (18, ''OUTGOING_FAILED_NO_RETRY_NO_FALLBACK''),
    (19, ''OUTGOING_FAILED_RECIPIENT_DID_NOT_DECRYPT''),
    (20, ''OUTGOING_VALIDATING''),
    (21, ''OUTGOING_FAILED_RECIPIENT_LOST_ENCRYPTION''),
    (22, ''OUTGOING_FAILED_RECIPIENT_DID_NOT_DECRYPT_NO_MORE_RETRY''),
    (100, ''INCOMING_COMPLETE''),
    (101, ''INCOMING_YET_TO_MANUAL_DOWNLOAD''),
    (102, ''INCOMING_RETRYING_MANUAL_DOWNLOAD''),
    (103, ''INCOMING_MANUAL_DOWNLOADING''),
    (104, ''INCOMING_RETRYING_AUTO_DOWNLOAD''),
    (105, ''INCOMING_AUTO_DOWNLOADING''),
    (106, ''INCOMING_DOWNLOAD_FAILED''),
    (107, ''INCOMING_EXPIRED_OR_NOT_AVAILABLE''),
    (108, ''INCOMING_DELIVERED''),
    (109, ''INCOMING_DISPLAYED''),
    (110, ''INCOMING_DOWNLOAD_CANCELED''),
    (111, ''INCOMING_DOWNLOAD_FAILED_TOO_LARGE''),
    (112, ''INCOMING_DOWNLOAD_FAILED_SIM_HAS_NO_DATA''),
    (113, ''INCOMING_FAILED_TO_DECRYPT''),
    (114, ''INCOMING_DECRYPTION_ABORTED''),
    (200, ''TOMBSTONE_PARTICIPANT_JOINED''),
    (201, ''TOMBSTONE_PARTICIPANT_LEFT''),
    (202, ''TOMBSTONE_SELF_LEFT''),
    (203, ''TOMBSTONE_RCS_GROUP_CREATED''),
    (204, ''TOMBSTONE_MMS_GROUP_CREATED''),
    (205, ''TOMBSTONE_SMS_BROADCAST_CREATED''),
    (206, ''TOMBSTONE_ONE_ON_ONE_SMS_CREATED''),
    (207, ''TOMBSTONE_ONE_ON_ONE_RCS_CREATED''),
    (208, ''TOMBSTONE_SWITCH_TO_GROUP_MMS''),
    (209, ''TOMBSTONE_SWITCH_TO_BROADCAST_SMS''),
    (210, ''TOMBSTONE_SHOW_LINK_PREVIEWS''),
    (211, ''TOMBSTONE_GROUP_RENAMED_LOCAL''),
    (212, ''TOMBSTONE_VERIFIED_SMS_APPLICABLE''),
    (213, ''TOMBSTONE_ENCRYPTED_ONE_ON_ONE_RCS_CREATED''),
    (214, ''TOMBSTONE_PROTOCOL_SWITCH_TO_TEXT''),
    (215, ''TOMBSTONE_PROTOCOL_SWITCH_TO_RCS''),
    (216, ''TOMBSTONE_PROTOCOL_SWITCH_TO_ENCRYPTED_RCS''),
    (217, ''TOMBSTONE_GROUP_RENAMED_GLOBAL''),
    (218, ''TOMBSTONE_GROUP_NAME_CLEARED_GLOBAL''),
    (219, ''TOMBSTONE_PROTOCOL_SWITCH_TO_ENCRYPTED_RCS_INFO''),
    (220, ''TOMBSTONE_SELF_REMOVED_FROM_GROUP''),
    (221, ''MESSAGE_STATUS_TOMBSTONE_PARTICIPANT_REMOVED_FROM_GROUP''),
    (222, ''MESSAGE_STATUS_TOMBSTONE_SMS_NORM_PARTICIPANT_UPGRADED''),
    (223, ''MESSAGE_STATUS_TOMBSTONE_RCS_NORM_PARTICIPANT_UPGRADED''),
    (224, ''MESSAGE_STATUS_TOMBSTONE_ENCRYPTED_RCS_NORM_PARTICIPANT_UPGRADED''),
    (225, ''MESSAGE_STATUS_TOMBSTONE_ENCRYPTED_GROUP_PARTICIPANT_JOINED''),
    (226, ''MESSAGE_STATUS_TOMBSTONE_ENCRYPTED_GROUP_PARTICIPANT_JOINED_INFO''),
    (227, ''MESSAGE_STATUS_TOMBSTONE_ENCRYPTED_GROUP_PARTICIPANT_LEFT''),
    (228, ''MESSAGE_STATUS_TOMBSTONE_ENCRYPTED_GROUP_SELF_LEFT''),
    (229, ''MESSAGE_STATUS_TOMBSTONE_ENCRYPTED_GROUP_CREATED''),
    (230, ''MESSAGE_STATUS_TOMBSTONE_SELF_REMOVED_FROM_ENCRYPTED_GROUP''),
    (231, ''MESSAGE_STATUS_TOMBSTONE_PARTICIPANT_REMOVED_FROM_ENCRYPTED_GROUP''),
    (232, ''MESSAGE_STATUS_TOMBSTONE_SUGGESTION_SHORTCUT_STAR_TOOLSTONE''),
    (233, ''MESSAGE_STATUS_TOMBSTONE_GROUP_PROTOCOL_SWITCH_RCS_TO_E2EE''),
    (234, ''MESSAGE_STATUS_TOMBSTONE_GROUP_PROTOCOL_SWITCH_E2EE_TO_RCS''),
    (235, ''MESSAGE_STATUS_TOMBSTONE_PROTOCOL_SWITCH_TEXT_TO_E2EE''),
    (236, ''MESSAGE_STATUS_TOMBSTONE_PROTOCOL_SWITCH_E2EE_TO_TEXT''),
    (237, ''MESSAGE_STATUS_TOMBSTONE_PROTOCOL_SWITCH_RCS_TO_E2EE''),
    (238, ''MESSAGE_STATUS_TOMBSTONE_PROTOCOL_SWITCH_E2EE_TO_RCS''),
    (239, ''MESSAGE_STATUS_TOMBSTONE_SATELLITE_EDUCATION''),
    (240, ''MESSAGE_STATUS_TOMBSTONE_RBM_SIM_SWITCH''),
    (241, ''MESSAGE_STATUS_TOMBSTONE_RBM_PRIVACY_NOTICE''),
    (242, ''MESSAGE_STATUS_TOMBSTONE_PENPAL_CONVERSATION_NOTICE''),
    (243, ''MESSAGE_STATUS_TOMBSTONE_MEET_OTHER_PARTICIPANT_REACHABLE''),
    (244, ''MESSAGE_STATUS_TOMBSTONE_MISSED_VIDEO_CALL''),
    (245, ''MESSAGE_STATUS_TOMBSTONE_PARTICIPANT_THEME_CHANGE''),
    (246, ''MESSAGE_STATUS_TOMBSTONE_SATELLITE_END_OF_EMERGENCY_SUCCESS_HELP_STILL_NEEDED''),
    (247, ''MESSAGE_STATUS_TOMBSTONE_SATELLITE_END_OF_EMERGENCY_SUCCESS_HELP_NO_LONGER_NEEDED''),
    (248, ''MESSAGE_STATUS_TOMBSTONE_SATELLITE_END_OF_EMERGENCY_FAILURE_HELP_STILL_NEEDED''),
    (249, ''MESSAGE_STATUS_TOMBSTONE_SATELLITE_END_OF_EMERGENCY_FAILURE_HELP_NO_LONGER_NEEDED''),
    (250, ''MESSAGE_STATUS_TOMBSTONE_SATELLITE_END_OF_EMERGENCY_UNEXPECTED_END''),
    (251, ''MESSAGE_STATUS_TOMBSTONE_SATELLITE_MESSAGING_TOOLSTONE''),
    (252, ''MESSAGE_STATUS_TOMBSTONE_GROUP_PROTOCOL_SWITCH_E2EE_TO_MMS''),
    (253, ''MESSAGE_STATUS_TOMBSTONE_PENPAL_PROACTIVE_MESSAGE_NOTICE''),
    (254, ''MESSAGE_STATUS_TOMBSTONE_SUGGESTION_POSSIBLE_SCAM_TOOLSTONE''),
    (255, ''MESSAGE_STATUS_TOMBSTONE_CHATBOT_UNSUBSCRIBE_SENT''),
    (256, ''MESSAGE_STATUS_TOMBSTONE_CHATBOT_SUBSCRIBE_SENT''),
    (257, ''MESSAGE_STATUS_TOMBSTONE_CHATBOT_UNSUBSCRIBE_CONFIRMED''),
    (258, ''MESSAGE_STATUS_TOMBSTONE_CHATBOT_SUBSCRIBE_CONFIRMED''),
    (259, ''MESSAGE_STATUS_TOMBSTONE_ACTIVE_SELF_IDENTITY_CHANGED''),
    (260, ''MESSAGE_STATUS_TOMBSTONE_GROUP_ICON_CHANGED_GLOBAL''),
    (261, ''MESSAGE_STATUS_TOMBSTONE_GROUP_ICON_CLEARED_GLOBAL''),
    (262, ''MESSAGE_STATUS_TOMBSTONE_CHATBOT_UNSUBSCRIBE_ERROR''),
    (263, ''MESSAGE_STATUS_TOMBSTONE_CHATBOT_SUBSCRIBE_ERROR''),
    (264, ''MESSAGE_STATUS_TOMBSTONE_EMERGENCY_CONVERSATION_CREATED''),
    (265, ''MESSAGE_STATUS_TOMBSTONE_SENSITIVE_CONTENT_WARNING_TOOLSTONE''),
    (266, ''MESSAGE_STATUS_TOMBSTONE_CHATBOT_UNSUBSCRIBE_CONFIRMED_NO_LINK''),
    (267, ''MESSAGE_STATUS_TOMBSTONE_CHATBOT_SUBSCRIBE_CONFIRMED_NO_LINK''),
    (268, ''MESSAGE_STATUS_TOMBSTONE_EMERGENCY_QUESTIONNAIRE''),
    (269, ''MESSAGE_STATUS_TOMBSTONE_CHATBOT_UNSUBSCRIBE_SENT_NO_LINK''),
    (270, ''MESSAGE_STATUS_TOMBSTONE_CHATBOT_SUBSCRIBE_SENT_NO_LINK''),
    (271, ''MESSAGE_STATUS_TOMBSTONE_RCS_GROUP_JOINED_BY_LINK''),
    (272, ''MESSAGE_STATUS_TOMBSTONE_INVITE_LINK_ENABLED''),
    (273, ''MESSAGE_STATUS_TOMBSTONE_INVITE_LINK_DISABLED''),
    (274, ''MESSAGE_STATUS_TOMBSTONE_INVITE_LINK_RESET_MANUALLY''),
    (275, ''MESSAGE_STATUS_TOMBSTONE_INVITE_LINK_RESET_AUTOMATICALLY''),
    (300, ''MESSAGE_DELETED'')]"

definition MessageStatusType_String :: "MessageStatusType \<Rightarrow> string option" where
  "MessageStatusType_String s = map_of MessageStatusType_name s"

section \<open>Messages\<close>

record SIMPayload =
  sp_two :: int
  sp_SIMNumber :: int

record SIMData =
  sd_SIMPayload :: "SIMPayload option"
  sd_carrierName :: string
  sd_colorHex :: string
  sd_formattedPhoneNumber :: string

record SIMCard =
  sc_RCSChats :: "bool option"
  sc_SIMData :: "SIMData option"
  sc_SIMParticipant :: "string option"

record RCSSettings =
  rs_isEnabled :: bool
  rs_sendReadReceipts :: bool
  rs_showTypingIndicators :: bool
  rs_isDefaultSMSApp :: bool

text \<open>\<open>Settings\<close>: \<open>SIMCards\<close> is \<open>None\<close> for a nil slice; of \<open>opCodeData\<close> only \<open>pushEnabled\<close> is read.\<close>

record Settings =
  st_SIMCards :: "SIMCard list option"
  st_pushEnabled :: bool
  st_RCSSettings :: "RCSSettings option"

record SmallInfo =
  si_number :: string
  si_participantID :: string

record Participant =
  pt_ID :: "SmallInfo option"
  pt_firstName :: string
  pt_fullName :: string
  pt_isMe :: bool
  pt_isVisible :: bool
  pt_contactID :: string
  pt_formattedNumber :: string

record MediaContent =
  mc_format :: int
  mc_mediaID :: string
  mc_mediaName :: string
  mc_size :: int
  mc_mediaData :: bytes
  mc_thumbnailMediaID :: string
  mc_decryptionKey :: bytes
  mc_thumbnailDecryptionKey :: bytes
  mc_mimeType :: string

datatype MessageInfoData =
    NoData
  | MessageInfo_MessageContent string
  | MessageInfo_MediaContent MediaContent

record MessageInfo =
  mi_actionMessageID :: "string option"
  mi_data :: MessageInfoData

record ReactionData =
  rd_unicode :: string
  rd_type :: EmojiType

record ReactionEntry =
  re_data :: "ReactionData option"
  re_participantIDs :: "string list"

record MessageStatus =
  ms_status :: MessageStatusType
  ms_statusText :: string

record Message =
  msg_messageID :: string
  msg_messageStatus :: "MessageStatus option"
  msg_timestamp :: int
  msg_conversationID :: string
  msg_participantID :: string
  msg_messageInfo :: "MessageInfo list"
  msg_tmpID :: string
  msg_subject :: "string option"
  msg_reactions :: "ReactionEntry list"
  msg_replyMessage :: "string option"

record Conversation =
  cv_conversationID :: string
  cv_name :: string
  cv_lastMessageTimestamp :: int
  cv_unread :: bool
  cv_isGroupChat :: bool
  cv_defaultOutgoingID :: string
  cv_status :: ConversationStatus
  cv_readOnly :: bool
  cv_latestMessageID :: string
  cv_sendMode :: ConversationSendMode
  cv_participants :: "Participant list"
  cv_type :: ConversationType
  cv_pinned :: bool
  cv_groupAvatarURL :: string

section \<open>Accessors\<close>

definition GetStatus :: "Message \<Rightarrow> MessageStatusType" where
  "GetStatus m = (case msg_messageStatus m of None \<Rightarrow> 0 | Some s \<Rightarrow> ms_status s)"

definition GetStatusText :: "Message \<Rightarrow> string" where
  "GetStatusText m = (case msg_messageStatus m of None \<Rightarrow> '''' | Some s \<Rightarrow> ms_statusText s)"

definition GetSubject :: "Message \<Rightarrow> string" where
  "GetSubject m = (case msg_subject m of None \<Rightarrow> '''' | Some s \<Rightarrow> s)"

definition GetActionMessageID :: "MessageInfo \<Rightarrow> string" where
  "GetActionMessageID i = (case mi_actionMessageID i of None \<Rightarrow> '''' | Some s \<Rightarrow> s)"

definition GetNumber :: "Participant \<Rightarrow> string" where
  "GetNumber p = (case pt_ID p of None \<Rightarrow> '''' | Some i \<Rightarrow> si_number i)"

definition GetParticipantID :: "Participant \<Rightarrow> string" where
  "GetParticipantID p = (case pt_ID p of None \<Rightarrow> '''' | Some i \<Rightarrow> si_participantID i)"

definition GetRCSEnabled :: "SIMCard option \<Rightarrow> bool" where
  "GetRCSEnabled s = (case s of None \<Rightarrow> False
     | Some c \<Rightarrow> (case sc_RCSChats c of None \<Rightarrow> False | Some e \<Rightarrow> e))"

definition GetSIMData :: "SIMCard option \<Rightarrow> SIMData option" where
  "GetSIMData s = Option.bind s sc_SIMData"

definition GetSIMPayload :: "SIMCard option \<Rightarrow> SIMPayload option" where
  "GetSIMPayload s = Option.bind (GetSIMData s) sd_SIMPayload"

definition GetCarrierName :: "SIMCard option \<Rightarrow> string" where
  "GetCarrierName s = (case GetSIMData s of None \<Rightarrow> '''' | Some d \<Rightarrow> sd_carrierName d)"

definition GetSIMNumber :: "SIMCard option \<Rightarrow> int" where
  "GetSIMNumber s = (case GetSIMPayload s of None \<Rightarrow> 0 | Some p \<Rightarrow> sp_SIMNumber p)"

definition GetTwo :: "SIMCard option \<Rightarrow> int" where
  "GetTwo s = (case GetSIMPayload s of None \<Rightarrow> 0 | Some p \<Rightarrow> sp_two p)"

definition GetSIMParticipantID :: "SIMCard \<Rightarrow> string" where
  "GetSIMParticipantID s = (case sc_SIMParticipant s of None \<Rightarrow> '''' | Some i \<Rightarrow> i)"

section \<open>Emoji reactions\<close>

fun EmojiType_Unicode :: "EmojiType \<Rightarrow> string" where
  "EmojiType_Unicode EmojiType_LIKE = [CHR 0xF0, CHR 0x9F, CHR 0x91, CHR 0x8D]"
| "EmojiType_Unicode EmojiType_LOVE = [CHR 0xF0, CHR 0x9F, CHR 0x98, CHR 0x8D]"
| "EmojiType_Unicode EmojiType_LAUGH = [CHR 0xF0, CHR 0x9F, CHR 0x98, CHR 0x82]"
| "EmojiType_Unicode EmojiType_SURPRISED = [CHR 0xF0, CHR 0x9F, CHR 0x98, CHR 0xAE]"
| "EmojiType_Unicode EmojiType_SAD = [CHR 0xF0, CHR 0x9F, CHR 0x98, CHR 0xA5]"
| "EmojiType_Unicode EmojiType_ANGRY = [CHR 0xF0, CHR 0x9F, CHR 0x98, CHR 0xA0]"
| "EmojiType_Unicode EmojiType_DISLIKE = [CHR 0xF0, CHR 0x9F, CHR 0x91, CHR 0x8E]"
| "EmojiType_Unicode EmojiType_QUESTIONING = [CHR 0xF0, CHR 0x9F, CHR 0xA4, CHR 0x94]"
| "EmojiType_Unicode EmojiType_CRYING_FACE = [CHR 0xF0, CHR 0x9F, CHR 0x98, CHR 0xA2]"
| "EmojiType_Unicode EmojiType_POUTING_FACE = [CHR 0xF0, CHR 0x9F, CHR 0x98, CHR 0xA1]"
| "EmojiType_Unicode EmojiType_RED_HEART = [CHR 0xE2, CHR 0x9D, CHR 0xA4, CHR 0xEF, CHR 0xB8, CHR 0x8F]"
| "EmojiType_Unicode _ = ''''"

definition UnicodeToEmojiType :: "string \<Rightarrow> EmojiType" where
  "UnicodeToEmojiType emoji =
     (if emoji = [CHR 0xF0, CHR 0x9F, CHR 0x91, CHR 0x8D] then EmojiType_LIKE
      else if emoji = [CHR 0xF0, CHR 0x9F, CHR 0x98, CHR 0x8D] then EmojiType_LOVE
      else if emoji = [CHR 0xF0, CHR 0x9F, CHR 0x98, CHR 0x82] then EmojiType_LAUGH
      else if emoji = [CHR 0xF0, CHR 0x9F, CHR 0x98, CHR 0xAE] then EmojiType_SURPRISED
      else if emoji = [CHR 0xF0, CHR 0x9F, CHR 0x98, CHR 0xA5] then EmojiType_SAD
      else if emoji = [CHR 0xF0, CHR 0x9F, CHR 0x98, CHR 0xA0] then EmojiType_ANGRY
      else if emoji = [CHR 0xF0, CHR 0x9F, CHR 0x91, CHR 0x8E] then EmojiType_DISLIKE
      else if emoji = [CHR 0xF0, CHR 0x9F, CHR 0xA4, CHR 0x94] then EmojiType_QUESTIONING
      else if emoji = [CHR 0xF0, CHR 0x9F, CHR 0x98, CHR 0xA2] then EmojiType_CRYING_FACE
      else if emoji = [CHR 0xF0, CHR 0x9F, CHR 0x98, CHR 0xA1] then EmojiType_POUTING_FACE
      else if emoji = [CHR 0xE2, CHR 0x9D, CHR 0xA4] \<or> emoji = [CHR 0xE2, CHR 0x9D, CHR 0xA4, CHR 0xEF, CHR 0xB8, CHR 0x8F] then EmojiType_RED_HEART
      else EmojiType_CUSTOM)"

definition MakeReactionData :: "string \<Rightarrow> ReactionData" where
  "MakeReactionData emoji = \<lparr>rd_unicode = emoji, rd_type = UnicodeToEmojiType emoji\<rparr>"

lemma EmojiType_Unicode_eq_Nil_iff:
  "EmojiType_Unicode t = '''' \<longleftrightarrow>
     t \<in> {EmojiType_REACTION_TYPE_UNSPECIFIED, EmojiType_CUSTOM, EmojiType_EMOTIFY}
     \<or> (\<exists>n. t = EmojiType_Unrecognized n)"
  by (cases t) simp_all

text \<open>
  The reaction table is a round trip: every reaction type that has an emoji is recovered from
  it, and an emoji that maps to a built-in type is that type's emoji, except that the bare heart
  is normalised to the heart with the variation selector.
\<close>

lemma emoji_round_trip:
  "(EmojiType_Unicode t \<noteq> '''' \<longrightarrow> UnicodeToEmojiType (EmojiType_Unicode t) = t) \<and>
   (UnicodeToEmojiType e \<noteq> EmojiType_CUSTOM \<longrightarrow>
      EmojiType_Unicode (UnicodeToEmojiType e) = e \<or> e = [CHR 0xE2, CHR 0x9D, CHR 0xA4])"
proof
  show "EmojiType_Unicode t \<noteq> '''' \<longrightarrow> UnicodeToEmojiType (EmojiType_Unicode t) = t"
    by (cases t) (simp_all add: UnicodeToEmojiType_def)
  show "UnicodeToEmojiType e \<noteq> EmojiType_CUSTOM \<longrightarrow>
      EmojiType_Unicode (UnicodeToEmojiType e) = e \<or> e = [CHR 0xE2, CHR 0x9D, CHR 0xA4]"
    unfolding UnicodeToEmojiType_def by (simp split: if_splits)
qed

lemma emoji_round_trip_witness:
  "UnicodeToEmojiType (EmojiType_Unicode EmojiType_RED_HEART) = EmojiType_RED_HEART"
  using emoji_round_trip [of EmojiType_RED_HEART] by simp

end
