(* ===== verification/Gm_Errors.thy ===== *)
theory Gm_Errors
  imports Gm_Proto
begin

text \<open>
  Error values and HTTP responses: \<^verbatim>\<open>events/ready.go\<close> (\<open>RequestError\<close>, \<open>HTTPError\<close> and how
  \<open>errors.Is\<close> sees them), \<^verbatim>\<open>connector/errors.go\<close> (\<open>responseStatusError\<close>) and the response half of
  \<^verbatim>\<open>libgm/http.go\<close> (\<open>decodeProtoResp\<close>, \<open>typedHTTPResponse\<close>).  The protobuf and pblite decoders and
  \<open>mime.ParseMediaType\<close> are arguments.
\<close>

section \<open>Error values\<close>

record ErrorResponse =
  er_type :: int
  er_message :: string
  er_class :: "string list"

record HTTPError =
  he_Action :: string
  he_StatusCode :: int
  he_Body :: bytes

record RequestError =
  rq_Data :: "ErrorResponse option"
  rq_HTTP :: "HTTPError option"

text \<open>An error is an opaque value (a sentinel, told apart by its identity), a failure of the network,
  one of the two structured types, or a wrapper made by \<open>fmt.Errorf\<close> with the verb w.\<close>

datatype go_error =
    ErrOpaque nat string
  | ErrNetwork string
  | ErrHTTP HTTPError
  | ErrRequest RequestError
  | ErrWrap string go_error

definition ErrText :: "string \<Rightarrow> go_error" where
  "ErrText s = ErrOpaque 0 s"

definition ErrRequestedEntityNotFound :: RequestError where
  "ErrRequestedEntityNotFound = \<lparr>
     rq_Data = Some \<lparr>er_type = 5, er_message = ''Requested entity was not found.'',
       er_class = [''type.googleapis.com/google.internal.communications.instantmessaging.v1.TachyonError'']\<rparr>,
     rq_HTTP = None\<rparr>"

definition ErrInvalidCredentials :: RequestError where
  "ErrInvalidCredentials = \<lparr>
     rq_Data = Some \<lparr>er_type = 16,
       er_message = ''Request had invalid authentication credentials. Expected OAuth 2 access token, login cookie or other valid authentication credential. See https://developers.google.com/identity/sign-in/web/devconsole-project.'',
       er_class = []\<rparr>,
     rq_HTTP = None\<rparr>"

definition ErrCallerNoPermission :: RequestError where
  "ErrCallerNoPermission = \<lparr>
     rq_Data = Some \<lparr>er_type = 7, er_message = ''The caller does not have permission'', er_class = []\<rparr>,
     rq_HTTP = None\<rparr>"

definition GetErrType :: "ErrorResponse option \<Rightarrow> int" where
  "GetErrType d = (case d of None \<Rightarrow> 0 | Some r \<Rightarrow> er_type r)"

definition GetErrMessage :: "ErrorResponse option \<Rightarrow> string" where
  "GetErrMessage d = (case d of None \<Rightarrow> '''' | Some r \<Rightarrow> er_message r)"

definition RequestError_Unwrap :: "RequestError \<Rightarrow> go_error option" where
  "RequestError_Unwrap re = map_option ErrHTTP (rq_HTTP re)"

text \<open>\<open>RequestError.Error\<close> reads \<open>re.Data.Type\<close> and \<open>re.Data.Message\<close> as fields: a nil \<open>Data\<close> panics.\<close>

definition RequestError_Error :: "RequestError \<Rightarrow> (go_error, string) outcome" where
  "RequestError_Error re =
     (case rq_Data re of
        None \<Rightarrow> Panic ''nil pointer dereference''
      | Some d \<Rightarrow>
          (case rq_HTTP re of
             None \<Rightarrow> Return (show_int (er_type d) @ '': '' @ er_message d)
           | Some h \<Rightarrow> Return (''HTTP '' @ show_int (he_StatusCode h) @ '': '' @ show_int (er_type d)
                              @ '': '' @ er_message d)))"

definition HTTPError_Error :: "HTTPError \<Rightarrow> string" where
  "HTTPError_Error he =
     (if he_Action he = '''' then ''unexpected http '' @ show_int (he_StatusCode he)
      else ''http '' @ show_int (he_StatusCode he) @ '' while '' @ he_Action he)"

text \<open>\<open>errors.As\<close> for the target type \<open>RequestError\<close>: the first one in the chain.\<close>

fun As_RequestError :: "go_error \<Rightarrow> RequestError option" where
  "As_RequestError (ErrRequest re) = Some re"
| "As_RequestError (ErrWrap _ e) = As_RequestError e"
| "As_RequestError _ = None"

fun As_HTTPError :: "go_error \<Rightarrow> HTTPError option" where
  "As_HTTPError (ErrHTTP he) = Some he"
| "As_HTTPError (ErrRequest re) = rq_HTTP re"
| "As_HTTPError (ErrWrap _ e) = As_HTTPError e"
| "As_HTTPError _ = None"

text \<open>\<open>errors.Is\<close> on an \<open>HTTPError\<close>: the struct holds a byte slice, so it is not comparable; it has
  no \<open>Is\<close> method and wraps nothing.\<close>

definition Is_HTTPError :: "HTTPError \<Rightarrow> go_error \<Rightarrow> bool" where
  "Is_HTTPError he target = False"

definition RequestError_Is :: "RequestError \<Rightarrow> go_error \<Rightarrow> bool" where
  "RequestError_Is re other =
     (case As_RequestError other of
        None \<Rightarrow> (case rq_HTTP re of None \<Rightarrow> False | Some h \<Rightarrow> Is_HTTPError h other)
      | Some otherRe \<Rightarrow>
          GetErrType (rq_Data otherRe) = GetErrType (rq_Data re) \<and>
          GetErrMessage (rq_Data otherRe) = GetErrMessage (rq_Data re))"

fun errors_Is :: "go_error \<Rightarrow> go_error \<Rightarrow> bool" where
  "errors_Is (ErrHTTP he) target = Is_HTTPError he target"
| "errors_Is (ErrRequest re) target =
     (RequestError_Is re target \<or>
      (case rq_HTTP re of None \<Rightarrow> False | Some h \<Rightarrow> Is_HTTPError h target))"
| "errors_Is (ErrWrap s e) target = (target = ErrWrap s e \<or> errors_Is e target)"
| "errors_Is e target = (target = e)"

text \<open>\<open>exhttp.IsNetworkError\<close>: a network failure somewhere in the chain.\<close>

fun IsNetworkError :: "go_error \<Rightarrow> bool" where
  "IsNetworkError (ErrNetwork _) = True"
| "IsNetworkError (ErrWrap _ e) = IsNetworkError e"
| "IsNetworkError _ = False"

definition same_error :: "RequestError \<Rightarrow> RequestError \<Rightarrow> bool" where
  "same_error a b \<longleftrightarrow> GetErrType (rq_Data a) = GetErrType (rq_Data b) \<and>
                     GetErrMessage (rq_Data a) = GetErrMessage (rq_Data b)"

lemma same_error_equivp: "equivp same_error"
  by (rule equivpI) (auto simp: reflp_def symp_def transp_def same_error_def)

lemma As_RequestError_wraps [simp]: "As_RequestError (foldr ErrWrap cs e) = As_RequestError e"
  by (induction cs) auto

lemma errors_Is_wraps:
  "As_RequestError t \<noteq> None \<Longrightarrow> As_RequestError e = Some re \<Longrightarrow>
   errors_Is e t \<longleftrightarrow> RequestError_Is re t"
proof (induction e)
  case (ErrWrap s e)
  then show ?case by (auto simp: RequestError_Is_def)
qed (auto simp: Is_HTTPError_def split: option.splits)

lemma RequestError_Is_same_error:
  "As_RequestError t = Some re' \<Longrightarrow> RequestError_Is re t \<longleftrightarrow> same_error re re'"
  by (auto simp: RequestError_Is_def same_error_def)

text \<open>
  Matching a server error with \<open>errors.Is\<close>: whatever context was wrapped around either side, the
  match depends exactly on the type code and the message of the two responses (not on the HTTP
  response attached to them, nor on the error class), and this is an equivalence relation.
\<close>

lemma errors_Is_RequestError:
  "(errors_Is (foldr ErrWrap cs (ErrRequest re)) (foldr ErrWrap ds (ErrRequest re')) \<longleftrightarrow>
      GetErrType (rq_Data re) = GetErrType (rq_Data re') \<and>
      GetErrMessage (rq_Data re) = GetErrMessage (rq_Data re'))
   \<and> equivp (\<lambda>a b. errors_Is (ErrRequest a) (ErrRequest b))"
proof
  have *: "errors_Is (foldr ErrWrap cs (ErrRequest a)) (foldr ErrWrap ds (ErrRequest b)) \<longleftrightarrow> same_error a b"
    for a b cs ds
    using errors_Is_wraps [of "foldr ErrWrap ds (ErrRequest b)" "foldr ErrWrap cs (ErrRequest a)" a]
    by (simp add: RequestError_Is_same_error [where re' = b])
  then show "errors_Is (foldr ErrWrap cs (ErrRequest re)) (foldr ErrWrap ds (ErrRequest re')) \<longleftrightarrow>
      GetErrType (rq_Data re) = GetErrType (rq_Data re') \<and>
      GetErrMessage (rq_Data re) = GetErrMessage (rq_Data re')"
    by (simp add: same_error_def)
  have "(\<lambda>a b. errors_Is (ErrRequest a) (ErrRequest b)) = same_error"
    using * [of "[]" _ "[]"] by (intro ext) simp
  then show "equivp (\<lambda>a b. errors_Is (ErrRequest a) (ErrRequest b))"
    by (simp add: same_error_equivp)
qed

section \<open>Status of a sent message\<close>

datatype SendMessageResponse_Status =
    SendMessageResponse_UNKNOWN
  | SendMessageResponse_SUCCESS
  | SendMessageResponse_FAILURE_2
  | SendMessageResponse_FAILURE_3
  | SendMessageResponse_FAILURE_4
  | SendMessageResponse_Unrecognized int

fun SendMessageResponse_Status_num :: "SendMessageResponse_Status \<Rightarrow> int" where
  "SendMessageResponse_Status_num SendMessageResponse_UNKNOWN = 0"
| "SendMessageResponse_Status_num SendMessageResponse_SUCCESS = 1"
| "SendMessageResponse_Status_num SendMessageResponse_FAILURE_2 = 2"
| "SendMessageResponse_Status_num SendMessageResponse_FAILURE_3 = 3"
| "SendMessageResponse_Status_num SendMessageResponse_FAILURE_4 = 4"
| "SendMessageResponse_Status_num (SendMessageResponse_Unrecognized n) = n"

record SendMessageResponse =
  sm_googleAccountSwitch :: "string option"
  sm_status :: SendMessageResponse_Status

definition responseStatusError_Error :: "SendMessageResponse \<Rightarrow> string" where
  "responseStatusError_Error rse =
     (case sm_status rse of
        SendMessageResponse_UNKNOWN \<Rightarrow>
          (case sm_googleAccountSwitch rse of
             Some account \<Rightarrow>
               if contains_char account CHR ''@''
               then ''Switch back to QR pairing or log in with Google account to send messages''
               else ''Unrecognized response status '' @ show_int (SendMessageResponse_Status_num (sm_status rse))
           | None \<Rightarrow> ''Unrecognized response status '' @ show_int (SendMessageResponse_Status_num (sm_status rse)))
      | SendMessageResponse_FAILURE_2 \<Rightarrow> ''Unknown permanent error''
      | SendMessageResponse_FAILURE_3 \<Rightarrow> ''Unknown temporary error''
      | SendMessageResponse_FAILURE_4 \<Rightarrow> ''Google Messages is not your default SMS app''
      | _ \<Rightarrow> ''Unrecognized response status '' @ show_int (SendMessageResponse_Status_num (sm_status rse)))"

section \<open>HTTP responses\<close>

text \<open>A response: status, the \<open>Content-Type\<close> header, the body (or the error of reading it), the other
  headers and the cookies it sets.\<close>

record Response =
  rsp_StatusCode :: int
  rsp_ContentType :: string
  rsp_Body :: "go_error + bytes"
  rsp_Header :: "string \<rightharpoonup> string"
  rsp_Cookies :: "(string \<times> string) list"

type_synonym http_result = "go_error + Response"

definition ContentTypeProtobuf :: string where
  "ContentTypeProtobuf = ''application/x-protobuf''"

definition ContentTypePBLite :: string where
  "ContentTypePBLite = ''application/json+protobuf''"

text \<open>The decoders: \<open>mime.ParseMediaType\<close> (media type only), \<open>proto.Unmarshal\<close> and
  \<open>pblite.Unmarshal\<close> into one message type.\<close>

record 'a decoder =
  dec_mime :: "string \<Rightarrow> go_error + string"
  dec_proto :: "bytes \<Rightarrow> go_error + 'a"
  dec_pblite :: "bytes \<Rightarrow> go_error + 'a"

definition decodeProtoResp :: "'a decoder \<Rightarrow> bytes \<Rightarrow> string \<Rightarrow> go_error + 'a" where
  "decodeProtoResp d body contentType =
     (case dec_mime d contentType of
        Inl e \<Rightarrow> Inl (ErrWrap ''failed to parse content-type'' e)
      | Inr ct \<Rightarrow>
          if ct = ContentTypeProtobuf then dec_proto d body
          else if ct = ContentTypePBLite \<or> ct = ''text/plain'' then dec_pblite d body
          else Inl (ErrText (''unknown content type '' @ ct @ '' in response'')))"

definition typedHTTPResponse :: "ErrorResponse decoder \<Rightarrow> 'a decoder \<Rightarrow> http_result \<Rightarrow> go_error + 'a" where
  "typedHTTPResponse de d r =
     (case r of
        Inl err \<Rightarrow> Inl err
      | Inr resp \<Rightarrow>
          (case rsp_Body resp of
             Inl err \<Rightarrow> Inl (ErrWrap ''failed to read response body'' err)
           | Inr body \<Rightarrow>
               if rsp_StatusCode resp < 200 \<or> rsp_StatusCode resp \<ge> 300 then
                 (let httpErr = \<lparr>he_Action = '''', he_StatusCode = rsp_StatusCode resp, he_Body = body\<rparr>
                  in case decodeProtoResp de body (rsp_ContentType resp) of
                       Inr errorResp \<Rightarrow>
                         if er_message errorResp \<noteq> ''''
                         then Inl (ErrRequest \<lparr>rq_Data = Some errorResp, rq_HTTP = Some httpErr\<rparr>)
                         else Inl (ErrHTTP httpErr)
                     | Inl _ \<Rightarrow> Inl (ErrHTTP httpErr))
               else decodeProtoResp d body (rsp_ContentType resp)))"

lemma typedHTTPResponse_Inr:
  "typedHTTPResponse de d r = Inr x \<longleftrightarrow>
     (\<exists>resp body. r = Inr resp \<and> rsp_Body resp = Inr body \<and>
        200 \<le> rsp_StatusCode resp \<and> rsp_StatusCode resp < 300 \<and>
        decodeProtoResp d body (rsp_ContentType resp) = Inr x)"
  by (auto simp: typedHTTPResponse_def Let_def split: sum.splits if_splits)

text \<open>
  A response outside the 2xx range whose body could be read never looks like a success: the
  error carries the status code and the body, and it is a \<open>RequestError\<close>, matched by \<open>errors.Is\<close>
  against the known server errors, exactly when the body decodes to an error with a message.
\<close>

lemma typedHTTPResponse_error_status:
  assumes "rsp_Body resp = Inr body" and "rsp_StatusCode resp < 200 \<or> 300 \<le> rsp_StatusCode resp"
  shows "\<exists>e. typedHTTPResponse de d (Inr resp) = Inl e
    \<and> As_HTTPError e = Some \<lparr>he_Action = '''', he_StatusCode = rsp_StatusCode resp, he_Body = body\<rparr>
    \<and> (errors_Is e (ErrRequest known) \<longleftrightarrow>
        (\<exists>r. decodeProtoResp de body (rsp_ContentType resp) = Inr r \<and> er_message r \<noteq> '''' \<and>
             er_type r = GetErrType (rq_Data known) \<and> er_message r = GetErrMessage (rq_Data known)))"
  using assms
  by (auto simp: typedHTTPResponse_def Let_def RequestError_Is_def Is_HTTPError_def GetErrType_def
      GetErrMessage_def split: sum.splits if_splits option.splits)

lemma typedHTTPResponse_error_status_witness:
  "\<exists>e. typedHTTPResponse
        \<lparr>dec_mime = Inr, dec_proto = (\<lambda>_. Inr \<lparr>er_type = 7, er_message = ''no'', er_class = []\<rparr>), dec_pblite = (\<lambda>_. Inl (ErrText ''x''))\<rparr>
        \<lparr>dec_mime = Inr, dec_proto = (\<lambda>_. Inr ()), dec_pblite = (\<lambda>_. Inr ())\<rparr>
        (Inr \<lparr>rsp_StatusCode = 403, rsp_ContentType = ''application/x-protobuf'', rsp_Body = Inr [1], rsp_Header = Map.empty, rsp_Cookies = []\<rparr>) = Inl e
    \<and> As_HTTPError e = Some \<lparr>he_Action = '''', he_StatusCode = 403, he_Body = [1]\<rparr>
    \<and> errors_Is e (ErrRequest \<lparr>rq_Data = Some \<lparr>er_type = 7, er_message = ''no'', er_class = []\<rparr>, rq_HTTP = None\<rparr>)"
  using typedHTTPResponse_error_status [of
      "\<lparr>rsp_StatusCode = 403, rsp_ContentType = ''application/x-protobuf'', rsp_Body = Inr [1], rsp_Header = Map.empty, rsp_Cookies = []\<rparr>" "[1]"
      "\<lparr>dec_mime = Inr, dec_proto = (\<lambda>_. Inr \<lparr>er_type = 7, er_message = ''no'', er_class = []\<rparr>), dec_pblite = (\<lambda>_. Inl (ErrText ''x''))\<rparr>"
      "\<lparr>dec_mime = Inr, dec_proto = (\<lambda>_. Inr ()), dec_pblite = (\<lambda>_. Inr ())\<rparr>"
      "\<lparr>rq_Data = Some \<lparr>er_type = 7, er_message = ''no'', er_class = []\<rparr>, rq_HTTP = None\<rparr>"]
  by (simp add: decodeProtoResp_def ContentTypeProtobuf_def GetErrType_def GetErrMessage_def)

end
