(* ===== verification/Gm_Client.thy ===== *)
theory Gm_Client
  imports Gm_Wire
begin

text \<open>
  \<^verbatim>\<open>libgm/client.go\<close> and the request half of \<^verbatim>\<open>libgm/http.go\<close>: the client state, cookies, outgoing
  HTTP requests, the configuration request and the life of the tachyon auth token.

  The state record carries the fields of the Go struct and three logs: the requests sent, the
  events triggered and the goroutines started.  The environment \<open>env\<close> is the code outside the
  repository: the server answering the \<open>n\<close>-th request, the random sources, the protobuf codecs and
  the cryptographic primitives.
\<close>

section \<open>State\<close>

text \<open>A UUID is sixteen bytes; the zero value is \<open>uuid.Nil\<close>.\<close>

type_synonym UUID = "128 word"

record JWK =
  jk_KeyType :: string
  jk_Curve :: string
  jk_D :: bytes
  jk_X :: bytes
  jk_Y :: bytes

record AuthData =
  ad_RequestCrypto :: AESCTRHelper
  ad_RefreshKey :: JWK
  ad_Browser :: "Device option"
  ad_Mobile :: "Device option"
  ad_TachyonAuthToken :: "bytes option"
  ad_TachyonExpiry :: time
  ad_TachyonTTL :: int
  ad_SessionID :: UUID
  ad_DestRegID :: UUID
  ad_PairingID :: UUID
  ad_Cookies :: "headers option"

record updateDedupItem =
  du_id :: string
  du_hash :: bytes

record Config =
  cg_ClientVersion :: string
  cg_DeviceID :: string
  cg_Email :: string

text \<open>A response channel (capacity one): the buffered message, and whether it was closed.\<close>

record chan =
  ch_buf :: "IncomingRPCMessage list"
  ch_closed :: bool

record SessionHandler =
  sh_responseWaiters :: "string \<rightharpoonup> nat"
  sh_channels :: "chan list"
  sh_ackMap :: "string list"
  sh_ackTicker :: bool
  sh_sessionID :: string

datatype goroutine =
    Go_doLongPoll bool bool bool
  | Go_onFirstConnect
  | Go_dittoPinger
  | Go_ackBrowserPresence
  | Go_HandleNoRecentUpdates
  | Go_Reconnect
  | Go_ackTicker

record Client =
  cl_sessionHandler :: SessionHandler
  cl_longPollingConn :: "nat option"
  cl_listenID :: int
  cl_skipCount :: int
  cl_disconnecting :: bool
  cl_pingInterval :: duration
  cl_alertTimeoutCount :: int
  cl_nextDataReceiveCheck :: time
  cl_recentUpdates :: "updateDedupItem list"
  cl_recentUpdatesPtr :: nat
  cl_conversationsFetchedOnce :: bool
  cl_GaiaHackyDeviceSwitcher :: int
  cl_PairCallback :: bool
  cl_AuthData :: AuthData
  cl_PushKeys :: "PushKeys option"
  cl_Config :: "Config option"
  cl_requests :: "HttpRequest list"
  cl_events :: "event list"
  cl_go :: "goroutine list"
  cl_uuids :: nat
  cl_ivs :: nat

record env =
  env_http :: "nat \<Rightarrow> HttpRequest \<Rightarrow> http_result"
  env_uuid :: "nat \<Rightarrow> string"
  env_iv :: "nat \<Rightarrow> bytes"
  env_uuid_String :: "UUID \<Rightarrow> string"
  env_uuid_Parse :: "string \<Rightarrow> UUID \<times> go_error option"
  env_proto_Marshal :: "Payload \<Rightarrow> go_error + bytes"
  env_pblite_Marshal :: "Payload \<Rightarrow> go_error + bytes"
  env_marshal_data :: "RequestData \<Rightarrow> go_error + bytes"
  env_marshal_rpc :: "OutgoingRPCData \<Rightarrow> go_error + bytes"
  env_sign :: "JWK \<Rightarrow> bytes \<Rightarrow> go_error + bytes"
  env_aes :: aes_block
  env_sha256 :: sha256_fun
  env_sha1 :: "bytes \<Rightarrow> bytes"
  env_IsNetworkError :: "go_error \<Rightarrow> bool"
  env_dec_error :: "ErrorResponse decoder"
  env_dec_rpc :: "unit decoder"
  env_dec_refresh :: "(TokenData option) decoder"
  env_dec_config :: "Config decoder"
  env_unmarshal_pair :: "bytes \<Rightarrow> go_error + RPCPairData"
  env_unmarshal_gaia :: "bytes \<Rightarrow> go_error + bytes"
  env_unmarshal_rpc :: "bytes \<Rightarrow> go_error + RPCMessageData"
  env_unmarshal_updates :: "bytes \<Rightarrow> go_error + UpdateEvents"
  env_unmarshal_other :: "ResponseType \<Rightarrow> bytes \<Rightarrow> go_error option"
  env_unmarshal_ed2 :: "bytes \<Rightarrow> go_error + AccountChangeOrSomethingEvent option"

section \<open>Authentication data\<close>

definition SetCookies :: "headers option \<Rightarrow> AuthData \<Rightarrow> AuthData" where
  "SetCookies cookies ad = ad\<lparr>ad_Cookies := cookies\<rparr>"

definition IsGoogleAccount :: "AuthData \<Rightarrow> bool" where
  "IsGoogleAccount ad \<longleftrightarrow> ad_DestRegID ad \<noteq> 0"

definition HasCookies :: "AuthData option \<Rightarrow> bool" where
  "HasCookies mad =
     (case mad of
        None \<Rightarrow> False
      | Some ad \<Rightarrow> if \<not> IsGoogleAccount ad then True else ad_Cookies ad \<noteq> None)"

definition AuthNetwork :: "AuthData \<Rightarrow> string" where
  "AuthNetwork ad = (if IsGoogleAccount ad then GoogleNetwork else '''')"

text \<open>Bytes of a string, and the hexadecimal verb.\<close>

definition string_bytes :: "string \<Rightarrow> bytes" where
  "string_bytes s = map of_char s"

definition hex_digit :: "nat \<Rightarrow> char" where
  "hex_digit n = (if n < 10 then char_of (48 + n) else char_of (87 + n))"

definition hex_bytes :: "bytes \<Rightarrow> string" where
  "hex_bytes bs = concat (map (\<lambda>b. [hex_digit (unat b div 16), hex_digit (unat b mod 16)]) bs)"

definition SAPISIDHash :: "env \<Rightarrow> time \<Rightarrow> string \<Rightarrow> string \<Rightarrow> string" where
  "SAPISIDHash env now origin sapisid =
     (let ts = now div second;
          hash = env_sha1 env (string_bytes (show_int ts @ '' '' @ sapisid @ '' '' @ origin))
      in ''SAPISIDHASH '' @ show_int ts @ ''_'' @ hex_bytes hash)"

definition AddCookiesToRequest :: "env \<Rightarrow> time \<Rightarrow> AuthData \<Rightarrow> HttpRequest \<Rightarrow> HttpRequest" where
  "AddCookiesToRequest env now ad req =
     (case ad_Cookies ad of
        None \<Rightarrow> req
      | Some cookies \<Rightarrow>
          let req1 = req\<lparr>hr_Cookies := hr_Cookies req ++ cookies\<rparr>
          in case cookies ''SAPISID'' of
               None \<Rightarrow> req1
             | Some sapisid \<Rightarrow>
                 req1\<lparr>hr_Header := (hr_Header req1)(''authorization'' \<mapsto> SAPISIDHash env now MessagesBaseURL sapisid)\<rparr>)"

definition UpdateCookiesFromResponse :: "Response \<Rightarrow> AuthData \<Rightarrow> AuthData" where
  "UpdateCookiesFromResponse resp ad =
     (case ad_Cookies ad of
        None \<Rightarrow> ad
      | Some cookies \<Rightarrow> ad\<lparr>ad_Cookies := Some (set_headers (rsp_Cookies resp) cookies)\<rparr>)"

section \<open>Requests\<close>

definition triggerEvent :: "event \<Rightarrow> Client \<Rightarrow> Client" where
  "triggerEvent e c = c\<lparr>cl_events := cl_events c @ [e]\<rparr>"

definition spawn :: "goroutine \<Rightarrow> Client \<Rightarrow> Client" where
  "spawn g c = c\<lparr>cl_go := cl_go c @ [g]\<rparr>"

definition new_uuid :: "env \<Rightarrow> Client \<Rightarrow> string \<times> Client" where
  "new_uuid env c = (env_uuid env (cl_uuids c), c\<lparr>cl_uuids := Suc (cl_uuids c)\<rparr>)"

text \<open>\<open>http.Client.Do\<close>: the request is sent and the server gives its answer.\<close>

definition do_http :: "env \<Rightarrow> HttpRequest \<Rightarrow> Client \<Rightarrow> http_result \<times> Client" where
  "do_http env req c =
     (env_http env (length (cl_requests c)) req, c\<lparr>cl_requests := cl_requests c @ [req]\<rparr>)"

definition marshal_body :: "env \<Rightarrow> string \<Rightarrow> Payload \<Rightarrow> go_error + bytes" where
  "marshal_body env contentType data =
     (if contentType = ContentTypeProtobuf then env_proto_Marshal env data
      else if contentType = ContentTypePBLite then env_pblite_Marshal env data
      else Inl (ErrText (''unknown request content type '' @ contentType)))"

definition relay_request ::
  "env \<Rightarrow> time \<Rightarrow> string \<Rightarrow> Payload \<Rightarrow> string \<Rightarrow> bytes \<Rightarrow> bool \<Rightarrow> AuthData \<Rightarrow> HttpRequest" where
  "relay_request env now url data contentType body longPoll ad =
     AddCookiesToRequest env now ad
       \<lparr>hr_Method = ''POST'', hr_URL = url, hr_Payload = data, hr_Body = body,
        hr_Header = BuildRelayHeaders contentType ''*/*'' Map.empty,
        hr_Cookies = Map.empty, hr_LongPoll = longPoll\<rparr>"

definition makeProtobufHTTPRequestContext ::
  "env \<Rightarrow> time \<Rightarrow> string \<Rightarrow> Payload \<Rightarrow> string \<Rightarrow> bool \<Rightarrow> Client \<Rightarrow> http_result \<times> Client" where
  "makeProtobufHTTPRequestContext env now url data contentType longPoll c =
     (case marshal_body env contentType data of
        Inl err \<Rightarrow> (Inl err, c)
      | Inr body \<Rightarrow>
          (case do_http env (relay_request env now url data contentType body longPoll (cl_AuthData c)) c of
             (Inl reqErr, c1) \<Rightarrow> (Inl reqErr, c1)
           | (Inr resp, c1) \<Rightarrow> (Inr resp, c1\<lparr>cl_AuthData := UpdateCookiesFromResponse resp (cl_AuthData c1)\<rparr>)))"

definition makeProtobufHTTPRequest ::
  "env \<Rightarrow> time \<Rightarrow> string \<Rightarrow> Payload \<Rightarrow> string \<Rightarrow> Client \<Rightarrow> http_result \<times> Client" where
  "makeProtobufHTTPRequest env now url data contentType c =
     makeProtobufHTTPRequestContext env now url data contentType False c"

section \<open>Construction and settings\<close>

definition newSessionHandler :: SessionHandler where
  "newSessionHandler = \<lparr>sh_responseWaiters = Map.empty, sh_channels = [], sh_ackMap = [],
     sh_ackTicker = False, sh_sessionID = ''''\<rparr>"

definition NewClient :: "AuthData \<Rightarrow> PushKeys option \<Rightarrow> Client" where
  "NewClient authData pk = \<lparr>
     cl_sessionHandler = newSessionHandler, cl_longPollingConn = None, cl_listenID = 0, cl_skipCount = 0,
     cl_disconnecting = False, cl_pingInterval = 1 * minute, cl_alertTimeoutCount = 4,
     cl_nextDataReceiveCheck = zero_time, cl_recentUpdates = replicate 8 \<lparr>du_id = '''', du_hash = replicate 32 0\<rparr>,
     cl_recentUpdatesPtr = 0, cl_conversationsFetchedOnce = False, cl_GaiaHackyDeviceSwitcher = 0,
     cl_PairCallback = False, cl_AuthData = authData, cl_PushKeys = pk, cl_Config = None,
     cl_requests = [], cl_events = [], cl_go = [], cl_uuids = 0, cl_ivs = 0\<rparr>"

definition SetPingInterval :: "duration \<Rightarrow> Client \<Rightarrow> Client" where
  "SetPingInterval interval c =
     (if interval \<ge> 1 * minute \<and> interval < 4 * hour then c\<lparr>cl_pingInterval := interval\<rparr> else c)"

text \<open>The proxy of the transport.  An address that cannot be parsed ends the process, since it is logged
  at the level \<open>Fatal\<close>.\<close>

record HttpTransport =
  ht_Proxy :: "string option"

definition SetProxy ::
  "(string \<Rightarrow> go_error + string) \<Rightarrow> string \<Rightarrow> HttpTransport \<Rightarrow> (go_error, unit) outcome \<times> HttpTransport" where
  "SetProxy url_Parse proxy t =
     (case url_Parse proxy of
        Inl err \<Rightarrow> (Panic ''exit status 1'', t)
      | Inr proxyParsed \<Rightarrow> (Return (), t\<lparr>ht_Proxy := Some proxyParsed\<rparr>))"

definition SetAlertTimeoutCount :: "int \<Rightarrow> Client \<Rightarrow> Client" where
  "SetAlertTimeoutCount count c = (if count > 0 then c\<lparr>cl_alertTimeoutCount := count\<rparr> else c)"

definition IsConnected :: "Client \<Rightarrow> bool" where
  "IsConnected c \<longleftrightarrow> cl_longPollingConn c \<noteq> None"

definition IsLoggedIn :: "Client option \<Rightarrow> bool" where
  "IsLoggedIn mc = (case mc of None \<Rightarrow> False
     | Some c \<Rightarrow> ad_Browser (cl_AuthData c) \<noteq> None \<and> HasCookies (Some (cl_AuthData c)))"

section \<open>Auth token\<close>

definition RefreshTachyonBuffer :: duration where "RefreshTachyonBuffer = 1 * hour"

text \<open>Go's integer division truncates towards zero.\<close>

definition quot :: "int \<Rightarrow> int \<Rightarrow> int" where
  "quot a b = sgn a * sgn b * (\<bar>a\<bar> div \<bar>b\<bar>)"

definition GetTachyonAuthToken :: "TokenData option \<Rightarrow> bytes option" where
  "GetTachyonAuthToken d = Option.bind d tk_TachyonAuthToken"

definition GetTTL :: "TokenData option \<Rightarrow> int" where
  "GetTTL d = (case d of None \<Rightarrow> 0 | Some t \<Rightarrow> tk_TTL t)"

definition updateTachyonAuthToken :: "time \<Rightarrow> TokenData option \<Rightarrow> Client \<Rightarrow> Client" where
  "updateTachyonAuthToken now data c =
     (let v = wrap64 (GetTTL data * microsecond);
          validForDuration = (if v = 0 then 24 * hour else v)
      in c\<lparr>cl_AuthData := (cl_AuthData c)\<lparr>
             ad_TachyonAuthToken := GetTachyonAuthToken data,
             ad_TachyonExpiry := now + validForDuration,
             ad_TachyonTTL := quot validForDuration microsecond\<rparr>\<rparr>)"

definition refresh_payload ::
  "string \<Rightarrow> int \<Rightarrow> bytes \<Rightarrow> PushKeys option \<Rightarrow> Client \<Rightarrow> Payload" where
  "refresh_payload requestID timestamp sig pushKeyOverride c =
     P_RegisterRefreshRequest \<lparr>
       rr_MessageAuth = \<lparr>am_RequestID = requestID,
         am_Network = AuthNetwork (cl_AuthData c),
         am_TachyonAuthToken = ad_TachyonAuthToken (cl_AuthData c),
         am_ConfigVersion = ConfigMessage\<rparr>,
       rr_CurrBrowserDevice = ad_Browser (cl_AuthData c),
       rr_UnixTimestamp = timestamp, rr_Signature = sig,
       rr_PushReg = (if pushKeyOverride \<noteq> None then pushKeyOverride else cl_PushKeys c),
       rr_MessageType = 2\<rparr>"

definition refreshAuthToken ::
  "env \<Rightarrow> time \<Rightarrow> PushKeys option \<Rightarrow> Client \<Rightarrow> go_error option \<times> Client" where
  "refreshAuthToken env now pushKeyOverride c =
     (if ad_Browser (cl_AuthData c) = None \<or>
         (time_sub (ad_TachyonExpiry (cl_AuthData c)) now > RefreshTachyonBuffer \<and> pushKeyOverride = None)
      then (None, c)
      else
        let requestID = fst (new_uuid env c);
            c1 = snd (new_uuid env c);
            timestamp = (now div millisecond) * 1000;
            signBytes = be_bytes 32 (env_sha256 env (string_bytes (requestID @ '':'' @ show_int timestamp)))
        in case env_sign env (ad_RefreshKey (cl_AuthData c1)) signBytes of
             Inl err \<Rightarrow> (Some err, c1)
           | Inr sig \<Rightarrow>
               let r = makeProtobufHTTPRequest env now RegisterRefreshURL
                         (refresh_payload requestID timestamp sig pushKeyOverride c1) ContentTypePBLite c1;
                   c2 = snd r
               in case typedHTTPResponse (env_dec_error env) (env_dec_refresh env) (fst r) of
                    Inl err \<Rightarrow> (Some err, c2)
                  | Inr tokenData \<Rightarrow>
                      if GetTachyonAuthToken tokenData = None
                      then (Some (ErrText ''no tachyon auth token in refresh response''), c2)
                      else (None, triggerEvent Ev_AuthTokenRefreshed (updateTachyonAuthToken now tokenData c2)))"

section \<open>Client configuration\<close>

text \<open>\<open>Config.ParsedClientVersion\<close> slices the version string without checking its length.\<close>

definition strip_zero :: "string \<Rightarrow> string" where
  "strip_zero v = (if v ! 0 = CHR ''0'' then [v ! 1] else v)"

definition ParsedClientVersion :: "Config \<Rightarrow> (go_error, ConfigVersion) outcome" where
  "ParsedClientVersion cfg =
     (let version = cg_ClientVersion cfg in
      if length version < 8 then Panic ''slice bounds out of range''
      else
        let v1 = take 4 version;
            v2 = strip_zero (take 2 (drop 4 version));
            v3 = strip_zero (take 2 (drop 6 version))
        in case parse_int 64 v1 of
             None \<Rightarrow> Error (ErrText ''invalid syntax'')
           | Some first \<Rightarrow>
               (case parse_int 64 v2 of
                  None \<Rightarrow> Error (ErrText ''invalid syntax'')
                | Some second' \<Rightarrow>
                    (case parse_int 64 v3 of
                       None \<Rightarrow> Error (ErrText ''invalid syntax'')
                     | Some third \<Rightarrow>
                         Return \<lparr>cf_Year = first, cf_Month = second', cf_Day = third, cf_V1 = 4, cf_V2 = 6\<rparr>)))"

text \<open>The wrapper of a nil error: \<open>fmt.Errorf\<close> still returns a non-nil error.\<close>

definition fetchConfig :: "env \<Rightarrow> time \<Rightarrow> Client \<Rightarrow> (go_error, Config) outcome \<times> Client" where
  "fetchConfig env now c =
     (let h = (BuildRelayHeaders '''' ''*/*'' Map.empty)
                (''sec-fetch-site'' \<mapsto> ''same-origin'', ''x-user-agent'' := None, ''origin'' := None);
          req = AddCookiesToRequest env now (cl_AuthData c)
            \<lparr>hr_Method = ''GET'', hr_URL = ConfigURL, hr_Payload = P_None, hr_Body = [],
             hr_Header = h, hr_Cookies = Map.empty, hr_LongPoll = False\<rparr>;
          (res, c1) = do_http env req c;
          c2 = (case res of Inl _ \<Rightarrow> c1
                | Inr resp \<Rightarrow> c1\<lparr>cl_AuthData := UpdateCookiesFromResponse resp (cl_AuthData c1)\<rparr>)
      in case typedHTTPResponse (env_dec_error env) (env_dec_config env) res of
           Inl err \<Rightarrow> (Error err, c2)
         | Inr config \<Rightarrow>
             (case ParsedClientVersion config of
                Panic p \<Rightarrow> (Panic p, c2)
              | Error parseErr \<Rightarrow> (Error (ErrText ''failed to parse client version: %!w(<nil>)''), c2)
              | Return version \<Rightarrow> (Return config, c2)))"

definition FetchConfig :: "env \<Rightarrow> time \<Rightarrow> Client \<Rightarrow> (go_error, unit) outcome \<times> Client" where
  "FetchConfig env now c =
     (case fetchConfig env now c of
        (Panic p, c1) \<Rightarrow> (Panic p, c1)
      | (Error err, c1) \<Rightarrow> (Error (ErrWrap ''failed to fetch config'' err), c1)
      | (Return config, c1) \<Rightarrow>
          let c2 = (if cg_DeviceID config \<noteq> ''''
                    then c1\<lparr>cl_AuthData := (cl_AuthData c1)
                           \<lparr>ad_SessionID := fst (env_uuid_Parse env (cg_DeviceID config))\<rparr>\<rparr>
                    else c1)
          in (Return (), c2\<lparr>cl_Config := Some config\<rparr>))"

section \<open>When data was last received\<close>

definition DefaultBugleDefaultCheckInterval :: duration where
  "DefaultBugleDefaultCheckInterval = 2 * hour + 55 * minute"

definition shouldDoDataReceiveCheck :: "time \<Rightarrow> Client \<Rightarrow> bool \<times> Client" where
  "shouldDoDataReceiveCheck now c =
     (if time_sub (cl_nextDataReceiveCheck c) now \<le> 0
      then (True, c\<lparr>cl_nextDataReceiveCheck := now + DefaultBugleDefaultCheckInterval\<rparr>)
      else (False, c))"

definition diffVersionFormat :: "ConfigVersion \<Rightarrow> ConfigVersion \<Rightarrow> string" where
  "diffVersionFormat cur latest =
     show_int (cf_Year cur) @ ''.'' @ show_int (cf_Month cur) @ ''.'' @ show_int (cf_Day cur) @ '' -> '' @
     show_int (cf_Year latest) @ ''.'' @ show_int (cf_Month latest) @ ''.'' @ show_int (cf_Day latest)"

definition bumpNextDataReceiveCheck :: "time \<Rightarrow> duration \<Rightarrow> Client \<Rightarrow> Client" where
  "bumpNextDataReceiveCheck now after c =
     (if time_sub (cl_nextDataReceiveCheck c) now < after
      then c\<lparr>cl_nextDataReceiveCheck := now + after\<rparr> else c)"

section \<open>Properties of the auth token\<close>

lemma UpdateCookies_sel [simp]:
  "ad_Browser (UpdateCookiesFromResponse r ad) = ad_Browser ad"
  "ad_TachyonAuthToken (UpdateCookiesFromResponse r ad) = ad_TachyonAuthToken ad"
  "ad_TachyonExpiry (UpdateCookiesFromResponse r ad) = ad_TachyonExpiry ad"
  "ad_TachyonTTL (UpdateCookiesFromResponse r ad) = ad_TachyonTTL ad"
  "ad_RequestCrypto (UpdateCookiesFromResponse r ad) = ad_RequestCrypto ad"
  "ad_Mobile (UpdateCookiesFromResponse r ad) = ad_Mobile ad"
  "ad_DestRegID (UpdateCookiesFromResponse r ad) = ad_DestRegID ad"
  by (simp_all add: UpdateCookiesFromResponse_def split: option.split)

lemma UpdateCookies_ex: "\<exists>cks. UpdateCookiesFromResponse r ad = ad\<lparr>ad_Cookies := cks\<rparr>"
proof (cases "ad_Cookies ad")
  case None
  then have "UpdateCookiesFromResponse r ad = ad\<lparr>ad_Cookies := ad_Cookies ad\<rparr>"
    by (simp add: UpdateCookiesFromResponse_def)
  then show ?thesis by blast
qed (auto simp: UpdateCookiesFromResponse_def)

text \<open>What a request can change: the request log and the cookies.\<close>

definition net_effect :: "Client \<Rightarrow> Client \<Rightarrow> bool" where
  "net_effect c c' \<longleftrightarrow> (\<exists>rs cks. c' = c\<lparr>cl_requests := cl_requests c @ rs,
     cl_AuthData := (cl_AuthData c)\<lparr>ad_Cookies := cks\<rparr>\<rparr>)"

lemma net_effect_refl: "net_effect c c"
  unfolding net_effect_def by (rule exI [of _ "[]"], rule exI [of _ "ad_Cookies (cl_AuthData c)"]) simp

lemma net_effectI:
  "c' = c\<lparr>cl_requests := cl_requests c @ rs\<rparr> \<Longrightarrow> net_effect c c'"
  "c' = c\<lparr>cl_requests := cl_requests c @ rs, cl_AuthData := UpdateCookiesFromResponse resp (cl_AuthData c)\<rparr>
     \<Longrightarrow> net_effect c c'"
proof -
  show "net_effect c c'" if "c' = c\<lparr>cl_requests := cl_requests c @ rs\<rparr>"
    unfolding net_effect_def using that
    by (intro exI [of _ rs] exI [of _ "ad_Cookies (cl_AuthData c)"]) simp
  show "net_effect c c'"
    if "c' = c\<lparr>cl_requests := cl_requests c @ rs, cl_AuthData := UpdateCookiesFromResponse resp (cl_AuthData c)\<rparr>"
    using UpdateCookies_ex [of resp "cl_AuthData c"] that unfolding net_effect_def by force
qed

lemma net_effect_request:
  "net_effect c (snd (makeProtobufHTTPRequestContext env now url data ct lp c))"
  by (simp add: makeProtobufHTTPRequestContext_def do_http_def net_effect_refl split: sum.split)
     (blast intro: net_effectI)

lemmas net_effect_request' = net_effect_request [where lp = False, folded makeProtobufHTTPRequest_def]

text \<open>
  A failed refresh never touches the token: the token, its expiry and its lifetime are as they
  were, the events triggered are unchanged, and only the cookies and the log of requests may differ.
\<close>

lemma refreshAuthToken_failure_keeps_token:
  assumes "refreshAuthToken env now ov c = (Some e, c')"
  shows "ad_TachyonAuthToken (cl_AuthData c') = ad_TachyonAuthToken (cl_AuthData c)
    \<and> ad_TachyonExpiry (cl_AuthData c') = ad_TachyonExpiry (cl_AuthData c)
    \<and> ad_TachyonTTL (cl_AuthData c') = ad_TachyonTTL (cl_AuthData c)
    \<and> cl_events c' = cl_events c"
proof -
  define c1 where "c1 = snd (new_uuid env c)"
  have "c' = c1 \<or> (\<exists>url p ct. c' = snd (makeProtobufHTTPRequest env now url p ct c1))"
    using assms
    unfolding refreshAuthToken_def Let_def c1_def [symmetric]
    by (simp split: if_splits sum.splits) blast+
  then have "net_effect c1 c'"
    using net_effect_refl net_effect_request' by metis
  then show ?thesis by (auto simp: net_effect_def c1_def new_uuid_def)
qed

lemma quot_mult: "0 < b \<Longrightarrow> 0 < a \<Longrightarrow> quot (a * b) b = a"
  by (simp add: quot_def)

lemma refreshAuthToken_idle_iff:
  "refreshAuthToken env now ov c = (None, c) \<longleftrightarrow>
     ad_Browser (cl_AuthData c) = None \<or>
     (time_sub (ad_TachyonExpiry (cl_AuthData c)) now > RefreshTachyonBuffer \<and> ov = None)"
  (is "?L \<longleftrightarrow> ?idle")
proof -
  have uuids: "cl_uuids (snd (makeProtobufHTTPRequest env now url p ct x)) = cl_uuids x" for url p ct x
    using net_effect_request' [of x env now url p ct] by (auto simp: net_effect_def)
  have "cl_uuids (snd (refreshAuthToken env now ov c)) = Suc (cl_uuids c)" if "\<not> ?idle"
    using that uuids
    by (simp add: refreshAuthToken_def new_uuid_def Let_def triggerEvent_def updateTachyonAuthToken_def
        split: sum.split)
  then show ?thesis by (auto simp: refreshAuthToken_def)
qed


text \<open>A concrete client for the closed examples.\<close>

definition sample_auth :: AuthData where
  "sample_auth = \<lparr>ad_RequestCrypto = \<lparr>AESKey = replicate 32 0, HMACKey = replicate 32 0\<rparr>,
     ad_RefreshKey = \<lparr>jk_KeyType = ''EC'', jk_Curve = ''P-256'', jk_D = [], jk_X = [], jk_Y = []\<rparr>,
     ad_Browser = Some \<lparr>dv_UserID = 1, dv_SourceID = ''b'', dv_Network = ''Bugle''\<rparr>,
     ad_Mobile = None, ad_TachyonAuthToken = Some [7], ad_TachyonExpiry = 0, ad_TachyonTTL = 0,
     ad_SessionID = 0, ad_DestRegID = 0, ad_PairingID = 0, ad_Cookies = None\<rparr>"

definition sample_env :: env where
  "sample_env = \<lparr>env_http = (\<lambda>_ _. Inl (ErrNetwork ''down'')), env_uuid = show_nat, env_iv = (\<lambda>_. replicate 16 0),
     env_uuid_String = (\<lambda>_. ''u''), env_uuid_Parse = (\<lambda>_. (0, None)),
     env_proto_Marshal = (\<lambda>_. Inr []), env_pblite_Marshal = (\<lambda>_. Inr []),
     env_marshal_data = (\<lambda>_. Inr []), env_marshal_rpc = (\<lambda>_. Inr []), env_sign = (\<lambda>_ _. Inr []),
     env_aes = (\<lambda>_ b. b), env_sha256 = (\<lambda>_. 0), env_sha1 = (\<lambda>_. []),
     env_IsNetworkError = (\<lambda>e. case e of ErrNetwork _ \<Rightarrow> True | _ \<Rightarrow> False),
     env_dec_error = \<lparr>dec_mime = Inr, dec_proto = (\<lambda>_. Inl (ErrText ''x'')), dec_pblite = (\<lambda>_. Inl (ErrText ''x''))\<rparr>,
     env_dec_rpc = \<lparr>dec_mime = Inr, dec_proto = (\<lambda>_. Inr ()), dec_pblite = (\<lambda>_. Inr ())\<rparr>,
     env_dec_refresh = \<lparr>dec_mime = Inr, dec_proto = (\<lambda>_. Inr None), dec_pblite = (\<lambda>_. Inr None)\<rparr>,
     env_dec_config = \<lparr>dec_mime = Inr, dec_proto = (\<lambda>_. Inl (ErrText ''x'')), dec_pblite = (\<lambda>_. Inl (ErrText ''x''))\<rparr>,
     env_unmarshal_pair = (\<lambda>_. Inr RPCPairData_None), env_unmarshal_gaia = Inr,
     env_unmarshal_rpc = (\<lambda>_. Inl (ErrText ''x'')), env_unmarshal_updates = (\<lambda>_. Inr UpdateEvents_None),
     env_unmarshal_other = (\<lambda>_ _. None), env_unmarshal_ed2 = (\<lambda>_. Inr None)\<rparr>"

lemma sample_refresh_fails:
  "refreshAuthToken sample_env 0 None (NewClient sample_auth None) =
     (Some (ErrNetwork ''down''), snd (refreshAuthToken sample_env 0 None (NewClient sample_auth None)))"
  by (simp add: refreshAuthToken_def sample_env_def sample_auth_def NewClient_def new_uuid_def Let_def
      time_sub_def RefreshTachyonBuffer_def go_simps makeProtobufHTTPRequest_def marshal_body_def
      makeProtobufHTTPRequestContext_def do_http_def typedHTTPResponse_def ContentTypePBLite_def
      ContentTypeProtobuf_def)

lemma refreshAuthToken_failure_keeps_token_witness:
  "ad_TachyonAuthToken (cl_AuthData (snd (refreshAuthToken sample_env 0 None (NewClient sample_auth None)))) = Some [7]"
  using refreshAuthToken_failure_keeps_token [OF sample_refresh_fails]
  by (simp add: NewClient_def sample_auth_def)


end
