(* ===== verification/Gm_Session.thy ===== *)
theory Gm_Session
  imports Gm_Client
begin

text \<open>
  \<^verbatim>\<open>libgm/session_handler.go\<close>: building and sending RPC messages, matching responses to the callers
  that wait for them, and acknowledging what was received.  \<^verbatim>\<open>libgm/methods.go\<close>, the catalogue of calls
  built on it, follows at the end.

  A call that waits for its response is interleaved with the goroutine that reads the long poll; what
  the other goroutines do while a call waits is an argument (\<open>wait\<close>).
\<close>

section \<open>Building messages\<close>

record SendMessageParams =
  pr_Action :: ActionType
  pr_Data :: "RequestData option"
  pr_RequestID :: string
  pr_OmitTTL :: bool
  pr_CustomTTL :: int
  pr_DontEncrypt :: bool
  pr_MessageType :: MessageType

definition default_params :: SendMessageParams where
  "default_params = \<lparr>pr_Action = ActionType_UNSPECIFIED, pr_Data = None, pr_RequestID = '''',
     pr_OmitTTL = False, pr_CustomTTL = 0, pr_DontEncrypt = False,
     pr_MessageType = MessageType_UNKNOWN_MESSAGE_TYPE\<rparr>"

definition crypto_err :: "crypto_error \<Rightarrow> go_error" where
  "crypto_err e = ErrText ''crypto''"

definition upd_session :: "(SessionHandler \<Rightarrow> SessionHandler) \<Rightarrow> Client \<Rightarrow> Client" where
  "upd_session f c = c\<lparr>cl_sessionHandler := f (cl_sessionHandler c)\<rparr>"

definition ResetSessionID :: "env \<Rightarrow> Client \<Rightarrow> Client" where
  "ResetSessionID env c =
     upd_session (\<lambda>s. s\<lparr>sh_sessionID := fst (new_uuid env c)\<rparr>) (snd (new_uuid env c))"

text \<open>The payload of a request: absent, in the clear, or encrypted with the session keys.  The result
  is the pair of the unencrypted and the encrypted field.\<close>

definition build_payload ::
  "env \<Rightarrow> SendMessageParams \<Rightarrow> Client \<Rightarrow> (go_error + (bytes option \<times> bytes option)) \<times> Client" where
  "build_payload env params c =
     (case pr_Data params of
        None \<Rightarrow> (Inr (None, None), c)
      | Some d \<Rightarrow>
          (case env_marshal_data env d of
             Inl err \<Rightarrow> (Inl err, c)
           | Inr serializedData \<Rightarrow>
               if pr_DontEncrypt params then (Inr (Some serializedData, None), c)
               else
                 (case Encrypt (env_aes env) (env_sha256 env) (ad_RequestCrypto (cl_AuthData c))
                         (env_iv env (cl_ivs c)) serializedData of
                    Inl err \<Rightarrow> (Inl (crypto_err err), c\<lparr>cl_ivs := Suc (cl_ivs c)\<rparr>)
                  | Inr encryptedData \<Rightarrow> (Inr (None, Some encryptedData), c\<lparr>cl_ivs := Suc (cl_ivs c)\<rparr>))))"

definition message_TTL :: "SendMessageParams \<Rightarrow> AuthData \<Rightarrow> int" where
  "message_TTL params ad =
     (if pr_CustomTTL params \<noteq> 0 then pr_CustomTTL params
      else if \<not> pr_OmitTTL params then ad_TachyonTTL ad else 0)"

definition request_id :: "env \<Rightarrow> SendMessageParams \<Rightarrow> Client \<Rightarrow> string \<times> Client" where
  "request_id env params c =
     (if pr_RequestID params = '''' then new_uuid env c else (pr_RequestID params, c))"

definition rpc_data :: "string \<Rightarrow> SendMessageParams \<Rightarrow> bytes option \<times> bytes option \<Rightarrow> string \<Rightarrow> OutgoingRPCData" where
  "rpc_data requestID params flds sessionID =
     \<lparr>od_RequestID = requestID, od_Action = pr_Action params,
      od_UnencryptedProtoData = fst flds, od_EncryptedProtoData = snd flds, od_SessionID = sessionID\<rparr>"

definition rpc_envelope :: "env \<Rightarrow> string \<Rightarrow> SendMessageParams \<Rightarrow> bytes \<Rightarrow> AuthData \<Rightarrow> OutgoingRPCMessage" where
  "rpc_envelope env requestID params messageData ad =
     \<lparr>om_Mobile = ad_Mobile ad, om_DataRequestID = requestID, om_BugleRoute = BugleRoute_DataEvent,
      om_MessageData = messageData,
      om_MessageType = (if pr_MessageType params = MessageType_UNKNOWN_MESSAGE_TYPE
                        then MessageType_BUGLE_MESSAGE else pr_MessageType params),
      om_AuthRequestID = requestID, om_TachyonAuthToken = ad_TachyonAuthToken ad,
      om_ConfigVersion = ConfigMessage, om_TTL = message_TTL params ad,
      om_DestRegistrationIDs =
        (if ad_DestRegID ad \<noteq> 0 then [env_uuid_String env (ad_DestRegID ad)] else [])\<rparr>"

definition buildMessage ::
  "env \<Rightarrow> SendMessageParams \<Rightarrow> Client \<Rightarrow> (go_error + (string \<times> OutgoingRPCMessage)) \<times> Client" where
  "buildMessage env params c =
     (let sessionID = sh_sessionID (cl_sessionHandler c);
          requestID = fst (request_id env params c);
          c1 = snd (request_id env params c);
          p = build_payload env params c1;
          c2 = snd p
      in case fst p of
           Inl err \<Rightarrow> (Inl err, c2)
         | Inr flds \<Rightarrow>
             (case env_marshal_rpc env (rpc_data requestID params flds sessionID) of
                Inl err \<Rightarrow> (Inl err, c2)
              | Inr messageData \<Rightarrow>
                  (Inr (requestID, rpc_envelope env requestID params messageData (cl_AuthData c2)), c2)))"

section \<open>Sending\<close>

definition send_url :: "Client \<Rightarrow> string" where
  "send_url c = (if HasCookies (Some (cl_AuthData c)) then SendMessageURLGoogle else SendMessageURL)"

text \<open>Posting an RPC envelope: \<open>typedHTTPResponse\<close> of \<open>makeProtobufHTTPRequest\<close>.\<close>

definition post_rpc :: "env \<Rightarrow> time \<Rightarrow> string \<Rightarrow> Payload \<Rightarrow> Client \<Rightarrow> go_error option \<times> Client" where
  "post_rpc env now url payload c =
     (let r = makeProtobufHTTPRequest env now url payload ContentTypePBLite c
      in (case typedHTTPResponse (env_dec_error env) (env_dec_rpc env) (fst r) of
            Inl err \<Rightarrow> Some err | Inr _ \<Rightarrow> None, snd r))"

definition sendMessageNoResponse ::
  "env \<Rightarrow> time \<Rightarrow> SendMessageParams \<Rightarrow> Client \<Rightarrow> go_error option \<times> Client" where
  "sendMessageNoResponse env now params c =
     (let b = buildMessage env params c; c1 = snd b
      in case fst b of
           Inl err \<Rightarrow> (Some err, c1)
         | Inr (requestID, payload) \<Rightarrow> post_rpc env now (send_url c1) (P_OutgoingRPCMessage payload) c1)"

definition waitResponse :: "string \<Rightarrow> SessionHandler \<Rightarrow> nat \<times> SessionHandler" where
  "waitResponse requestID s =
     (length (sh_channels s),
      s\<lparr>sh_channels := sh_channels s @ [\<lparr>ch_buf = [], ch_closed = False\<rparr>],
        sh_responseWaiters := (sh_responseWaiters s)(requestID \<mapsto> length (sh_channels s))\<rparr>)"

text \<open>\<open>close(ch)\<close> panics on a closed channel.\<close>

definition cancelResponse :: "string \<Rightarrow> nat \<Rightarrow> SessionHandler \<Rightarrow> (go_error, SessionHandler) outcome" where
  "cancelResponse requestID ch s =
     (if ch_closed (sh_channels s ! ch) then Panic ''close of closed channel''
      else Return (s\<lparr>sh_channels := (sh_channels s)[ch := (sh_channels s ! ch)\<lparr>ch_closed := True\<rparr>],
                     sh_responseWaiters := (sh_responseWaiters s)(requestID := None)\<rparr>))"

definition sendAsyncMessage ::
  "env \<Rightarrow> time \<Rightarrow> SendMessageParams \<Rightarrow> Client \<Rightarrow> (go_error, nat) outcome \<times> Client" where
  "sendAsyncMessage env now params c =
     (let b = buildMessage env params c; c1 = snd b
      in case fst b of
           Inl err \<Rightarrow> (Error err, c1)
         | Inr (requestID, payload) \<Rightarrow>
             let ch = fst (waitResponse requestID (cl_sessionHandler c1));
                 c2 = upd_session (\<lambda>s. snd (waitResponse requestID s)) c1;
                 r = post_rpc env now (send_url c2) (P_OutgoingRPCMessage payload) c2;
                 c3 = snd r
             in case fst r of
                  None \<Rightarrow> (Return ch, c3)
                | Some err \<Rightarrow>
                    (case cancelResponse requestID ch (cl_sessionHandler c3) of
                       Return s \<Rightarrow> (Error err, c3\<lparr>cl_sessionHandler := s\<rparr>)
                     | Error e \<Rightarrow> (Error e, c3)
                     | Panic p \<Rightarrow> (Panic p, c3)))"

section \<open>Receiving\<close>

text \<open>A send on a channel of capacity one: it panics when the channel is closed, and blocks (here:
  the error \<open>''blocked''\<close>) when the buffer is full.\<close>

definition chan_send :: "nat \<Rightarrow> IncomingRPCMessage \<Rightarrow> SessionHandler \<Rightarrow> (go_error, SessionHandler) outcome" where
  "chan_send ch msg s =
     (if ch_closed (sh_channels s ! ch) then Panic ''send on closed channel''
      else if ch_buf (sh_channels s ! ch) \<noteq> [] then Error (ErrText ''blocked'')
      else Return (s\<lparr>sh_channels := (sh_channels s)[ch := (sh_channels s ! ch)\<lparr>ch_buf := [msg]\<rparr>]\<rparr>))"

text \<open>The filter at the top of \<open>receiveResponse\<close>.\<close>

definition is_weird_message :: "AuthData \<Rightarrow> RPCMessageData \<Rightarrow> bool" where
  "is_weird_message ad m \<longleftrightarrow> HasCookies (Some ad)
     \<and> md_Action m \<noteq> ActionType_CREATE_GAIA_PAIRING_CLIENT_INIT
     \<and> md_Action m \<noteq> ActionType_CREATE_GAIA_PAIRING_CLIENT_FINISHED
     \<and> md_UnencryptedData m \<noteq> None \<and> md_EncryptedData m = None"

text \<open>The two critical sections of \<open>receiveResponse\<close>: taking the waiter out of the map (under the
  lock) and the send on its channel (after the lock is released).\<close>

definition take_waiter :: "string \<Rightarrow> SessionHandler \<Rightarrow> nat option \<times> SessionHandler" where
  "take_waiter requestID s =
     (case sh_responseWaiters s requestID of
        None \<Rightarrow> (None, s)
      | Some ch \<Rightarrow> (Some ch, s\<lparr>sh_responseWaiters := (sh_responseWaiters s)(requestID := None)\<rparr>))"

definition receiveResponse ::
  "AuthData \<Rightarrow> IncomingRPCMessage \<Rightarrow> SessionHandler \<Rightarrow> (go_error, bool \<times> SessionHandler) outcome" where
  "receiveResponse ad msg s =
     (case im_Message msg of
        None \<Rightarrow> Return (False, s)
      | Some m \<Rightarrow>
          if is_weird_message ad m then Return (False, s)
          else
            (case take_waiter (md_SessionID m) s of
               (None, _) \<Rightarrow> Return (False, s)
             | (Some ch, s1) \<Rightarrow> bind_outcome (chan_send ch msg s1) (\<lambda>s2. Return (True, s2))))"

definition typedResponse :: "ResponseType \<Rightarrow> go_error + IncomingRPCMessage \<Rightarrow> go_error + DecryptedMessage" where
  "typedResponse t r =
     (case r of
        Inl err \<Rightarrow> Inl err
      | Inr resp \<Rightarrow>
          (case im_DecryptedMessage resp of
             None \<Rightarrow> Inl (ErrText ''unexpected response type'')
           | Some m \<Rightarrow> if message_type m = t then Inr m else Inl (ErrText ''unexpected response type'')))"

text \<open>What the other goroutines do while a call waits: in the first five seconds, and afterwards;
  and whether the pinger is ready to be woken up.\<close>

record wait =
  wt_first :: "Client \<Rightarrow> Client"
  wt_rest :: "Client \<Rightarrow> Client"
  wt_pinger :: bool

text \<open>Receiving from the channel of the call: the buffered message is taken out.\<close>

definition chan_recv :: "nat \<Rightarrow> Client \<Rightarrow> (IncomingRPCMessage \<times> Client) option" where
  "chan_recv ch c =
     (case ch_buf (sh_channels (cl_sessionHandler c) ! ch) of
        [] \<Rightarrow> None
      | m # rest \<Rightarrow> Some (m, upd_session (\<lambda>s. s\<lparr>sh_channels := (sh_channels s)[ch :=
                        (sh_channels s ! ch)\<lparr>ch_buf := rest\<rparr>]\<rparr>) c))"

text \<open>\<open>sendMessageWithParams\<close>: \<open>None\<close> when the response never arrives (there is no hard timeout).  The
  boolean tells whether the pinger was short-circuited after five seconds.\<close>

definition sendMessageWithParams ::
  "env \<Rightarrow> time \<Rightarrow> wait \<Rightarrow> SendMessageParams \<Rightarrow> Client \<Rightarrow>
     ((go_error, IncomingRPCMessage) outcome \<times> bool \<times> Client) option" where
  "sendMessageWithParams env now w params c =
     (let a = sendAsyncMessage env now params c; c1 = snd a
      in case fst a of
           Error err \<Rightarrow> Some (Error err, False, c1)
         | Panic p \<Rightarrow> Some (Panic p, False, c1)
         | Return ch \<Rightarrow>
             let c2 = wt_first w c1
             in case chan_recv ch c2 of
                  Some (resp, c3) \<Rightarrow> Some (Return resp, False, c3)
                | None \<Rightarrow>
                    (case chan_recv ch (wt_rest w c2) of
                       Some (resp, c3) \<Rightarrow> Some (Return resp, wt_pinger w, c3)
                     | None \<Rightarrow> None))"

definition sendMessage ::
  "env \<Rightarrow> time \<Rightarrow> wait \<Rightarrow> ActionType \<Rightarrow> RequestData option \<Rightarrow> Client \<Rightarrow>
     ((go_error, IncomingRPCMessage) outcome \<times> bool \<times> Client) option" where
  "sendMessage env now w actionType data c =
     sendMessageWithParams env now w (default_params\<lparr>pr_Action := actionType, pr_Data := data\<rparr>) c"

section \<open>Acknowledgements\<close>

definition queueMessageAck :: "string \<Rightarrow> SessionHandler \<Rightarrow> SessionHandler" where
  "queueMessageAck messageID s =
     (if messageID \<notin> set (sh_ackMap s) then s\<lparr>sh_ackMap := sh_ackMap s @ [messageID]\<rparr> else s)"

definition take_acks :: "SessionHandler \<Rightarrow> string list \<times> SessionHandler" where
  "take_acks s = (sh_ackMap s, s\<lparr>sh_ackMap := []\<rparr>)"

definition startAckInterval :: "Client \<Rightarrow> Client" where
  "startAckInterval c =
     (if sh_ackTicker (cl_sessionHandler c) then c
      else spawn Go_ackTicker (upd_session (\<lambda>s. s\<lparr>sh_ackTicker := True\<rparr>) c))"

definition ack_payload :: "string \<Rightarrow> string list \<Rightarrow> AuthData \<Rightarrow> Payload" where
  "ack_payload requestID dataToAck ad = P_AckMessageRequest \<lparr>
     ak_AuthData = \<lparr>am_RequestID = requestID, am_Network = AuthNetwork ad,
       am_TachyonAuthToken = ad_TachyonAuthToken ad, am_ConfigVersion = ConfigMessage\<rparr>,
     ak_Acks = map (\<lambda>reqID. (reqID, ad_Browser ad)) dataToAck\<rparr>"

definition sendAckRequest :: "env \<Rightarrow> time \<Rightarrow> Client \<Rightarrow> Client" where
  "sendAckRequest env now c =
     (let dataToAck = fst (take_acks (cl_sessionHandler c));
          c1 = upd_session (\<lambda>s. snd (take_acks s)) c
      in if dataToAck = [] then c1
         else
           let requestID = fst (new_uuid env c1);
               c2 = snd (new_uuid env c1);
               url = (if HasCookies (Some (cl_AuthData c2)) then AckMessagesURLGoogle else AckMessagesURL)
           in snd (post_rpc env now url (ack_payload requestID dataToAck (cl_AuthData c2)) c2))"

section \<open>The acknowledgement queue\<close>

text \<open>The contract between the event handler, which queues identifiers, and the sender, which drains
  the queue: enqueueing keeps the order of first arrival without duplicates, and draining empties.\<close>

locale dedup_queue =
  fixes enq :: "'a \<Rightarrow> 'q \<Rightarrow> 'q"
    and drain :: "'q \<Rightarrow> 'a list \<times> 'q"
    and items :: "'q \<Rightarrow> 'a list"
  assumes items_enq: "items (enq x q) = (if x \<in> set (items q) then items q else items q @ [x])"
    and drain_items: "fst (drain q) = items q"
    and drain_empties: "items (snd (drain q)) = []"
begin

lemma items_fold_enq:
  "items (fold enq xs q) = items q @ filter (\<lambda>x. x \<notin> set (items q)) (rev (remdups (rev xs)))"
proof (induction xs rule: rev_induct)
  case (snoc x xs)
  then show ?case by (auto simp: items_enq filter_empty_conv)
qed simp

lemma drain_fold_enq:
  "items q = [] \<Longrightarrow> fst (drain (fold enq xs q)) = rev (remdups (rev xs))"
  by (simp add: drain_items items_fold_enq)

lemma drained_once:
  "items q = [] \<Longrightarrow>
   distinct (fst (drain (fold enq xs q))) \<and> set (fst (drain (fold enq xs q))) = set xs"
  by (simp add: drain_fold_enq)

lemma drain_twice: "fst (drain (snd (drain q))) = []"
  by (simp add: drain_items drain_empties)

end

interpretation ackq: dedup_queue queueMessageAck take_acks sh_ackMap
  by unfold_locales (simp_all add: queueMessageAck_def take_acks_def)

lemma relay_request_payload [simp]: "hr_Payload (relay_request env now url d ct b lp ad) = d"
  by (simp add: relay_request_def AddCookiesToRequest_def Let_def split: option.split)

lemma relay_request_url [simp]: "hr_URL (relay_request env now url d ct b lp ad) = url"
  by (simp add: relay_request_def AddCookiesToRequest_def Let_def split: option.split)

text \<open>A posted envelope is sent exactly once when it can be marshalled; nothing else of the client
  changes but the cookies.\<close>

lemma post_rpc_sends:
  assumes "env_pblite_Marshal env p = Inr b"
  shows "\<exists>req. hr_Payload req = p \<and> hr_URL req = url
    \<and> cl_requests (snd (post_rpc env now url p c)) = cl_requests c @ [req]
    \<and> cl_sessionHandler (snd (post_rpc env now url p c)) = cl_sessionHandler c"
proof -
  let ?req = "relay_request env now url p ContentTypePBLite b False (cl_AuthData c)"
  have "cl_requests (snd (post_rpc env now url p c)) = cl_requests c @ [?req]
      \<and> cl_sessionHandler (snd (post_rpc env now url p c)) = cl_sessionHandler c"
    using assms
    by (simp add: post_rpc_def Let_def makeProtobufHTTPRequest_def makeProtobufHTTPRequestContext_def
        marshal_body_def ContentTypePBLite_def ContentTypeProtobuf_def do_http_def split: sum.split)
  then show ?thesis by (intro exI [of _ ?req]) simp
qed

lemma net_effect_post_rpc: "net_effect c (snd (post_rpc env now url p c))"
  by (simp add: post_rpc_def Let_def net_effect_request')

lemma post_rpc_session [simp]: "cl_sessionHandler (snd (post_rpc env now url p c)) = cl_sessionHandler c"
  using net_effect_post_rpc [of c env now url p] by (auto simp: net_effect_def)

lemma post_rpc_events [simp]: "cl_events (snd (post_rpc env now url p c)) = cl_events c"
  using net_effect_post_rpc [of c env now url p] by (auto simp: net_effect_def)

text \<open>
  (C5) Every received message is acknowledged exactly once: whatever identifiers were queued since the
  queue was empty, the next flush sends one request naming each of them once, in the order of their
  first arrival, and empties the queue, so the flush after it sends nothing.
\<close>

theorem acks_sent_exactly_once:
  fixes now later :: time
  assumes "sh_ackMap (cl_sessionHandler c) = []" and "ids \<noteq> []" and "\<forall>p. \<exists>b. env_pblite_Marshal env p = Inr b"
  defines "c1 \<equiv> sendAckRequest env now (upd_session (fold queueMessageAck ids) c)"
  shows "\<exists>req ack. cl_requests c1 = cl_requests c @ [req] \<and> hr_Payload req = P_AckMessageRequest ack
      \<and> map fst (ak_Acks ack) = rev (remdups (rev ids))
      \<and> distinct (map fst (ak_Acks ack)) \<and> set (map fst (ak_Acks ack)) = set ids
      \<and> sh_ackMap (cl_sessionHandler c1) = []
      \<and> cl_requests (sendAckRequest env later c1) = cl_requests c1"
proof -
  let ?q = "fold queueMessageAck ids (cl_sessionHandler c)"
  let ?c1 = "upd_session (\<lambda>s. snd (take_acks s)) (upd_session (fold queueMessageAck ids) c)"
  let ?c2 = "snd (new_uuid env ?c1)"
  let ?p = "ack_payload (fst (new_uuid env ?c1)) (rev (remdups (rev ids))) (cl_AuthData ?c2)"
  let ?url = "if HasCookies (Some (cl_AuthData ?c2)) then AckMessagesURLGoogle else AckMessagesURL"
  have q: "fst (take_acks ?q) = rev (remdups (rev ids))"
    using assms(1) by (rule ackq.drain_fold_enq)
  have c1: "c1 = snd (post_rpc env now ?url ?p ?c2)"
    using q assms(2) by (simp add: c1_def sendAckRequest_def Let_def upd_session_def)
  obtain b where "env_pblite_Marshal env ?p = Inr b" using assms(3) by blast
  from post_rpc_sends [OF this, of ?url now ?c2] c1
  obtain req where req: "hr_Payload req = ?p" "cl_requests c1 = cl_requests c @ [req]"
      "cl_sessionHandler c1 = cl_sessionHandler ?c2"
    by (auto simp: new_uuid_def upd_session_def)
  have empty: "sh_ackMap (cl_sessionHandler c1) = []"
    using req(3) by (simp add: new_uuid_def upd_session_def ackq.drain_empties)
  then have idle: "cl_requests (sendAckRequest env later c1) = cl_requests c1"
    by (simp add: sendAckRequest_def take_acks_def upd_session_def)
  obtain ack where ack: "hr_Payload req = P_AckMessageRequest ack"
      "map fst (ak_Acks ack) = rev (remdups (rev ids))"
    using req(1) by (simp add: ack_payload_def comp_def)
  have "distinct (map fst (ak_Acks ack))" "set (map fst (ak_Acks ack)) = set ids"
    unfolding ack(2) by simp_all
  with req(2) ack empty idle show ?thesis by blast
qed

lemma sample_env_pblite: "\<forall>p. \<exists>b. env_pblite_Marshal sample_env p = Inr b"
  by (simp add: sample_env_def)

theorem acks_sent_exactly_once_witness:
  "\<exists>req ack. cl_requests (sendAckRequest sample_env 0 (upd_session (fold queueMessageAck [''a'', ''b'', ''a'']) (NewClient sample_auth None))) = [req]
     \<and> hr_Payload req = P_AckMessageRequest ack \<and> map fst (ak_Acks ack) = [''a'', ''b'']"
proof -
  have e: "sh_ackMap (cl_sessionHandler (NewClient sample_auth None)) = []"
    "cl_requests (NewClient sample_auth None) = []"
    by (simp_all add: NewClient_def newSessionHandler_def)
  define ids where "ids = [''a'', ''b'', ''a'']"
  have r: "rev (remdups (rev ids)) = [''a'', ''b'']" "ids \<noteq> []" by (simp_all add: ids_def)
  show ?thesis
    using acks_sent_exactly_once [OF e(1) r(2) sample_env_pblite, of 0 0]
    unfolding ids_def [symmetric] r(1) e(2) append_Nil by (elim exE conjE, intro exI conjI)
qed

section \<open>Waiting callers\<close>

text \<open>The invariant of the table of waiters: each registered channel exists, is open and empty, and
  no channel is registered twice.\<close>

definition waiters_ok :: "SessionHandler \<Rightarrow> bool" where
  "waiters_ok s \<longleftrightarrow>
     (\<forall>r ch. sh_responseWaiters s r = Some ch \<longrightarrow>
        ch < length (sh_channels s) \<and> sh_channels s ! ch = \<lparr>ch_buf = [], ch_closed = False\<rparr>) \<and>
     (\<forall>r r' ch. sh_responseWaiters s r = Some ch \<longrightarrow> sh_responseWaiters s r' = Some ch \<longrightarrow> r = r')"

lemma waiters_okD:
  "waiters_ok s \<Longrightarrow> sh_responseWaiters s r = Some ch \<Longrightarrow>
   ch < length (sh_channels s) \<and> sh_channels s ! ch = \<lparr>ch_buf = [], ch_closed = False\<rparr>"
  by (simp add: waiters_ok_def)

lemma waiters_ok_inj:
  "waiters_ok s \<Longrightarrow> sh_responseWaiters s r = Some ch \<Longrightarrow> sh_responseWaiters s r' = Some ch \<Longrightarrow> r = r'"
  unfolding waiters_ok_def by blast

lemma waiters_ok_new [simp]: "waiters_ok newSessionHandler"
  by (simp add: waiters_ok_def newSessionHandler_def)

lemma waiters_ok_waitResponse: "waiters_ok s \<Longrightarrow> waiters_ok (snd (waitResponse rid s))"
  by (auto simp: waiters_ok_def waitResponse_def nth_append intro: less_SucI)

lemma waiters_ok_queueMessageAck: "waiters_ok s \<Longrightarrow> waiters_ok (queueMessageAck m s)"
  by (simp add: waiters_ok_def queueMessageAck_def)

text \<open>An update of a channel that nobody waits on, with the other entries of the table unchanged or
  removed, keeps the invariant.\<close>

lemma waiters_ok_update:
  assumes "waiters_ok s" "\<And>r. sh_responseWaiters s' r \<noteq> Some ch"
    and "sh_channels s' = (sh_channels s)[ch := x]"
    and "\<And>r d. sh_responseWaiters s' r = Some d \<Longrightarrow> sh_responseWaiters s r = Some d"
  shows "waiters_ok s'"
  unfolding waiters_ok_def
proof (intro conjI allI impI)
  fix r d assume d: "sh_responseWaiters s' r = Some d"
  with assms(2) have "d \<noteq> ch" by auto
  with waiters_okD [OF assms(1) assms(4) [OF d]] assms(3)
  show "d < length (sh_channels s')" "sh_channels s' ! d = \<lparr>ch_buf = [], ch_closed = False\<rparr>" by auto
next
  fix r r' d assume "sh_responseWaiters s' r = Some d" "sh_responseWaiters s' r' = Some d"
  then show "r = r'" using assms(4) waiters_ok_inj [OF assms(1)] by metis
qed

lemma take_waiter_Some:
  "take_waiter rid s = (Some ch, s1) \<Longrightarrow>
   sh_responseWaiters s rid = Some ch \<and> s1 = s\<lparr>sh_responseWaiters := (sh_responseWaiters s)(rid := None)\<rparr>"
  by (auto simp: take_waiter_def split: option.splits)

lemma waiters_ok_remove:
  "waiters_ok s \<Longrightarrow> waiters_ok (s\<lparr>sh_responseWaiters := (sh_responseWaiters s)(rid := None)\<rparr>)"
  by (auto simp: waiters_ok_def)

lemma not_waited_after_take:
  "waiters_ok s \<Longrightarrow> sh_responseWaiters s rid = Some ch \<Longrightarrow> ((sh_responseWaiters s)(rid := None)) r \<noteq> Some ch"
  using waiters_ok_inj by (auto split: if_splits)

text \<open>Delivering a message in one go (no other goroutine in between).\<close>

definition is_reply :: "AuthData \<Rightarrow> string \<Rightarrow> IncomingRPCMessage \<Rightarrow> bool" where
  "is_reply ad rid msg = (case im_Message msg of None \<Rightarrow> False
     | Some m \<Rightarrow> \<not> is_weird_message ad m \<and> md_SessionID m = rid)"

lemma receiveResponse_waiting:
  assumes "waiters_ok s" "is_reply ad rid msg" "sh_responseWaiters s rid = Some ch"
  shows "receiveResponse ad msg s = Return (True,
    s\<lparr>sh_responseWaiters := (sh_responseWaiters s)(rid := None),
      sh_channels := (sh_channels s)[ch := \<lparr>ch_buf = [msg], ch_closed = False\<rparr>]\<rparr>)"
  using assms waiters_okD [OF assms(1,3)]
  by (auto simp: receiveResponse_def is_reply_def take_waiter_def chan_send_def split: option.splits)

lemma receiveResponse_ignored:
  assumes "\<And>rid. is_reply ad rid msg \<Longrightarrow> sh_responseWaiters s rid = None"
  shows "receiveResponse ad msg s = Return (False, s)"
  using assms by (auto simp: receiveResponse_def is_reply_def take_waiter_def split: option.splits)

lemma is_reply_unique: "is_reply ad rid msg \<Longrightarrow> is_reply ad rid' msg \<Longrightarrow> rid = rid'"
  by (auto simp: is_reply_def split: option.splits)

lemma receiveResponse_spec:
  assumes "waiters_ok s"
  shows "\<exists>handled s'. receiveResponse ad msg s = Return (handled, s') \<and> waiters_ok s'
    \<and> (handled \<longleftrightarrow> (\<exists>rid ch. is_reply ad rid msg \<and> sh_responseWaiters s rid = Some ch
         \<and> sh_responseWaiters s' rid = None \<and> ch_buf (sh_channels s' ! ch) = [msg]))
    \<and> (\<not> handled \<longrightarrow> s' = s)"
proof (cases "\<exists>rid ch. is_reply ad rid msg \<and> sh_responseWaiters s rid = Some ch")
  case True
  then obtain rid ch where rc: "is_reply ad rid msg" "sh_responseWaiters s rid = Some ch" by blast
  let ?s' = "s\<lparr>sh_responseWaiters := (sh_responseWaiters s)(rid := None),
      sh_channels := (sh_channels s)[ch := \<lparr>ch_buf = [msg], ch_closed = False\<rparr>]\<rparr>"
  have "waiters_ok ?s'"
  proof (rule waiters_ok_update [OF assms])
    show "sh_responseWaiters ?s' r \<noteq> Some ch" for r
      using not_waited_after_take [OF assms rc(2)] by simp
  qed (simp_all split: if_splits)
  moreover have "sh_responseWaiters ?s' rid = None" "ch_buf (sh_channels ?s' ! ch) = [msg]"
    using waiters_okD [OF assms rc(2)] by simp_all
  ultimately show ?thesis using receiveResponse_waiting [OF assms rc] rc by blast
next
  case False
  then have "receiveResponse ad msg s = Return (False, s)" by (intro receiveResponse_ignored) auto
  with False assms show ?thesis by blast
qed

text \<open>The goroutine that reads the long poll, delivering a batch of messages.\<close>

definition deliver :: "IncomingRPCMessage \<Rightarrow> Client \<Rightarrow> Client" where
  "deliver msg c =
     (case receiveResponse (cl_AuthData c) msg (cl_sessionHandler c) of
        Return (_, s) \<Rightarrow> c\<lparr>cl_sessionHandler := s\<rparr>
      | _ \<Rightarrow> c)"

lemma deliver_auth [simp]: "cl_AuthData (deliver msg c) = cl_AuthData c"
  by (auto simp: deliver_def split: outcome.split)

lemma fold_deliver_auth [simp]: "cl_AuthData (fold deliver msgs c) = cl_AuthData c"
  by (induction msgs arbitrary: c) auto

lemma waiters_ok_deliver: "waiters_ok (cl_sessionHandler c) \<Longrightarrow> waiters_ok (cl_sessionHandler (deliver msg c))"
  using receiveResponse_spec [of "cl_sessionHandler c" "cl_AuthData c" msg]
  by (auto simp: deliver_def)

definition session_chan :: "Client \<Rightarrow> nat \<Rightarrow> chan" where
  "session_chan c ch = sh_channels (cl_sessionHandler c) ! ch"


lemma deliver_no_waiter:
  assumes "waiters_ok (cl_sessionHandler c)" "\<And>r. sh_responseWaiters (cl_sessionHandler c) r \<noteq> Some ch"
  shows "session_chan (deliver msg c) ch = session_chan c ch
    \<and> (\<forall>r. sh_responseWaiters (cl_sessionHandler (deliver msg c)) r \<noteq> Some ch)"
proof (cases "\<exists>rid d. is_reply (cl_AuthData c) rid msg \<and> sh_responseWaiters (cl_sessionHandler c) rid = Some d")
  case True
  then obtain rid d where rd: "is_reply (cl_AuthData c) rid msg" "sh_responseWaiters (cl_sessionHandler c) rid = Some d"
    by blast
  with assms(2) have "d \<noteq> ch" by auto
  with receiveResponse_waiting [OF assms(1) rd] assms(2) show ?thesis
    by (simp add: deliver_def session_chan_def)
next
  case False
  then have "receiveResponse (cl_AuthData c) msg (cl_sessionHandler c) = Return (False, cl_sessionHandler c)"
    by (intro receiveResponse_ignored) auto
  with assms(2) show ?thesis by (simp add: deliver_def session_chan_def)
qed

lemma fold_deliver_no_waiter:
  assumes "waiters_ok (cl_sessionHandler c)" "\<And>r. sh_responseWaiters (cl_sessionHandler c) r \<noteq> Some ch"
  shows "session_chan (fold deliver msgs c) ch = session_chan c ch"
  using assms
proof (induction msgs arbitrary: c)
  case (Cons m msgs)
  then show ?case using deliver_no_waiter [of c ch m] waiters_ok_deliver [of c m] by simp
qed simp

lemma deliver_other:
  assumes "waiters_ok (cl_sessionHandler c)" "sh_responseWaiters (cl_sessionHandler c) rid = Some ch"
    and "\<not> is_reply (cl_AuthData c) rid msg"
  shows "sh_responseWaiters (cl_sessionHandler (deliver msg c)) rid = Some ch"
proof (cases "\<exists>r d. is_reply (cl_AuthData c) r msg \<and> sh_responseWaiters (cl_sessionHandler c) r = Some d")
  case True
  then obtain r d where rd: "is_reply (cl_AuthData c) r msg" "sh_responseWaiters (cl_sessionHandler c) r = Some d"
    by blast
  with assms(3) have "r \<noteq> rid" by auto
  with receiveResponse_waiting [OF assms(1) rd] assms(2) show ?thesis by (simp add: deliver_def)
next
  case False
  then have "receiveResponse (cl_AuthData c) msg (cl_sessionHandler c) = Return (False, cl_sessionHandler c)"
    by (intro receiveResponse_ignored) auto
  with assms(2) show ?thesis by (simp add: deliver_def)
qed

lemma fold_deliver_reply:
  assumes "waiters_ok (cl_sessionHandler c)" "sh_responseWaiters (cl_sessionHandler c) rid = Some ch"
    and "List.find (is_reply (cl_AuthData c) rid) msgs = Some reply"
  shows "session_chan (fold deliver msgs c) ch = \<lparr>ch_buf = [reply], ch_closed = False\<rparr>"
  using assms
proof (induction msgs arbitrary: c)
  case (Cons m msgs)
  show ?case
  proof (cases "is_reply (cl_AuthData c) rid m")
    case True
    have "ch < length (sh_channels (cl_sessionHandler c))" using waiters_okD [OF Cons.prems(1,2)] by simp
    then have "session_chan (deliver m c) ch = \<lparr>ch_buf = [m], ch_closed = False\<rparr>"
      using receiveResponse_waiting [OF Cons.prems(1) True Cons.prems(2)]
      by (simp add: deliver_def session_chan_def)
    moreover have "sh_responseWaiters (cl_sessionHandler (deliver m c)) r \<noteq> Some ch" for r
      using receiveResponse_waiting [OF Cons.prems(1) True Cons.prems(2)]
        not_waited_after_take [OF Cons.prems(1,2), of r] by (simp add: deliver_def)
    ultimately show ?thesis
      using True Cons.prems(3) waiters_ok_deliver [OF Cons.prems(1), of m]
      by (simp add: fold_deliver_no_waiter)
  next
    case False
    with Cons.prems(3) have "List.find (is_reply (cl_AuthData c) rid) msgs = Some reply" by simp
    with Cons.IH [of "deliver m c"] deliver_other [OF Cons.prems(1,2) False] waiters_ok_deliver [OF Cons.prems(1)]
    show ?thesis by simp
  qed
qed simp

lemma sendAsyncMessage_waits:
  assumes "waiters_ok (cl_sessionHandler c)" and "sendAsyncMessage env now params c = (Return ch, c1)"
  shows "waiters_ok (cl_sessionHandler c1) \<and>
    sh_responseWaiters (cl_sessionHandler c1) (fst (request_id env params c)) = Some ch"
proof -
  have session: "cl_sessionHandler (snd (buildMessage env params c)) = cl_sessionHandler c"
    by (simp add: buildMessage_def build_payload_def request_id_def new_uuid_def Let_def
        split: sum.split option.split)
  obtain m where b: "fst (buildMessage env params c) = Inr (fst (request_id env params c), m)"
    and ch: "c1 = snd (post_rpc env now (send_url (upd_session (\<lambda>s. snd (waitResponse (fst (request_id env params c)) s))
          (snd (buildMessage env params c)))) (P_OutgoingRPCMessage m)
          (upd_session (\<lambda>s. snd (waitResponse (fst (request_id env params c)) s)) (snd (buildMessage env params c))))"
      "ch = length (sh_channels (cl_sessionHandler c))"
    using assms(2) session
    by (auto simp: sendAsyncMessage_def Let_def buildMessage_def waitResponse_def
        split: sum.splits option.splits outcome.splits)
  have "cl_sessionHandler c1 = snd (waitResponse (fst (request_id env params c)) (cl_sessionHandler c))"
    using session unfolding ch(1) by (simp add: upd_session_def)
  with waiters_ok_waitResponse [OF assms(1)] ch(2) show ?thesis by (simp add: waitResponse_def)
qed


text \<open>A server that accepts everything, for the closed examples.\<close>

definition sample_env_ok :: env where
  "sample_env_ok = sample_env\<lparr>env_http := (\<lambda>_ _. Inr \<lparr>rsp_StatusCode = 200,
     rsp_ContentType = ''text/plain'', rsp_Body = Inr [], rsp_Header = Map.empty, rsp_Cookies = []\<rparr>)\<rparr>"

definition sample_reply :: IncomingRPCMessage where
  "sample_reply = \<lparr>im_raw = \<lparr>ri_ResponseID = ''r'', ri_BugleRoute = BugleRoute_DataEvent, ri_MessageData = []\<rparr>,
     im_IsOld = False, im_Pair = None, im_Gaia = None,
     im_Message = Some \<lparr>md_SessionID = ''req'', md_Action = ActionType_IS_BUGLE_DEFAULT, md_UnencryptedData = None,
       md_EncryptedData = Some [], md_EncryptedData2 = None\<rparr>,
     im_DecryptedData = Some [], im_DecryptedMessage = None\<rparr>"

definition sample_params :: SendMessageParams where
  "sample_params = default_params\<lparr>pr_RequestID := ''req''\<rparr>"

lemma sample_send_async:
  "sendAsyncMessage sample_env_ok 0 sample_params (NewClient sample_auth None) =
     (Return 0, snd (sendAsyncMessage sample_env_ok 0 sample_params (NewClient sample_auth None)))"
  by (simp add: sendAsyncMessage_def sample_env_ok_def sample_env_def sample_params_def default_params_def
      buildMessage_def request_id_def build_payload_def Let_def waitResponse_def upd_session_def
      NewClient_def newSessionHandler_def post_rpc_def makeProtobufHTTPRequest_def
      makeProtobufHTTPRequestContext_def marshal_body_def ContentTypePBLite_def ContentTypeProtobuf_def
      do_http_def typedHTTPResponse_def decodeProtoResp_def)


section \<open>Interleaving of callers and the reader\<close>

text \<open>
  The goroutines meet at four points: a caller registers (\<open>call\<close>) and its HTTP request either succeeds
  or fails (\<open>http_ok\<close>, \<open>http_fail\<close>: \<open>cancelResponse\<close>); the reader takes a waiter out of the table
  (\<open>take\<close>) and, after releasing the lock, sends on its channel (\<open>send\<close>); a caller receives (\<open>recv\<close>).
\<close>

record net_state =
  ns_session :: SessionHandler
  ns_calls :: "(string \<times> nat) list"
  ns_pending :: "(nat \<times> IncomingRPCMessage) list"
  ns_panic :: bool

inductive session_step :: "AuthData \<Rightarrow> net_state \<Rightarrow> net_state \<Rightarrow> bool" for ad where
  call: "waitResponse rid (ns_session st) = (ch, s') \<Longrightarrow>
    session_step ad st (st\<lparr>ns_session := s', ns_calls := (rid, ch) # ns_calls st\<rparr>)"
| http_ok: "(rid, ch) \<in> set (ns_calls st) \<Longrightarrow>
    session_step ad st (st\<lparr>ns_calls := remove1 (rid, ch) (ns_calls st)\<rparr>)"
| http_fail: "(rid, ch) \<in> set (ns_calls st) \<Longrightarrow> cancelResponse rid ch (ns_session st) = Return s' \<Longrightarrow>
    session_step ad st (st\<lparr>ns_session := s', ns_calls := remove1 (rid, ch) (ns_calls st)\<rparr>)"
| http_fail_panic: "(rid, ch) \<in> set (ns_calls st) \<Longrightarrow> cancelResponse rid ch (ns_session st) = Panic p \<Longrightarrow>
    session_step ad st (st\<lparr>ns_panic := True\<rparr>)"
| take: "is_reply ad rid msg \<Longrightarrow> take_waiter rid (ns_session st) = (Some ch, s') \<Longrightarrow>
    session_step ad st (st\<lparr>ns_session := s', ns_pending := (ch, msg) # ns_pending st\<rparr>)"
| send: "(ch, msg) \<in> set (ns_pending st) \<Longrightarrow> chan_send ch msg (ns_session st) = Return s' \<Longrightarrow>
    session_step ad st (st\<lparr>ns_session := s', ns_pending := remove1 (ch, msg) (ns_pending st)\<rparr>)"
| send_panic: "(ch, msg) \<in> set (ns_pending st) \<Longrightarrow> chan_send ch msg (ns_session st) = Panic p \<Longrightarrow>
    session_step ad st (st\<lparr>ns_panic := True\<rparr>)"
| recv: "ch < length (sh_channels (ns_session st)) \<Longrightarrow> ch_buf (sh_channels (ns_session st) ! ch) = m # rest \<Longrightarrow>
    session_step ad st (st\<lparr>ns_session := (ns_session st)\<lparr>sh_channels := (sh_channels (ns_session st))
      [ch := (sh_channels (ns_session st) ! ch)\<lparr>ch_buf := rest\<rparr>]\<rparr>\<rparr>)"

definition net_init :: net_state where
  "net_init = \<lparr>ns_session = newSessionHandler, ns_calls = [], ns_pending = [], ns_panic = False\<rparr>"

text \<open>What holds of a channel whose request is in flight, and of one the reader is about to send on.\<close>

definition call_ok :: "SessionHandler \<Rightarrow> string \<Rightarrow> nat \<Rightarrow> bool" where
  "call_ok s rid ch \<longleftrightarrow> ch < length (sh_channels s) \<and> \<not> ch_closed (sh_channels s ! ch)
     \<and> (\<forall>r. sh_responseWaiters s r = Some ch \<longrightarrow> r = rid)"

definition pend_ok :: "SessionHandler \<Rightarrow> nat \<Rightarrow> bool" where
  "pend_ok s ch \<longleftrightarrow> ch < length (sh_channels s) \<and> ch_buf (sh_channels s ! ch) = []
     \<and> (\<forall>r. sh_responseWaiters s r \<noteq> Some ch)"

definition net_inv :: "net_state \<Rightarrow> bool" where
  "net_inv st \<longleftrightarrow> waiters_ok (ns_session st)
     \<and> (\<forall>x\<in>set (ns_calls st). call_ok (ns_session st) (fst x) (snd x)) \<and> distinct (map snd (ns_calls st))
     \<and> (\<forall>x\<in>set (ns_pending st). pend_ok (ns_session st) (fst x)) \<and> distinct (map fst (ns_pending st))"

lemma net_invD:
  assumes "net_inv st"
  shows "waiters_ok (ns_session st)"
    and "x \<in> set (ns_calls st) \<Longrightarrow> call_ok (ns_session st) (fst x) (snd x)"
    and "distinct (map snd (ns_calls st))"
    and "y \<in> set (ns_pending st) \<Longrightarrow> pend_ok (ns_session st) (fst y)"
    and "distinct (map fst (ns_pending st))"
  using assms unfolding net_inv_def by auto

lemma call_ok_mono:
  "call_ok s rid d \<Longrightarrow> length (sh_channels s) \<le> length (sh_channels s') \<Longrightarrow>
   ch_closed (sh_channels s' ! d) = ch_closed (sh_channels s ! d) \<Longrightarrow>
   (\<And>r. sh_responseWaiters s' r = Some d \<Longrightarrow> sh_responseWaiters s r = Some d) \<Longrightarrow> call_ok s' rid d"
  unfolding call_ok_def by auto

lemma pend_ok_mono:
  "pend_ok s d \<Longrightarrow> length (sh_channels s) \<le> length (sh_channels s') \<Longrightarrow>
   ch_buf (sh_channels s' ! d) = ch_buf (sh_channels s ! d) \<Longrightarrow>
   (\<And>r. sh_responseWaiters s' r = Some d \<Longrightarrow> sh_responseWaiters s r = Some d) \<Longrightarrow> pend_ok s' d"
  unfolding pend_ok_def by fastforce

lemma distinct_remove1_map: "distinct (map f xs) \<Longrightarrow> distinct (map f (remove1 x xs))"
proof (induction xs)
  case (Cons y xs)
  then show ?case using set_remove1_subset [of x xs] by (auto simp: image_iff)
qed simp

lemma remove1_map_notin: "distinct (map f xs) \<Longrightarrow> x \<in> set xs \<Longrightarrow> y \<in> set (remove1 x xs) \<Longrightarrow> f y \<noteq> f x"
  by (induction xs) (auto split: if_splits dest: notin_set_remove1 simp: image_iff)

lemma remove1_image_notin: "distinct (map f xs) \<Longrightarrow> x \<in> set xs \<Longrightarrow> f x \<notin> f ` set (remove1 x xs)"
  using remove1_map_notin by (metis imageE)

lemma net_inv_call:
  assumes "net_inv st" "waitResponse rid (ns_session st) = (ch, s')"
  shows "net_inv (st\<lparr>ns_session := s', ns_calls := (rid, ch) # ns_calls st\<rparr>)"
proof -
  let ?s = "ns_session st"
  note inv = net_invD [OF assms(1)]
  have s': "ch = length (sh_channels ?s)" "s' = snd (waitResponse rid ?s)" "waiters_ok s'"
    using assms waiters_ok_waitResponse [OF inv(1), of rid] by (auto simp: waitResponse_def)
  have fresh: "sh_responseWaiters ?s r \<noteq> Some ch" for r
    using waiters_okD [OF inv(1), of r ch] s'(1) by auto
  have calls: "call_ok s' (fst x) (snd x) \<and> snd x < ch" if "x \<in> set (ns_calls st)" for x
    using inv(2) [OF that] s'(1,2)
    by (auto intro!: call_ok_mono [OF inv(2) [OF that]] simp: call_ok_def waitResponse_def nth_append split: if_splits)
  have pend: "pend_ok s' (fst x)" if "x \<in> set (ns_pending st)" for x
    using inv(4) [OF that] s'(1,2)
    by (auto intro!: pend_ok_mono [OF inv(4) [OF that]] simp: pend_ok_def waitResponse_def nth_append split: if_splits)
  have "call_ok s' rid ch"
    using fresh s'(1,2) by (simp add: call_ok_def waitResponse_def)
  moreover have "ch \<notin> snd ` set (ns_calls st)" using calls by fastforce
  ultimately show ?thesis
    using s'(3) calls pend inv(3,5) by (simp add: net_inv_def)
qed

lemma net_inv_http_ok:
  assumes "net_inv st" shows "net_inv (st\<lparr>ns_calls := remove1 x (ns_calls st)\<rparr>)"
  using assms distinct_remove1_map [of snd "ns_calls st" x] set_remove1_subset [of x "ns_calls st"]
  unfolding net_inv_def by auto

text \<open>A step that rewrites one channel \<open>ch\<close>, after which nobody waits on it.\<close>

lemma net_inv_update:
  assumes "net_inv st" "sh_channels s' = (sh_channels (ns_session st))[ch := x]"
    and "\<And>r. sh_responseWaiters s' r \<noteq> Some ch"
    and "\<And>r d. sh_responseWaiters s' r = Some d \<Longrightarrow> sh_responseWaiters (ns_session st) r = Some d"
    and "set calls \<subseteq> set (ns_calls st)" "distinct (map snd calls)"
    and "set pend \<subseteq> set (ns_pending st)" "distinct (map fst pend)"
    and "ch \<in> snd ` set calls \<Longrightarrow> ch_closed x = ch_closed (sh_channels (ns_session st) ! ch)"
    and "ch \<in> fst ` set pend \<Longrightarrow> ch_buf x = ch_buf (sh_channels (ns_session st) ! ch)"
  shows "net_inv (st\<lparr>ns_session := s', ns_calls := calls, ns_pending := pend\<rparr>)"
proof -
  note inv = net_invD [OF assms(1)]
  have w: "waiters_ok s'" by (rule waiters_ok_update [OF inv(1) assms(3,2,4)])
  have "call_ok s' (fst y) (snd y)" if "y \<in> set calls" for y
  proof (rule call_ok_mono [OF inv(2)])
    show "y \<in> set (ns_calls st)" using that assms(5) by auto
    then show "ch_closed (sh_channels s' ! snd y) = ch_closed (sh_channels (ns_session st) ! snd y)"
      using inv(2) [of y] assms(2,9) that by (cases "snd y = ch") (auto simp: call_ok_def)
  qed (use assms(2,4) in auto)
  moreover have "pend_ok s' (fst y)" if "y \<in> set pend" for y
  proof (rule pend_ok_mono [OF inv(4)])
    show "y \<in> set (ns_pending st)" using that assms(7) by auto
    then show "ch_buf (sh_channels s' ! fst y) = ch_buf (sh_channels (ns_session st) ! fst y)"
      using inv(4) [of y] assms(2,10) that by (cases "fst y = ch") (auto simp: pend_ok_def)
  qed (use assms(2,4) in auto)
  ultimately show ?thesis using w assms(6,8) by (simp add: net_inv_def)
qed

lemma net_inv_http_fail:
  assumes "net_inv st" "(rid, ch) \<in> set (ns_calls st)" "cancelResponse rid ch (ns_session st) = Return s'"
  shows "net_inv (st\<lparr>ns_session := s', ns_calls := remove1 (rid, ch) (ns_calls st)\<rparr>)"
proof -
  let ?s = "ns_session st"
  note inv = net_invD [OF assms(1)]
  have s': "s' = ?s\<lparr>sh_channels := (sh_channels ?s)[ch := (sh_channels ?s ! ch)\<lparr>ch_closed := True\<rparr>],
       sh_responseWaiters := (sh_responseWaiters ?s)(rid := None)\<rparr>"
    using assms(3) by (simp add: cancelResponse_def split: if_splits)
  have "net_inv (st\<lparr>ns_session := s', ns_calls := remove1 (rid, ch) (ns_calls st), ns_pending := ns_pending st\<rparr>)"
  proof (rule net_inv_update [OF assms(1), where ch = ch and x = "(sh_channels ?s ! ch)\<lparr>ch_closed := True\<rparr>"])
    show "sh_responseWaiters s' r \<noteq> Some ch" for r
      using inv(2) [OF assms(2)] by (auto simp: s' call_ok_def)
    show "ch_closed ((sh_channels ?s ! ch)\<lparr>ch_closed := True\<rparr>) = ch_closed (sh_channels ?s ! ch)"
      if "ch \<in> snd ` set (remove1 (rid, ch) (ns_calls st))"
      using that remove1_image_notin [OF inv(3) assms(2)] by simp
  qed (use inv(3,5) in \<open>auto simp: s' distinct_remove1_map dest: subsetD [OF set_remove1_subset] split: if_splits\<close>)
  then show ?thesis by simp
qed

lemma net_inv_take:
  assumes "net_inv st" "take_waiter rid (ns_session st) = (Some ch, s')"
  shows "net_inv (st\<lparr>ns_session := s', ns_pending := (ch, msg) # ns_pending st\<rparr>)"
proof -
  let ?s = "ns_session st"
  note inv = net_invD [OF assms(1)]
  have s': "sh_responseWaiters ?s rid = Some ch"
    "s' = ?s\<lparr>sh_responseWaiters := (sh_responseWaiters ?s)(rid := None)\<rparr>"
    using take_waiter_Some [OF assms(2)] by auto
  have "waiters_ok s'" using inv(1) unfolding s'(2) by (rule waiters_ok_remove)
  moreover have "call_ok s' (fst x) (snd x)" if "x \<in> set (ns_calls st)" for x
    by (rule call_ok_mono [OF inv(2) [OF that]]) (simp_all add: s'(2) split: if_splits)
  moreover have "pend_ok s' (fst x)" if "x \<in> set (ns_pending st)" for x
    by (rule pend_ok_mono [OF inv(4) [OF that]]) (simp_all add: s'(2) split: if_splits)
  moreover have "pend_ok s' ch"
    using waiters_okD [OF inv(1) s'(1)] not_waited_after_take [OF inv(1) s'(1)] by (simp add: pend_ok_def s'(2))
  moreover have "ch \<notin> fst ` set (ns_pending st)" using inv(4) s'(1) by (auto simp: pend_ok_def)
  ultimately show ?thesis using inv(3,5) by (simp add: net_inv_def)
qed

lemma net_inv_send:
  assumes "net_inv st" "(ch, msg) \<in> set (ns_pending st)" "chan_send ch msg (ns_session st) = Return s'"
  shows "net_inv (st\<lparr>ns_session := s', ns_pending := remove1 (ch, msg) (ns_pending st)\<rparr>)"
proof -
  let ?s = "ns_session st"
  note inv = net_invD [OF assms(1)]
  have s': "s' = ?s\<lparr>sh_channels := (sh_channels ?s)[ch := (sh_channels ?s ! ch)\<lparr>ch_buf := [msg]\<rparr>]\<rparr>"
    using assms(3) by (simp add: chan_send_def split: if_splits)
  have "net_inv (st\<lparr>ns_session := s', ns_calls := ns_calls st, ns_pending := remove1 (ch, msg) (ns_pending st)\<rparr>)"
  proof (rule net_inv_update [OF assms(1), where ch = ch and x = "(sh_channels ?s ! ch)\<lparr>ch_buf := [msg]\<rparr>"])
    show "sh_responseWaiters s' r \<noteq> Some ch" for r
      using inv(4) [OF assms(2)] by (simp add: s' pend_ok_def)
    show "ch_buf ((sh_channels ?s ! ch)\<lparr>ch_buf := [msg]\<rparr>) = ch_buf (sh_channels ?s ! ch)"
      if "ch \<in> fst ` set (remove1 (ch, msg) (ns_pending st))"
      using that remove1_image_notin [OF inv(5) assms(2)] by simp
  qed (use inv(3,5) in \<open>auto simp: s' distinct_remove1_map dest: subsetD [OF set_remove1_subset]\<close>)
  then show ?thesis by simp
qed

lemma net_inv_recv:
  assumes "net_inv st" "ch_buf (sh_channels (ns_session st) ! ch) = m # rest"
  shows "net_inv (st\<lparr>ns_session := (ns_session st)\<lparr>sh_channels := (sh_channels (ns_session st))
      [ch := (sh_channels (ns_session st) ! ch)\<lparr>ch_buf := rest\<rparr>]\<rparr>\<rparr>)" (is "net_inv (st\<lparr>ns_session := ?s'\<rparr>)")
proof -
  note inv = net_invD [OF assms(1)]
  have "net_inv (st\<lparr>ns_session := ?s', ns_calls := ns_calls st, ns_pending := ns_pending st\<rparr>)"
  proof (rule net_inv_update [OF assms(1), where ch = ch and x = "(sh_channels (ns_session st) ! ch)\<lparr>ch_buf := rest\<rparr>"])
    show "sh_responseWaiters ?s' r \<noteq> Some ch" for r
      using waiters_okD [OF inv(1), of r ch] assms(2) by auto
    show "ch_buf ((sh_channels (ns_session st) ! ch)\<lparr>ch_buf := rest\<rparr>) = ch_buf (sh_channels (ns_session st) ! ch)"
      if "ch \<in> fst ` set (ns_pending st)"
      using that inv(4) assms(2) by (auto simp: pend_ok_def)
  qed (use inv(3,5) in auto)
  then show ?thesis by simp
qed

lemma net_inv_step: "session_step ad st st' \<Longrightarrow> net_inv st \<Longrightarrow> net_inv st'"
proof (induction rule: session_step.induct)
  case (http_fail_panic rid ch st p)
  then show ?case by (simp add: net_inv_def)
next
  case (send_panic ch msg st p)
  then show ?case by (simp add: net_inv_def)
qed (simp_all add: net_inv_call net_inv_http_ok net_inv_http_fail net_inv_take net_inv_send net_inv_recv)

lemma net_inv_reachable: "(session_step ad)\<^sup>*\<^sup>* net_init st \<Longrightarrow> net_inv st"
proof (induction rule: rtranclp_induct)
  case base
  show ?case by (simp add: net_init_def net_inv_def)
next
  case (step st st')
  then show ?case using net_inv_step by blast
qed

lemma rtranclp_four_steps: "r a b \<Longrightarrow> r b c \<Longrightarrow> r c d \<Longrightarrow> r d e \<Longrightarrow> r\<^sup>*\<^sup>* a e"
  by (blast intro: converse_rtranclp_into_rtranclp)

lemma chan_send_Error: "chan_send ch msg s = Error e \<Longrightarrow> ch_buf (sh_channels s ! ch) \<noteq> []"
  by (simp add: chan_send_def split: if_splits)



text \<open>
  The reader can panic: it takes the waiter out of the table, releases the lock, the caller's HTTP
  request fails and closes the channel, and the reader sends on the closed channel.
\<close>

lemma reader_can_panic:
  "\<exists>st. (session_step sample_auth)\<^sup>*\<^sup>* net_init st \<and> ns_panic st"
proof -
  let ?s1 = "snd (waitResponse ''req'' newSessionHandler)"
  let ?st1 = "net_init\<lparr>ns_session := ?s1, ns_calls := [(''req'', 0)]\<rparr>"
  let ?s2 = "?s1\<lparr>sh_responseWaiters := (sh_responseWaiters ?s1)(''req'' := None)\<rparr>"
  let ?st2 = "?st1\<lparr>ns_session := ?s2, ns_pending := [(0, sample_reply)]\<rparr>"
  let ?s3 = "?s2\<lparr>sh_channels := [\<lparr>ch_buf = [], ch_closed = True\<rparr>]\<rparr>"
  let ?st3 = "?st2\<lparr>ns_session := ?s3, ns_calls := []\<rparr>"
  have s1: "session_step sample_auth net_init ?st1"
    using session_step.call [of "''req''" net_init 0 ?s1 sample_auth]
    by (simp add: net_init_def waitResponse_def newSessionHandler_def)
  have reply: "is_reply sample_auth ''req'' sample_reply"
    by (simp add: is_reply_def sample_reply_def is_weird_message_def)
  have s2: "session_step sample_auth ?st1 ?st2"
    using session_step.take [OF reply, of ?st1 0 ?s2]
    by (simp add: net_init_def take_waiter_def waitResponse_def newSessionHandler_def)
  have s3: "session_step sample_auth ?st2 ?st3"
    using session_step.http_fail [of "''req''" 0 ?st2 ?s3 sample_auth]
    by (simp add: net_init_def cancelResponse_def waitResponse_def newSessionHandler_def)
  have s4: "session_step sample_auth ?st3 (?st3\<lparr>ns_panic := True\<rparr>)"
    using session_step.send_panic [of 0 sample_reply ?st3 "''send on closed channel''" sample_auth]
    by (simp add: net_init_def chan_send_def)
  have "(session_step sample_auth)\<^sup>*\<^sup>* net_init (?st3\<lparr>ns_panic := True\<rparr>)"
    by (rule rtranclp_four_steps [where r = "session_step sample_auth", OF s1 s2 s3 s4])
  moreover have "ns_panic (?st3\<lparr>ns_panic := True\<rparr>)" by simp
  ultimately show ?thesis by blast
qed

section \<open>Encryption of requests\<close>

text \<open>
  End to end: what \<open>buildMessage\<close> puts on the wire for an ordinary request can be read back by the
  paired phone, and only in encrypted form.  If the RPC envelope decodes to what was encoded, the phone
  finds the request id, the action, no plaintext, and a ciphertext that decrypts under the session keys
  to exactly the serialized request.
\<close>

lemma buildMessage_readable_by_phone:
  assumes "fst (buildMessage env params c) = Inr (rid, m)"
    and "pr_Data params = Some d" and "\<not> pr_DontEncrypt params"
    and "\<forall>n. length (env_iv env n) = 16"
    and "\<forall>x b. env_marshal_rpc env x = Inr b \<longrightarrow> unmarshal b = Some x"
  shows "\<exists>od ct ser. unmarshal (om_MessageData m) = Some od \<and> od_RequestID od = rid
    \<and> od_Action od = pr_Action params \<and> od_UnencryptedProtoData od = None
    \<and> od_EncryptedProtoData od = Some ct \<and> env_marshal_data env d = Inr ser
    \<and> fst (Decrypt (env_aes env) (env_sha256 env) (ad_RequestCrypto (cl_AuthData c)) ct) = Inr ser"
proof -
  let ?c1 = "snd (request_id env params c)"
  obtain flds where f: "fst (build_payload env params ?c1) = Inr flds"
    and od: "env_marshal_rpc env (rpc_data rid params flds (sh_sessionID (cl_sessionHandler c))) = Inr (om_MessageData m)"
    using assms(1) by (auto simp: buildMessage_def Let_def rpc_envelope_def split: sum.splits)
  have auth: "cl_AuthData ?c1 = cl_AuthData c" by (simp add: request_id_def new_uuid_def)
  obtain ser ct where ser: "env_marshal_data env d = Inr ser" "flds = (None, Some ct)"
      "Encrypt (env_aes env) (env_sha256 env) (ad_RequestCrypto (cl_AuthData c)) (env_iv env (cl_ivs ?c1)) ser = Inr ct"
    using f assms(2,3) auth by (auto simp: build_payload_def split: sum.splits)
  then have "fst (Decrypt (env_aes env) (env_sha256 env) (ad_RequestCrypto (cl_AuthData c)) ct) = Inr ser"
    using Decrypt_Encrypt_buffer assms(4) by (metis fst_conv)
  with ser od assms(5) show ?thesis by (auto simp: rpc_data_def)
qed

definition sample_data_params :: SendMessageParams where
  "sample_data_params = sample_params\<lparr>pr_Data := Some (DeleteMessageRequest ''m'')\<rparr>"

definition sample_rpc :: OutgoingRPCData where
  "sample_rpc = rpc_data ''req'' sample_data_params
     (None, Some (ctr_enc (env_aes sample_env) (env_sha256 sample_env) (ad_RequestCrypto sample_auth)
       (env_iv sample_env 0) [])) ''''"

definition phone_env :: env where
  "phone_env = sample_env\<lparr>env_marshal_rpc := (\<lambda>x. if x = sample_rpc then Inr [42] else Inl (ErrText ''x''))\<rparr>"

lemma sample_build:
  "\<exists>m. fst (buildMessage phone_env sample_data_params (NewClient sample_auth None)) = Inr (''req'', m)"
proof -
  obtain ct where ct: "Encrypt (env_aes sample_env) (env_sha256 sample_env) (ad_RequestCrypto sample_auth)
      (env_iv sample_env 0) [] = Inr ct"
    using Encrypt_ok [of "ad_RequestCrypto sample_auth" "env_aes sample_env" "env_sha256 sample_env" "env_iv sample_env 0" "[]"]
    by (force simp: sample_auth_def aes_key_ok_def)
  then have "ctr_enc (env_aes sample_env) (env_sha256 sample_env) (ad_RequestCrypto sample_auth)
      (env_iv sample_env 0) [] = ct" by (simp add: ctr_enc_def)
  moreover have "cl_AuthData (NewClient sample_auth None) = sample_auth" "cl_ivs (NewClient sample_auth None) = 0"
    "sh_sessionID (cl_sessionHandler (NewClient sample_auth None)) = ''''"
    by (simp_all add: NewClient_def newSessionHandler_def)
  moreover have "env_marshal_data sample_env d = Inr []" for d by (simp add: sample_env_def)
  ultimately show ?thesis using ct
    by (simp add: buildMessage_def request_id_def build_payload_def phone_env_def sample_data_params_def
        sample_params_def default_params_def sample_rpc_def Let_def)
qed

lemma buildMessage_readable_by_phone_witness:
  "\<exists>m ct ser. fst (buildMessage phone_env sample_data_params (NewClient sample_auth None)) = Inr (''req'', m)
     \<and> od_EncryptedProtoData sample_rpc = Some ct
     \<and> fst (Decrypt (env_aes phone_env) (env_sha256 phone_env) (ad_RequestCrypto (cl_AuthData (NewClient sample_auth None))) ct) = Inr ser"
proof -
  obtain m where m: "fst (buildMessage phone_env sample_data_params (NewClient sample_auth None)) = Inr (''req'', m)"
    using sample_build by blast
  have p: "pr_Data sample_data_params = Some (DeleteMessageRequest ''m'')" "\<not> pr_DontEncrypt sample_data_params"
    by (simp_all add: sample_data_params_def sample_params_def default_params_def)
  have iv: "\<forall>n. length (env_iv phone_env n) = 16"
    by (simp add: phone_env_def sample_env_def)
  have rt: "\<forall>x b. env_marshal_rpc phone_env x = Inr b \<longrightarrow> (\<lambda>_. Some sample_rpc) b = Some x"
    by (simp add: phone_env_def)
  obtain ct ser where "od_EncryptedProtoData sample_rpc = Some ct"
      "fst (Decrypt (env_aes phone_env) (env_sha256 phone_env) (ad_RequestCrypto (cl_AuthData (NewClient sample_auth None))) ct) = Inr ser"
    using buildMessage_readable_by_phone [OF m p iv rt] by (elim exE conjE) simp
  with m show ?thesis by (intro exI conjI)
qed

section \<open>Calls to the phone\<close>

text \<open>\<open>typedResponse\<close> applied to the result of \<open>sendMessage\<close>: a call that never gets an answer is
  \<open>None\<close>.\<close>

type_synonym call_result = "((go_error, DecryptedMessage) outcome \<times> Client) option"

definition typed_call ::
  "ResponseType \<Rightarrow> ((go_error, IncomingRPCMessage) outcome \<times> bool \<times> Client) option \<Rightarrow> call_result" where
  "typed_call t r =
     (case r of
        None \<Rightarrow> None
      | Some (Return resp, _, c) \<Rightarrow>
          Some (case typedResponse t (Inr resp) of Inl e \<Rightarrow> Error e | Inr m \<Rightarrow> Return m, c)
      | Some (Error e, _, c) \<Rightarrow> Some (Error e, c)
      | Some (Panic p, _, c) \<Rightarrow> Some (Panic p, c))"

definition ListConversationsWithCursor ::
  "env \<Rightarrow> time \<Rightarrow> wait \<Rightarrow> int \<Rightarrow> ListConversationsRequest_Folder \<Rightarrow> Cursor option \<Rightarrow> Client \<Rightarrow> call_result" where
  "ListConversationsWithCursor env now w count folder cursor c =
     (let msgType = (if \<not> cl_conversationsFetchedOnce c then MessageType_BUGLE_ANNOTATION else MessageType_BUGLE_MESSAGE)
      in typed_call ListConversationsResponse
           (sendMessageWithParams env now w
              (default_params\<lparr>pr_Action := ActionType_LIST_CONVERSATIONS,
                 pr_Data := Some (ListConversationsRequest count folder cursor), pr_MessageType := msgType\<rparr>)
              (c\<lparr>cl_conversationsFetchedOnce := True\<rparr>)))"

definition ListConversations ::
  "env \<Rightarrow> time \<Rightarrow> wait \<Rightarrow> int \<Rightarrow> ListConversationsRequest_Folder \<Rightarrow> Client \<Rightarrow> call_result" where
  "ListConversations env now w count folder c = ListConversationsWithCursor env now w count folder None c"

definition UpdateConversation ::
  "env \<Rightarrow> time \<Rightarrow> wait \<Rightarrow> int \<Rightarrow> string \<Rightarrow> UpdateConversationData \<Rightarrow> Client \<Rightarrow> call_result" where
  "UpdateConversation env now w action convID data c =
     typed_call UpdateConversationResponse (sendMessage env now w ActionType_UPDATE_CONVERSATION
       (Some (UpdateConversationRequest action convID data)) c)"

definition DeleteConversation :: "env \<Rightarrow> time \<Rightarrow> wait \<Rightarrow> string \<Rightarrow> string \<Rightarrow> Client \<Rightarrow> call_result" where
  "DeleteConversation env now w conversationID phone c =
     UpdateConversation env now w 1 conversationID (UpdateConversationRequest_DeleteData conversationID phone) c"

definition ListContacts :: "env \<Rightarrow> time \<Rightarrow> wait \<Rightarrow> Client \<Rightarrow> call_result" where
  "ListContacts env now w c = typed_call ListContactsResponse
     (sendMessage env now w ActionType_LIST_CONTACTS (Some (ListContactsRequest 1 350 50)) c)"

definition ListTopContacts :: "env \<Rightarrow> time \<Rightarrow> wait \<Rightarrow> Client \<Rightarrow> call_result" where
  "ListTopContacts env now w c = typed_call ListTopContactsResponse
     (sendMessage env now w ActionType_LIST_TOP_CONTACTS (Some (ListTopContactsRequest 8)) c)"

definition GetOrCreateConversation ::
  "env \<Rightarrow> time \<Rightarrow> wait \<Rightarrow> GetOrCreateConversationRequest \<Rightarrow> Client \<Rightarrow> call_result" where
  "GetOrCreateConversation env now w req c = typed_call GetOrCreateConversationResponse
     (sendMessage env now w ActionType_GET_OR_CREATE_CONVERSATION (Some (RD_GetOrCreateConversation req)) c)"

definition GetConversationType :: "env \<Rightarrow> time \<Rightarrow> wait \<Rightarrow> string \<Rightarrow> Client \<Rightarrow> call_result" where
  "GetConversationType env now w conversationID c = typed_call GetConversationTypeResponse
     (sendMessage env now w ActionType_GET_CONVERSATION_TYPE (Some (GetConversationTypeRequest conversationID)) c)"

definition GetConversation :: "env \<Rightarrow> time \<Rightarrow> wait \<Rightarrow> string \<Rightarrow> Client \<Rightarrow> call_result" where
  "GetConversation env now w conversationID c = typed_call GetConversationResponse
     (sendMessage env now w ActionType_GET_CONVERSATION (Some (GetConversationRequest conversationID)) c)"

definition FetchMessages_call ::
  "env \<Rightarrow> time \<Rightarrow> wait \<Rightarrow> string \<Rightarrow> int \<Rightarrow> Cursor option \<Rightarrow> Client \<Rightarrow> call_result" where
  "FetchMessages_call env now w conversationID count cursor c = typed_call ListMessagesResponse
     (sendMessage env now w ActionType_LIST_MESSAGES (Some (ListMessagesRequest conversationID count cursor)) c)"

definition SendMessage_call :: "env \<Rightarrow> time \<Rightarrow> wait \<Rightarrow> SendMessageRequest \<Rightarrow> Client \<Rightarrow> call_result" where
  "SendMessage_call env now w payload c = typed_call SendMessageResponseType
     (sendMessage env now w ActionType_SEND_MESSAGE (Some (RD_SendMessage payload)) c)"

definition GetParticipantThumbnail :: "env \<Rightarrow> time \<Rightarrow> wait \<Rightarrow> string list \<Rightarrow> Client \<Rightarrow> call_result" where
  "GetParticipantThumbnail env now w participantIDs c = typed_call GetThumbnailResponse
     (sendMessage env now w ActionType_GET_PARTICIPANTS_THUMBNAIL (Some (GetThumbnailRequest participantIDs)) c)"

definition GetContactThumbnail :: "env \<Rightarrow> time \<Rightarrow> wait \<Rightarrow> string list \<Rightarrow> Client \<Rightarrow> call_result" where
  "GetContactThumbnail env now w contactIDs c = typed_call GetThumbnailResponse
     (sendMessage env now w ActionType_GET_CONTACTS_THUMBNAIL (Some (GetThumbnailRequest contactIDs)) c)"

definition SendReaction_call ::
  "env \<Rightarrow> time \<Rightarrow> wait \<Rightarrow> string \<Rightarrow> ReactionData \<Rightarrow> SendReactionRequest_Action \<Rightarrow> SIMPayload option \<Rightarrow> Client \<Rightarrow> call_result" where
  "SendReaction_call env now w messageID reaction action sim c = typed_call SendReactionResponse
     (sendMessage env now w ActionType_SEND_REACTION (Some (SendReactionRequest messageID reaction action sim)) c)"

definition DeleteMessage_call :: "env \<Rightarrow> time \<Rightarrow> wait \<Rightarrow> string \<Rightarrow> Client \<Rightarrow> call_result" where
  "DeleteMessage_call env now w messageID c = typed_call DeleteMessageResponse
     (sendMessage env now w ActionType_DELETE_MESSAGE (Some (DeleteMessageRequest messageID)) c)"

definition MarkRead ::
  "env \<Rightarrow> time \<Rightarrow> wait \<Rightarrow> string \<Rightarrow> string \<Rightarrow> Client \<Rightarrow> ((go_error, IncomingRPCMessage) outcome \<times> bool \<times> Client) option" where
  "MarkRead env now w conversationID messageID c =
     sendMessage env now w ActionType_MESSAGE_READ (Some (MessageReadRequest conversationID messageID)) c"

definition SetTyping :: "env \<Rightarrow> time \<Rightarrow> string \<Rightarrow> SIMPayload option \<Rightarrow> Client \<Rightarrow> go_error option \<times> Client" where
  "SetTyping env now convID simPayload c = sendMessageNoResponse env now
     (default_params\<lparr>pr_Action := ActionType_TYPING_UPDATES, pr_Data := Some (TypingUpdateRequest convID True simPayload)\<rparr>) c"

definition UpdateSettings :: "env \<Rightarrow> time \<Rightarrow> bool \<Rightarrow> Client \<Rightarrow> go_error option \<times> Client" where
  "UpdateSettings env now pushEnabled c = sendMessageNoResponse env now
     (default_params\<lparr>pr_Action := ActionType_SETTINGS_UPDATE, pr_Data := Some (SettingsUpdateRequest pushEnabled)\<rparr>) c"

definition SetActiveSession :: "env \<Rightarrow> time \<Rightarrow> Client \<Rightarrow> go_error option \<times> Client" where
  "SetActiveSession env now c =
     (let c1 = ResetSessionID env c
      in sendMessageNoResponse env now
           (default_params\<lparr>pr_Action := ActionType_GET_UPDATES, pr_OmitTTL := True,
              pr_RequestID := sh_sessionID (cl_sessionHandler c1)\<rparr>) c1)"

definition IsBugleDefault :: "env \<Rightarrow> time \<Rightarrow> wait \<Rightarrow> Client \<Rightarrow> call_result" where
  "IsBugleDefault env now w c = typed_call IsBugleDefaultResponse
     (sendMessage env now w ActionType_IS_BUGLE_DEFAULT None c)"

definition NotifyDittoActivity :: "env \<Rightarrow> time \<Rightarrow> Client \<Rightarrow> (go_error, nat) outcome \<times> Client" where
  "NotifyDittoActivity env now c = sendAsyncMessage env now
     (default_params\<lparr>pr_Action := ActionType_NOTIFY_DITTO_ACTIVITY, pr_Data := Some (NotifyDittoActivityRequest True)\<rparr>) c"

definition ackBrowserPresence :: "env \<Rightarrow> time \<Rightarrow> Client \<Rightarrow> Client" where
  "ackBrowserPresence env now c = snd (sendMessageNoResponse env now
     (default_params\<lparr>pr_Action := ActionType_ACK_BROWSER_PRESENCE\<rparr>) c)"

definition GetFullSizeImage :: "env \<Rightarrow> time \<Rightarrow> wait \<Rightarrow> string \<Rightarrow> string \<Rightarrow> Client \<Rightarrow> call_result" where
  "GetFullSizeImage env now w messageID actionMessageID c = typed_call GetFullSizeImageResponse
     (sendMessage env now w ActionType_GET_FULL_SIZE_IMAGE (Some (GetFullSizeImageRequest messageID actionMessageID)) c)"

definition RegisterPush :: "env \<Rightarrow> time \<Rightarrow> PushKeys \<Rightarrow> Client \<Rightarrow> go_error option \<times> Client" where
  "RegisterPush env now keys c =
     (let refresh = (case cl_PushKeys c of None \<Rightarrow> True | Some k \<Rightarrow> pk_URL k \<noteq> pk_URL keys);
          r = (if refresh then refreshAuthToken env now (Some keys) c else (None, c));
          c1 = snd r
      in case fst r of
           Some err \<Rightarrow> (Some (ErrWrap ''failed to refresh auth token'' err), c1)
         | None \<Rightarrow>
             let u = UpdateSettings env now True c1
             in case fst u of
                  Some err \<Rightarrow> (Some (ErrWrap ''failed to update settings to enable push'' err), snd u)
                | None \<Rightarrow> (None, (snd u)\<lparr>cl_PushKeys := Some keys\<rparr>))"

lemma typed_call_Return:
  "typed_call t r = Some (Return m, c) \<Longrightarrow> message_type m = t"
  by (auto simp: typed_call_def typedResponse_def split: option.splits prod.splits outcome.splits sum.splits if_splits)

end
