(* ===== verification/Gm_EventHandler.thy ===== *)
theory Gm_EventHandler
  imports Gm_Session
begin

text \<open>
  \<^verbatim>\<open>libgm/event_handler.go\<close> and the event half of \<^verbatim>\<open>libgm/pair.go\<close>: decoding an incoming RPC message,
  acknowledging it, matching it with a waiting caller, and turning updates into events.  Updates that
  were already delivered are recognised with a ring of the last eight (identifier, content hash) pairs.
\<close>

section \<open>Decoding\<close>

definition responseType :: "ActionType \<Rightarrow> ResponseType option" where
  "responseType a =
     (case a of
        ActionType_IS_BUGLE_DEFAULT \<Rightarrow> Some IsBugleDefaultResponse
      | ActionType_GET_UPDATES \<Rightarrow> Some UpdateEventsType
      | ActionType_LIST_CONVERSATIONS \<Rightarrow> Some ListConversationsResponse
      | ActionType_NOTIFY_DITTO_ACTIVITY \<Rightarrow> Some NotifyDittoActivityResponse
      | ActionType_GET_CONVERSATION_TYPE \<Rightarrow> Some GetConversationTypeResponse
      | ActionType_GET_CONVERSATION \<Rightarrow> Some GetConversationResponse
      | ActionType_LIST_MESSAGES \<Rightarrow> Some ListMessagesResponse
      | ActionType_SEND_MESSAGE \<Rightarrow> Some SendMessageResponseType
      | ActionType_SEND_REACTION \<Rightarrow> Some SendReactionResponse
      | ActionType_DELETE_MESSAGE \<Rightarrow> Some DeleteMessageResponse
      | ActionType_GET_PARTICIPANTS_THUMBNAIL \<Rightarrow> Some GetThumbnailResponse
      | ActionType_GET_CONTACTS_THUMBNAIL \<Rightarrow> Some GetThumbnailResponse
      | ActionType_LIST_CONTACTS \<Rightarrow> Some ListContactsResponse
      | ActionType_LIST_TOP_CONTACTS \<Rightarrow> Some ListTopContactsResponse
      | ActionType_GET_OR_CREATE_CONVERSATION \<Rightarrow> Some GetOrCreateConversationResponse
      | ActionType_UPDATE_CONVERSATION \<Rightarrow> Some UpdateConversationResponse
      | ActionType_GET_FULL_SIZE_IMAGE \<Rightarrow> Some GetFullSizeImageResponse
      | _ \<Rightarrow> None)"

text \<open>A fresh message of a type, and \<open>proto.Unmarshal\<close> into it.\<close>

definition new_message :: "ResponseType \<Rightarrow> DecryptedMessage" where
  "new_message t = (if t = UpdateEventsType then DM_UpdateEvents UpdateEvents_None else DM_Response t [])"

definition unmarshal_into :: "env \<Rightarrow> ResponseType \<Rightarrow> bytes \<Rightarrow> go_error + DecryptedMessage" where
  "unmarshal_into env t data =
     (if t = UpdateEventsType
      then (case env_unmarshal_updates env data of Inl e \<Rightarrow> Inl e | Inr u \<Rightarrow> Inr (DM_UpdateEvents u))
      else (case env_unmarshal_other env t data of Some e \<Rightarrow> Inl e | None \<Rightarrow> Inr (DM_Response t data)))"

definition base_message :: "RPCIncoming \<Rightarrow> IncomingRPCMessage" where
  "base_message data = \<lparr>im_raw = data, im_IsOld = False, im_Pair = None, im_Gaia = None, im_Message = None,
     im_DecryptedData = None, im_DecryptedMessage = None\<rparr>"

text \<open>The data route: the payload of the first field is decoded into the type of its action; the second
  field is only looked at for an account change.  Decryption is in place, so the encrypted field of
  the message holds the overwritten buffer afterwards.\<close>

definition decryptDataEvent ::
  "env \<Rightarrow> RPCIncoming \<Rightarrow> RPCMessageData \<Rightarrow> Client \<Rightarrow> (go_error + IncomingRPCMessage) \<times> Client" where
  "decryptDataEvent env data m c =
     (let t = responseType (md_Action m);
          msg = (base_message data)\<lparr>im_Message := Some m, im_DecryptedMessage := map_option new_message t\<rparr>;
          decrypt = Decrypt (env_aes env) (env_sha256 env) (ad_RequestCrypto (cl_AuthData c))
      in case md_EncryptedData m of
           Some ed \<Rightarrow>
             (case fst (decrypt ed) of
                Inl err \<Rightarrow> (Inl (ErrWrap ''failed to decrypt data event'' (crypto_err err)), c)
              | Inr plain \<Rightarrow>
                  let msg1 = msg\<lparr>im_Message := Some (m\<lparr>md_EncryptedData := Some (snd (decrypt ed))\<rparr>),
                                 im_DecryptedData := Some plain\<rparr>
                  in case t of
                       None \<Rightarrow> (Inr msg1, c)
                     | Some ty \<Rightarrow>
                         (case unmarshal_into env ty plain of
                            Inl err \<Rightarrow> (Inl (ErrWrap ''failed to decode decrypted data event'' err), c)
                          | Inr dm \<Rightarrow> (Inr (msg1\<lparr>im_DecryptedMessage := Some dm\<rparr>), c)))
         | None \<Rightarrow>
             (case md_EncryptedData2 m of
                None \<Rightarrow> (Inr msg, c)
              | Some ed2 \<Rightarrow>
                  (case fst (decrypt ed2) of
                     Inl err \<Rightarrow> (Inl (ErrWrap ''failed to decrypt field 2 in data event'' (crypto_err err)), c)
                   | Inr plain \<Rightarrow>
                       (case env_unmarshal_ed2 env plain of
                          Inl err \<Rightarrow> (Inl (ErrWrap ''failed to decode decrypted field 2 data event'' err), c)
                        | Inr change \<Rightarrow>
                            let msg1 = msg\<lparr>im_Message := Some (m\<lparr>md_EncryptedData2 := Some (snd (decrypt ed2))\<rparr>),
                                           im_DecryptedData := Some plain\<rparr>
                            in (Inr msg1,
                                case change of
                                  None \<Rightarrow> c
                                | Some ac \<Rightarrow> if contains_char (ac_Account ac) CHR ''@''
                                            then triggerEvent (Ev_AccountChange ac True) c else c)))))"

definition decryptInternalMessage ::
  "env \<Rightarrow> RPCIncoming \<Rightarrow> Client \<Rightarrow> (go_error + IncomingRPCMessage) \<times> Client" where
  "decryptInternalMessage env data c =
     (case ri_BugleRoute data of
        BugleRoute_PairEvent \<Rightarrow>
          (case env_unmarshal_pair env (ri_MessageData data) of
             Inl err \<Rightarrow> (Inl (ErrWrap ''failed to decode pair event'' err), c)
           | Inr p \<Rightarrow> (Inr ((base_message data)\<lparr>im_Pair := Some p\<rparr>), c))
      | BugleRoute_GaiaEvent \<Rightarrow>
          (case env_unmarshal_gaia env (ri_MessageData data) of
             Inl err \<Rightarrow> (Inl (ErrWrap ''failed to decode gaia event'' err), c)
           | Inr g \<Rightarrow> (Inr ((base_message data)\<lparr>im_Gaia := Some g\<rparr>), c))
      | BugleRoute_DataEvent \<Rightarrow>
          (case env_unmarshal_rpc env (ri_MessageData data) of
             Inl err \<Rightarrow> (Inl (ErrWrap ''failed to decode data event'' err), c)
           | Inr m \<Rightarrow> decryptDataEvent env data m c)
      | _ \<Rightarrow> (Inl (ErrText ''unknown bugle route''), c))"

section \<open>Duplicate updates\<close>

text \<open>The loop over the ring, from the newest slot to the oldest: it stops at the first entry with the
  identifier.\<close>

definition recentUpdatesLen :: nat where "recentUpdatesLen = 8"

fun dedupScan :: "updateDedupItem list \<Rightarrow> nat \<Rightarrow> string \<Rightarrow> bytes \<Rightarrow> nat \<Rightarrow> bool" where
  "dedupScan items ptr uid hash 0 = False"
| "dedupScan items ptr uid hash (Suc k) =
     (let item = items ! ((ptr + k) mod recentUpdatesLen)
      in if du_id item = uid then du_hash item = hash else dedupScan items ptr uid hash k)"

definition deduplicateHash :: "string \<Rightarrow> bytes \<Rightarrow> Client \<Rightarrow> bool \<times> Client" where
  "deduplicateHash uid hash c =
     (if dedupScan (cl_recentUpdates c) (cl_recentUpdatesPtr c) uid hash recentUpdatesLen
      then (True, c)
      else (False, c\<lparr>cl_recentUpdates := (cl_recentUpdates c)[cl_recentUpdatesPtr c := \<lparr>du_id = uid, du_hash = hash\<rparr>],
                     cl_recentUpdatesPtr := (cl_recentUpdatesPtr c + 1) mod recentUpdatesLen\<rparr>))"

definition deduplicateUpdate :: "env \<Rightarrow> string \<Rightarrow> IncomingRPCMessage \<Rightarrow> Client \<Rightarrow> bool \<times> Client" where
  "deduplicateUpdate env uid msg c =
     (case im_DecryptedData msg of
        None \<Rightarrow> (False, c)
      | Some d \<Rightarrow> deduplicateHash uid (be_bytes 32 (env_sha256 env d)) c)"

section \<open>Pairing events\<close>

definition GetSourceID :: "Device option \<Rightarrow> string" where
  "GetSourceID d = (case d of None \<Rightarrow> '''' | Some x \<Rightarrow> dv_SourceID x)"

definition completePairing :: "time \<Rightarrow> PairedData \<Rightarrow> Client \<Rightarrow> Client" where
  "completePairing now data c =
     (let c1 = updateTachyonAuthToken now (pd_TokenData data) c;
          c2 = c1\<lparr>cl_AuthData := (cl_AuthData c1)\<lparr>ad_Mobile := pd_Mobile data, ad_Browser := pd_Browser data\<rparr>\<rparr>
      in if cl_PairCallback c2 then triggerEvent (Ev_PairCallback data) c2
         else spawn Go_Reconnect (triggerEvent (Ev_PairSuccessful (GetSourceID (pd_Mobile data)) (Some data)) c2))"

definition handlePairingEvent :: "time \<Rightarrow> IncomingRPCMessage \<Rightarrow> Client \<Rightarrow> Client" where
  "handlePairingEvent now msg c =
     (case im_Pair msg of
        Some (RPCPairData_Paired data) \<Rightarrow> completePairing now data c
      | Some RPCPairData_Revoked \<Rightarrow> triggerEvent Ev_RevokePairData c
      | _ \<Rightarrow> c)"

definition handleGaiaPairingEvent :: "IncomingRPCMessage \<Rightarrow> Client \<Rightarrow> Client" where
  "handleGaiaPairingEvent msg c = c"

section \<open>Updates\<close>

definition hackyLoggedOutBytes :: bytes where
  "hackyLoggedOutBytes = [0x72, 0x00]"

fun handleConversationParts :: "env \<Rightarrow> IncomingRPCMessage \<Rightarrow> Conversation list \<Rightarrow> Client \<Rightarrow> Client" where
  "handleConversationParts env msg [] c = c"
| "handleConversationParts env msg (part # parts) c =
     (let d = deduplicateUpdate env (cv_conversationID part) msg c; c1 = snd d
      in if fst d then c1
         else if im_IsOld msg then handleConversationParts env msg parts c1
         else handleConversationParts env msg parts (triggerEvent (Ev_Conversation part) c1))"

fun handleMessageParts :: "env \<Rightarrow> IncomingRPCMessage \<Rightarrow> Message list \<Rightarrow> Client \<Rightarrow> Client" where
  "handleMessageParts env msg [] c = c"
| "handleMessageParts env msg (part # parts) c =
     (let d = deduplicateUpdate env (msg_messageID part) msg c; c1 = snd d
      in if fst d then c1
         else handleMessageParts env msg parts
                (triggerEvent (Ev_WrappedMessage part (im_IsOld msg) (im_DecryptedData msg)) c1))"

definition handleUpdate :: "env \<Rightarrow> IncomingRPCMessage \<Rightarrow> UpdateEvents \<Rightarrow> Client \<Rightarrow> Client" where
  "handleUpdate env msg data c =
     (case data of
        UpdateEvents_UserAlertEvent a \<Rightarrow> if im_IsOld msg then c else triggerEvent (Ev_UserAlertEvent a) c
      | UpdateEvents_SettingsEvent s \<Rightarrow> triggerEvent (Ev_Settings s) c
      | UpdateEvents_ConversationEvent parts \<Rightarrow> handleConversationParts env msg parts c
      | UpdateEvents_MessageEvent parts \<Rightarrow> handleMessageParts env msg parts c
      | UpdateEvents_TypingEvent t \<Rightarrow> if im_IsOld msg then c else triggerEvent (Ev_TypingData t) c
      | UpdateEvents_BrowserPresenceCheckEvent \<Rightarrow> spawn Go_ackBrowserPresence c
      | UpdateEvents_AccountChange ac \<Rightarrow> triggerEvent (Ev_AccountChange ac False) c
      | UpdateEvents_None \<Rightarrow> c)"

definition handleUpdatesEvent :: "env \<Rightarrow> time \<Rightarrow> IncomingRPCMessage \<Rightarrow> RPCMessageData \<Rightarrow> Client \<Rightarrow> Client" where
  "handleUpdatesEvent env now msg m c =
     (if md_Action m = ActionType_GET_UPDATES then
        if im_DecryptedData msg = None \<and> md_UnencryptedData m = Some hackyLoggedOutBytes
        then triggerEvent Ev_GaiaLoggedOut c
        else
          let c1 = (if \<not> im_IsOld msg then bumpNextDataReceiveCheck now DefaultBugleDefaultCheckInterval c else c)
          in case im_DecryptedMessage msg of
               Some (DM_UpdateEvents data) \<Rightarrow> handleUpdate env msg data c1
             | _ \<Rightarrow> c1
      else c)"

text \<open>\<open>HandleRPCMsg\<close>: a panic of the reader (a send on a closed channel) is an outcome.\<close>

definition dispatch :: "env \<Rightarrow> time \<Rightarrow> IncomingRPCMessage \<Rightarrow> Client \<Rightarrow> Client" where
  "dispatch env now msg c =
     (case ri_BugleRoute (im_raw msg) of
        BugleRoute_PairEvent \<Rightarrow> handlePairingEvent now msg c
      | BugleRoute_GaiaEvent \<Rightarrow> handleGaiaPairingEvent msg c
      | BugleRoute_DataEvent \<Rightarrow>
          (case im_Message msg of
             None \<Rightarrow> c
           | Some m \<Rightarrow>
               if cl_skipCount c > 0
               then handleUpdatesEvent env now (msg\<lparr>im_IsOld := True\<rparr>) m (c\<lparr>cl_skipCount := cl_skipCount c - 1\<rparr>)
               else handleUpdatesEvent env now msg m c)
      | _ \<Rightarrow> c)"

definition HandleRPCMsg :: "env \<Rightarrow> time \<Rightarrow> RPCIncoming \<Rightarrow> Client \<Rightarrow> (go_error, Client) outcome" where
  "HandleRPCMsg env now rawMsg c =
     (let d = decryptInternalMessage env rawMsg c;
          c1 = upd_session (queueMessageAck (ri_ResponseID rawMsg)) (snd d)
      in case fst d of
           Inl err \<Rightarrow> Return c1
         | Inr msg \<Rightarrow>
             bind_outcome (receiveResponse (cl_AuthData c1) msg (cl_sessionHandler c1))
               (\<lambda>(handled, s).
                  let c2 = c1\<lparr>cl_sessionHandler := s\<rparr>
                  in Return (if handled then c2 else dispatch env now msg c2)))"

section \<open>The ring refines a bounded history\<close>

text \<open>The abstraction: the ring as the list of its entries, newest first.\<close>

definition recent :: "Client \<Rightarrow> (string \<times> bytes) list" where
  "recent c = map (\<lambda>k. let i = cl_recentUpdates c ! ((cl_recentUpdatesPtr c + k) mod recentUpdatesLen)
                       in (du_id i, du_hash i)) (rev [0..<recentUpdatesLen])"

definition ring_ok :: "Client \<Rightarrow> bool" where
  "ring_ok c \<longleftrightarrow> length (cl_recentUpdates c) = recentUpdatesLen \<and> cl_recentUpdatesPtr c < recentUpdatesLen"

text \<open>The specification: an update is a duplicate when the latest of the last eight entries with its
  identifier has its hash; otherwise it becomes the newest entry and the oldest one is forgotten.\<close>

definition history_check :: "string \<Rightarrow> bytes \<Rightarrow> (string \<times> bytes) list \<Rightarrow> bool \<times> (string \<times> bytes) list" where
  "history_check uid hash h =
     (if map_of h uid = Some hash then (True, h) else (False, take recentUpdatesLen ((uid, hash) # h)))"

lemma length_recent [simp]: "length (recent c) = recentUpdatesLen"
  by (simp add: recent_def)

lemma dedupScan_map_of:
  "dedupScan items ptr uid hash n \<longleftrightarrow>
     map_of (map (\<lambda>k. let i = items ! ((ptr + k) mod recentUpdatesLen) in (du_id i, du_hash i)) (rev [0..<n])) uid = Some hash"
  by (induction n) (auto simp: Let_def)

lemma recent_nth:
  assumes "j < recentUpdatesLen"
  shows "recent c ! j = (let i = cl_recentUpdates c ! ((cl_recentUpdatesPtr c + (recentUpdatesLen - Suc j)) mod recentUpdatesLen)
                         in (du_id i, du_hash i))"
  using assms by (simp add: recent_def rev_nth Let_def)

lemma mod8_shift:
  assumes "j < 8" "0 < j"
  shows "((ptr + 1) mod 8 + (8 - Suc j)) mod 8 = (ptr + (8 - j)) mod (8::nat)"
proof -
  have "ptr + 1 + (8 - Suc j) = ptr + (8 - j)" using assms by simp
  then show ?thesis by (metis mod_add_left_eq)
qed

lemma mod8_neq:
  assumes "ptr < 8" "j < 8" "0 < j"
  shows "(ptr + (8 - j)) mod 8 \<noteq> (ptr::nat)"
proof (cases "j \<le> ptr")
  case True
  then have "ptr + (8 - j) = (ptr - j) + 8" using assms by simp
  then have "(ptr + (8 - j)) mod 8 = ptr - j" using assms by (simp only: mod_add_self2) simp
  then show ?thesis using True assms by simp
next
  case False
  then have "(ptr + (8 - j)) mod 8 = ptr + (8 - j)" using assms by (intro mod_less) simp
  then show ?thesis using assms by simp
qed

lemma recent_push:
  assumes "ring_ok c"
  shows "recent (c\<lparr>cl_recentUpdates := (cl_recentUpdates c)[cl_recentUpdatesPtr c := \<lparr>du_id = uid, du_hash = hash\<rparr>],
      cl_recentUpdatesPtr := (cl_recentUpdatesPtr c + 1) mod recentUpdatesLen\<rparr>)
    = take recentUpdatesLen ((uid, hash) # recent c)" (is "recent ?c' = ?h")
proof (rule nth_equalityI)
  show "length (recent ?c') = length ?h" by simp
next
  fix j assume "j < length (recent ?c')"
  then have j: "j < 8" by (simp add: recentUpdatesLen_def)
  have p: "cl_recentUpdatesPtr c < 8" "length (cl_recentUpdates c) = 8"
    using assms by (auto simp: ring_ok_def recentUpdatesLen_def)
  show "recent ?c' ! j = ?h ! j"
  proof (cases j)
    case 0
    have "((cl_recentUpdatesPtr c + 1) mod 8 + 7) mod 8 = (cl_recentUpdatesPtr c + 8) mod 8"
      by (simp add: mod_add_left_eq)
    then have "((cl_recentUpdatesPtr c + 1) mod 8 + 7) mod 8 = cl_recentUpdatesPtr c" using p(1) by simp
    then show ?thesis using 0 p by (simp add: recent_nth recentUpdatesLen_def)
  next
    case (Suc i)
    then have "recent c ! i = (let it = cl_recentUpdates c ! ((cl_recentUpdatesPtr c + (8 - j)) mod 8) in (du_id it, du_hash it))"
      using j by (simp add: recent_nth recentUpdatesLen_def)
    with Suc show ?thesis
      using j p mod8_shift [of j "cl_recentUpdatesPtr c"] mod8_neq [of "cl_recentUpdatesPtr c" j]
      by (simp add: recent_nth recentUpdatesLen_def Let_def)
  qed
qed

lemma deduplicateHash_refines:
  assumes "ring_ok c"
  shows "history_check uid hash (recent c) = (fst (deduplicateHash uid hash c), recent (snd (deduplicateHash uid hash c)))"
    and "ring_ok (snd (deduplicateHash uid hash c))"
  using assms recent_push [OF assms, of uid hash]
  by (auto simp: history_check_def deduplicateHash_def dedupScan_map_of recent_def ring_ok_def recentUpdatesLen_def)

lemma recent_after_new:
  "ring_ok c \<Longrightarrow> \<not> fst (deduplicateHash uid hash c) \<Longrightarrow>
   recent (snd (deduplicateHash uid hash c)) = take recentUpdatesLen ((uid, hash) # recent c)"
  using deduplicateHash_refines(1) [of c uid hash] by (auto simp: history_check_def split: if_splits)

lemma ring_ok_NewClient: "ring_ok (NewClient ad pk)"
  by (simp add: ring_ok_def NewClient_def recentUpdatesLen_def)

text \<open>
  (C4) Refinement of the duplicate filter: on a well-formed ring, \<open>deduplicateHash\<close> answers and moves
  exactly as the specification does on the history of the last eight entries, and the ring stays well
  formed.  So an update is dropped exactly when the most recent entry for its identifier, among the
  last eight accepted, has the same content hash.
\<close>

theorem deduplicateHash_refines_history:
  assumes "ring_ok c"
  shows "ring_ok (snd (deduplicateHash uid hash c))
    \<and> history_check uid hash (recent c) = (fst (deduplicateHash uid hash c), recent (snd (deduplicateHash uid hash c)))
    \<and> (fst (deduplicateHash uid hash c) \<longleftrightarrow> map_of (recent c) uid = Some hash)"
  using deduplicateHash_refines [OF assms, of uid hash]
  by (auto simp: history_check_def split: if_splits)

theorem deduplicateHash_refines_history_witness:
  "ring_ok (snd (deduplicateHash ''m1'' [1] (NewClient sample_auth None)))"
  using deduplicateHash_refines_history [OF ring_ok_NewClient] by blast

text \<open>What the update handlers rely on: the filter recognises exactly the latest content it was shown
  for an identifier, and being asked about a known update changes nothing.\<close>

locale dedup_filter =
  fixes ok :: "'s \<Rightarrow> bool"
    and check :: "'i \<Rightarrow> 'h \<Rightarrow> 's \<Rightarrow> bool \<times> 's"
    and latest :: "'s \<Rightarrow> 'i \<Rightarrow> 'h option"
  assumes ok_check: "ok s \<Longrightarrow> ok (snd (check i h s))"
    and dup_iff: "ok s \<Longrightarrow> fst (check i h s) \<longleftrightarrow> latest s i = Some h"
    and dup_keeps: "fst (check i h s) \<Longrightarrow> snd (check i h s) = s"
    and remembers: "ok s \<Longrightarrow> latest (snd (check i h s)) i = Some h"
begin

lemma repeated_is_duplicate: "ok s \<Longrightarrow> fst (check i h (snd (check i h s)))"
  by (simp add: dup_iff ok_check remembers)

lemma changed_is_new: "ok s \<Longrightarrow> h \<noteq> h' \<Longrightarrow> \<not> fst (check i h' (snd (check i h s)))"
  by (simp add: dup_iff ok_check remembers)

lemma repeated_keeps: "ok s \<Longrightarrow> snd (check i h (snd (check i h s))) = snd (check i h s)"
  using dup_keeps repeated_is_duplicate by blast

end

lemma map_of_take8_Cons: "map_of (take recentUpdatesLen ((uid, hash) # h)) uid = Some hash"
  by (simp add: recentUpdatesLen_def)

interpretation ring: dedup_filter ring_ok deduplicateHash "\<lambda>c. map_of (recent c)"
proof (unfold_locales, goal_cases)
  case (1 s i h)
  then show ?case by (rule deduplicateHash_refines)
next
  case (2 s i h)
  then show ?case using deduplicateHash_refines(1) [of s i h] by (auto simp: history_check_def split: if_splits)
next
  case (3 i h s)
  then show ?case by (simp add: deduplicateHash_def split: if_splits)
next
  case (4 s i h)
  show ?case
  proof (cases "fst (deduplicateHash i h s)")
    case True
    then show ?thesis using deduplicateHash_refines(1) [OF 4, of i h]
      by (auto simp: history_check_def split: if_splits)
  next
    case False
    then show ?thesis unfolding recent_after_new [OF 4 False] by (simp only: map_of_take8_Cons)
  qed
qed

section \<open>Replayed updates\<close>

text \<open>An entry is remembered at depth at most \<open>k\<close>: no newer entry has its identifier.\<close>

definition remembered :: "nat \<Rightarrow> string \<Rightarrow> bytes \<Rightarrow> Client \<Rightarrow> bool" where
  "remembered k uid hash c \<longleftrightarrow>
     (\<exists>newer older. recent c = newer @ (uid, hash) # older \<and> uid \<notin> fst ` set newer \<and> length newer \<le> k)"

lemma remembered_latest: "remembered k uid hash c \<Longrightarrow> map_of (recent c) uid = Some hash"
  by (auto simp: remembered_def map_add_Some_iff map_of_eq_None_iff)

lemma remembered_new:
  assumes "ring_ok c" "\<not> fst (deduplicateHash uid hash c)"
  shows "remembered 0 uid hash (snd (deduplicateHash uid hash c))"
  using recent_after_new [OF assms] by (simp add: remembered_def recentUpdatesLen_def)

lemma remembered_other:
  assumes "ring_ok c" "remembered k uid hash c" "k < 7" "uid' \<noteq> uid"
  shows "remembered (Suc k) uid hash (snd (deduplicateHash uid' hash' c))"
proof (cases "fst (deduplicateHash uid' hash' c)")
  case True
  with assms(2) show ?thesis using ring.dup_keeps [OF True] by (force simp: remembered_def)
next
  case False
  obtain newer older where r: "recent c = newer @ (uid, hash) # older" "uid \<notin> fst ` set newer" "length newer \<le> k"
    using assms(2) by (auto simp: remembered_def)
  have "recent (snd (deduplicateHash uid' hash' c)) = take recentUpdatesLen ((uid', hash') # recent c)"
    by (rule recent_after_new [OF assms(1) False])
  also have "\<dots> = ((uid', hash') # newer) @ (uid, hash) # take (7 - Suc (length newer)) older"
  proof -
    have "7 - length newer = Suc (7 - Suc (length newer))" using r(3) assms(3) by simp
    then show ?thesis using r(3) assms(3) by (simp add: r(1) recentUpdatesLen_def)
  qed
  finally have e: "recent (snd (deduplicateHash uid' hash' c))
      = ((uid', hash') # newer) @ (uid, hash) # take (7 - Suc (length newer)) older" .
  moreover have "uid \<notin> fst ` set ((uid', hash') # newer)" "length ((uid', hash') # newer) \<le> Suc k"
    using r(2,3) assms(4) by auto
  ultimately show ?thesis unfolding remembered_def by blast
qed

lemma recent_triggerEvent [simp]: "recent (triggerEvent e c) = recent c"
  by (simp add: recent_def triggerEvent_def)

lemma ring_ok_triggerEvent [simp]: "ring_ok (triggerEvent e c) = ring_ok c"
  by (simp add: ring_ok_def triggerEvent_def)

lemma remembered_triggerEvent [simp]: "remembered k uid h (triggerEvent e c) = remembered k uid h c"
  by (simp add: remembered_def)

lemma remembered_handleMessageParts:
  assumes "ring_ok c" "remembered k uid hash c" "k + length parts \<le> 7" "uid \<notin> msg_messageID ` set parts"
    and "im_DecryptedData msg = Some d"
  shows "map_of (recent (handleMessageParts env msg parts c)) uid = Some hash
    \<and> ring_ok (handleMessageParts env msg parts c)"
  using assms
proof (induction parts arbitrary: c k)
  case (Cons p parts)
  let ?d = "deduplicateUpdate env (msg_messageID p) msg c"
  have d: "?d = deduplicateHash (msg_messageID p) (be_bytes 32 (env_sha256 env d)) c"
    using Cons.prems(5) by (simp add: deduplicateUpdate_def)
  have r: "remembered (Suc k) uid hash (snd ?d)" "ring_ok (snd ?d)"
    unfolding d using Cons.prems by (auto intro: remembered_other deduplicateHash_refines(2))
  then show ?case
    using Cons.IH [of "triggerEvent (Ev_WrappedMessage p (im_IsOld msg) (im_DecryptedData msg)) (snd ?d)" "Suc k"]
      Cons.prems remembered_latest by (auto simp: Let_def)
qed (auto dest: remembered_latest)

lemma handleUpdate_replay:
  fixes env :: env
  assumes "ring_ok c" and "im_DecryptedData msg = Some d" and "im_DecryptedData msg' = Some d"
    and "distinct (map msg_messageID parts)" and "length parts \<le> 8"
  defines "c' \<equiv> handleUpdate env msg (UpdateEvents_MessageEvent parts) c"
  shows "handleUpdate env msg' (UpdateEvents_MessageEvent parts) c' = c'"
proof (cases parts)
  case Nil
  then show ?thesis by (simp add: c'_def handleUpdate_def)
next
  case (Cons p ps)
  let ?h = "be_bytes 32 (env_sha256 env d)"
  let ?d = "deduplicateHash (msg_messageID p) ?h c"
  have c': "c' = (if fst ?d then c else handleMessageParts env msg ps
      (triggerEvent (Ev_WrappedMessage p (im_IsOld msg) (im_DecryptedData msg)) (snd ?d)))"
    using Cons assms(2) ring.dup_keeps by (simp add: c'_def handleUpdate_def deduplicateUpdate_def Let_def)
  have "map_of (recent c') (msg_messageID p) = Some ?h \<and> ring_ok c'"
  proof (cases "fst ?d")
    case True
    then show ?thesis using assms(1) ring.dup_iff [OF assms(1)] c' by simp
  next
    case False
    then show ?thesis
      using remembered_handleMessageParts [of "triggerEvent (Ev_WrappedMessage p (im_IsOld msg) (im_DecryptedData msg)) (snd ?d)"
          0 "msg_messageID p" ?h ps msg d env]
        remembered_new [OF assms(1) False] ring.ok_check [OF assms(1)] assms(2,4,5) Cons c'
      by simp
  qed
  then have "fst (deduplicateHash (msg_messageID p) ?h c')" by (simp add: ring.dup_iff)
  with Cons assms(3) ring.dup_keeps [OF this] show ?thesis
    by (simp add: handleUpdate_def deduplicateUpdate_def Let_def)
qed

text \<open>
  Replay protection: after a message update with up to eight parts (distinct identifiers) was
  handled, receiving the same content again, old or not, triggers no event and changes nothing, even
  when only some of the parts had been new the first time.
\<close>

lemma replayed_message_update_ignored:
  fixes env :: env
  assumes "ring_ok c" and "im_DecryptedData msg = Some d" and "im_DecryptedData msg' = Some d"
    and "distinct (map msg_messageID parts)" and "length parts \<le> 8"
  defines "c' \<equiv> handleUpdate env msg (UpdateEvents_MessageEvent parts) c"
  shows "handleUpdate env msg' (UpdateEvents_MessageEvent parts) c' = c'"
  unfolding c'_def by (rule handleUpdate_replay [OF assms(1-5)])

definition sample_message :: Message where
  "sample_message = \<lparr>msg_messageID = ''m1'', msg_messageStatus = None, msg_timestamp = 0, msg_conversationID = ''1'',
     msg_participantID = ''2'', msg_messageInfo = [], msg_tmpID = '''', msg_subject = None, msg_reactions = [],
     msg_replyMessage = None\<rparr>"

lemma replayed_message_update_ignored_witness:
  "handleUpdate sample_env sample_reply (UpdateEvents_MessageEvent [sample_message])
     (handleUpdate sample_env sample_reply (UpdateEvents_MessageEvent [sample_message]) (NewClient sample_auth None))
   = handleUpdate sample_env sample_reply (UpdateEvents_MessageEvent [sample_message]) (NewClient sample_auth None)"
  by (rule replayed_message_update_ignored [OF ring_ok_NewClient, where d = "[]"])
     (simp_all add: sample_reply_def)

section \<open>Acknowledging and dispatching\<close>

lemma decrypt_keeps:
  "cl_sessionHandler (snd (decryptInternalMessage env raw c)) = cl_sessionHandler c"
  "cl_skipCount (snd (decryptInternalMessage env raw c)) = cl_skipCount c"
  "ring_ok (snd (decryptInternalMessage env raw c)) = ring_ok c"
  by (simp_all add: decryptInternalMessage_def decryptDataEvent_def triggerEvent_def Let_def ring_ok_def
      split: BugleRoute.split sum.split option.split)

lemma decrypt_raw: "fst (decryptInternalMessage env raw c) = Inr msg \<Longrightarrow> im_raw msg = raw"
  by (auto simp: decryptInternalMessage_def decryptDataEvent_def base_message_def Let_def
      split: BugleRoute.splits sum.splits option.splits if_splits)

lemma deduplicateUpdate_keeps:
  "cl_sessionHandler (snd (deduplicateUpdate env uid msg c)) = cl_sessionHandler c"
  "cl_skipCount (snd (deduplicateUpdate env uid msg c)) = cl_skipCount c"
  "cl_events (snd (deduplicateUpdate env uid msg c)) = cl_events c"
  "cl_nextDataReceiveCheck (snd (deduplicateUpdate env uid msg c)) = cl_nextDataReceiveCheck c"
  "ring_ok c \<Longrightarrow> ring_ok (snd (deduplicateUpdate env uid msg c))"
  using ring.ok_check [of c]
  by (simp_all add: deduplicateUpdate_def deduplicateHash_def split: option.split)

lemma handleConversationParts_keeps:
  "cl_sessionHandler (handleConversationParts env msg parts c) = cl_sessionHandler c
   \<and> cl_skipCount (handleConversationParts env msg parts c) = cl_skipCount c
   \<and> cl_nextDataReceiveCheck (handleConversationParts env msg parts c) = cl_nextDataReceiveCheck c
   \<and> (ring_ok c \<longrightarrow> ring_ok (handleConversationParts env msg parts c))"
  by (induction parts arbitrary: c) (simp_all add: deduplicateUpdate_keeps Let_def, simp_all add: triggerEvent_def deduplicateUpdate_keeps)

lemma handleMessageParts_keeps:
  "cl_sessionHandler (handleMessageParts env msg parts c) = cl_sessionHandler c
   \<and> cl_skipCount (handleMessageParts env msg parts c) = cl_skipCount c
   \<and> cl_nextDataReceiveCheck (handleMessageParts env msg parts c) = cl_nextDataReceiveCheck c
   \<and> (ring_ok c \<longrightarrow> ring_ok (handleMessageParts env msg parts c))"
  by (induction parts arbitrary: c) (simp_all add: deduplicateUpdate_keeps Let_def, simp_all add: triggerEvent_def deduplicateUpdate_keeps)

lemma handleUpdate_keeps:
  "cl_sessionHandler (handleUpdate env msg data c) = cl_sessionHandler c
   \<and> cl_skipCount (handleUpdate env msg data c) = cl_skipCount c
   \<and> cl_nextDataReceiveCheck (handleUpdate env msg data c) = cl_nextDataReceiveCheck c
   \<and> (ring_ok c \<longrightarrow> ring_ok (handleUpdate env msg data c))"
  using handleConversationParts_keeps handleMessageParts_keeps
  by (cases data) (simp_all add: handleUpdate_def triggerEvent_def spawn_def ring_ok_def)

lemma handleUpdatesEvent_keeps:
  "cl_sessionHandler (handleUpdatesEvent env now msg m c) = cl_sessionHandler c
   \<and> cl_skipCount (handleUpdatesEvent env now msg m c) = cl_skipCount c
   \<and> (im_IsOld msg \<longrightarrow> cl_nextDataReceiveCheck (handleUpdatesEvent env now msg m c) = cl_nextDataReceiveCheck c)
   \<and> (ring_ok c \<longrightarrow> ring_ok (handleUpdatesEvent env now msg m c))"
proof -
  have b: "cl_sessionHandler (bumpNextDataReceiveCheck now d c) = cl_sessionHandler c"
    "cl_skipCount (bumpNextDataReceiveCheck now d c) = cl_skipCount c"
    "ring_ok (bumpNextDataReceiveCheck now d c) = ring_ok c" for d
    by (simp_all add: bumpNextDataReceiveCheck_def ring_ok_def)
  show ?thesis
    unfolding handleUpdatesEvent_def Let_def using handleUpdate_keeps b
    by (simp split: option.split DecryptedMessage.split) (simp add: triggerEvent_def)
qed

lemma dispatch_session: "cl_sessionHandler (dispatch env now msg c) = cl_sessionHandler c"
proof -
  have u: "cl_sessionHandler (handleUpdatesEvent env now msg m c) = cl_sessionHandler c" for msg m c
    using handleUpdatesEvent_keeps by blast
  show ?thesis
    unfolding dispatch_def handlePairingEvent_def handleGaiaPairingEvent_def completePairing_def
      updateTachyonAuthToken_def triggerEvent_def spawn_def Let_def
    by (simp add: u split: BugleRoute.split option.split RPCPairData.split)
qed

lemma dispatch_ring: "ring_ok c \<Longrightarrow> ring_ok (dispatch env now msg c)"
proof -
  assume r: "ring_ok c"
  have u: "ring_ok c \<Longrightarrow> ring_ok (handleUpdatesEvent env now msg m c)" for msg m c
    using handleUpdatesEvent_keeps by blast
  have p: "ring_ok (handlePairingEvent now msg c)"
    using r unfolding handlePairingEvent_def completePairing_def updateTachyonAuthToken_def triggerEvent_def
      spawn_def Let_def ring_ok_def by (simp split: option.split RPCPairData.split)
  have "ring_ok (c\<lparr>cl_skipCount := n\<rparr>)" for n using r by (simp add: ring_ok_def)
  with r p show ?thesis
    unfolding dispatch_def handleGaiaPairingEvent_def by (simp add: u split: BugleRoute.split option.split)
qed

text \<open>
  (C16) Every message from the server is acknowledged, whether or not it can be decoded or decrypted,
  and exactly once however often it is sent; and handling a message keeps the table of waiters and the
  ring of recent updates well formed.
\<close>

theorem HandleRPCMsg_acknowledges:
  assumes "waiters_ok (cl_sessionHandler c)" and "ring_ok c" and "distinct (sh_ackMap (cl_sessionHandler c))"
  shows "\<exists>c'. HandleRPCMsg env now raw c = Return c'
    \<and> set (sh_ackMap (cl_sessionHandler c')) = insert (ri_ResponseID raw) (set (sh_ackMap (cl_sessionHandler c)))
    \<and> distinct (sh_ackMap (cl_sessionHandler c')) \<and> waiters_ok (cl_sessionHandler c') \<and> ring_ok c'"
proof -
  let ?d = "decryptInternalMessage env raw c"
  let ?c1 = "upd_session (queueMessageAck (ri_ResponseID raw)) (snd ?d)"
  have c1: "waiters_ok (cl_sessionHandler ?c1)" "ring_ok ?c1"
    "set (sh_ackMap (cl_sessionHandler ?c1)) = insert (ri_ResponseID raw) (set (sh_ackMap (cl_sessionHandler c)))"
    "distinct (sh_ackMap (cl_sessionHandler ?c1))"
    using assms decrypt_keeps [of env raw c] waiters_ok_queueMessageAck
    by (auto simp: upd_session_def ring_ok_def queueMessageAck_def)
  show ?thesis
  proof (cases "fst ?d")
    case (Inl err)
    then show ?thesis using c1 by (simp add: HandleRPCMsg_def Let_def)
  next
    case (Inr msg)
    obtain handled s where r: "receiveResponse (cl_AuthData ?c1) msg (cl_sessionHandler ?c1) = Return (handled, s)"
        "waiters_ok s"
      using receiveResponse_spec [OF c1(1), of "cl_AuthData ?c1" msg] by (elim exE conjE)
    have acks: "sh_ackMap s = sh_ackMap (cl_sessionHandler ?c1)"
      using r(1) by (auto simp: receiveResponse_def take_waiter_def chan_send_def
          split: option.splits if_splits)
    have "ring_ok (?c1\<lparr>cl_sessionHandler := s\<rparr>)" using c1(2) by (simp add: ring_ok_def)
    with c1 r acks Inr show ?thesis
      using dispatch_ring [of "?c1\<lparr>cl_sessionHandler := s\<rparr>" env now msg]
      by (simp add: HandleRPCMsg_def Let_def dispatch_session)
  qed
qed

definition sample_raw :: RPCIncoming where
  "sample_raw = \<lparr>ri_ResponseID = ''r1'', ri_BugleRoute = BugleRoute_Unknown, ri_MessageData = []\<rparr>"

theorem HandleRPCMsg_acknowledges_witness:
  "\<exists>c'. HandleRPCMsg sample_env 0 sample_raw (NewClient sample_auth None) = Return c'
    \<and> set (sh_ackMap (cl_sessionHandler c')) = {''r1''}"
proof -
  have s: "waiters_ok (cl_sessionHandler (NewClient sample_auth None))" "distinct (sh_ackMap (cl_sessionHandler (NewClient sample_auth None)))"
    "set (sh_ackMap (cl_sessionHandler (NewClient sample_auth None))) = {}" "ri_ResponseID sample_raw = ''r1''"
    by (simp_all add: NewClient_def newSessionHandler_def waiters_ok_def sample_raw_def)
  show ?thesis
    using HandleRPCMsg_acknowledges [OF s(1) ring_ok_NewClient s(2), of sample_env 0 sample_raw]
    unfolding s(3,4) by blast
qed

text \<open>Events that an update from before the connection may still trigger.\<close>

fun quiet_event :: "event \<Rightarrow> bool" where
  "quiet_event (Ev_WrappedMessage m old d) = old"
| "quiet_event (Ev_Settings s) = True"
| "quiet_event (Ev_AccountChange ac fake) = True"
| "quiet_event Ev_GaiaLoggedOut = True"
| "quiet_event _ = False"

definition new_events :: "Client \<Rightarrow> Client \<Rightarrow> event list" where
  "new_events c c' = drop (length (cl_events c)) (cl_events c')"

lemma old_handleConversationParts:
  "im_IsOld msg \<Longrightarrow> cl_events (handleConversationParts env msg parts c) = cl_events c"
  by (induction parts arbitrary: c) (simp_all add: Let_def deduplicateUpdate_keeps)

lemma old_handleMessageParts:
  "im_IsOld msg \<Longrightarrow> \<exists>es. cl_events (handleMessageParts env msg parts c) = cl_events c @ es \<and> list_all quiet_event es"
proof (induction parts arbitrary: c)
  case (Cons p parts)
  then show ?case
    using Cons.IH [of "triggerEvent (Ev_WrappedMessage p (im_IsOld msg) (im_DecryptedData msg)) (snd (deduplicateUpdate env (msg_messageID p) msg c))"]
    by (auto simp: Let_def deduplicateUpdate_keeps triggerEvent_def)
qed simp

lemma old_handleUpdate:
  "im_IsOld msg \<Longrightarrow> \<exists>es. cl_events (handleUpdate env msg data c) = cl_events c @ es \<and> list_all quiet_event es"
  using old_handleMessageParts [of msg env] old_handleConversationParts [of msg env]
  by (cases data) (simp_all add: handleUpdate_def triggerEvent_def spawn_def)

lemma old_handleUpdatesEvent:
  "im_IsOld msg \<Longrightarrow> \<exists>es. cl_events (handleUpdatesEvent env now msg m c) = cl_events c @ es \<and> list_all quiet_event es"
  using old_handleUpdate [of msg env]
  by (simp add: handleUpdatesEvent_def Let_def triggerEvent_def split: option.split DecryptedMessage.split)

text \<open>
  (C22) Catching up after connecting: while the count of updates the server announced as old is not used
  up, each data message that is not a reply uses up one of it, does not count as fresh data, and
  triggers no alert, typing or conversation event; message events it triggers are marked old.
\<close>

theorem old_updates_are_quiet:
  assumes "cl_skipCount c > 0" and "ri_BugleRoute (im_raw msg) = BugleRoute_DataEvent" and "im_Message msg = Some m"
  shows "cl_skipCount (dispatch env now msg c) = cl_skipCount c - 1
    \<and> cl_nextDataReceiveCheck (dispatch env now msg c) = cl_nextDataReceiveCheck c
    \<and> list_all quiet_event (new_events c (dispatch env now msg c))"
proof -
  let ?m = "msg\<lparr>im_IsOld := True\<rparr>" and ?c = "c\<lparr>cl_skipCount := cl_skipCount c - 1\<rparr>"
  have d: "dispatch env now msg c = handleUpdatesEvent env now ?m m ?c"
    using assms by (simp add: dispatch_def)
  show ?thesis
    unfolding d using handleUpdatesEvent_keeps [of env now ?m m ?c] old_handleUpdatesEvent [of ?m env now m ?c]
    by (auto simp: new_events_def)
qed

theorem old_updates_are_quiet_witness:
  "cl_skipCount (dispatch sample_env 0 sample_reply ((NewClient sample_auth None)\<lparr>cl_skipCount := 2\<rparr>)) = 1"
  using old_updates_are_quiet [of "(NewClient sample_auth None)\<lparr>cl_skipCount := 2\<rparr>" sample_reply
      "\<lparr>md_SessionID = ''req'', md_Action = ActionType_IS_BUGLE_DEFAULT, md_UnencryptedData = None,
       md_EncryptedData = Some [], md_EncryptedData2 = None\<rparr>" sample_env 0]
  by (simp add: sample_reply_def)


section \<open>Types of the decoded messages\<close>

lemma message_type_new [simp]: "message_type (new_message t) = t"
  by (simp add: new_message_def)

lemma message_type_unmarshal: "unmarshal_into env t data = Inr m \<Longrightarrow> message_type m = t"
  by (auto simp: unmarshal_into_def split: if_splits sum.splits option.splits)

lemma decryptDataEvent_typed:
  assumes "fst (decryptDataEvent env data m c) = Inr msg"
  shows "map_option message_type (im_DecryptedMessage msg) = responseType (md_Action m)"
    and "\<exists>m'. im_Message msg = Some m' \<and> md_Action m' = md_Action m"
  using assms
  by (auto simp: decryptDataEvent_def Let_def base_message_def option.map_comp comp_def option.map_ident
      dest: message_type_unmarshal split: option.splits sum.splits)

text \<open>
  Decoded messages are typed by their action: an incoming message of the data route that could be decoded
  holds a message of exactly the type that the table has for its action, whether or not there was a payload,
  and none when the table has no entry.  So a call accepts a decoded answer exactly when it expects the type
  of the answer's action, and the error of an unexpected type can only mean that the phone answered with
  another action.
\<close>

lemma decoded_messages_are_typed:
  assumes "fst (decryptInternalMessage env data c) = Inr msg" "im_Message msg = Some m"
  shows "map_option message_type (im_DecryptedMessage msg) = responseType (md_Action m) \<and>
    (\<forall>t. (\<exists>r. typedResponse t (Inr msg) = Inr r) = (responseType (md_Action m) = Some t))"
proof -
  have "ri_BugleRoute data = BugleRoute_DataEvent"
    using assms by (cases "ri_BugleRoute data") (auto simp: decryptInternalMessage_def base_message_def split: sum.splits)
  then obtain m0 where "fst (decryptDataEvent env data m0 c) = Inr msg"
    using assms(1) by (auto simp: decryptInternalMessage_def split: sum.splits)
  from decryptDataEvent_typed [OF this] assms(2)
  have typed: "map_option message_type (im_DecryptedMessage msg) = responseType (md_Action m)" by auto
  then show ?thesis by (cases "im_DecryptedMessage msg") (auto simp: typedResponse_def)
qed

end
