(* ===== verification/Gm_Pinger.thy ===== *)
theory Gm_Pinger
  imports Gm_EventHandler
begin

text \<open>
  The ditto pinger of \<^verbatim>\<open>libgm/longpoll.go\<close>: pings to the phone, what happens when one is not answered,
  and the two events that tell the bridge that the phone is offline or back.  The blocking selects are
  modelled by what wakes them up (\<open>wake\<close>); the goroutines of a pinger form a step relation.
\<close>

section \<open>State\<close>

definition defaultPingTimeout :: duration where "defaultPingTimeout = 1 * minute"
definition shortPingTimeout :: duration where "shortPingTimeout = 10 * second"
definition minPingInterval :: duration where "minPingInterval = 30 * second"
definition maxRepingTickerTime :: duration where "maxRepingTickerTime = 64 * minute"

record dittoPinger =
  dp_firstPingDone :: bool
  dp_oldestPingTime :: time
  dp_lastPingTime :: time
  dp_pingFails :: int
  dp_notRespondingSent :: bool
  dp_pingInterval :: duration
  dp_alertTimeoutCount :: int

definition newPinger :: "Client \<Rightarrow> dittoPinger" where
  "newPinger c = \<lparr>dp_firstPingDone = False, dp_oldestPingTime = zero_time, dp_lastPingTime = zero_time,
     dp_pingFails = 0, dp_notRespondingSent = False, dp_pingInterval = cl_pingInterval c,
     dp_alertTimeoutCount = cl_alertTimeoutCount c\<rparr>"

text \<open>An operation of the pinger updates its state and triggers events.\<close>

type_synonym pinger_result = "dittoPinger \<times> event list"

definition OnRespond :: "dittoPinger \<Rightarrow> pinger_result" where
  "OnRespond dp =
     (dp\<lparr>dp_oldestPingTime := zero_time, dp_notRespondingSent := False, dp_pingFails := 0, dp_firstPingDone := True\<rparr>,
      if dp_notRespondingSent dp then [Ev_PhoneRespondingAgain]
      else if dp_pingFails dp > 0 then [Ev_PhoneRespondingAgain] else [])"

definition OnTimeout :: "bool \<Rightarrow> dittoPinger \<Rightarrow> pinger_result" where
  "OnTimeout sendNotResponding dp =
     (if (\<not> dp_firstPingDone dp \<or> sendNotResponding) \<and> \<not> dp_notRespondingSent dp
      then (dp\<lparr>dp_notRespondingSent := True\<rparr>, [Ev_PhoneNotResponding])
      else (dp, []))"

section \<open>Waiting for the answer to one ping\<close>

text \<open>A goroutine in \<open>WaitForResponse\<close>: in the first select, or in the loop after the timeout with its
  reping ticker (the period, and whether there is a ticker at all).\<close>

datatype phase = FirstSelect | Backoff duration bool

record waiter =
  wr_timeout :: duration
  wr_timeoutCount :: int
  wr_phase :: phase

datatype wake = WokeResponse | WokeTimer | WokeRepingTicker | WokeShortCircuit | WokeReset | WokeStop

text \<open>What a wake-up makes the goroutine do besides triggering events.\<close>

datatype action = ResetDone | SendPing duration int

definition newWaiter :: "duration \<Rightarrow> int \<Rightarrow> waiter" where
  "newWaiter timeout timeoutCount = \<lparr>wr_timeout = timeout, wr_timeoutCount = timeoutCount, wr_phase = FirstSelect\<rparr>"

text \<open>Which cases of the select can fire: the timer only if one was made, the ticker only for a main
  ping, the short circuit only in the loop.\<close>

fun enabled :: "wake \<Rightarrow> waiter \<Rightarrow> bool" where
  "enabled WokeTimer w \<longleftrightarrow> wr_phase w = FirstSelect \<and> wr_timeout w > 0"
| "enabled WokeRepingTicker w \<longleftrightarrow> (\<exists>d. wr_phase w = Backoff d True)"
| "enabled WokeShortCircuit w \<longleftrightarrow> (\<exists>d b. wr_phase w = Backoff d b)"
| "enabled _ w \<longleftrightarrow> True"

text \<open>One iteration of \<open>WaitForResponse\<close>: the goroutine ends (\<open>None\<close>) or goes on.  Every entry into the
  loop increments the count of timeouts.\<close>

fun WaitForResponse :: "wake \<Rightarrow> waiter \<Rightarrow> dittoPinger \<Rightarrow> waiter option \<times> dittoPinger \<times> event list \<times> action list" where
  "WaitForResponse WokeResponse w dp = (None, fst (OnRespond dp), snd (OnRespond dp), [ResetDone])"
| "WaitForResponse WokeReset w dp = (None, dp, [], [])"
| "WaitForResponse WokeStop w dp = (None, dp, [], [])"
| "WaitForResponse WokeTimer w dp =
     (let r = OnTimeout (wr_timeout w = shortPingTimeout \<or> wr_timeoutCount w \<ge> dp_alertTimeoutCount dp) dp
      in (Some (w\<lparr>wr_phase := Backoff (1 * minute) (wr_timeoutCount w = 0),
                  wr_timeoutCount := wr_timeoutCount w + 1\<rparr>), fst r, snd r, []))"
| "WaitForResponse WokeRepingTicker w dp =
     (case wr_phase w of
        Backoff d b \<Rightarrow>
          (Some (w\<lparr>wr_phase := Backoff (if d < maxRepingTickerTime then d * 2 else d) b,
                   wr_timeoutCount := wr_timeoutCount w + 1\<rparr>),
           dp, [], [SendPing defaultPingTimeout (wr_timeoutCount w)])
      | FirstSelect \<Rightarrow> (Some w, dp, [], []))"
| "WaitForResponse WokeShortCircuit w dp =
     (let w' = w\<lparr>wr_timeoutCount := wr_timeoutCount w + 1\<rparr>
      in if \<not> dp_notRespondingSent dp
         then (Some w', dp\<lparr>dp_notRespondingSent := True\<rparr>, [Ev_PhoneNotResponding], [])
         else (Some w', dp, [], []))"

section \<open>Sending a ping\<close>

datatype ping_outcome = PingSkipped | PingFailedNow | PingWaits waiter

text \<open>\<open>Ping\<close> up to the point where the answer is awaited; the error of sending it is an argument.\<close>

definition Ping :: "time \<Rightarrow> go_error option \<Rightarrow> duration \<Rightarrow> int \<Rightarrow> dittoPinger \<Rightarrow> ping_outcome \<times> pinger_result" where
  "Ping now sendErr timeout timeoutCount dp =
     (if time_sub now (dp_lastPingTime dp) < minPingInterval then (PingSkipped, dp, [])
      else
        let dp1 = dp\<lparr>dp_lastPingTime := now,
                     dp_oldestPingTime := (if dp_oldestPingTime dp = zero_time then now else dp_oldestPingTime dp)\<rparr>
        in case sendErr of
             Some err \<Rightarrow>
               (PingFailedNow, dp1\<lparr>dp_pingFails := dp_pingFails dp1 + 1\<rparr>,
                [Ev_PingFailed (ErrWrap ''failed to notify ditto activity'' err) (dp_pingFails dp1 + 1)])
           | None \<Rightarrow> (PingWaits (newWaiter timeout timeoutCount), dp1, []))"

section \<open>The main loop\<close>

text \<open>The end of an iteration of \<open>Loop\<close>: whether an extra \<open>GET_UPDATES\<close> call is made.\<close>

definition loop_check :: "time \<Rightarrow> time \<Rightarrow> time \<Rightarrow> Client \<Rightarrow> time \<times> Client" where
  "loop_check now pingStart lastDataReceiveCheck c =
     (let s = shouldDoDataReceiveCheck now c
      in if fst s then (now, spawn Go_HandleNoRecentUpdates (snd s))
         else if time_sub now pingStart > 5 * minute
              \<or> (time_sub now pingStart > 1 * minute \<and> time_sub now lastDataReceiveCheck > 30 * minute)
         then (now, spawn Go_HandleNoRecentUpdates (snd s))
         else (lastDataReceiveCheck, snd s))"

definition HandleNoRecentUpdates :: "env \<Rightarrow> time \<Rightarrow> Client \<Rightarrow> Client" where
  "HandleNoRecentUpdates env now c =
     snd (sendMessageNoResponse env now
       (default_params\<lparr>pr_Action := ActionType_GET_UPDATES, pr_OmitTTL := True,
          pr_RequestID := sh_sessionID (cl_sessionHandler c)\<rparr>)
       (triggerEvent Ev_NoDataReceived c))"

text \<open>The goroutines of one pinger: the main loop is idle or waits for the answer to its own ping, and
  repings wait on their own.  A clock value is attached to each ping.\<close>

record pinger_state =
  ps_dp :: dittoPinger
  ps_main :: "waiter option"
  ps_subs :: "waiter list"
  ps_events :: "event list"

definition pinger_init :: "dittoPinger \<Rightarrow> pinger_state" where
  "pinger_init dp = \<lparr>ps_dp = dp, ps_main = None, ps_subs = [], ps_events = []\<rparr>"

text \<open>The result of a ping sent for the main loop or for a reping.\<close>

definition add_ping :: "bool \<Rightarrow> ping_outcome \<times> pinger_result \<Rightarrow> pinger_state \<Rightarrow> pinger_state" where
  "add_ping main r st =
     (let st1 = st\<lparr>ps_dp := fst (snd r), ps_events := ps_events st @ snd (snd r)\<rparr>
      in case fst r of
           PingWaits w \<Rightarrow> if main then st1\<lparr>ps_main := Some w\<rparr> else st1\<lparr>ps_subs := w # ps_subs st1\<rparr>
         | _ \<Rightarrow> st1)"

fun do_actions :: "time \<Rightarrow> go_error option \<Rightarrow> action list \<Rightarrow> pinger_state \<Rightarrow> pinger_state" where
  "do_actions now err [] st = st"
| "do_actions now err (ResetDone # as) st = do_actions now err as st"
| "do_actions now err (SendPing timeout n # as) st =
     do_actions now err as (add_ping False (Ping now err timeout n (ps_dp st)) st)"

definition wake_up :: "time \<Rightarrow> go_error option \<Rightarrow> wake \<Rightarrow> waiter \<Rightarrow> (waiter option \<Rightarrow> pinger_state \<Rightarrow> pinger_state)
    \<Rightarrow> pinger_state \<Rightarrow> pinger_state" where
  "wake_up now err k w put st =
     (let r = WaitForResponse k w (ps_dp st)
      in do_actions now err (snd (snd (snd r)))
           (put (fst r) (st\<lparr>ps_dp := fst (snd r), ps_events := ps_events st @ fst (snd (snd r))\<rparr>)))"

inductive pinger_step :: "pinger_state \<Rightarrow> pinger_state \<Rightarrow> bool" where
  short_circuit: "ps_main st = None \<Longrightarrow>
    pinger_step st (add_ping True (Ping now err shortPingTimeout 0 (ps_dp st)) st)"
| interval: "ps_main st = None \<Longrightarrow>
    pinger_step st (add_ping True (Ping now err defaultPingTimeout 0 (ps_dp st)) st)"
| main: "ps_main st = Some w \<Longrightarrow> enabled k w \<Longrightarrow>
    pinger_step st (wake_up now err k w (\<lambda>w' s. s\<lparr>ps_main := w'\<rparr>) st)"
| sub: "i < length (ps_subs st) \<Longrightarrow> enabled k (ps_subs st ! i) \<Longrightarrow>
    pinger_step st (wake_up now err k (ps_subs st ! i)
      (\<lambda>w' s. s\<lparr>ps_subs := (case w' of None \<Rightarrow> take i (ps_subs s) @ drop (Suc i) (ps_subs s)
                             | Some x \<Rightarrow> (ps_subs s)[i := x])\<rparr>) st)"

section \<open>Alternation of the two events\<close>

text \<open>Reading the event stream from left to right: \<open>offline\<close> tells whether the last of the two
  events was \<open>PhoneNotResponding\<close>, and \<open>no_repeat\<close> that it is never repeated while offline.\<close>

fun offline :: "bool \<Rightarrow> event list \<Rightarrow> bool" where
  "offline b [] = b"
| "offline b (Ev_PhoneNotResponding # es) = offline True es"
| "offline b (Ev_PhoneRespondingAgain # es) = offline False es"
| "offline b (_ # es) = offline b es"

fun no_repeat :: "bool \<Rightarrow> event list \<Rightarrow> bool" where
  "no_repeat b [] \<longleftrightarrow> True"
| "no_repeat b (Ev_PhoneNotResponding # es) \<longleftrightarrow> \<not> b \<and> no_repeat True es"
| "no_repeat b (Ev_PhoneRespondingAgain # es) \<longleftrightarrow> no_repeat False es"
| "no_repeat b (_ # es) \<longleftrightarrow> no_repeat b es"

lemma offline_append [simp]: "offline b (xs @ ys) = offline (offline b xs) ys"
  by (induction b xs rule: offline.induct) simp_all

lemma no_repeat_append [simp]: "no_repeat b (xs @ ys) \<longleftrightarrow> no_repeat b xs \<and> no_repeat (offline b xs) ys"
  by (induction b xs rule: no_repeat.induct) simp_all

text \<open>The bookkeeping of the pinger agrees with its event stream.\<close>

definition pinger_inv :: "pinger_state \<Rightarrow> bool" where
  "pinger_inv st \<longleftrightarrow> no_repeat False (ps_events st)
     \<and> offline False (ps_events st) = dp_notRespondingSent (ps_dp st)"

lemma WaitForResponse_inv:
  assumes "WaitForResponse k w dp = (w', dp', es, as)"
  shows "no_repeat (dp_notRespondingSent dp) es \<and> offline (dp_notRespondingSent dp) es = dp_notRespondingSent dp'"
  using assms
  by (cases k) (auto simp: OnRespond_def OnTimeout_def Let_def split: if_splits phase.splits)

lemma Ping_inv:
  "no_repeat b (snd (snd (Ping now err timeout n dp))) \<and> offline b (snd (snd (Ping now err timeout n dp))) = b
   \<and> dp_notRespondingSent (fst (snd (Ping now err timeout n dp))) = dp_notRespondingSent dp"
  by (auto simp: Ping_def Let_def split: option.split)

lemma pinger_inv_add_ping:
  "pinger_inv st \<Longrightarrow> pinger_inv (add_ping main (Ping now err timeout n (ps_dp st)) st)"
  using Ping_inv [of "dp_notRespondingSent (ps_dp st)" now err timeout n "ps_dp st"]
  by (auto simp: pinger_inv_def add_ping_def Let_def split: ping_outcome.split)

lemma pinger_inv_do_actions: "pinger_inv st \<Longrightarrow> pinger_inv (do_actions now err as st)"
  by (induction now err as st rule: do_actions.induct) (simp_all add: pinger_inv_add_ping)

lemma pinger_inv_wake_up:
  assumes "pinger_inv st" "\<And>w' s. ps_dp (put w' s) = ps_dp s \<and> ps_events (put w' s) = ps_events s"
  shows "pinger_inv (wake_up now err k w put st)"
proof -
  obtain w' dp' es as where r: "WaitForResponse k w (ps_dp st) = (w', dp', es, as)"
    by (metis surj_pair)
  have "pinger_inv (put w' (st\<lparr>ps_dp := dp', ps_events := ps_events st @ es\<rparr>))"
    using WaitForResponse_inv [OF r] assms by (simp add: pinger_inv_def)
  then show ?thesis by (simp add: wake_up_def r pinger_inv_do_actions)
qed

lemma pinger_inv_step: "pinger_step st st' \<Longrightarrow> pinger_inv st \<Longrightarrow> pinger_inv st'"
  by (induction rule: pinger_step.induct) (simp_all add: pinger_inv_add_ping pinger_inv_wake_up)

text \<open>
  (C7) The bridge is told that the phone does not respond at most once until it hears that the phone is
  back: in every run of a pinger, with any number of pings in flight, timeouts, short circuits and late
  answers, two \<open>PhoneNotResponding\<close> events always have a \<open>PhoneRespondingAgain\<close> between them, and the
  flag \<open>notRespondingSent\<close> tells which of the two was last.
\<close>

theorem not_responding_alternates:
  assumes "pinger_step\<^sup>*\<^sup>* (pinger_init (newPinger c)) st"
  shows "no_repeat False (ps_events st) \<and> dp_notRespondingSent (ps_dp st) = offline False (ps_events st)"
proof -
  have "pinger_inv st" using assms
  proof (induction rule: rtranclp_induct)
    case base
    show ?case by (simp add: pinger_inv_def pinger_init_def newPinger_def)
  next
    case (step a b)
    then show ?case using pinger_inv_step by blast
  qed
  then show ?thesis by (simp add: pinger_inv_def)
qed

text \<open>A run with one short-circuited ping that times out.\<close>

definition sample_pinger :: dittoPinger where
  "sample_pinger = newPinger (NewClient sample_auth None)"

definition sample_run :: "pinger_state" where
  "sample_run = wake_up 0 None WokeTimer (newWaiter shortPingTimeout 0) (\<lambda>w' s. s\<lparr>ps_main := w'\<rparr>)
     (add_ping True (Ping 0 None shortPingTimeout 0 (ps_dp (pinger_init sample_pinger))) (pinger_init sample_pinger))"

lemma sample_ping: "fst (Ping 0 None shortPingTimeout 0 sample_pinger) = PingWaits (newWaiter shortPingTimeout 0)"
  by (simp add: Ping_def sample_pinger_def newPinger_def minPingInterval_def time_sub_def go_simps)

lemma sample_run_reachable: "pinger_step\<^sup>*\<^sup>* (pinger_init sample_pinger) sample_run"
proof -
  let ?st1 = "add_ping True (Ping 0 None shortPingTimeout 0 (ps_dp (pinger_init sample_pinger))) (pinger_init sample_pinger)"
  have "pinger_step (pinger_init sample_pinger) ?st1"
    by (rule pinger_step.short_circuit) (simp add: pinger_init_def)
  moreover have "pinger_step ?st1 sample_run"
    unfolding sample_run_def
    by (rule pinger_step.main)
       (use sample_ping in \<open>simp_all add: add_ping_def pinger_init_def Let_def newWaiter_def shortPingTimeout_def go_simps\<close>)
  ultimately show ?thesis by (blast intro: converse_rtranclp_into_rtranclp)
qed

theorem not_responding_alternates_witness:
  "ps_events sample_run = [Ev_PhoneNotResponding] \<and> no_repeat False (ps_events sample_run)
   \<and> dp_notRespondingSent (ps_dp sample_run) = offline False (ps_events sample_run)"
proof -
  have "ps_events sample_run = [Ev_PhoneNotResponding]"
    by (simp add: sample_run_def wake_up_def add_ping_def pinger_init_def Ping_def sample_pinger_def newPinger_def
        minPingInterval_def time_sub_def OnTimeout_def newWaiter_def Let_def go_simps)
  with not_responding_alternates [OF sample_run_reachable [unfolded sample_pinger_def]] show ?thesis by blast
qed

section \<open>The backoff schedule\<close>

text \<open>The repings of a main ping that is never answered: the time of each since the timeout of the
  main ping, and the count of timeouts it carries.\<close>

fun repings :: "nat \<Rightarrow> duration \<Rightarrow> waiter \<Rightarrow> dittoPinger \<Rightarrow> (duration \<times> int) list" where
  "repings 0 t w dp = []"
| "repings (Suc n) t w dp =
     (case wr_phase w of
        FirstSelect \<Rightarrow> []
      | Backoff d b \<Rightarrow>
          (case WaitForResponse WokeRepingTicker w dp of
             (Some w', dp', es, as) \<Rightarrow>
               map (\<lambda>a. case a of SendPing timeout k \<Rightarrow> (t + d, k) | ResetDone \<Rightarrow> (t + d, 0)) as
               @ repings n (t + d) w' dp'
           | (None, _, _, _) \<Rightarrow> []))"

definition reping_minutes :: "nat \<Rightarrow> int" where
  "reping_minutes k = (if k \<le> 7 then 2 ^ k - 1 else 127 + 64 * (int k - 7))"

definition reping_period :: "nat \<Rightarrow> int" where
  "reping_period k = (if k \<le> 6 then 2 ^ k else 64)"

lemma reping_period_double:
  "(if reping_period k * minute < maxRepingTickerTime then reping_period k * minute * 2 else reping_period k * minute)
     = reping_period (Suc k) * minute"
proof (cases "k < 6")
  case True
  then have "k \<in> {0, 1, 2, 3, 4, 5}" by auto
  then show ?thesis by (auto simp: reping_period_def maxRepingTickerTime_def go_simps)
next
  case False
  then show ?thesis by (cases "k = 6") (simp_all add: reping_period_def maxRepingTickerTime_def go_simps)
qed

lemma reping_minutes_Suc: "reping_minutes k + reping_period k = reping_minutes (Suc k)"
proof (cases "k < 7")
  case True
  then have "k \<in> {0, 1, 2, 3, 4, 5, 6}" by auto
  then show ?thesis by (auto simp: reping_minutes_def reping_period_def)
next
  case False
  then show ?thesis by (cases "k = 7") (simp_all add: reping_minutes_def reping_period_def)
qed

lemma repings_from:
  "wr_phase w = Backoff (reping_period k * minute) b \<Longrightarrow> wr_timeoutCount w = int k + 1 \<Longrightarrow>
   repings n (reping_minutes k * minute) w dp =
     map (\<lambda>i. (reping_minutes (k + i) * minute, int (k + i))) [1..<Suc n]"
proof (induction n arbitrary: k w)
  case (Suc n)
  let ?w' = "w\<lparr>wr_phase := Backoff (reping_period (Suc k) * minute) b, wr_timeoutCount := int (Suc k) + 1\<rparr>"
  have "WaitForResponse WokeRepingTicker w dp = (Some ?w', dp, [], [SendPing defaultPingTimeout (int k + 1)])"
    using Suc.prems reping_period_double [of k] by simp
  moreover have "reping_minutes k * minute + reping_period k * minute = reping_minutes (Suc k) * minute"
    using reping_minutes_Suc [of k] by (metis distrib_right)
  moreover have "repings n (reping_minutes (Suc k) * minute) ?w' dp =
      map (\<lambda>i. (reping_minutes (Suc k + i) * minute, int (Suc k + i))) [1..<Suc n]"
    by (rule Suc.IH) simp_all
  moreover have "map (\<lambda>i. (reping_minutes (k + i) * minute, int (k + i))) [1..<Suc (Suc n)] =
      (reping_minutes (Suc k) * minute, int k + 1) #
      map (\<lambda>i. (reping_minutes (Suc k + i) * minute, int (Suc k + i))) [1..<Suc n]"
    by (subst upt_conv_Cons) (simp_all add: map_Suc_upt [symmetric] comp_def del: upt_Suc)
  ultimately show ?case using Suc.prems by simp
qed simp



section \<open>The resetter of a ping\<close>

text \<open>Several goroutines may report the end of a ping; the channel that tells the others is closed once, five
  seconds after the first report.  \<open>rs_sleeping\<close> counts the goroutines that are about to close it, and
  \<open>rs_closes\<close> how often it was closed (closing it twice would panic).\<close>

record resetter =
  rs_done :: bool
  rs_sleeping :: nat
  rs_closes :: nat

definition newResetter :: resetter where
  "newResetter = \<lparr>rs_done = False, rs_sleeping = 0, rs_closes = 0\<rparr>"

definition Done :: "resetter \<Rightarrow> resetter" where
  "Done r = (if rs_done r then r else r\<lparr>rs_done := True, rs_sleeping := rs_sleeping r + 1\<rparr>)"

inductive resetter_step :: "resetter \<Rightarrow> resetter \<Rightarrow> bool" where
  report: "resetter_step r (Done r)"
| close: "rs_sleeping r = Suc n \<Longrightarrow> resetter_step r (r\<lparr>rs_sleeping := n, rs_closes := rs_closes r + 1\<rparr>)"

lemma resetter_inv:
  "resetter_step\<^sup>*\<^sup>* newResetter r \<Longrightarrow> rs_sleeping r + rs_closes r = (if rs_done r then 1 else 0)"
  by (induction rule: rtranclp_induct) (auto simp: newResetter_def Done_def elim!: resetter_step.cases split: if_splits)

lemma resetter_closes_once: "resetter_step\<^sup>*\<^sup>* newResetter r \<Longrightarrow> rs_closes r \<le> 1"
  by (drule resetter_inv) (simp split: if_splits)


end
