(* ===== verification/Gm_LongPoll.thy ===== *)
theory Gm_LongPoll
  imports Gm_Pinger
begin

text \<open>
  The long-poll loop of \<^verbatim>\<open>libgm/longpoll.go\<close> (\<open>doLongPoll\<close>, \<open>readLongPoll\<close>, \<open>closeLongPolling\<close>) and the
  connection operations of \<^verbatim>\<open>libgm/client.go\<close> built on it.  A connection is the list of its reads: the
  chunk each call of \<open>Read\<close> returns, or the error that ends it.  \<open>json.Valid\<close> and the pblite decoder
  are arguments.
\<close>

section \<open>Reading a connection\<close>

record LongPollingPayload =
  lp_Data :: "RPCIncoming option"
  lp_Heartbeat :: bool
  lp_Ack :: "int option"
  lp_StartRead :: bool

datatype read = Chunk bytes | ReadErr go_error

record lp_codec =
  lc_json_Valid :: "bytes \<Rightarrow> bool"
  lc_unmarshal :: "bytes \<Rightarrow> go_error + LongPollingPayload"

definition comma :: byte where "comma = 0x2C"
definition open_bracket :: byte where "open_bracket = 0x5B"
definition close_bracket :: byte where "close_bracket = 0x5D"

text \<open>\<open>bytes.TrimPrefix(chunk, ",")\<close>\<close>

definition trim_comma :: "bytes \<Rightarrow> bytes" where
  "trim_comma bs = (case bs of b # rest \<Rightarrow> if b = comma then rest else bs | [] \<Rightarrow> [])"

text \<open>The switch over a decoded block: the new client and whether an event was received.\<close>

definition handleBlock :: "env \<Rightarrow> time \<Rightarrow> LongPollingPayload \<Rightarrow> Client \<Rightarrow> (go_error, bool \<times> Client) outcome" where
  "handleBlock env now msg c =
     (case lp_Data msg of
        Some raw \<Rightarrow> bind_outcome (HandleRPCMsg env now raw c) (\<lambda>c1. Return (True, c1))
      | None \<Rightarrow>
          (case lp_Ack msg of
             Some count \<Rightarrow> Return (False, c\<lparr>cl_skipCount := count\<rparr>)
           | None \<Rightarrow> Return (False, c)))"

text \<open>The loop of \<open>readLongPoll\<close> after the opening bytes: accumulated data, whether the end marker was
  seen, and whether an event was received.  The end of the list is a connection that hangs.\<close>

fun readLoop :: "env \<Rightarrow> lp_codec \<Rightarrow> time \<Rightarrow> read list \<Rightarrow> bytes \<Rightarrow> bool \<Rightarrow> bool \<Rightarrow> Client
    \<Rightarrow> (go_error, bool \<times> Client) outcome option" where
  "readLoop env lc now [] acc expectEOF received c = None"
| "readLoop env lc now (ReadErr e # reads) acc expectEOF received c = Some (Return (received, c))"
| "readLoop env lc now (Chunk chunk # reads) acc expectEOF received c =
     (if acc = [] \<and> chunk = [close_bracket, close_bracket]
      then readLoop env lc now reads acc True received c
      else
        let acc1 = acc @ (if acc = [] then trim_comma chunk else chunk)
        in if \<not> lc_json_Valid lc acc1 then readLoop env lc now reads acc1 expectEOF received c
           else
             case lc_unmarshal lc acc1 of
               Inl err \<Rightarrow> readLoop env lc now reads [] expectEOF received c
             | Inr msg \<Rightarrow>
                 (case handleBlock env now msg c of
                    Return (got, c1) \<Rightarrow> readLoop env lc now reads [] expectEOF (received \<or> got) c1
                  | Error e \<Rightarrow> Some (Error e)
                  | Panic p \<Rightarrow> Some (Panic p)))"

definition readLongPoll :: "env \<Rightarrow> lp_codec \<Rightarrow> time \<Rightarrow> read list \<Rightarrow> Client \<Rightarrow> (go_error, bool \<times> Client) outcome option" where
  "readLongPoll env lc now reads c =
     (let c1 = c\<lparr>cl_disconnecting := False\<rparr>
      in case reads of
           [] \<Rightarrow> None
         | ReadErr e # _ \<Rightarrow> Some (Return (False, c1))
         | Chunk chunk # rest \<Rightarrow>
             if chunk \<noteq> [open_bracket, open_bracket] then Some (Return (False, c1))
             else readLoop env lc now rest [] False False c1)"

definition closeLongPolling :: "Client \<Rightarrow> Client" where
  "closeLongPolling c =
     (case cl_longPollingConn c of
        None \<Rightarrow> c
      | Some conn \<Rightarrow> c\<lparr>cl_listenID := cl_listenID c + 1, cl_disconnecting := True, cl_longPollingConn := None\<rparr>)"

section \<open>The polling loop\<close>

text \<open>The world of a poll: the connection each successful request opens (by its number), and what the
  other goroutines did to the client before each round of the loop.\<close>

record poll_world =
  pw_codec :: lp_codec
  pw_reads :: "nat \<Rightarrow> read list"
  pw_others :: "nat \<Rightarrow> Client \<Rightarrow> Client"

record poll_state =
  po_client :: Client
  po_errorCount :: int
  po_firstConnect :: bool
  po_sleeps :: "int list"
  po_opened :: nat
  po_round :: nat

datatype poll_result = PollAgain poll_state | PollDone bool poll_state | PollPanic string | PollHangs poll_state

text \<open>The common handling of a temporary error: give up in the background after the second one, sleep
  longer each time otherwise.\<close>

definition poll_retry :: "bool \<Rightarrow> bool \<Rightarrow> go_error \<Rightarrow> poll_state \<Rightarrow> poll_result" where
  "poll_retry loggedIn background err st =
     (let c1 = (if loggedIn then triggerEvent (Ev_ListenTemporaryError err) (po_client st) else po_client st);
          n = po_errorCount st + 1;
          st1 = st\<lparr>po_client := c1, po_errorCount := n\<rparr>
      in if background
         then (if n \<ge> 3 then PollDone False st1 else PollAgain (st1\<lparr>po_sleeps := po_sleeps st1 @ [n * 2]\<rparr>))
         else PollAgain (st1\<lparr>po_sleeps := po_sleeps st1 @ [(n + 1) * 5]\<rparr>))"

definition poll_fatal :: "bool \<Rightarrow> go_error \<Rightarrow> poll_state \<Rightarrow> poll_result" where
  "poll_fatal loggedIn err st =
     PollDone False (st\<lparr>po_client := (if loggedIn then triggerEvent (Ev_ListenFatalError err) (po_client st) else po_client st)\<rparr>)"

definition poll_error :: "Response \<Rightarrow> go_error" where
  "poll_error resp = ErrHTTP \<lparr>he_Action = ''polling'', he_StatusCode = rsp_StatusCode resp,
     he_Body = (case rsp_Body resp of Inl _ \<Rightarrow> [] | Inr b \<Rightarrow> b)\<rparr>"

text \<open>A request that was answered with a success: the error count is reset, the first success starts
  the callback, and the connection is read to its end.\<close>

definition poll_connect :: "bool \<Rightarrow> poll_state \<Rightarrow> Client" where
  "poll_connect loggedIn st =
     (let c0 = po_client st;
          c1 = (if po_errorCount st > 0 \<and> loggedIn then triggerEvent Ev_ListenRecovered c0 else c0);
          c2 = c1\<lparr>cl_longPollingConn := Some (po_opened st)\<rparr>
      in if po_firstConnect st then spawn Go_onFirstConnect c2 else c2)"

definition poll_open :: "env \<Rightarrow> poll_world \<Rightarrow> time \<Rightarrow> bool \<Rightarrow> bool \<Rightarrow> poll_state \<Rightarrow> poll_result" where
  "poll_open env pw now loggedIn background st =
     (let st1 = st\<lparr>po_errorCount := (if po_errorCount st > 0 then 0 else po_errorCount st),
                   po_firstConnect := False, po_opened := Suc (po_opened st)\<rparr>
      in case readLongPoll env (pw_codec pw) now (pw_reads pw (po_opened st)) (poll_connect loggedIn st) of
           None \<Rightarrow> PollHangs (st1\<lparr>po_client := poll_connect loggedIn st\<rparr>)
         | Some (Return r) \<Rightarrow>
             let st2 = st1\<lparr>po_client := (snd r)\<lparr>cl_longPollingConn := None\<rparr>\<rparr>
             in if background then PollDone (fst r) st2 else PollAgain st2
         | Some (Error e) \<Rightarrow> PollHangs (st1\<lparr>po_client := poll_connect loggedIn st\<rparr>)
         | Some (Panic p) \<Rightarrow> PollPanic p)"

definition receive_payload :: "string \<Rightarrow> Client \<Rightarrow> Payload" where
  "receive_payload listenReqID c = P_ReceiveMessagesRequest
     \<lparr>am_RequestID = listenReqID, am_Network = AuthNetwork (cl_AuthData c),
      am_TachyonAuthToken = ad_TachyonAuthToken (cl_AuthData c), am_ConfigVersion = ConfigMessage\<rparr>"

definition poll_response :: "env \<Rightarrow> time \<Rightarrow> string \<Rightarrow> Client \<Rightarrow> http_result \<times> Client" where
  "poll_response env now listenReqID c =
     makeProtobufHTTPRequestContext env now
       (if HasCookies (Some (cl_AuthData c)) then ReceiveMessagesURLGoogle else ReceiveMessagesURL)
       (receive_payload listenReqID c) ContentTypePBLite True c"

text \<open>One iteration of the loop of \<open>doLongPoll\<close>.\<close>

definition poll_once :: "env \<Rightarrow> poll_world \<Rightarrow> time \<Rightarrow> string \<Rightarrow> bool \<Rightarrow> bool \<Rightarrow> poll_state \<Rightarrow> poll_result" where
  "poll_once env pw now listenReqID loggedIn background st =
     (let r = refreshAuthToken env now None (po_client st);
          st1 = st\<lparr>po_client := snd r\<rparr>
      in case fst r of
           Some err \<Rightarrow>
             let e = ErrWrap ''failed to refresh auth token'' err
             in if env_IsNetworkError env err then poll_retry loggedIn background e st1
                else poll_fatal loggedIn e st1
         | None \<Rightarrow>
             let h = poll_response env now listenReqID (po_client st1);
                 st2 = st1\<lparr>po_client := snd h\<rparr>
             in case fst h of
                  Inl err \<Rightarrow> poll_retry loggedIn background err st2
                | Inr resp \<Rightarrow>
                    if rsp_StatusCode resp = 401 \<or> rsp_StatusCode resp = 403
                    then poll_fatal loggedIn (poll_error resp) st2
                    else if rsp_StatusCode resp \<ge> 400
                    then poll_retry loggedIn background (poll_error resp) st2
                    else poll_open env pw now loggedIn background st2)"

text \<open>\<open>doLongPoll\<close> with fuel; \<open>None\<close> when it is still polling.  The loop ends when another call has
  taken over the listen id.\<close>

definition next_round :: "poll_world \<Rightarrow> poll_state \<Rightarrow> poll_state" where
  "next_round pw st = st\<lparr>po_client := pw_others pw (po_round st) (po_client st), po_round := Suc (po_round st)\<rparr>"

fun poll_loop :: "nat \<Rightarrow> env \<Rightarrow> poll_world \<Rightarrow> time \<Rightarrow> string \<Rightarrow> int \<Rightarrow> bool \<Rightarrow> bool \<Rightarrow> poll_state
    \<Rightarrow> poll_result option" where
  "poll_loop 0 env pw now rid listenID loggedIn background st = None"
| "poll_loop (Suc n) env pw now rid listenID loggedIn background st =
     (let st1 = next_round pw st
      in if cl_listenID (po_client st1) \<noteq> listenID then Some (PollDone True st1)
         else case poll_once env pw now rid loggedIn background st1 of
                PollAgain st2 \<Rightarrow> poll_loop n env pw now rid listenID loggedIn background st2
              | r \<Rightarrow> Some r)"

definition poll_start :: "env \<Rightarrow> bool \<Rightarrow> bool \<Rightarrow> Client \<Rightarrow> poll_state" where
  "poll_start env loggedIn firstConnect c =
     (let c1 = snd (new_uuid env (c\<lparr>cl_listenID := cl_listenID c + 1\<rparr>))
      in \<lparr>po_client = (if loggedIn then spawn Go_dittoPinger c1 else c1), po_errorCount = 1,
          po_firstConnect = firstConnect, po_sleeps = [], po_opened = 0, po_round = 0\<rparr>)"

definition doLongPoll :: "nat \<Rightarrow> env \<Rightarrow> poll_world \<Rightarrow> time \<Rightarrow> bool \<Rightarrow> bool \<Rightarrow> bool \<Rightarrow> Client \<Rightarrow> poll_result option" where
  "doLongPoll fuel env pw now loggedIn background firstConnect c =
     poll_loop fuel env pw now (fst (new_uuid env (c\<lparr>cl_listenID := cl_listenID c + 1\<rparr>)))
       (cl_listenID c + 1) loggedIn background (poll_start env loggedIn firstConnect c)"

section \<open>Connecting\<close>

definition Connect :: "env \<Rightarrow> time \<Rightarrow> Client \<Rightarrow> go_error option \<times> Client" where
  "Connect env now c =
     (if ad_TachyonAuthToken (cl_AuthData c) = None then (Some (ErrText ''no auth token''), c)
      else if ad_Browser (cl_AuthData c) = None then (Some (ErrText ''not logged in''), c)
      else
        let r = refreshAuthToken env now None c
        in case fst r of
             Some err \<Rightarrow> (Some (ErrWrap ''failed to refresh auth token'' err), snd r)
           | None \<Rightarrow>
               (None, startAckInterval (spawn (Go_doLongPoll True False True)
                        (bumpNextDataReceiveCheck now (10 * minute) (snd r)))))"

definition ConnectBackground :: "env \<Rightarrow> poll_world \<Rightarrow> time \<Rightarrow> Client \<Rightarrow> (go_error, unit) outcome option \<times> Client" where
  "ConnectBackground env pw now c =
     (if ad_TachyonAuthToken (cl_AuthData c) = None then (Some (Error (ErrText ''no auth token'')), c)
      else if ad_Browser (cl_AuthData c) = None then (Some (Error (ErrText ''not logged in'')), c)
      else
        case doLongPoll 2 env pw now True True False c of
          Some (PollDone cleanExit st) \<Rightarrow>
            let c1 = sendAckRequest env now (po_client st)
            in (if cleanExit then Some (Return ()) else Some (Error (ErrText ''polling exited uncleanly'')), c1)
        | Some (PollPanic p) \<Rightarrow> (Some (Panic p), c)
        | Some (PollHangs st) \<Rightarrow> (None, po_client st)
        | _ \<Rightarrow> (None, c))"

text \<open>\<open>postConnect\<close>: \<open>sleep n\<close> is what the other goroutines do during the \<open>n\<close>-th sleep.\<close>

fun wait_skip :: "nat \<Rightarrow> (nat \<Rightarrow> Client \<Rightarrow> Client) \<Rightarrow> nat \<Rightarrow> Client \<Rightarrow> Client" where
  "wait_skip 0 sleep n c = c"
| "wait_skip (Suc k) sleep n c = (if cl_skipCount c > 0 then wait_skip k sleep (Suc n) (sleep n c) else c)"

definition postConnect :: "env \<Rightarrow> time \<Rightarrow> (nat \<Rightarrow> Client \<Rightarrow> Client) \<Rightarrow> wait \<Rightarrow> Client \<Rightarrow> Client option" where
  "postConnect env now sleep w c =
     (let c1 = sleep 0 c;
          c2 = (if cl_skipCount c1 > 0 then triggerEvent Ev_HackySetActiveMayFail (wait_skip 3 sleep 1 c1) else c1);
          c3 = sleep 4 (sendAckRequest env now c2);
          r = SetActiveSession env now c3
      in case fst r of
           Some err \<Rightarrow> Some (triggerEvent (Ev_PingFailed (ErrWrap ''failed to set active session'' err) 0) (snd r))
         | None \<Rightarrow> (case IsBugleDefault env now w (snd r) of None \<Rightarrow> None | Some (_, c4) \<Rightarrow> Some c4))"

definition Disconnect :: "Client \<Rightarrow> Client" where
  "Disconnect c = closeLongPolling c"

definition Reconnect :: "env \<Rightarrow> time \<Rightarrow> Client \<Rightarrow> go_error option \<times> Client" where
  "Reconnect env now c = Connect env now (closeLongPolling c)"

section \<open>Background polling ends\<close>

lemma poll_retry_background:
  "poll_retry loggedIn True err st =
     (let c1 = (if loggedIn then triggerEvent (Ev_ListenTemporaryError err) (po_client st) else po_client st);
          st1 = st\<lparr>po_client := c1, po_errorCount := po_errorCount st + 1\<rparr>
      in if po_errorCount st \<ge> 2 then PollDone False st1
         else PollAgain (st1\<lparr>po_sleeps := po_sleeps st1 @ [(po_errorCount st + 1) * 2]\<rparr>))"
  by (simp add: poll_retry_def Let_def)

lemma poll_open_background: "poll_open env pw now loggedIn True st \<noteq> PollAgain st'"
  by (simp add: poll_open_def Let_def split: option.split outcome.split)

lemma poll_open_Done: "poll_open env pw now loggedIn bg st = PollDone b st' \<Longrightarrow> bg \<and> po_sleeps st' = po_sleeps st"
  by (auto simp: poll_open_def Let_def split: option.splits outcome.splits if_splits)

lemma poll_once_Done_sleeps:
  "poll_once env pw now rid loggedIn bg st = PollDone b st' \<Longrightarrow> po_sleeps st' = po_sleeps st"
  unfolding poll_once_def poll_retry_def poll_fatal_def Let_def
  by (auto dest: poll_open_Done split: option.splits sum.splits if_splits)

text \<open>In the background an iteration either ends the poll or counts an error.\<close>

lemma poll_once_background:
  assumes "poll_once env pw now rid loggedIn True st = PollAgain st'"
  shows "po_errorCount st < 2 \<and> po_errorCount st' = po_errorCount st + 1
    \<and> po_sleeps st' = po_sleeps st @ [(po_errorCount st + 1) * 2]"
  using assms poll_open_background
  by (auto simp: poll_once_def poll_retry_background poll_fatal_def Let_def split: option.splits sum.splits if_splits)

lemma poll_loop_background:
  "po_errorCount st \<ge> 1 \<Longrightarrow> \<exists>r. poll_loop 2 env pw now rid lid loggedIn True st = Some r"
proof -
  assume e: "po_errorCount st \<ge> 1"
  have [simp]: "po_errorCount (next_round pw st) = po_errorCount st" for st by (simp add: next_round_def)
  have "\<exists>r. poll_loop (Suc 0) env pw now rid lid loggedIn True st' = Some r" if "po_errorCount st' \<ge> 2" for st'
    using that poll_once_background [of env pw now rid loggedIn "next_round pw st'"]
    by (cases "poll_once env pw now rid loggedIn True (next_round pw st')") (auto simp: Let_def)
  then show ?thesis
    using e poll_once_background [of env pw now rid loggedIn "next_round pw st"]
    by (cases "poll_once env pw now rid loggedIn True (next_round pw st)") (auto simp: Let_def numeral_2_eq_2)
qed


definition sample_codec :: lp_codec where
  "sample_codec = \<lparr>lc_json_Valid = (\<lambda>b. length b = 2 \<and> hd b = open_bracket),
     lc_unmarshal = (\<lambda>b. Inr \<lparr>lp_Data = None, lp_Heartbeat = False, lp_Ack = Some 5, lp_StartRead = False\<rparr>)\<rparr>"

definition sample_world :: poll_world where
  "sample_world = \<lparr>pw_codec = sample_codec, pw_reads = (\<lambda>_. []), pw_others = (\<lambda>_ c. c)\<rparr>"


section \<open>When polling stops\<close>

text \<open>What decides about an iteration: the refresh of the token, then the answer to the request.\<close>

definition fatal_answer :: "env \<Rightarrow> time \<Rightarrow> string \<Rightarrow> Client \<Rightarrow> bool" where
  "fatal_answer env now rid c =
     (case fst (refreshAuthToken env now None c) of
        Some err \<Rightarrow> \<not> env_IsNetworkError env err
      | None \<Rightarrow> (case fst (poll_response env now rid (snd (refreshAuthToken env now None c))) of
                   Inl _ \<Rightarrow> False
                 | Inr resp \<Rightarrow> rsp_StatusCode resp = 401 \<or> rsp_StatusCode resp = 403))"

text \<open>A poll that gave up, and the event it ended with.\<close>

fun gave_up :: "poll_result \<Rightarrow> bool" where
  "gave_up (PollDone b st) = True"
| "gave_up _ = False"

fun fatal_event :: "poll_result \<Rightarrow> bool" where
  "fatal_event (PollDone b st) = (\<not> b \<and> (case last (cl_events (po_client st)) of Ev_ListenFatalError e \<Rightarrow> True | _ \<Rightarrow> False))"
| "fatal_event _ = False"

lemma gave_up_simps [simp]:
  "\<not> gave_up (poll_retry loggedIn False err st)" "\<not> gave_up (poll_open env pw now loggedIn False st)"
  "gave_up (poll_fatal loggedIn err st)" "fatal_event (poll_fatal True err st)"
  by (simp_all add: poll_retry_def poll_open_def poll_fatal_def triggerEvent_def Let_def split: option.split outcome.split)



section \<open>Framing\<close>

text \<open>Handling complete blocks one after the other.\<close>

fun handleBlocks :: "env \<Rightarrow> lp_codec \<Rightarrow> time \<Rightarrow> bytes list \<Rightarrow> bool \<Rightarrow> Client \<Rightarrow> (go_error, bool \<times> Client) outcome" where
  "handleBlocks env lc now [] received c = Return (received, c)"
| "handleBlocks env lc now (b # bs) received c =
     (case lc_unmarshal lc b of
        Inl err \<Rightarrow> handleBlocks env lc now bs received c
      | Inr msg \<Rightarrow> bind_outcome (handleBlock env now msg c)
                    (\<lambda>r. handleBlocks env lc now bs (received \<or> fst r) (snd r)))"

definition after_blocks :: "env \<Rightarrow> lp_codec \<Rightarrow> time \<Rightarrow> read list \<Rightarrow> bool \<Rightarrow> (go_error, bool \<times> Client) outcome
    \<Rightarrow> (go_error, bool \<times> Client) outcome option" where
  "after_blocks env lc now reads eof r =
     (case r of Return x \<Rightarrow> readLoop env lc now reads [] eof (fst x) (snd x)
              | Error e \<Rightarrow> Some (Error e) | Panic p \<Rightarrow> Some (Panic p))"

text \<open>A well-formed block: a JSON array, no proper prefix of which is valid.\<close>

definition block_ok :: "lp_codec \<Rightarrow> bytes \<Rightarrow> bool" where
  "block_ok lc b \<longleftrightarrow> lc_json_Valid lc b \<and> (\<forall>p. strict_prefix p b \<longrightarrow> \<not> lc_json_Valid lc p)
     \<and> (\<exists>rest. b = open_bracket # rest)"

lemma readLoop_complete:
  "(case lc_unmarshal lc b of
      Inl err \<Rightarrow> readLoop env lc now reads [] eof received c
    | Inr msg \<Rightarrow>
        (case handleBlock env now msg c of
           Return (got, c1) \<Rightarrow> readLoop env lc now reads [] eof (received \<or> got) c1
         | Error e \<Rightarrow> Some (Error e) | Panic p \<Rightarrow> Some (Panic p)))
    = after_blocks env lc now reads eof (handleBlocks env lc now [b] received c)"
  by (auto simp: after_blocks_def split: sum.split outcome.split)

lemma strict_prefix_append_Cons: "ys \<noteq> [] \<Longrightarrow> xs @ ys = b \<Longrightarrow> strict_prefix xs b"
  by (auto simp: strict_prefix_def)

lemma readLoop_rest_of_block:
  assumes "block_ok lc b" "acc \<noteq> []" "acc @ concat cs = b" "cs \<noteq> []" "\<forall>x\<in>set cs. x \<noteq> []"
  shows "readLoop env lc now (map Chunk cs @ reads) acc eof received c
    = after_blocks env lc now reads eof (handleBlocks env lc now [b] received c)"
  using assms(2-)
proof (induction cs arbitrary: acc)
  case (Cons x cs)
  show ?case
  proof (cases cs)
    case Nil
    with Cons.prems have "acc @ x = b" by simp
    with Nil Cons.prems(1) assms(1) show ?thesis
      by (simp add: Let_def block_ok_def readLoop_complete del: handleBlocks.simps)
  next
    case (Cons y ys)
    then have "concat cs \<noteq> []" using Cons.prems(4) by auto
    then have "\<not> lc_json_Valid lc (acc @ x)"
      using assms(1) Cons.prems(2) strict_prefix_append_Cons [of "concat cs" "acc @ x" b]
      by (auto simp: block_ok_def)
    with Cons.IH [of "acc @ x"] Cons.prems Cons show ?thesis by (simp add: Let_def del: handleBlocks.simps)
  qed
qed simp

lemma trim_comma_open [simp]: "trim_comma (open_bracket # xs) = open_bracket # xs"
  by (simp add: trim_comma_def comma_def open_bracket_def)

lemma open_neq_close [simp]: "open_bracket \<noteq> close_bracket" "comma \<noteq> close_bracket"
  by (simp_all add: comma_def open_bracket_def close_bracket_def)

lemma block_ok_first:
  "block_ok lc b \<Longrightarrow> trim_comma b = b \<and> b \<noteq> [close_bracket, close_bracket] \<and> lc_json_Valid lc b"
  by (auto simp: block_ok_def)

lemma readLoop_block:
  assumes "block_ok lc b" "concat cs = b" "\<forall>x\<in>set cs. x \<noteq> []"
  shows "readLoop env lc now (map Chunk cs @ reads) [] eof received c
    = after_blocks env lc now reads eof (handleBlocks env lc now [b] received c)"
proof (cases cs)
  case Nil
  with assms show ?thesis by (simp add: block_ok_def)
next
  case (Cons x xs)
  then obtain r where x: "x = open_bracket # r" using assms by (cases x) (auto simp: block_ok_def)
  show ?thesis
  proof (cases xs)
    case Nil
    then have "cs = [b]" using Cons assms(2) by simp
    then show ?thesis
      using block_ok_first [OF assms(1)] by (simp add: Let_def readLoop_complete del: handleBlocks.simps)
  next
    case (Cons y ys)
    then have ne: "concat xs \<noteq> []" using assms(3) \<open>cs = x # xs\<close> by auto
    then have nv: "\<not> lc_json_Valid lc x"
      using assms(1,2) strict_prefix_append_Cons [of "concat xs" x b] \<open>cs = x # xs\<close> by (auto simp: block_ok_def)
    have "readLoop env lc now (map Chunk xs @ reads) x eof received c
        = after_blocks env lc now reads eof (handleBlocks env lc now [b] received c)"
      using assms \<open>cs = x # xs\<close> x Cons by (intro readLoop_rest_of_block) auto
    with nv x \<open>cs = x # xs\<close> show ?thesis by (simp add: Let_def del: handleBlocks.simps)
  qed
qed

lemma readLoop_comma_block:
  assumes "block_ok lc b" "concat cs = comma # b" "\<forall>x\<in>set cs. x \<noteq> []"
  shows "readLoop env lc now (map Chunk cs @ reads) [] eof received c
    = after_blocks env lc now reads eof (handleBlocks env lc now [b] received c)"
proof -
  obtain x xs where cs: "cs = x # xs" using assms(2) by (cases cs) auto
  obtain r where x: "x = comma # r" "r @ concat xs = b" using assms cs by (cases x) auto
  have tc: "trim_comma x = r" by (simp add: x trim_comma_def)
  have nv: "\<not> lc_json_Valid lc []" using assms(1) by (auto simp: block_ok_def strict_prefix_def)
  show ?thesis
  proof (cases "r = []")
    case True
    with x cs tc nv readLoop_block [of lc b xs] assms show ?thesis by (simp add: Let_def del: handleBlocks.simps)
  next
    case False
    then have "readLoop env lc now (map Chunk (r # xs) @ reads) [] eof received c
        = after_blocks env lc now reads eof (handleBlocks env lc now [b] received c)"
      using readLoop_block [of lc b "r # xs"] assms cs x by simp
    moreover obtain r' where "r = open_bracket # r'" using False x(2) assms(1) by (cases r) (auto simp: block_ok_def)
    ultimately show ?thesis using cs x tc by (simp add: Let_def del: handleBlocks.simps)
  qed
qed

lemma handleBlocks_append:
  "handleBlocks env lc now (xs @ ys) received c =
     bind_outcome (handleBlocks env lc now xs received c) (\<lambda>r. handleBlocks env lc now ys (fst r) (snd r))"
proof (induction xs arbitrary: received c)
  case (Cons x xs)
  then show ?case
    by (cases "lc_unmarshal lc x") (auto simp: bind_outcome_Return_iff split: outcome.split, case_tac "handleBlock env now b c", auto)
qed simp


lemma sample_block_ok: "block_ok sample_codec [open_bracket, close_bracket]"
proof -
  have "\<not> lc_json_Valid sample_codec p" if "strict_prefix p [open_bracket, close_bracket]" for p
    using prefix_length_less [OF that] by (simp add: sample_codec_def)
  then show ?thesis by (simp add: block_ok_def sample_codec_def)
qed


text \<open>
  The converse: when one read returns two blocks with their separating comma, nothing is handled
  any more on this connection.  A text that starts with a complete value and a comma is never valid
  JSON, so the reads pile up until the connection ends.
\<close>

lemma coalesced_blocks_are_lost:
  assumes "b \<noteq> []" and "hd b \<noteq> comma" and "hd b \<noteq> close_bracket"
    and "\<forall>s. \<not> lc_json_Valid lc (b @ comma # s)"
  shows "readLoop env lc now (Chunk (b @ comma # b2) # map Chunk tail @ [ReadErr e]) [] eof received c
    = Some (Return (received, c))"
proof -
  have grow: "readLoop env lc now (map Chunk tail @ [ReadErr e]) (b @ comma # s) eof received c = Some (Return (received, c))" for s
    by (induction tail arbitrary: s) (use assms(4) in \<open>simp_all add: Let_def\<close>)
  have "trim_comma (b @ comma # b2) = b @ comma # b2" "b @ comma # b2 \<noteq> [close_bracket, close_bracket]"
    using assms(1-3) by (cases b; auto simp: trim_comma_def)+
  with grow assms(4) show ?thesis by (simp add: Let_def)
qed

lemma coalesced_blocks_are_lost_witness:
  "readLoop sample_env sample_codec 0 (Chunk ([open_bracket, close_bracket] @ comma # [open_bracket, close_bracket]) # map Chunk [] @ [ReadErr (ErrText ''EOF'')])
     [] False False (NewClient sample_auth None) = Some (Return (False, NewClient sample_auth None))"
  by (rule coalesced_blocks_are_lost) (simp_all add: sample_codec_def comma_def open_bracket_def close_bracket_def)

end
