(* ===== verification/Gm_Ids.thy ===== *)
theory Gm_Ids
  imports Gm_Client "HOL-Library.AList" "HOL-Library.List_Lexorder" "HOL-Library.Char_ord"
begin

text \<open>
  The identifiers of the bridge and the metadata it stores: \<open>pkg/connector/id.go\<close>,
  \<open>pkg/connector/dbmeta.go\<close>, the login prefix table of \<open>pkg/connector/gmdb/database.go\<close> and the
  state of a login (\<open>GMClient\<close> of \<open>pkg/connector/client.go\<close>).  The lemmas show that every
  identifier is read back by the login that made it and by no other login, and that storing the
  SIM cards of the phone is idempotent and never forgets a participant of the user.
\<close>

section \<open>Login prefixes\<close>

text \<open>
  The table \<open>gmessages_login_prefix\<close>: a row has a unique login and a generated primary key.  The
  parameter \<open>new_key\<close> stands for the key generation of the database, which depends on the rows.
\<close>

type_synonym prefix_table = "(string \<times> int) list"

definition GetLoginPrefix ::
  "(prefix_table \<Rightarrow> int) \<Rightarrow> prefix_table \<Rightarrow> string \<Rightarrow> string \<times> prefix_table" where
  "GetLoginPrefix new_key tbl login =
     (case map_of tbl login of
        Some row \<Rightarrow> (show_int row, tbl)
      | None \<Rightarrow> (show_int (new_key tbl), tbl @ [(login, new_key tbl)]))"

definition unique_prefixes :: "prefix_table \<Rightarrow> bool" where
  "unique_prefixes tbl \<longleftrightarrow> distinct (map fst tbl) \<and> distinct (map snd tbl)"

fun register_logins :: "(prefix_table \<Rightarrow> int) \<Rightarrow> prefix_table \<Rightarrow> string list \<Rightarrow> prefix_table" where
  "register_logins new_key tbl [] = tbl"
| "register_logins new_key tbl (l # ls) =
     register_logins new_key (snd (GetLoginPrefix new_key tbl l)) ls"

section \<open>Stored metadata\<close>

record PortalMetadata =
  pm_Type :: ConversationType
  pm_SendMode :: ConversationSendMode
  pm_ForceRCS :: bool
  pm_OutgoingID :: string

record GhostMetadata =
  gh_Phone :: string
  gh_ContactID :: string
  gh_AvatarUpdateTS :: time
  gh_HasName :: bool

record MessageMetadata =
  mm_Type :: MessageStatusType
  mm_GlobalMediaStatus :: string
  mm_GlobalPartCount :: int
  mm_GlobalStatusText :: string
  mm_GroupReadBy :: "string list"
  mm_TextHash :: string
  mm_MediaPartID :: string
  mm_MediaID :: string
  mm_MediaPending :: bool
  mm_IsOutgoing :: bool
  mm_MSSSent :: bool
  mm_MSSFailSent :: bool
  mm_MSSDeliverySent :: bool
  mm_ReadReceiptSent :: bool
  mm_OrigMXID :: string

definition GetOrigMXID :: "MessageMetadata \<Rightarrow> string \<Rightarrow> string" where
  "GetOrigMXID m mxid = (if mm_OrigMXID m \<noteq> '''' then mm_OrigMXID m else mxid)"

record StoredPushKeys =
  spk_Token :: string
  spk_P256DH :: bytes
  spk_Auth :: bytes
  spk_Private :: bytes

record UserSettings =
  us_SettingsReceived :: bool
  us_RCSEnabled :: bool
  us_ReadReceipts :: bool
  us_TypingNotifications :: bool
  us_IsDefaultSMSApp :: bool
  us_PushNotifications :: bool

record bridgeStateSIMMeta =
  bs_CarrierName :: string
  bs_ColorHex :: string
  bs_ParticipantID :: string
  bs_RCSEnabled :: bool
  bs_PhoneNumber :: string

text \<open>A Go map of SIM cards is an association list with distinct keys.\<close>

type_synonym sim_map = "(string \<times> SIMCard) list"

record UserLoginMetadata =
  ulm_Session :: "AuthData option"
  ulm_selfParticipantIDs :: "string list"
  ulm_simMetadata :: sim_map
  ulm_Settings :: UserSettings
  ulm_IDPrefix :: string
  ulm_PushKeys :: "StoredPushKeys option"

definition PublicPushKeys :: "UserLoginMetadata \<Rightarrow> PushKeys option" where
  "PublicPushKeys ulm = map_option
     (\<lambda>k. \<lparr>pk_URL = spk_Token k, pk_P256DH = spk_P256DH k, pk_Auth = spk_Auth k\<rparr>) (ulm_PushKeys ulm)"

text \<open>The JSON form of the metadata; \<open>enc\<close> and \<open>dec\<close> stand for \<open>encoding/json\<close> on it.\<close>

record serializableUserLoginMetadata =
  sm_Session :: "AuthData option"
  sm_SelfParticipantIDs :: "string list"
  sm_SimMetadata :: sim_map
  sm_Settings :: UserSettings
  sm_IDPrefix :: string
  sm_PushKeys :: "StoredPushKeys option"

definition MarshalJSON ::
  "(serializableUserLoginMetadata \<Rightarrow> go_error + bytes) \<Rightarrow> UserLoginMetadata \<Rightarrow> go_error + bytes" where
  "MarshalJSON enc ulm = enc
     \<lparr>sm_Session = ulm_Session ulm,
      sm_SelfParticipantIDs = ulm_selfParticipantIDs ulm,
      sm_SimMetadata = ulm_simMetadata ulm,
      sm_Settings = ulm_Settings ulm,
      sm_IDPrefix = ulm_IDPrefix ulm,
      sm_PushKeys = ulm_PushKeys ulm\<rparr>"

definition UnmarshalJSON ::
  "(bytes \<Rightarrow> go_error + serializableUserLoginMetadata) \<Rightarrow> bytes \<Rightarrow> UserLoginMetadata
    \<Rightarrow> go_error option \<times> UserLoginMetadata" where
  "UnmarshalJSON dec data ulm =
     (case dec data of
        Inl err \<Rightarrow> (Some err, ulm)
      | Inr s \<Rightarrow> (None, ulm
          \<lparr>ulm_Session := sm_Session s,
           ulm_selfParticipantIDs := sm_SelfParticipantIDs s,
           ulm_simMetadata := sm_SimMetadata s,
           ulm_Settings := sm_Settings s,
           ulm_IDPrefix := sm_IDPrefix s,
           ulm_PushKeys := sm_PushKeys s\<rparr>))"

definition CopyFrom :: "UserLoginMetadata \<Rightarrow> UserLoginMetadata \<Rightarrow> UserLoginMetadata" where
  "CopyFrom ulm other = ulm\<lparr>ulm_Session := ulm_Session other\<rparr>"

section \<open>Participants of the user and SIM cards\<close>

definition AddSelfParticipantID :: "UserLoginMetadata \<Rightarrow> string \<Rightarrow> bool \<times> UserLoginMetadata" where
  "AddSelfParticipantID ulm pid =
     (if pid = '''' then (False, ulm)
      else if pid \<notin> set (ulm_selfParticipantIDs ulm)
      then (True, ulm\<lparr>ulm_selfParticipantIDs := ulm_selfParticipantIDs ulm @ [pid]\<rparr>)
      else (False, ulm))"

definition IsSelfParticipantID :: "UserLoginMetadata \<Rightarrow> string \<Rightarrow> bool" where
  "IsSelfParticipantID ulm pid \<longleftrightarrow> pid \<in> set (ulm_selfParticipantIDs ulm)"

definition SIMCount :: "UserLoginMetadata \<Rightarrow> nat" where
  "SIMCount ulm = length (ulm_simMetadata ulm)"

definition GetSIMs :: "UserLoginMetadata \<Rightarrow> SIMCard list" where
  "GetSIMs ulm = map snd (ulm_simMetadata ulm)"

definition GetSIM :: "UserLoginMetadata \<Rightarrow> string \<Rightarrow> SIMCard option" where
  "GetSIM ulm pid = map_of (ulm_simMetadata ulm) pid"

definition sim_meta :: "SIMCard \<Rightarrow> bridgeStateSIMMeta" where
  "sim_meta sim =
     \<lparr>bs_CarrierName = GetCarrierName (Some sim),
      bs_ColorHex = (case GetSIMData (Some sim) of None \<Rightarrow> '''' | Some d \<Rightarrow> sd_colorHex d),
      bs_ParticipantID = GetSIMParticipantID sim,
      bs_RCSEnabled = GetRCSEnabled (Some sim),
      bs_PhoneNumber = (case GetSIMData (Some sim) of None \<Rightarrow> '''' | Some d \<Rightarrow> sd_formattedPhoneNumber d)\<rparr>"

definition GetSIMsForBridgeState :: "UserLoginMetadata \<Rightarrow> bridgeStateSIMMeta list" where
  "GetSIMsForBridgeState ulm =
     sort_key bs_ParticipantID (map (\<lambda>kv. sim_meta (snd kv)) (ulm_simMetadata ulm))"

definition simsAreEqualish :: "SIMCard option \<Rightarrow> SIMCard option \<Rightarrow> bool" where
  "simsAreEqualish a b \<longleftrightarrow>
     GetRCSEnabled a = GetRCSEnabled b \<and>
     GetCarrierName a = GetCarrierName b \<and>
     GetSIMNumber a = GetSIMNumber b \<and>
     GetTwo a = GetTwo b"

text \<open>The loop of \<open>SetSIMs\<close> over the new cards: the new map, the known participants and whether
  one of them is new.\<close>

definition set_sims_step :: "sim_map \<times> string list \<times> bool \<Rightarrow> SIMCard \<Rightarrow> sim_map \<times> string list \<times> bool" where
  "set_sims_step st sim =
     (let pid = GetSIMParticipantID sim;
          newMap = AList.update pid sim (fst st);
          ids = fst (snd st)
      in if pid \<notin> set ids then (newMap, ids @ [pid], True) else (newMap, ids, snd (snd st)))"

definition set_sims_loop :: "string list \<Rightarrow> SIMCard list \<Rightarrow> sim_map \<times> string list \<times> bool" where
  "set_sims_loop ids sims = foldl set_sims_step ([], ids, False) sims"

definition SetSIMs :: "UserLoginMetadata \<Rightarrow> SIMCard list \<Rightarrow> bool \<times> UserLoginMetadata" where
  "SetSIMs ulm sims =
     (let r = set_sims_loop (ulm_selfParticipantIDs ulm) sims;
          newMap = fst r;
          oldMap = ulm_simMetadata ulm;
          ulm' = ulm\<lparr>ulm_selfParticipantIDs := fst (snd r), ulm_simMetadata := newMap\<rparr>
      in if snd (snd r) \<or> length newMap \<noteq> length oldMap then (True, ulm')
         else (list_ex (\<lambda>kv. case map_of oldMap (fst kv) of None \<Rightarrow> True
                             | Some existing \<Rightarrow> \<not> simsAreEqualish (Some existing) (Some (snd kv))) newMap,
               ulm'))"

definition ulm_ok :: "UserLoginMetadata \<Rightarrow> bool" where
  "ulm_ok ulm \<longleftrightarrow>
     distinct (ulm_selfParticipantIDs ulm) \<and>
     distinct (map fst (ulm_simMetadata ulm)) \<and>
     fst ` set (ulm_simMetadata ulm) \<subseteq> set (ulm_selfParticipantIDs ulm) \<and>
     (\<forall>kv \<in> set (ulm_simMetadata ulm). GetSIMParticipantID (snd kv) = fst kv)"

section \<open>The state of a login\<close>

record conversationMeta =
  cm_markedSpamAt :: time
  cm_cancelPendingBackfill :: "nat option"
  cm_unread :: bool
  cm_readUpTo :: string
  cm_readUpToTS :: time

record DeviceMetaConfig =
  dm_OS :: string
  dm_Browser :: string
  dm_Type :: string

record ConnectorConfig =
  cf_DisplaynameTemplate :: string
  cf_DeviceMeta :: DeviceMetaConfig
  cf_AggressiveReconnect :: bool
  cf_InitialChatSyncCount :: int
  cf_DeterministicIDPrefix :: bool
  cf_PingInterval :: duration
  cf_AlertTimeoutCount :: int

text \<open>
  \<open>Meta.Session\<close> and \<open>Client.AuthData\<close> are the same object once a client exists: \<open>put_client\<close>
  (below) writes the client's authentication data back to the session.
\<close>

record GMClient =
  gm_Config :: ConnectorConfig
  gm_UserLoginID :: string
  gm_Client :: "Client option"
  gm_Meta :: UserLoginMetadata
  gm_fullMediaRequests :: "(string \<times> string) list"
  gm_longPollingError :: "go_error option"
  gm_browserInactiveType :: string
  gm_SwitchedToGoogleLogin :: bool
  gm_batteryLow :: bool
  gm_mobileData :: bool
  gm_PhoneResponding :: bool
  gm_ready :: bool
  gm_sessionID :: string
  gm_batteryLowAlertSent :: time
  gm_pollErrorAlertSent :: bool
  gm_phoneNotRespondingAlertSent :: bool
  gm_didHackySetActive :: bool
  gm_noDataReceivedRecently :: bool
  gm_lastDataReceived :: time
  gm_syncingConversations :: bool
  gm_syncingMobileDatabase :: bool
  gm_chatInfoCache :: "(string \<times> Conversation) list"
  gm_conversationMeta :: "(string \<times> conversationMeta) list"

definition put_client :: "Client \<Rightarrow> GMClient \<Rightarrow> GMClient" where
  "put_client c gm = gm\<lparr>gm_Client := Some c,
     gm_Meta := (gm_Meta gm)\<lparr>ulm_Session := map_option (\<lambda>_. cl_AuthData c) (ulm_Session (gm_Meta gm))\<rparr>\<rparr>"

section \<open>Identifiers\<close>

text \<open>\<open>strings.SplitN(id, ".", 2)\<close> has two parts exactly when the identifier has a dot.\<close>

definition parseAnyID :: "string \<Rightarrow> string \<times> string" where
  "parseAnyID i = (case split2 CHR ''.'' i of Some (p, q) \<Rightarrow> (p, q) | None \<Rightarrow> ('''', ''''))"

datatype id_error = ErrPrefixMismatch

definition GMClient_parseAnyID :: "GMClient \<Rightarrow> string \<Rightarrow> id_error + string" where
  "GMClient_parseAnyID gc i =
     (let r = parseAnyID i in
      if fst r \<noteq> ulm_IDPrefix (gm_Meta gc) then Inl ErrPrefixMismatch else Inr (snd r))"

definition makeAnyID :: "GMClient \<Rightarrow> string \<Rightarrow> string" where
  "makeAnyID gc realID = ulm_IDPrefix (gm_Meta gc) @ ''.'' @ realID"

definition ParseUserID :: "GMClient \<Rightarrow> string \<Rightarrow> id_error + string" where
  "ParseUserID gc i = GMClient_parseAnyID gc i"

definition ParseMessageID :: "GMClient \<Rightarrow> string \<Rightarrow> id_error + string" where
  "ParseMessageID gc i = GMClient_parseAnyID gc i"

definition ParsePortalID :: "GMClient \<Rightarrow> string \<Rightarrow> id_error + string" where
  "ParsePortalID gc i = GMClient_parseAnyID gc i"

definition MakeUserID :: "GMClient \<Rightarrow> string \<Rightarrow> string" where
  "MakeUserID gc participantID = makeAnyID gc participantID"

definition MakeMessageID :: "GMClient \<Rightarrow> string \<Rightarrow> string" where
  "MakeMessageID gc messageID = makeAnyID gc messageID"

definition MakePortalID :: "GMClient \<Rightarrow> string \<Rightarrow> string" where
  "MakePortalID gc conversationID = makeAnyID gc conversationID"

record PortalKey =
  pky_ID :: string
  pky_Receiver :: string

definition MakePortalKey :: "GMClient \<Rightarrow> string \<Rightarrow> PortalKey" where
  "MakePortalKey gc conversationID =
     \<lparr>pky_ID = MakePortalID gc conversationID, pky_Receiver = gm_UserLoginID gc\<rparr>"

definition IsThisUser :: "GMClient \<Rightarrow> string \<Rightarrow> bool" where
  "IsThisUser gc userID =
     (case ParseUserID gc userID of
        Inl err \<Rightarrow> False
      | Inr participantID \<Rightarrow> participantID = ''1'' \<or> IsSelfParticipantID (gm_Meta gc) participantID)"

definition GMClient_GetSIM :: "GMClient \<Rightarrow> PortalMetadata \<Rightarrow> SIMCard option" where
  "GMClient_GetSIM gc portal = GetSIM (gm_Meta gc) (pm_OutgoingID portal)"


section \<open>Properties of identifiers\<close>

text \<open>What the rest of the bridge relies on: an identifier made with one prefix is read back with
  that prefix only.\<close>

locale id_codec =
  fixes make :: "'p \<Rightarrow> string \<Rightarrow> string"
    and parse :: "'p \<Rightarrow> string \<Rightarrow> id_error + string"
    and wf :: "'p \<Rightarrow> bool"
    and pre :: "'p \<Rightarrow> string"
  assumes parse_make: "wf p \<Longrightarrow> parse p (make p r) = Inr r"
    and parse_only: "wf p \<Longrightarrow> parse p i = Inr r \<Longrightarrow> i = make p r \<or> (pre p = '''' \<and> r = '''')"
    and make_prefix: "make p r = make q r' \<Longrightarrow> wf p \<Longrightarrow> wf q \<Longrightarrow> pre p = pre q \<and> r = r'"
begin

lemma make_inj: "wf p \<Longrightarrow> make p r = make p r' \<longleftrightarrow> r = r'"
  using make_prefix by blast

lemma parse_other:
  assumes "wf p" "wf q" "pre p \<noteq> pre q" "pre q \<noteq> ''''"
  shows "parse q (make p r) = Inl ErrPrefixMismatch"
proof (cases "parse q (make p r)")
  case (Inl e)
  then show ?thesis by (cases e) simp
next
  case (Inr r')
  with assms(2,4) have "make p r = make q r'" using parse_only by blast
  with assms show ?thesis using make_prefix by blast
qed

lemma parse_iff:
  assumes "wf p" "pre p \<noteq> ''''"
  shows "parse p i = Inr r \<longleftrightarrow> i = make p r"
  using assms parse_make parse_only by blast

end

definition prefix_ok :: "GMClient \<Rightarrow> bool" where
  "prefix_ok gc \<longleftrightarrow> CHR ''.'' \<notin> set (ulm_IDPrefix (gm_Meta gc))"

interpretation ids: id_codec makeAnyID GMClient_parseAnyID prefix_ok "\<lambda>gc. ulm_IDPrefix (gm_Meta gc)"
proof
  fix gc r
  show "prefix_ok gc \<Longrightarrow> GMClient_parseAnyID gc (makeAnyID gc r) = Inr r"
    by (simp add: prefix_ok_def GMClient_parseAnyID_def makeAnyID_def parseAnyID_def split2_append)
next
  fix gc i r
  assume "prefix_ok gc" "GMClient_parseAnyID gc i = Inr r"
  then show "i = makeAnyID gc r \<or> ulm_IDPrefix (gm_Meta gc) = '''' \<and> r = ''''"
    by (auto simp: GMClient_parseAnyID_def makeAnyID_def parseAnyID_def Let_def
             split: if_splits option.splits dest: split2_Some)
next
  fix p q r r'
  assume eq: "makeAnyID p r = makeAnyID q r'" and ok: "prefix_ok p" "prefix_ok q"
  have "split2 CHR ''.'' (makeAnyID p r) = Some (ulm_IDPrefix (gm_Meta p), r)"
    "split2 CHR ''.'' (makeAnyID q r') = Some (ulm_IDPrefix (gm_Meta q), r')"
    using ok by (simp_all add: makeAnyID_def prefix_ok_def split2_append)
  with eq show "ulm_IDPrefix (gm_Meta p) = ulm_IDPrefix (gm_Meta q) \<and> r = r'" by simp
qed

lemma show_int_nonempty [simp]: "show_int i \<noteq> ''''"
  by (simp add: show_int_def)

lemma show_int_inj: "show_int i = show_int j \<longleftrightarrow> i = j"
proof
  assume eq: "show_int i = show_int j"
  define n where "n = nat \<bar>i\<bar> + nat \<bar>j\<bar> + 2"
  have big: "k < 2 ^ (n - 1)" if "k \<le> int (n - 1)" for k :: int
    using that less_exp [of "n - 1"]
    by (metis le_less_trans of_nat_less_iff of_nat_numeral of_nat_power)
  have "\<bar>i\<bar> < 2 ^ (n - 1)" "\<bar>j\<bar> < 2 ^ (n - 1)" by (rule big, simp add: n_def)+
  then have "in_range n i" "in_range n j" by (auto simp: in_range_def)
  then show "i = j" using parse_int_show_int eq by (metis option.inject)
qed simp

lemma GetLoginPrefix_unique:
  assumes "\<And>t. new_key t \<notin> snd ` set t" "unique_prefixes tbl"
  shows "unique_prefixes (snd (GetLoginPrefix new_key tbl l))"
  using assms by (auto simp: GetLoginPrefix_def unique_prefixes_def map_of_eq_None_iff split: option.splits)

lemma GetLoginPrefix_lookup:
  "map_of (snd (GetLoginPrefix new_key tbl l)) l = Some row \<Longrightarrow>
     fst (GetLoginPrefix new_key tbl l) = show_int row"
  by (auto simp: GetLoginPrefix_def map_add_def split: option.splits)

lemma GetLoginPrefix_keeps:
  "map_of tbl l = Some row \<Longrightarrow> map_of (snd (GetLoginPrefix new_key tbl l')) l = Some row"
  by (auto simp: GetLoginPrefix_def map_add_def split: option.splits)

lemma GetLoginPrefix_registers: "\<exists>row. map_of (snd (GetLoginPrefix new_key tbl l)) l = Some row"
  by (auto simp: GetLoginPrefix_def map_add_def split: option.splits)

lemma register_logins_keeps:
  "map_of tbl l = Some row \<Longrightarrow> map_of (register_logins new_key tbl ls) l = Some row"
  by (induction ls arbitrary: tbl) (auto simp: GetLoginPrefix_keeps)

lemma register_logins_unique:
  assumes "\<And>t. new_key t \<notin> snd ` set t"
  shows "unique_prefixes tbl \<Longrightarrow> unique_prefixes (register_logins new_key tbl ls)"
  by (induction ls arbitrary: tbl) (auto simp: GetLoginPrefix_unique [OF assms])

lemma register_logins_registered:
  "l \<in> set ls \<Longrightarrow> \<exists>row. map_of (register_logins new_key tbl ls) l = Some row"
proof (induction ls arbitrary: tbl)
  case (Cons a ls)
  then show ?case
    using GetLoginPrefix_registers [of new_key tbl a] register_logins_keeps by (cases "l = a") fastforce+
qed simp

lemma registered_prefix:
  "map_of tbl l = Some row \<Longrightarrow> fst (GetLoginPrefix new_key tbl l) = show_int row"
  by (simp add: GetLoginPrefix_def)

lemma unique_prefixes_inj:
  assumes "unique_prefixes tbl" "map_of tbl l = Some i" "map_of tbl l' = Some i"
  shows "l = l'"
proof -
  have "(l, i) \<in> set tbl" "(l', i) \<in> set tbl" using assms(2,3) by (auto dest: map_of_SomeD)
  then have "(l, i) = (l', i)"
    using assms(1) unfolding unique_prefixes_def by (metis distinct_map inj_onD snd_conv)
  then show ?thesis by simp
qed

lemma prefix_ok_show_int: "ulm_IDPrefix (gm_Meta gc) = show_int i \<Longrightarrow> prefix_ok gc"
  using not_in_show_int [of "CHR ''.''" i] by (simp add: prefix_ok_def)

text \<open>
  (C25) Logins are isolated from each other: once any sequence of logins has been registered, every
  user, message or portal identifier that one of them makes is read back by that login, and every
  other login rejects it with the account mismatch error; in particular no two logins ever make
  the same identifier.  The database is only assumed to generate a key that no row has.
\<close>

theorem logins_are_isolated:
  assumes fresh: "\<And>t. new_key t \<notin> snd ` set t"
    and tbl: "tbl = register_logins new_key [] ls"
    and reg: "l \<in> set ls" "l' \<in> set ls" "l \<noteq> l'"
    and a: "ulm_IDPrefix (gm_Meta a) = fst (GetLoginPrefix new_key tbl l)"
    and b: "ulm_IDPrefix (gm_Meta b) = fst (GetLoginPrefix new_key tbl l')"
  shows "ParseUserID a (MakeUserID a r) = Inr r \<and>
    ParseMessageID a (MakeMessageID a r) = Inr r \<and>
    ParsePortalID a (MakePortalID a r) = Inr r \<and>
    ParseUserID b (MakeUserID a r) = Inl ErrPrefixMismatch \<and>
    ParseMessageID b (MakeMessageID a r) = Inl ErrPrefixMismatch \<and>
    ParsePortalID b (MakePortalID a r) = Inl ErrPrefixMismatch \<and>
    MakePortalID a r \<noteq> MakePortalID b r2"
proof -
  have u: "unique_prefixes tbl"
    unfolding tbl using register_logins_unique [OF fresh] by (simp add: unique_prefixes_def)
  obtain i where i: "map_of tbl l = Some i"
    using register_logins_registered [OF reg(1)] unfolding tbl by blast
  obtain j where j: "map_of tbl l' = Some j"
    using register_logins_registered [OF reg(2)] unfolding tbl by blast
  have ai: "ulm_IDPrefix (gm_Meta a) = show_int i" using a registered_prefix [OF i] by simp
  have bj: "ulm_IDPrefix (gm_Meta b) = show_int j" using b registered_prefix [OF j] by simp
  have ok: "prefix_ok a" "prefix_ok b" using ai bj by (auto intro: prefix_ok_show_int)
  have ne: "ulm_IDPrefix (gm_Meta a) \<noteq> ulm_IDPrefix (gm_Meta b)"
    using unique_prefixes_inj [OF u i] j reg(3) ai bj by (auto simp: show_int_inj)
  have same: "GMClient_parseAnyID a (makeAnyID a r) = Inr r" using ok(1) by (rule ids.parse_make)
  have other: "GMClient_parseAnyID b (makeAnyID a r) = Inl ErrPrefixMismatch"
    using ok ne bj by (intro ids.parse_other) auto
  have "makeAnyID a r \<noteq> makeAnyID b r2" using ids.make_prefix [OF _ ok] ne by blast
  with same other show ?thesis
    by (simp add: ParseUserID_def ParseMessageID_def ParsePortalID_def MakeUserID_def
        MakeMessageID_def MakePortalID_def)
qed


definition sample_meta :: UserLoginMetadata where
  "sample_meta =
     \<lparr>ulm_Session = Some sample_auth, ulm_selfParticipantIDs = [''1''], ulm_simMetadata = [],
      ulm_Settings = \<lparr>us_SettingsReceived = False, us_RCSEnabled = False, us_ReadReceipts = False,
        us_TypingNotifications = False, us_IsDefaultSMSApp = False, us_PushNotifications = False\<rparr>,
      ulm_IDPrefix = ''1'', ulm_PushKeys = None\<rparr>"

definition sample_config :: ConnectorConfig where
  "sample_config =
     \<lparr>cf_DisplaynameTemplate = ''{{or .FullName .PhoneNumber}}'',
      cf_DeviceMeta = \<lparr>dm_OS = ''mautrix-gmessages'', dm_Browser = ''OTHER'', dm_Type = ''TABLET''\<rparr>,
      cf_AggressiveReconnect = False, cf_InitialChatSyncCount = 25, cf_DeterministicIDPrefix = False,
      cf_PingInterval = 20 * minute, cf_AlertTimeoutCount = 4\<rparr>"

definition sample_gm :: GMClient where
  "sample_gm =
     \<lparr>gm_Config = sample_config, gm_UserLoginID = ''alice'', gm_Client = None, gm_Meta = sample_meta,
      gm_fullMediaRequests = [], gm_longPollingError = None, gm_browserInactiveType = '''',
      gm_SwitchedToGoogleLogin = False, gm_batteryLow = False, gm_mobileData = False,
      gm_PhoneResponding = True, gm_ready = True, gm_sessionID = '''',
      gm_batteryLowAlertSent = zero_time, gm_pollErrorAlertSent = False,
      gm_phoneNotRespondingAlertSent = False, gm_didHackySetActive = False,
      gm_noDataReceivedRecently = False, gm_lastDataReceived = zero_time,
      gm_syncingConversations = False, gm_syncingMobileDatabase = False,
      gm_chatInfoCache = [], gm_conversationMeta = []\<rparr>"

definition next_key :: "prefix_table \<Rightarrow> int" where
  "next_key tbl = foldr (\<lambda>r m. max (snd r) m) tbl 0 + 1"

lemma next_key_fresh: "next_key t \<notin> snd ` set t"
proof -
  have "snd r \<le> foldr (\<lambda>r m. max (snd r) m) t (0::int)" if "r \<in> set t" for r
    using that by (induction t) auto
  then show ?thesis unfolding next_key_def by force
qed

theorem logins_are_isolated_witness:
  "ParseUserID sample_gm (MakeUserID sample_gm ''5'') = Inr ''5'' \<and>
   ParseUserID (sample_gm\<lparr>gm_Meta := sample_meta\<lparr>ulm_IDPrefix := ''2''\<rparr>\<rparr>) (MakeUserID sample_gm ''5'')
     = Inl ErrPrefixMismatch"
proof -
  define tbl where "tbl = register_logins next_key [] [''alice'', ''bob'']"
  have p: "fst (GetLoginPrefix next_key tbl ''alice'') = ''1''" "fst (GetLoginPrefix next_key tbl ''bob'') = ''2''"
    unfolding tbl_def by code_simp+
  show ?thesis
    using logins_are_isolated [OF next_key_fresh tbl_def, of "''alice''" "''bob''" sample_gm
        "sample_gm\<lparr>gm_Meta := sample_meta\<lparr>ulm_IDPrefix := ''2''\<rparr>\<rparr>" "''5''"] p
    by (simp add: sample_gm_def sample_meta_def)
qed

section \<open>Properties of the SIM cards\<close>

text \<open>The last card of a list with a given participant, and the participants in order of their
  first card.\<close>

definition last_sim :: "SIMCard list \<Rightarrow> string \<Rightarrow> SIMCard option" where
  "last_sim sims pid = find (\<lambda>s. GetSIMParticipantID s = pid) (rev sims)"

lemma last_sim_snoc:
  "last_sim (sims @ [s]) pid = (if GetSIMParticipantID s = pid then Some s else last_sim sims pid)"
  by (simp add: last_sim_def)

lemma last_sim_Nil [simp]: "last_sim [] pid = None"
  by (simp add: last_sim_def)

lemma last_sim_eq_None_iff: "last_sim sims pid = None \<longleftrightarrow> pid \<notin> GetSIMParticipantID ` set sims"
  by (auto simp: last_sim_def find_None_iff)

lemma set_sims_loop_snoc:
  "set_sims_loop ids (sims @ [s]) = set_sims_step (set_sims_loop ids sims) s"
  by (simp add: set_sims_loop_def)

lemma set_sims_loop_Nil [simp]: "set_sims_loop ids [] = ([], ids, False)"
  by (simp add: set_sims_loop_def)

lemma set_sims_loop_map: "map_of (fst (set_sims_loop ids sims)) = last_sim sims"
proof (induction sims rule: rev_induct)
  case (snoc s sims)
  then show ?case
    by (auto simp: set_sims_loop_snoc set_sims_step_def Let_def update_conv last_sim_snoc)
qed (auto)

lemma set_update_subset: "set (AList.update k v al) \<subseteq> insert (k, v) (set al)"
  by (induction al) auto

lemma set_sims_step_fst:
  "fst (set_sims_step st sim) = AList.update (GetSIMParticipantID sim) sim (fst st)"
  by (simp add: set_sims_step_def Let_def)

lemma set_sims_loop_keys:
  "distinct (map fst (fst (set_sims_loop ids sims))) \<and>
   (\<forall>kv \<in> set (fst (set_sims_loop ids sims)). GetSIMParticipantID (snd kv) = fst kv)"
proof (induction sims rule: rev_induct)
  case (snoc s sims)
  let ?al = "fst (set_sims_loop ids sims)"
  have "distinct (map fst (AList.update (GetSIMParticipantID s) s ?al))"
    using snoc by (intro distinct_update) simp
  moreover have "GetSIMParticipantID (snd kv) = fst kv"
    if "kv \<in> set (AList.update (GetSIMParticipantID s) s ?al)" for kv
    using that snoc set_update_subset [of "GetSIMParticipantID s" s ?al] by auto
  ultimately show ?case by (simp add: set_sims_loop_snoc set_sims_step_fst)
qed simp

lemma set_sims_loop_ids:
  "set (fst (snd (set_sims_loop ids sims))) = set ids \<union> GetSIMParticipantID ` set sims \<and>
   prefix ids (fst (snd (set_sims_loop ids sims))) \<and>
   (distinct ids \<longrightarrow> distinct (fst (snd (set_sims_loop ids sims)))) \<and>
   (snd (snd (set_sims_loop ids sims)) \<longleftrightarrow> \<not> GetSIMParticipantID ` set sims \<subseteq> set ids)"
proof (induction sims rule: rev_induct)
  case (snoc s sims)
  then show ?case
    by (auto simp: set_sims_loop_snoc set_sims_step_def Let_def prefix_def)
qed simp

lemma distinct_keys_dom_eq:
  assumes "distinct (map fst al)" "distinct (map fst bl)" "length al = length bl"
    and "fst ` set al \<subseteq> fst ` set bl"
  shows "fst ` set al = fst ` set bl"
proof (rule card_subset_eq)
  show "card (fst ` set al) = card (fst ` set bl)"
    using assms(1-3) by (metis distinct_card length_map set_map)
qed (use assms in auto)

lemma distinct_keys_length_eq:
  "distinct (map fst al) \<Longrightarrow> distinct (map fst bl) \<Longrightarrow> fst ` set al = fst ` set bl \<Longrightarrow>
    length al = length bl"
  by (metis distinct_card length_map set_map)

lemma SetSIMs_snd:
  "snd (SetSIMs ulm sims) = ulm
     \<lparr>ulm_selfParticipantIDs := fst (snd (set_sims_loop (ulm_selfParticipantIDs ulm) sims)),
      ulm_simMetadata := fst (set_sims_loop (ulm_selfParticipantIDs ulm) sims)\<rparr>"
  by (simp add: SetSIMs_def Let_def)

lemma SetSIMs_GetSIM: "GetSIM (snd (SetSIMs ulm sims)) pid = last_sim sims pid"
  by (simp add: SetSIMs_snd GetSIM_def set_sims_loop_map)

lemma SetSIMs_ok: "ulm_ok ulm \<Longrightarrow> ulm_ok (snd (SetSIMs ulm sims))"
proof -
  assume "ulm_ok ulm"
  moreover have "fst ` set (fst (set_sims_loop ids sims)) = GetSIMParticipantID ` set sims" for ids
    using set_sims_loop_map [of ids sims] last_sim_eq_None_iff [of sims]
    by (metis (no_types, opaque_lifting) map_of_eq_None_iff set_eqI)
  ultimately show ?thesis
    using set_sims_loop_keys [of "ulm_selfParticipantIDs ulm" sims]
      set_sims_loop_ids [of "ulm_selfParticipantIDs ulm" sims]
    by (simp add: ulm_ok_def SetSIMs_snd)
qed

lemma SetSIMs_unchanged_iff:
  assumes ok: "ulm_ok ulm"
  shows "\<not> fst (SetSIMs ulm sims) \<longleftrightarrow>
    (\<forall>pid. (GetSIM ulm pid = None \<longleftrightarrow> last_sim sims pid = None) \<and>
           simsAreEqualish (GetSIM ulm pid) (last_sim sims pid))"
    (is "?L \<longleftrightarrow> ?R")
proof -
  define new where "new = fst (set_sims_loop (ulm_selfParticipantIDs ulm) sims)"
  define old where "old = ulm_simMetadata ulm"
  have map: "map_of new pid = last_sim sims pid" for pid by (simp add: new_def set_sims_loop_map)
  have d: "distinct (map fst new)" "distinct (map fst old)"
    using set_sims_loop_keys ok by (simp_all add: new_def old_def ulm_ok_def)
  have dom: "fst ` set new = GetSIMParticipantID ` set sims"
    using map last_sim_eq_None_iff [of sims] by (metis (no_types, opaque_lifting) map_of_eq_None_iff set_eqI)
  have old_self: "fst ` set old \<subseteq> set (ulm_selfParticipantIDs ulm)"
    using ok by (simp add: old_def ulm_ok_def)
  have L: "?L \<longleftrightarrow> fst ` set new \<subseteq> set (ulm_selfParticipantIDs ulm) \<and> length new = length old \<and>
    (\<forall>kv \<in> set new. \<exists>e. map_of old (fst kv) = Some e \<and> simsAreEqualish (Some e) (Some (snd kv)))"
    using set_sims_loop_ids [of "ulm_selfParticipantIDs ulm" sims] dom
    by (auto simp: SetSIMs_def Let_def new_def old_def list_ex_iff split: option.splits)
  have R: "?R \<longleftrightarrow> fst ` set new = fst ` set old \<and>
    (\<forall>kv \<in> set new. \<exists>e. map_of old (fst kv) = Some e \<and> simsAreEqualish (Some e) (Some (snd kv)))"
  proof -
    have dom_eq: "fst ` set new = fst ` set old \<longleftrightarrow> (\<forall>pid. map_of old pid = None \<longleftrightarrow> map_of new pid = None)"
      by (auto simp: map_of_eq_None_iff)
    have same: "simsAreEqualish None None" by (simp add: simsAreEqualish_def)
    have mem: "kv \<in> set new \<longleftrightarrow> map_of new (fst kv) = Some (snd kv)" for kv
      using d(1) by (cases kv) simp
    have point: "((map_of old pid = None \<longleftrightarrow> map_of new pid = None) \<and>
        simsAreEqualish (map_of old pid) (map_of new pid)) \<longleftrightarrow>
      (map_of old pid = None \<longleftrightarrow> map_of new pid = None) \<and>
      (\<forall>s. map_of new pid = Some s \<longrightarrow> (\<exists>e. map_of old pid = Some e \<and> simsAreEqualish (Some e) (Some s)))"
      for pid
      using same by (cases "map_of new pid"; cases "map_of old pid") simp_all
    have all: "(\<forall>kv \<in> set new. P (fst kv) (snd kv)) \<longleftrightarrow> (\<forall>pid s. map_of new pid = Some s \<longrightarrow> P pid s)" for P
      using mem by force
    show ?thesis
      unfolding dom_eq GetSIM_def old_def [symmetric] map [symmetric] point
        all [of "\<lambda>k s. \<exists>e. map_of old k = Some e \<and> simsAreEqualish (Some e) (Some s)"] by blast
  qed
  have "fst ` set new = fst ` set old"
    if "length new = length old" "\<forall>kv \<in> set new. \<exists>e. map_of old (fst kv) = Some e"
  proof (rule distinct_keys_dom_eq [OF d that(1)], rule image_subsetI)
    fix kv
    assume "kv \<in> set new"
    with that(2) obtain e where "map_of old (fst kv) = Some e" by blast
    then have "(fst kv, e) \<in> set old" by (rule map_of_SomeD)
    then show "fst kv \<in> fst ` set old" by (metis fst_conv imageI)
  qed
  then show ?thesis
    unfolding L R using distinct_keys_length_eq [OF d] old_self by blast
qed

text \<open>
  Storing the SIM cards of the phone: the card of a participant is the last one given for it,
  every participant of a card becomes a participant of the user and none is ever forgotten, the
  invariant of the metadata is kept, and a change is reported exactly when a card appears,
  disappears or changes its number, carrier or RCS state; storing the same cards again reports
  no change.
\<close>

lemma SetSIMs_correct:
  assumes "ulm_ok ulm" and "(changed, ulm') = SetSIMs ulm sims"
  shows "ulm_ok ulm' \<and>
    (\<forall>pid. GetSIM ulm' pid = last_sim sims pid) \<and>
    (\<forall>pid. IsSelfParticipantID ulm' pid \<longleftrightarrow>
       IsSelfParticipantID ulm pid \<or> pid \<in> GetSIMParticipantID ` set sims) \<and>
    (\<not> changed \<longleftrightarrow> (\<forall>pid. (GetSIM ulm pid = None \<longleftrightarrow> GetSIM ulm' pid = None) \<and>
                         simsAreEqualish (GetSIM ulm pid) (GetSIM ulm' pid))) \<and>
    \<not> fst (SetSIMs ulm' sims)"
proof -
  have eq: "changed = fst (SetSIMs ulm sims)" "ulm' = snd (SetSIMs ulm sims)"
    using assms(2) by (metis fst_conv, metis snd_conv)
  have ok': "ulm_ok ulm'" using SetSIMs_ok [OF assms(1)] eq(2) by simp
  have get: "GetSIM ulm' pid = last_sim sims pid" for pid by (simp add: eq(2) SetSIMs_GetSIM)
  have refl: "simsAreEqualish s s" for s by (simp add: simsAreEqualish_def)
  have "\<not> fst (SetSIMs ulm' sims)"
    unfolding SetSIMs_unchanged_iff [OF ok'] using get refl by simp
  moreover have "IsSelfParticipantID ulm' pid \<longleftrightarrow>
       IsSelfParticipantID ulm pid \<or> pid \<in> GetSIMParticipantID ` set sims" for pid
    using set_sims_loop_ids [of "ulm_selfParticipantIDs ulm" sims]
    by (simp add: eq(2) SetSIMs_snd IsSelfParticipantID_def)
  ultimately show ?thesis
    using ok' get SetSIMs_unchanged_iff [OF assms(1), of sims] eq(1) by simp
qed

definition sample_sim :: "string \<Rightarrow> SIMCard" where
  "sample_sim pid = \<lparr>sc_RCSChats = Some True, sc_SIMData = None, sc_SIMParticipant = Some pid\<rparr>"

lemma SetSIMs_correct_witness:
  "GetSIM (snd (SetSIMs sample_meta [sample_sim ''7''])) ''7'' = Some (sample_sim ''7'') \<and>
   fst (SetSIMs sample_meta [sample_sim ''7'']) \<and>
   \<not> fst (SetSIMs (snd (SetSIMs sample_meta [sample_sim ''7''])) [sample_sim ''7''])"
proof -
  have "ulm_ok sample_meta" by (simp add: ulm_ok_def sample_meta_def)
  note c = SetSIMs_correct [OF this prod.collapse, of "[sample_sim ''7'']"]
  have l: "last_sim [sample_sim ''7''] ''7'' = Some (sample_sim ''7'')"
    by (simp add: last_sim_def sample_sim_def GetSIMParticipantID_def)
  have "GetSIM sample_meta ''7'' = None" by (simp add: GetSIM_def sample_meta_def)
  with c l show ?thesis by (metis option.distinct(1))
qed

end
