(* ===== verification/Gm_Media.thy ===== *)
theory Gm_Media
  imports Gm_Session
begin

text \<open>
  Media transfer (\<open>pkg/libgm/media.go\<close>): the table of media types, the two-step upload, the
  download and the standard base64 alphabet that the requests and some answers use.  The lemmas
  show that base64 is a round trip, that what was uploaded is read back by a download with the key
  of the returned description, and which lookups in the format table depend on the iteration
  order of a Go map.
\<close>

section \<open>Base64\<close>

text \<open>\<open>base64.StdEncoding\<close>: three bytes are four characters, with padding at the end.  The
  decoder is not strict: the unused bits of the last character are ignored.  Line breaks, which
  the Go decoder skips, do not occur in the inputs that reach it here.\<close>

definition b64_digit :: "nat \<Rightarrow> byte" where
  "b64_digit n =
     (if n < 26 then of_nat (65 + n) else if n < 52 then of_nat (71 + n)
      else if n < 62 then of_nat (n - 4) else if n = 62 then 43 else 47)"

definition b64_value :: "byte \<Rightarrow> nat option" where
  "b64_value b =
     (if 65 \<le> b \<and> b \<le> 90 then Some (unat b - 65)
      else if 97 \<le> b \<and> b \<le> 122 then Some (unat b - 71)
      else if 48 \<le> b \<and> b \<le> 57 then Some (unat b + 4)
      else if b = 43 then Some 62 else if b = 47 then Some 63 else None)"

definition b64_pad :: byte where
  "b64_pad = 61"

fun b64_encode :: "bytes \<Rightarrow> bytes" where
  "b64_encode [] = []"
| "b64_encode [a] =
     (let n = unat a * 65536
      in [b64_digit (n div 262144), b64_digit (n div 4096 mod 64), b64_pad, b64_pad])"
| "b64_encode [a, b] =
     (let n = unat a * 65536 + unat b * 256
      in [b64_digit (n div 262144), b64_digit (n div 4096 mod 64), b64_digit (n div 64 mod 64), b64_pad])"
| "b64_encode (a # b # c # r) =
     (let n = unat a * 65536 + unat b * 256 + unat c
      in b64_digit (n div 262144) # b64_digit (n div 4096 mod 64) # b64_digit (n div 64 mod 64)
         # b64_digit (n mod 64) # b64_encode r)"

definition b64_bytes :: "nat \<Rightarrow> bytes" where
  "b64_bytes n = [of_nat (n div 65536), of_nat (n div 256 mod 256), of_nat (n mod 256)]"

definition b64_value0 :: "byte \<Rightarrow> nat option" where
  "b64_value0 b = (if b = b64_pad then Some 0 else b64_value b)"

definition b64_quad :: "byte \<Rightarrow> byte \<Rightarrow> nat \<Rightarrow> nat \<Rightarrow> nat option" where
  "b64_quad a b c d =
     (case b64_value a of None \<Rightarrow> None
      | Some va \<Rightarrow> (case b64_value b of None \<Rightarrow> None
         | Some vb \<Rightarrow> Some (va * 262144 + vb * 4096 + c * 64 + d)))"

fun b64_decode :: "bytes \<Rightarrow> bytes option" where
  "b64_decode [] = Some []"
| "b64_decode (a # b # c # d # r) =
     (if d = b64_pad then
        if r \<noteq> [] then None
        else if c = b64_pad then map_option (\<lambda>n. take 1 (b64_bytes n)) (b64_quad a b 0 0)
        else (case b64_value c of None \<Rightarrow> None
              | Some vc \<Rightarrow> map_option (\<lambda>n. take 2 (b64_bytes n)) (b64_quad a b vc 0))
      else
        (case b64_value c of None \<Rightarrow> None
         | Some vc \<Rightarrow> (case b64_value d of None \<Rightarrow> None
            | Some vd \<Rightarrow> (case b64_quad a b vc vd of None \<Rightarrow> None
               | Some n \<Rightarrow> map_option (\<lambda>q. b64_bytes n @ q) (b64_decode r)))))"
| "b64_decode _ = None"

definition bytes_string :: "bytes \<Rightarrow> string" where
  "bytes_string bs = map (\<lambda>b. char_of (unat b)) bs"

definition isBase64Character :: "byte \<Rightarrow> bool" where
  "isBase64Character char \<longleftrightarrow>
     (char \<ge> 65 \<and> char \<le> 90) \<or> (char \<ge> 97 \<and> char \<le> 122) \<or> (char \<ge> 48 \<and> char \<le> 57) \<or>
     char = 43 \<or> char = 47 \<or> char = 61"

definition isStandardBase64 :: "bytes \<Rightarrow> bool" where
  "isStandardBase64 data \<longleftrightarrow> length data mod 4 = 0 \<and> list_all isBase64Character data"

section \<open>Media types\<close>

record MediaType =
  mt_Extension :: string
  mt_Format :: string
  mt_Type :: int

definition media :: "string \<Rightarrow> string \<Rightarrow> int \<Rightarrow> string \<times> MediaType" where
  "media mime ext t = (mime, \<lparr>mt_Extension = ext, mt_Format = '''', mt_Type = t\<rparr>)"

text \<open>The keys and values of the Go map; the numbers are those of \<open>gmproto.MediaFormats\<close>.\<close>

definition MimeToMediaType :: "(string \<times> MediaType) list" where
  "MimeToMediaType = [
     media ''image/jpeg'' ''jpeg'' 1,
     media ''image/jpg'' ''jpg'' 2,
     media ''image/png'' ''png'' 3,
     media ''image/gif'' ''gif'' 4,
     media ''image/wbmp'' ''wbmp'' 5,
     media ''image/bmp'' ''bmp'' 6,
     media ''image/x-ms-bmp'' ''bmp'' 6,
     media ''video/mp4'' ''mp4'' 8,
     media ''video/3gpp2'' ''3gpp2'' 9,
     media ''video/3gpp'' ''3gpp'' 10,
     media ''video/webm'' ''webm'' 11,
     media ''video/x-matroska'' ''mkv'' 12,
     media ''audio/aac'' ''aac'' 14,
     media ''audio/amr'' ''amr'' 15,
     media ''audio/mp3'' ''mp3'' 16,
     media ''audio/mpeg'' ''mpeg'' 17,
     media ''audio/mpg'' ''mpg'' 18,
     media ''audio/mp4'' ''mp4'' 19,
     media ''audio/mp4-latm'' ''latm'' 20,
     media ''audio/3gpp'' ''3gpp'' 21,
     media ''audio/ogg'' ''ogg'' 22,
     media ''text/vcard'' ''vcard'' 24,
     media ''application/pdf'' ''pdf'' 25,
     media ''text/plain'' ''txt'' 26,
     media ''text/html'' ''html'' 27,
     media ''application/msword'' ''doc'' 28,
     media ''application/vnd.openxmlformats-officedocument.wordprocessingml.document'' ''docx'' 29,
     media ''application/vnd.openxmlformats-officedocument.presentationml.presentation'' ''pptx'' 30,
     media ''application/vnd.ms-powerpoint'' ''ppt'' 31,
     media ''application/vnd.openxmlformats-officedocument.spreadsheetml.sheet'' ''xlsx'' 32,
     media ''application/vnd.ms-excel'' ''xls'' 33,
     media ''application/vnd.android.package-archive'' ''apk'' 34,
     media ''application/zip'' ''zip'' 35,
     media ''application/java-archive'' ''jar'' 36,
     media ''text/x-calendar'' ''vcs'' 38,
     media ''text/calendar'' ''ics'' 40,
     media ''image'' '''' 7,
     media ''video'' '''' 13,
     media ''audio'' '''' 23,
     media ''application'' '''' 37,
     media ''text'' '''' 26]"

definition no_MediaType :: MediaType where
  "no_MediaType = \<lparr>mt_Extension = '''', mt_Format = '''', mt_Type = 0\<rparr>"

text \<open>Indexing a Go map gives the zero value for a missing key.\<close>

definition mime_lookup :: "string \<Rightarrow> MediaType" where
  "mime_lookup k = (case map_of MimeToMediaType k of None \<Rightarrow> no_MediaType | Some t \<Rightarrow> t)"

text \<open>
  \<open>FormatToMediaType\<close> after \<open>init\<close>.  The loop ranges over a Go map, so the entries come in an
  order that the language leaves open: \<open>order\<close> is the order of this run.
\<close>

definition FormatToMediaType_base :: "int \<rightharpoonup> MediaType" where
  "FormatToMediaType_base = [39 \<mapsto> mime_lookup ''text/x-calendar'', 41 \<mapsto> mime_lookup ''text/x-calendar'',
     42 \<mapsto> mime_lookup ''text/calendar'']"

definition format_step :: "(int \<rightharpoonup> MediaType) \<Rightarrow> string \<times> MediaType \<Rightarrow> (int \<rightharpoonup> MediaType)" where
  "format_step tbl kv =
     (let mediaType = (if contains_char (fst kv) CHR ''/'' then (snd kv)\<lparr>mt_Format := fst kv\<rparr> else snd kv)
      in tbl(mt_Type mediaType \<mapsto> mediaType))"

definition FormatToMediaType :: "(string \<times> MediaType) list \<Rightarrow> int \<rightharpoonup> MediaType" where
  "FormatToMediaType order = foldl format_step FormatToMediaType_base order"

definition format_lookup :: "(string \<times> MediaType) list \<Rightarrow> int \<Rightarrow> MediaType" where
  "format_lookup order f = (case FormatToMediaType order f of None \<Rightarrow> no_MediaType | Some t \<Rightarrow> t)"

definition upload_type :: "string \<Rightarrow> MediaType" where
  "upload_type mime =
     (let mediaType = mime_lookup mime
      in if mt_Type mediaType = 0 then mime_lookup (hd (split_char CHR ''/'' mime)) else mediaType)"

section \<open>Upload and download\<close>

record StartMediaUploadRequest =
  su_AttachmentType :: int
  su_AuthData :: AuthMessage
  su_Mobile :: "Device option"

record DownloadAttachmentRequest =
  da_AttachmentID :: string
  da_Encrypted :: bool
  da_AuthData :: AuthMessage

record UploadedMedia =
  um_MediaID :: string
  um_MediaNumber :: int

record StartGoogleUpload =
  gu_UploadID :: string
  gu_UploadURL :: string
  gu_UploadStatus :: string
  gu_ChunkGranularity :: int
  gu_ControlURL :: string
  gu_MimeType :: string
  gu_EncryptedMediaBytes :: bytes

text \<open>The protobuf codecs of the media messages and the URL parser of \<open>http.NewRequest\<close>.\<close>

record media_env =
  me_marshal_start :: "StartMediaUploadRequest \<Rightarrow> go_error + bytes"
  me_marshal_download :: "DownloadAttachmentRequest \<Rightarrow> go_error + bytes"
  me_unmarshal_upload :: "bytes \<Rightarrow> go_error + UploadedMedia option"
  me_url_error :: "string \<Rightarrow> go_error option"

definition auth_message :: "string \<Rightarrow> AuthData \<Rightarrow> AuthMessage" where
  "auth_message requestID ad = \<lparr>am_RequestID = requestID, am_Network = AuthNetwork ad,
     am_TachyonAuthToken = ad_TachyonAuthToken ad, am_ConfigVersion = ConfigMessage\<rparr>"

definition buildStartUploadPayload :: "media_env \<Rightarrow> env \<Rightarrow> Client \<Rightarrow> (go_error + bytes) \<times> Client" where
  "buildStartUploadPayload me env c =
     (let requestID = fst (new_uuid env c);
          c1 = snd (new_uuid env c)
      in case me_marshal_start me \<lparr>su_AttachmentType = 1, su_AuthData = auth_message requestID (cl_AuthData c1),
                su_Mobile = ad_Mobile (cl_AuthData c1)\<rparr> of
           Inl err \<Rightarrow> (Inl err, c1)
         | Inr protoDataBytes \<Rightarrow> (Inr (b64_encode protoDataBytes), c1))"

definition media_request :: "string \<Rightarrow> string \<Rightarrow> bytes \<Rightarrow> headers \<Rightarrow> HttpRequest" where
  "media_request method url body h = \<lparr>hr_Method = method, hr_URL = url, hr_Payload = P_None, hr_Body = body,
     hr_Header = h, hr_Cookies = Map.empty, hr_LongPoll = False\<rparr>"

definition get_header :: "Response \<Rightarrow> string \<Rightarrow> string" where
  "get_header resp k = (case rsp_Header resp k of None \<Rightarrow> '''' | Some v \<Rightarrow> v)"

definition start_upload_response :: "bytes \<Rightarrow> string \<Rightarrow> http_result \<Rightarrow> go_error + StartGoogleUpload" where
  "start_upload_response encrypted mime r =
     (case r of
        Inl err \<Rightarrow> Inl (ErrWrap ''failed to send request'' err)
      | Inr resp \<Rightarrow>
          if rsp_StatusCode resp \<noteq> 200
          then Inl (ErrText (''unexpected status code '' @ show_int (rsp_StatusCode resp)))
          else case parse_int 64 (get_header resp ''x-goog-upload-chunk-granularity'') of
                 None \<Rightarrow> Inl (ErrWrap ''failed to parse chunk granularity'' (ErrText ''invalid syntax''))
               | Some chunkGranularity \<Rightarrow> Inr
                   \<lparr>gu_UploadID = get_header resp ''x-guploader-uploadid'',
                    gu_UploadURL = get_header resp ''x-goog-upload-url'',
                    gu_UploadStatus = get_header resp ''x-goog-upload-status'',
                    gu_ChunkGranularity = chunkGranularity,
                    gu_ControlURL = get_header resp ''x-goog-upload-control-url'',
                    gu_MimeType = mime, gu_EncryptedMediaBytes = encrypted\<rparr>)"

definition StartUploadMedia ::
  "media_env \<Rightarrow> env \<Rightarrow> bytes \<Rightarrow> string \<Rightarrow> Client \<Rightarrow> (go_error + StartGoogleUpload) \<times> Client" where
  "StartUploadMedia me env encrypted mime c =
     (let h = NewMediaUploadHeaders (show_nat (length encrypted)) ''start'' '''' mime ''resumable'';
          p = buildStartUploadPayload me env c
      in case fst p of
           Inl err \<Rightarrow> (Inl (ErrWrap ''failed to build payload'' err), snd p)
         | Inr payload \<Rightarrow>
             (case me_url_error me UploadMediaURL of
                Some err \<Rightarrow> (Inl (ErrWrap ''failed to prepare request'' err), snd p)
              | None \<Rightarrow>
                  let r = do_http env (media_request ''POST'' UploadMediaURL payload h) (snd p)
                  in (start_upload_response encrypted mime (fst r), snd r)))"

text \<open>The answer to the upload may itself be base64; a description without media is dereferenced.\<close>

definition upload_response :: "media_env \<Rightarrow> http_result \<Rightarrow> (go_error, UploadedMedia) outcome" where
  "upload_response me r =
     (case r of
        Inl err \<Rightarrow> Error (ErrWrap ''failed to send request'' err)
      | Inr resp \<Rightarrow>
          if rsp_StatusCode resp \<noteq> 200
          then Error (ErrText (''unexpected status code '' @ show_int (rsp_StatusCode resp)))
          else case rsp_Body resp of
                 Inl err \<Rightarrow> Error (ErrWrap ''failed to read response'' err)
               | Inr body \<Rightarrow>
                   (case (if isStandardBase64 body then b64_decode body else Some body) of
                      None \<Rightarrow> Error (ErrWrap ''failed to decode response'' (ErrText ''illegal base64 data''))
                    | Some respData \<Rightarrow>
                        (case me_unmarshal_upload me respData of
                           Inl err \<Rightarrow> Error (ErrWrap ''failed to unmarshal response'' err)
                         | Inr None \<Rightarrow> Panic ''nil pointer dereference''
                         | Inr (Some m) \<Rightarrow> Return m)))"

definition FinalizeUploadMedia ::
  "media_env \<Rightarrow> env \<Rightarrow> StartGoogleUpload \<Rightarrow> Client \<Rightarrow> (go_error, UploadedMedia) outcome \<times> Client" where
  "FinalizeUploadMedia me env upload c =
     (let encrypted = gu_EncryptedMediaBytes upload;
          h = NewMediaUploadHeaders (show_nat (length encrypted)) ''upload, finalize'' ''0'' (gu_MimeType upload) ''''
      in case me_url_error me (gu_UploadURL upload) of
           Some err \<Rightarrow> (Error (ErrWrap ''failed to prepare request'' err), c)
         | None \<Rightarrow>
             let r = do_http env (media_request ''POST'' (gu_UploadURL upload) encrypted h) c
             in (upload_response me (fst r), snd r))"

definition uploaded_content :: "bytes \<Rightarrow> string \<Rightarrow> string \<Rightarrow> bytes \<Rightarrow> UploadedMedia \<Rightarrow> MediaContent" where
  "uploaded_content data fileName mime key m =
     \<lparr>mc_format = mt_Type (upload_type mime), mc_mediaID = um_MediaID m, mc_mediaName = fileName,
      mc_size = int (length data), mc_mediaData = [], mc_thumbnailMediaID = '''',
      mc_decryptionKey = key, mc_thumbnailDecryptionKey = [], mc_mimeType = mime\<rparr>"

definition UploadMedia ::
  "media_env \<Rightarrow> env \<Rightarrow> (nat \<Rightarrow> byte) \<Rightarrow> (nat \<Rightarrow> 96 word) \<Rightarrow> bytes \<Rightarrow> string \<Rightarrow> string \<Rightarrow> Client
    \<Rightarrow> (go_error, MediaContent) outcome \<times> Client" where
  "UploadMedia me env rnd nonce data fileName mime c =
     (let decryptionKey = GenerateKey rnd 32
      in case NewAESGCMHelper decryptionKey of
           Inl err \<Rightarrow> (Error (crypto_err err), c)
         | Inr cryptor \<Rightarrow>
             let encryptedBytes = EncryptData (env_aes env) cryptor nonce data;
                 s = StartUploadMedia me env encryptedBytes mime c
             in case fst s of
                  Inl err \<Rightarrow> (Error (ErrWrap ''failed to start upload'' err), snd s)
                | Inr startUploadImage \<Rightarrow>
                    let f = FinalizeUploadMedia me env startUploadImage (snd s)
                    in case fst f of
                         Panic p \<Rightarrow> (Panic p, snd f)
                       | Error err \<Rightarrow> (Error (ErrWrap ''failed to finalize upload'' err), snd f)
                       | Return upload \<Rightarrow>
                           (Return (uploaded_content data fileName mime decryptionKey upload), snd f))"

text \<open>The download looks at the body only: the status of the answer is not checked.\<close>

definition download_response :: "env \<Rightarrow> bytes \<Rightarrow> http_result \<Rightarrow> (go_error, bytes) outcome" where
  "download_response env key r =
     (case r of
        Inl err \<Rightarrow> Error (ErrWrap ''failed to send request'' err)
      | Inr resp \<Rightarrow>
          (case rsp_Body resp of
             Inl err \<Rightarrow> Error (ErrWrap ''failed to read response'' err)
           | Inr respData \<Rightarrow>
               (case NewAESGCMHelper key of
                  Inl err \<Rightarrow> Error (crypto_err err)
                | Inr cryptor \<Rightarrow>
                    (case DecryptData (env_aes env) cryptor respData of
                       Panic p \<Rightarrow> Panic p
                     | Error err \<Rightarrow> Error (ErrWrap ''failed to decrypt media'' (crypto_err err))
                     | Return decrypted \<Rightarrow> Return decrypted))))"

definition DownloadMedia ::
  "media_env \<Rightarrow> env \<Rightarrow> string \<Rightarrow> bytes \<Rightarrow> Client \<Rightarrow> (go_error, bytes) outcome \<times> Client" where
  "DownloadMedia me env mediaID key c =
     (let requestID = fst (new_uuid env c);
          c1 = snd (new_uuid env c)
      in case me_marshal_download me \<lparr>da_AttachmentID = mediaID, da_Encrypted = True,
                da_AuthData = auth_message requestID (cl_AuthData c1)\<rparr> of
           Inl err \<Rightarrow> (Error (ErrWrap ''failed to marshal download request'' err), c1)
         | Inr metadata \<Rightarrow>
             (case me_url_error me UploadMediaURL of
                Some err \<Rightarrow> (Error (ErrWrap ''failed to prepare request'' err), c1)
              | None \<Rightarrow>
                  let r = do_http env (media_request ''GET'' UploadMediaURL []
                            (BuildUploadHeaders (bytes_string (b64_encode metadata)) Map.empty)) c1
                  in (download_response env key (fst r), snd r)))"

definition DownloadAvatar :: "media_env \<Rightarrow> env \<Rightarrow> string \<Rightarrow> Client \<Rightarrow> (go_error + bytes) \<times> Client" where
  "DownloadAvatar me env url c =
     (case me_url_error me url of
        Some err \<Rightarrow> (Inl err, c)
      | None \<Rightarrow>
          let h = (BuildRelayHeaders '''' ''*/*'' Map.empty)(''x-user-agent'' := None, ''x-goog-api-key'' := None);
              r = do_http env (media_request ''GET'' url [] h) c
          in case fst r of
               Inl err \<Rightarrow> (Inl err, snd r)
             | Inr resp \<Rightarrow>
                 if rsp_StatusCode resp < 200 \<or> rsp_StatusCode resp \<ge> 300
                 then (Inl (ErrText (''avatar download http '' @ show_int (rsp_StatusCode resp))), snd r)
                 else (rsp_Body resp, snd r))"


section \<open>Base64 is a round trip\<close>

lemma b64_digit_table: "list_all (\<lambda>n. b64_value (b64_digit n) = Some n \<and> b64_digit n \<noteq> b64_pad
    \<and> isBase64Character (b64_digit n)) [0..<64]"
  by code_simp

lemma b64_digit_facts:
  "n < 64 \<Longrightarrow> b64_value (b64_digit n) = Some n"
  "n < 64 \<Longrightarrow> b64_digit n \<noteq> b64_pad"
  "n < 64 \<Longrightarrow> isBase64Character (b64_digit n)"
  using b64_digit_table by (auto simp: list_all_iff)

lemma base64_digits_sum:
  fixes n :: nat
  shows "n div 262144 * 262144 + n div 4096 mod 64 * 4096 + n div 64 mod 64 * 64 + n mod 64 = n"
proof -
  have "n div 4096 = n div 64 div 64" "n div 262144 = n div 4096 div 64"
    by (simp_all flip: div_mult2_eq)
  then show ?thesis
    using mult_div_mod_eq [of 64 n] mult_div_mod_eq [of 64 "n div 64"] mult_div_mod_eq [of 64 "n div 4096"]
    by linarith
qed

lemma unat_byte: "unat (x :: byte) < 256"
  using unsigned_less [of x, where 'a = nat] by simp

lemma b64_bytes_of:
  "b64_bytes (unat a * 65536 + unat b * 256 + unat c) = [a, b, c]" for a b c :: byte
proof -
  note lt = unat_byte
  let ?n = "unat a * 65536 + unat b * 256 + unat c"
  have "?n div 65536 = unat a" using lt [of b] lt [of c] by (intro div_nat_eqI) auto
  moreover have "?n div 256 = unat a * 256 + unat b" using lt [of c] by simp
  moreover have "?n mod 256 = unat c" using lt [of c] mod_mult_self3 [of "unat a * 256 + unat b" 256 "unat c"] by (simp add: algebra_simps)
  ultimately show ?thesis using lt [of b] by (simp add: b64_bytes_def)
qed

lemma b64_pad_not_value: "b64_value b64_pad = None"
  by (simp add: b64_value_def b64_pad_def)

lemma b64_n_bound: "unat a * 65536 + unat b * 256 + unat c < 16777216" for a b c :: byte
  using unat_byte [of a] unat_byte [of b] unat_byte [of c] by simp

lemma b64_quad_digits:
  assumes "n < 16777216"
  shows "b64_quad (b64_digit (n div 262144)) (b64_digit (n div 4096 mod 64)) (n div 64 mod 64) (n mod 64) = Some n"
  using assms base64_digits_sum [of n] by (simp add: b64_quad_def b64_digit_facts less_mult_imp_div_less)

lemma b64_decode_encode: "b64_decode (b64_encode bs) = Some bs"
proof (induction bs rule: b64_encode.induct)
  case (2 a)
  have n: "unat a * 65536 < 16777216" "unat a * 65536 div 64 mod 64 = 0" "unat a * 65536 mod 64 = 0"
    using unat_byte [of a] by simp_all
  show ?case
    using b64_quad_digits [OF n(1)] n(2,3) b64_bytes_of [of a 0 0] by (simp add: Let_def)
next
  case (3 a b)
  let ?n = "unat a * 65536 + unat b * 256"
  have n: "?n < 16777216" "?n mod 64 = 0" "?n div 64 mod 64 < 64"
    using b64_n_bound [of a b 0] unfolding unsigned_0 by (simp, presburger, simp)
  show ?case
    using b64_quad_digits [OF n(1)] n(2) b64_bytes_of [of a b 0]
    by (simp add: Let_def b64_digit_facts)
next
  case (4 a b c r)
  show ?case
    using b64_quad_digits [OF b64_n_bound [of a b c]] b64_bytes_of [of a b c] 4
    by (simp add: Let_def b64_digit_facts)
qed simp

lemma isBase64Character_pad: "isBase64Character b64_pad"
  by (simp add: isBase64Character_def b64_pad_def)

lemmas b64_standard_simps =
  isStandardBase64_def Let_def b64_digit_facts isBase64Character_pad less_mult_imp_div_less

lemma b64_encode_standard: "isStandardBase64 (b64_encode bs)"
proof (induction bs rule: b64_encode.induct)
  case (2 a)
  then show ?case using unat_byte [of a] by (simp add: b64_standard_simps)
next
  case (3 a b)
  then show ?case using b64_n_bound [of a b 0] by (simp add: b64_standard_simps)
next
  case (4 a b c r)
  then show ?case using b64_n_bound [of a b c] by (simp add: b64_standard_simps)
qed (simp add: isStandardBase64_def)


section \<open>The format table\<close>

definition format_entry :: "string \<times> MediaType \<Rightarrow> MediaType" where
  "format_entry kv = (if contains_char (fst kv) CHR ''/'' then (snd kv)\<lparr>mt_Format := fst kv\<rparr> else snd kv)"

lemma format_step_eq: "format_step tbl kv = tbl(mt_Type (snd kv) \<mapsto> format_entry kv)"
  by (simp add: format_step_def format_entry_def Let_def)

text \<open>The entry of a format is the last one of the iteration.\<close>

lemma FormatToMediaType_last:
  "FormatToMediaType order f =
     (case find (\<lambda>kv. mt_Type (snd kv) = f) (rev order) of
        None \<Rightarrow> FormatToMediaType_base f | Some kv \<Rightarrow> Some (format_entry kv))"
  by (induction order rule: rev_induct) (auto simp: FormatToMediaType_def format_step_eq)

lemma find_SomeD: "find P xs = Some x \<Longrightarrow> x \<in> set xs \<and> P x"
  by (induction xs) (auto split: if_splits)

lemma FormatToMediaType_unique:
  assumes "kv \<in> set order" "mt_Type (snd kv) = f"
    and "\<And>kv'. kv' \<in> set order \<Longrightarrow> mt_Type (snd kv') = f \<Longrightarrow> kv' = kv"
  shows "FormatToMediaType order f = Some (format_entry kv)"
proof -
  obtain kv' where kv': "find (\<lambda>kv. mt_Type (snd kv) = f) (rev order) = Some kv'"
    using assms(1,2) find_None_iff [of _ "rev order"] by (metis (mono_tags, lifting) option.exhaust set_rev)
  then have "kv' = kv" using assms(3) [of kv'] find_SomeD [OF kv'] by simp
  with kv' show ?thesis by (simp add: FormatToMediaType_last)
qed

lemma FormatToMediaType_absent:
  assumes "\<And>kv. kv \<in> set order \<Longrightarrow> mt_Type (snd kv) \<noteq> f"
  shows "FormatToMediaType order f = FormatToMediaType_base f"
proof -
  have "find (\<lambda>kv. mt_Type (snd kv) = f) (rev order) = None"
    using assms find_None_iff [of _ "rev order"] by (metis (mono_tags, lifting) set_rev)
  then show ?thesis by (simp add: FormatToMediaType_last)
qed

text \<open>Two formats are shared by several MIME types: bitmaps and plain text.\<close>

definition shared_formats :: "int set" where
  "shared_formats = {6, 26}"

lemma table_types_distinct:
  "distinct (map (\<lambda>kv. mt_Type (snd kv)) (filter (\<lambda>kv. mt_Type (snd kv) \<notin> shared_formats) MimeToMediaType))"
  by (simp add: MimeToMediaType_def media_def shared_formats_def)

lemma table_type_unique:
  assumes "kv \<in> set MimeToMediaType" "kv' \<in> set MimeToMediaType"
    and "mt_Type (snd kv') = mt_Type (snd kv)" "mt_Type (snd kv) \<notin> shared_formats"
  shows "kv' = kv"
proof -
  let ?M = "filter (\<lambda>kv. mt_Type (snd kv) \<notin> shared_formats) MimeToMediaType"
  have "inj_on (\<lambda>kv. mt_Type (snd kv)) (set ?M)" using table_types_distinct by (simp add: distinct_map)
  moreover have "kv' \<in> set ?M" "kv \<in> set ?M" using assms by simp_all
  ultimately show ?thesis using assms(3) by (auto dest: inj_onD)
qed

text \<open>
  (C27) The format table against the MIME table, for every order in which the initialisation loop may
  visit the Go map.  A MIME type whose format is its own is recovered from the format that an
  upload declares.  The format of plain text is shared with the fallback entry \<open>text\<close>, so its MIME
  type is the right one or empty, depending on the order; and the three calendar formats of the
  initial table never have a MIME type.
\<close>

theorem media_format_round_trip:
  assumes perm: "set order = set MimeToMediaType"
  shows "(map_of MimeToMediaType mime = Some t \<and> contains_char mime CHR ''/'' \<and> mt_Type t \<notin> shared_formats
           \<longrightarrow> mt_Format (format_lookup order (mt_Type (upload_type mime))) = mime) \<and>
    mt_Format (format_lookup order 26) \<in> {''text/plain'', ''''} \<and>
    mt_Format (format_lookup MimeToMediaType 26) = '''' \<and>
    mt_Format (format_lookup (rev MimeToMediaType) 26) = ''text/plain'' \<and>
    (\<forall>f \<in> {39, 41, 42}. mt_Format (format_lookup order f) = '''')"
proof (intro conjI impI ballI)
  assume a: "map_of MimeToMediaType mime = Some t \<and> contains_char mime CHR ''/'' \<and> mt_Type t \<notin> shared_formats"
  then have mem: "(mime, t) \<in> set MimeToMediaType" by (auto dest: map_of_SomeD)
  then have "mt_Type t \<noteq> 0" by (auto simp: MimeToMediaType_def media_def)
  with a have "upload_type mime = t" by (simp add: upload_type_def mime_lookup_def)
  moreover have "FormatToMediaType order (mt_Type t) = Some (format_entry (mime, t))"
    using mem a table_type_unique by (intro FormatToMediaType_unique) (auto simp: perm)
  ultimately show "mt_Format (format_lookup order (mt_Type (upload_type mime))) = mime"
    using a by (simp add: format_lookup_def format_entry_def)
next
  have "\<exists>kv \<in> set MimeToMediaType. mt_Type (snd kv) = 26" by (simp add: MimeToMediaType_def media_def)
  then obtain kv where kv: "find (\<lambda>kv. mt_Type (snd kv) = 26) (rev order) = Some kv"
    using perm find_None_iff [of _ "rev order"] by (metis (mono_tags, lifting) option.exhaust set_rev)
  then have "kv \<in> set MimeToMediaType" "mt_Type (snd kv) = 26"
    using find_SomeD [OF kv] perm by simp_all
  then have "mt_Format (format_entry kv) \<in> {''text/plain'', ''''}"
    by (auto simp: MimeToMediaType_def media_def format_entry_def contains_char_def)
  with kv show "mt_Format (format_lookup order 26) \<in> {''text/plain'', ''''}"
    by (simp add: format_lookup_def FormatToMediaType_last)
next
  show "mt_Format (format_lookup MimeToMediaType 26) = ''''"
    by (simp add: format_lookup_def FormatToMediaType_last MimeToMediaType_def media_def format_entry_def contains_char_def)
next
  show "mt_Format (format_lookup (rev MimeToMediaType) 26) = ''text/plain''"
    by (simp add: format_lookup_def FormatToMediaType_last MimeToMediaType_def media_def format_entry_def contains_char_def)
next
  fix f :: int
  assume "f \<in> {39, 41, 42}"
  moreover from this have "FormatToMediaType order f = FormatToMediaType_base f"
    by (intro FormatToMediaType_absent) (auto simp: perm MimeToMediaType_def media_def)
  ultimately show "mt_Format (format_lookup order f) = ''''"
    by (auto simp: format_lookup_def FormatToMediaType_base_def mime_lookup_def MimeToMediaType_def media_def)
qed

theorem media_format_round_trip_witness:
  "mt_Format (format_lookup (rev MimeToMediaType) (mt_Type (upload_type ''image/png''))) = ''image/png''"
proof -
  have "map_of MimeToMediaType ''image/png'' = Some \<lparr>mt_Extension = ''png'', mt_Format = '''', mt_Type = 3\<rparr>"
    by (simp add: MimeToMediaType_def media_def)
  then show ?thesis
    using media_format_round_trip [of "rev MimeToMediaType" "''image/png''"
        "\<lparr>mt_Extension = ''png'', mt_Format = '''', mt_Type = 3\<rparr>"]
    by (simp add: contains_char_def shared_formats_def)
qed

section \<open>Uploads can be downloaded\<close>

lemma StartUploadMedia_upload:
  "fst (StartUploadMedia me env enc mime c) = Inr u \<Longrightarrow> gu_EncryptedMediaBytes u = enc"
  by (auto simp: StartUploadMedia_def start_upload_response_def Let_def split: sum.splits option.splits if_splits)

lemma FinalizeUploadMedia_request:
  "fst (FinalizeUploadMedia me env u c) = Return m \<Longrightarrow>
     cl_requests (snd (FinalizeUploadMedia me env u c)) \<noteq> [] \<and>
     hr_Body (last (cl_requests (snd (FinalizeUploadMedia me env u c)))) = gu_EncryptedMediaBytes u"
  by (auto simp: FinalizeUploadMedia_def Let_def do_http_def media_request_def split: option.splits)

lemma UploadMedia_Return:
  assumes "UploadMedia me env rnd nonce data name mime c = (Return content, c1)"
  shows "\<exists>m. content = uploaded_content data name mime (GenerateKey rnd 32) m \<and>
    hr_Body (last (cl_requests c1)) = EncryptData (env_aes env) \<lparr>gcm_key = GenerateKey rnd 32\<rparr> nonce data"
proof -
  define enc where "enc = EncryptData (env_aes env) \<lparr>gcm_key = GenerateKey rnd 32\<rparr> nonce data"
  have key: "NewAESGCMHelper (GenerateKey rnd 32) = Inr \<lparr>gcm_key = GenerateKey rnd 32\<rparr>"
    by (simp add: NewAESGCMHelper_def)
  obtain u where u: "fst (StartUploadMedia me env enc mime c) = Inr u"
    using assms key by (auto simp: UploadMedia_def Let_def enc_def split: sum.splits)
  let ?f = "FinalizeUploadMedia me env u (snd (StartUploadMedia me env enc mime c))"
  have eq: "UploadMedia me env rnd nonce data name mime c =
    (case fst ?f of Panic p \<Rightarrow> (Panic p, snd ?f)
     | Error err \<Rightarrow> (Error (ErrWrap ''failed to finalize upload'' err), snd ?f)
     | Return upload \<Rightarrow> (Return (uploaded_content data name mime (GenerateKey rnd 32) upload), snd ?f))"
    using key u by (simp add: UploadMedia_def Let_def enc_def split: outcome.split)
  obtain m where m: "fst ?f = Return m" using assms eq by (auto split: outcome.splits)
  with assms eq have "content = uploaded_content data name mime (GenerateKey rnd 32) m" "c1 = snd ?f"
    by simp_all
  then show ?thesis
    using FinalizeUploadMedia_request [OF m] StartUploadMedia_upload [OF u] by (auto simp: enc_def)
qed

text \<open>
  (C26) What was uploaded can be downloaded: after a successful upload, a download with the media
  identifier and the key of the returned description gives back the data, if the server serves the
  bytes of the final upload request.  The description states the size of the data.
\<close>

theorem upload_download_round_trip:
  assumes up: "UploadMedia me env rnd nonce data name mime c = (Return content, c1)"
    and marshal: "\<forall>r. \<exists>b. me_marshal_download me r = Inr b"
    and url: "me_url_error me UploadMediaURL = None"
    and served: "\<forall>n req. \<exists>resp. env_http env' n req = Inr resp \<and>
      rsp_Body resp = Inr (hr_Body (last (cl_requests c1)))"
    and aes: "env_aes env' = env_aes env"
  shows "fst (DownloadMedia me env' (mc_mediaID content) (mc_decryptionKey content) c2) = Return data \<and>
    mc_size content = int (length data)"
proof -
  let ?h = "\<lparr>gcm_key = GenerateKey rnd 32\<rparr>"
  obtain m where content: "content = uploaded_content data name mime (GenerateKey rnd 32) m"
    and body: "hr_Body (last (cl_requests c1)) = EncryptData (env_aes env) ?h nonce data"
    using UploadMedia_Return [OF up] by blast
  have "download_response env' (GenerateKey rnd 32) (env_http env' n req) = Return data" for n req
  proof -
    obtain resp where r: "env_http env' n req = Inr resp"
      "rsp_Body resp = Inr (EncryptData (env_aes env) ?h nonce data)"
      using served body by metis
    have "NewAESGCMHelper (GenerateKey rnd 32) = Inr ?h" by (simp add: NewAESGCMHelper_def)
    moreover have "DecryptData (env_aes env) ?h (EncryptData (env_aes env) ?h nonce data) = Return data"
      by (rule chunked_round_trip) simp
    ultimately show ?thesis using r aes by (simp add: download_response_def)
  qed
  moreover obtain b where "me_marshal_download me \<lparr>da_AttachmentID = mc_mediaID content, da_Encrypted = True,
      da_AuthData = auth_message (fst (new_uuid env' c2)) (cl_AuthData (snd (new_uuid env' c2)))\<rparr> = Inr b"
    using marshal by blast
  ultimately show ?thesis
    using url by (simp add: DownloadMedia_def Let_def do_http_def content uploaded_content_def)
qed


definition sample_media_env :: media_env where
  "sample_media_env = \<lparr>me_marshal_start = (\<lambda>_. Inr []), me_marshal_download = (\<lambda>_. Inr []),
     me_unmarshal_upload = (\<lambda>_. Inr (Some \<lparr>um_MediaID = ''m1'', um_MediaNumber = 1\<rparr>)), me_url_error = (\<lambda>_. None)\<rparr>"

definition sample_media_response :: "bytes \<Rightarrow> Response" where
  "sample_media_response body = \<lparr>rsp_StatusCode = 200, rsp_ContentType = '''', rsp_Body = Inr body,
     rsp_Header = [''x-goog-upload-chunk-granularity'' \<mapsto> ''1''], rsp_Cookies = []\<rparr>"

definition serving :: "bytes \<Rightarrow> env" where
  "serving body = sample_env\<lparr>env_http := (\<lambda>_ _. Inr (sample_media_response body))\<rparr>"

lemma sample_upload:
  "UploadMedia sample_media_env (serving []) (\<lambda>_. 7) (\<lambda>i. of_nat i) [1, 2, 3] ''f'' ''image/png'' (NewClient sample_auth None)
   = (Return (uploaded_content [1, 2, 3] ''f'' ''image/png'' (GenerateKey (\<lambda>_. 7) 32) \<lparr>um_MediaID = ''m1'', um_MediaNumber = 1\<rparr>),
      snd (UploadMedia sample_media_env (serving []) (\<lambda>_. 7) (\<lambda>i. of_nat i) [1, 2, 3] ''f'' ''image/png'' (NewClient sample_auth None)))"
proof -
  have "parse_int 64 ''1'' = Some 1" by code_simp
  then show ?thesis
    by (simp add: UploadMedia_def Let_def NewAESGCMHelper_def StartUploadMedia_def buildStartUploadPayload_def
        sample_media_env_def start_upload_response_def serving_def do_http_def sample_media_response_def get_header_def
        FinalizeUploadMedia_def upload_response_def isStandardBase64_def)
qed

theorem upload_download_round_trip_witness:
  "\<exists>body. fst (DownloadMedia sample_media_env (serving body) ''m1'' (GenerateKey (\<lambda>_. 7) 32) (NewClient sample_auth None))
     = Return [1, 2, 3]"
proof -
  define c1 where "c1 = snd (UploadMedia sample_media_env (serving []) (\<lambda>_. 7) (\<lambda>i. of_nat i) [1, 2, 3] ''f''
    ''image/png'' (NewClient sample_auth None))"
  show ?thesis
    using upload_download_round_trip [OF sample_upload, of "serving (hr_Body (last (cl_requests c1)))"
        "NewClient sample_auth None"]
    by (auto simp: sample_media_env_def serving_def sample_media_response_def c1_def uploaded_content_def)
qed

end
