(* ===== verification/Gm_Convert.thy ===== *)
theory Gm_Convert
  imports Gm_Ids Gm_Media
begin

text \<open>
  Conversion of messages of the phone into messages of the bridge: the second half of
  \<open>pkg/connector/handlegmessages.go\<close> (senders, reactions, text and media parts, status tables) and
  \<open>pkg/connector/messagestatus.go\<close>.  The record \<open>bridge_env\<close> holds what the code takes from other
  packages (the bridge framework, the HTML and MIME helpers, ffmpeg).
\<close>

section \<open>Statuses\<close>

definition isSuccessfullySentStatus :: "MessageStatusType \<Rightarrow> bool" where
  "isSuccessfullySentStatus s \<longleftrightarrow>
     s = MessageStatusType_OUTGOING_DELIVERED \<or> s = MessageStatusType_OUTGOING_COMPLETE \<or>
     s = MessageStatusType_OUTGOING_DISPLAYED"

definition getFailMessage :: "MessageStatusType \<Rightarrow> string" where
  "getFailMessage s =
     (if s = MessageStatusType_OUTGOING_FAILED_TOO_LARGE then ''too large''
      else if s = MessageStatusType_OUTGOING_FAILED_RECIPIENT_LOST_RCS then ''recipient lost RCS support''
      else if s = MessageStatusType_OUTGOING_FAILED_RECIPIENT_LOST_ENCRYPTION
      then ''recipient lost encryption support''
      else if s = MessageStatusType_OUTGOING_FAILED_RECIPIENT_DID_NOT_DECRYPT \<or>
              s = MessageStatusType_OUTGOING_FAILED_RECIPIENT_DID_NOT_DECRYPT_NO_MORE_RETRY
      then ''recipient failed to decrypt message''
      else if s = MessageStatusType_OUTGOING_FAILED_GENERIC
      then ''generic carrier error, check google messages and try again''
      else if s = MessageStatusType_OUTGOING_FAILED_NO_RETRY_NO_FALLBACK then ''no fallback error''
      else if s = MessageStatusType_OUTGOING_FAILED_EMERGENCY_NUMBER then ''emergency number error''
      else if s = MessageStatusType_OUTGOING_CANCELED then ''canceled''
      else '''')"

text \<open>The error code and the message of the status notice; an unknown status prints as its number.\<close>

definition status_String :: "MessageStatusType \<Rightarrow> string" where
  "status_String s = (case MessageStatusType_String s of None \<Rightarrow> show_int s | Some n \<Rightarrow> n)"

definition wrapStatusInError :: "MessageStatusType \<Rightarrow> (string \<times> string) option" where
  "wrapStatusInError s =
     (if getFailMessage s = '''' then None
      else Some (trim_prefix (status_String s) ''OUTGOING_'', getFailMessage s))"

definition shouldIgnoreStatus :: "MessageStatusType \<Rightarrow> bool \<Rightarrow> bool" where
  "shouldIgnoreStatus s isDM =
     (if s \<in> {MessageStatusType_TOMBSTONE_PROTOCOL_SWITCH_TO_TEXT,
              MessageStatusType_TOMBSTONE_PROTOCOL_SWITCH_TO_RCS,
              MessageStatusType_TOMBSTONE_PROTOCOL_SWITCH_TO_ENCRYPTED_RCS,
              MessageStatusType_TOMBSTONE_PROTOCOL_SWITCH_TO_ENCRYPTED_RCS_INFO,
              MessageStatusType_TOMBSTONE_ONE_ON_ONE_SMS_CREATED,
              MessageStatusType_TOMBSTONE_ONE_ON_ONE_RCS_CREATED,
              MessageStatusType_TOMBSTONE_ENCRYPTED_ONE_ON_ONE_RCS_CREATED,
              MessageStatusType_MESSAGE_STATUS_TOMBSTONE_PROTOCOL_SWITCH_TEXT_TO_E2EE,
              MessageStatusType_MESSAGE_STATUS_TOMBSTONE_PROTOCOL_SWITCH_E2EE_TO_TEXT,
              MessageStatusType_MESSAGE_STATUS_TOMBSTONE_PROTOCOL_SWITCH_RCS_TO_E2EE,
              MessageStatusType_MESSAGE_STATUS_TOMBSTONE_PROTOCOL_SWITCH_E2EE_TO_RCS} then isDM
      else s \<in> {MessageStatusType_MESSAGE_STATUS_TOMBSTONE_ENCRYPTED_GROUP_CREATED,
              MessageStatusType_MESSAGE_STATUS_TOMBSTONE_GROUP_PROTOCOL_SWITCH_E2EE_TO_RCS,
              MessageStatusType_MESSAGE_STATUS_TOMBSTONE_GROUP_PROTOCOL_SWITCH_RCS_TO_E2EE,
              MessageStatusType_TOMBSTONE_RCS_GROUP_CREATED,
              MessageStatusType_TOMBSTONE_MMS_GROUP_CREATED,
              MessageStatusType_TOMBSTONE_SMS_BROADCAST_CREATED,
              MessageStatusType_MESSAGE_STATUS_TOMBSTONE_PARTICIPANT_THEME_CHANGE,
              MessageStatusType_TOMBSTONE_SHOW_LINK_PREVIEWS,
              MessageStatusType_MESSAGE_STATUS_TOMBSTONE_ACTIVE_SELF_IDENTITY_CHANGED})"

definition downloadStatusRank :: "MessageStatusType \<Rightarrow> int" where
  "downloadStatusRank s =
     (if s = MessageStatusType_INCOMING_AUTO_DOWNLOADING then 0
      else if s \<in> {MessageStatusType_INCOMING_MANUAL_DOWNLOADING,
                   MessageStatusType_INCOMING_RETRYING_AUTO_DOWNLOAD,
                   MessageStatusType_INCOMING_DOWNLOAD_FAILED,
                   MessageStatusType_INCOMING_YET_TO_MANUAL_DOWNLOAD,
                   MessageStatusType_INCOMING_RETRYING_MANUAL_DOWNLOAD,
                   MessageStatusType_INCOMING_DOWNLOAD_FAILED_SIM_HAS_NO_DATA,
                   MessageStatusType_INCOMING_DOWNLOAD_FAILED_TOO_LARGE,
                   MessageStatusType_INCOMING_DOWNLOAD_CANCELED} then 1
      else 100)"

definition downloadPendingStatusMessage :: "MessageStatusType \<Rightarrow> string" where
  "downloadPendingStatusMessage s =
     (if s = MessageStatusType_INCOMING_YET_TO_MANUAL_DOWNLOAD
      then ''Attachment message (auto-download is disabled, use Messages on Android to download)''
      else if s \<in> {MessageStatusType_INCOMING_MANUAL_DOWNLOADING,
                   MessageStatusType_INCOMING_AUTO_DOWNLOADING,
                   MessageStatusType_INCOMING_RETRYING_MANUAL_DOWNLOAD,
                   MessageStatusType_INCOMING_RETRYING_AUTO_DOWNLOAD} then ''Downloading message...''
      else if s = MessageStatusType_INCOMING_DOWNLOAD_FAILED then ''Message download failed''
      else if s = MessageStatusType_INCOMING_DOWNLOAD_FAILED_TOO_LARGE
      then ''Message download failed (too large)''
      else if s = MessageStatusType_INCOMING_DOWNLOAD_FAILED_SIM_HAS_NO_DATA
      then ''Message download failed (no mobile data connection)''
      else if s = MessageStatusType_INCOMING_DOWNLOAD_CANCELED then ''Message download canceled''
      else '''')"

section \<open>Senders\<close>

record EventSender =
  es_IsFromMe :: bool
  es_Sender :: string
  es_ForceDMUser :: bool

definition no_sender :: EventSender where
  "no_sender = \<lparr>es_IsFromMe = False, es_Sender = '''', es_ForceDMUser = False\<rparr>"

definition findAlternateParticipantID :: "Conversation \<Rightarrow> string \<Rightarrow> string" where
  "findAlternateParticipantID chatInfo participantID =
     (case find (\<lambda>p. \<not> pt_isVisible p \<and> GetParticipantID p = participantID \<and> GetNumber p \<noteq> '''')
             (rev (cv_participants chatInfo)) of
        None \<Rightarrow> participantID
      | Some matched \<Rightarrow>
          (case find (\<lambda>p. pt_isVisible p \<and> GetNumber p = GetNumber matched) (cv_participants chatInfo) of
             None \<Rightarrow> participantID
           | Some p \<Rightarrow> GetParticipantID p))"

definition getPhoneNumberParticipantID :: "Conversation option \<Rightarrow> string \<Rightarrow> string" where
  "getPhoneNumberParticipantID chatInfo phoneNumber =
     (case chatInfo of
        None \<Rightarrow> ''''
      | Some conv \<Rightarrow>
          if phoneNumber = '''' then ''''
          else case find (\<lambda>p. GetNumber p = phoneNumber \<and> pt_isVisible p) (cv_participants conv) of
                 Some p \<Rightarrow> GetParticipantID p
               | None \<Rightarrow>
                   (case find (\<lambda>p. GetNumber p = phoneNumber) (rev (cv_participants conv)) of
                      Some p \<Rightarrow> GetParticipantID p
                    | None \<Rightarrow> ''''))"

definition makeEventSender :: "GMClient \<Rightarrow> string \<Rightarrow> string \<Rightarrow> bool \<Rightarrow> bool \<Rightarrow> EventSender" where
  "makeEventSender gc conversationID participantID forceOutgoing forceIncoming =
     (let isFromMe = (\<not> forceIncoming \<and>
            (forceOutgoing \<or> participantID = ''1'' \<or> IsSelfParticipantID (gm_Meta gc) participantID));
          pid = (if \<not> isFromMe \<and> conversationID \<noteq> ''''
                 then case map_of (gm_chatInfoCache gc) conversationID of
                        None \<Rightarrow> participantID
                      | Some chatInfo \<Rightarrow> findAlternateParticipantID chatInfo participantID
                 else participantID)
      in \<lparr>es_IsFromMe = isFromMe, es_Sender = MakeUserID gc pid, es_ForceDMUser = \<not> isFromMe\<rparr>)"

definition getEventSenderFromMessage :: "GMClient \<Rightarrow> Message \<Rightarrow> EventSender" where
  "getEventSenderFromMessage gc m =
     (let s = GetStatus m in
      if s \<ge> 200 \<and> s < 300 then no_sender
      else makeEventSender gc (msg_conversationID m) (msg_participantID m) (s \<ge> 1 \<and> s < 100) (s \<ge> 100 \<and> s < 200))"

section \<open>Reactions\<close>

record BackfillReaction =
  br_Sender :: EventSender
  br_Emoji :: string
  br_Historical :: bool

type_synonym reaction_map = "(string \<times> BackfillReaction list) list"

definition UnixMicro :: "int \<Rightarrow> time" where
  "UnixMicro us = us * microsecond"

definition addReaction ::
  "GMClient \<Rightarrow> string \<Rightarrow> bool \<Rightarrow> string \<Rightarrow> reaction_map \<Rightarrow> string \<Rightarrow> reaction_map" where
  "addReaction gc conversationID historical emoji users participantID =
     (let userID = MakeUserID gc participantID;
          old = (case map_of users userID of None \<Rightarrow> [] | Some rs \<Rightarrow> rs)
      in AList.update userID
           (old @ [\<lparr>br_Sender = makeEventSender gc conversationID participantID False False,
                    br_Emoji = emoji, br_Historical = historical\<rparr>]) users)"

text \<open>The emoji of an entry; \<open>None\<close> skips the entry.\<close>

definition reaction_emoji :: "ReactionEntry \<Rightarrow> string option" where
  "reaction_emoji r =
     (let t = (case re_data r of None \<Rightarrow> EmojiType_REACTION_TYPE_UNSPECIFIED | Some d \<Rightarrow> rd_type d)
      in if t = EmojiType_EMOTIFY then Some '':custom:''
         else if t = EmojiType_CUSTOM then Some (case re_data r of None \<Rightarrow> '''' | Some d \<Rightarrow> rd_unicode d)
         else if EmojiType_Unicode t = '''' then None
         else Some (EmojiType_Unicode t))"

definition GetReactions :: "GMClient \<Rightarrow> time \<Rightarrow> Message \<Rightarrow> reaction_map" where
  "GetReactions gc now m =
     (let historical = (time_sub now (UnixMicro (msg_timestamp m)) > 24 * hour)
      in foldl (\<lambda>users r. case reaction_emoji r of
                  None \<Rightarrow> users
                | Some emoji \<Rightarrow>
                    foldl (addReaction gc (msg_conversationID m) historical emoji) users (re_participantIDs r))
           [] (msg_reactions m))"

section \<open>Converted messages\<close>

datatype MsgType = MsgText | MsgNotice | MsgImage | MsgVideo | MsgAudio | MsgFile

record MessageEventContent =
  ec_MsgType :: MsgType
  ec_FormatHTML :: bool
  ec_Body :: string
  ec_FormattedBody :: string
  ec_MimeType :: string
  ec_Size :: int
  ec_Voice :: bool
  ec_URL :: string

definition text_content :: "MsgType \<Rightarrow> string \<Rightarrow> MessageEventContent" where
  "text_content t body = \<lparr>ec_MsgType = t, ec_FormatHTML = False, ec_Body = body, ec_FormattedBody = '''',
     ec_MimeType = '''', ec_Size = 0, ec_Voice = False, ec_URL = ''''\<rparr>"

record ConvertedMessagePart =
  cp_ID :: string
  cp_Content :: MessageEventContent
  cp_DBMetadata :: MessageMetadata
  cp_DontBridge :: bool
  cp_RawDebugData :: "string option"

record ConvertedMessage =
  co_ReplyTo :: "string option"
  co_Parts :: "ConvertedMessagePart list"

record Portal =
  po_PortalKey :: PortalKey
  po_MXID :: string
  po_isDM :: bool
  po_OtherUserID :: string
  po_Metadata :: PortalMetadata

record DBMessage =
  db_ID :: string
  db_PartID :: string
  db_MXID :: string
  db_Room :: PortalKey
  db_SenderID :: string
  db_SenderMXID :: string
  db_Timestamp :: time
  db_Metadata :: MessageMetadata

text \<open>
  What the conversion takes from elsewhere: \<open>event.TextToHTML\<close> and \<open>EnsureHasHTML\<close>,
  \<open>ConvertedMessage.MergeCaption\<close> (\<open>None\<close> when it does not merge), the \<open>mimetype\<close> package, ffmpeg, the
  upload to the Matrix server, \<open>exslices.Diff\<close> (its first result), portals by key, the last message of
  a portal, and the order in which the format table was built.
\<close>

record bridge_env =
  be_TextToHTML :: "string \<Rightarrow> string"
  be_EnsureHasHTML :: "MessageEventContent \<Rightarrow> MessageEventContent"
  be_MergeCaption :: "ConvertedMessagePart list \<Rightarrow> ConvertedMessagePart list option"
  be_mime_Detect :: "bytes \<Rightarrow> string"
  be_mime_Lookup :: "string \<Rightarrow> string option"
  be_ffmpeg_Supported :: bool
  be_ffmpeg_Convert :: "bytes \<Rightarrow> string \<Rightarrow> go_error + bytes"
  be_UploadMedia :: "string \<Rightarrow> bytes \<Rightarrow> string \<Rightarrow> string \<Rightarrow> go_error + string"
  be_Diff :: "string list \<Rightarrow> string list \<Rightarrow> string list"
  be_PortalMXID :: "PortalKey \<Rightarrow> go_error + string option"
  be_LastMessage :: "PortalKey \<Rightarrow> time \<Rightarrow> go_error + DBMessage option"
  be_format_order :: "(string \<times> MediaType) list"

definition zero_metadata :: MessageMetadata where
  "zero_metadata = \<lparr>mm_Type = 0, mm_GlobalMediaStatus = '''', mm_GlobalPartCount = 0, mm_GlobalStatusText = '''',
     mm_GroupReadBy = [], mm_TextHash = '''', mm_MediaPartID = '''', mm_MediaID = '''', mm_MediaPending = False,
     mm_IsOutgoing = False, mm_MSSSent = False, mm_MSSFailSent = False, mm_MSSDeliverySent = False,
     mm_ReadReceiptSent = False, mm_OrigMXID = ''''\<rparr>"

section \<open>The text part\<close>

text \<open>The loop over the text parts carries the content and the bytes given to the hash.\<close>

fun text_loop ::
  "bridge_env \<Rightarrow> MessageInfo list \<Rightarrow> MessageEventContent \<times> bytes \<Rightarrow> MessageEventContent \<times> bytes" where
  "text_loop be [] st = st"
| "text_loop be (part # parts) st =
     (case mi_data part of
        MessageInfo_MessageContent t \<Rightarrow>
          let content = (fst st)\<lparr>ec_Body := ec_Body (fst st) @ [CHR 0x0A] @ t\<rparr>;
              content' = (if ec_FormatHTML content
                then content\<lparr>ec_FormattedBody := ec_FormattedBody content @ ''<br>'' @ be_TextToHTML be t\<rparr>
                else content)
          in text_loop be parts (content', snd st @ string_bytes t @ [0])
      | _ \<Rightarrow> text_loop be parts st)"

definition text_start :: "bridge_env \<Rightarrow> Message \<Rightarrow> MessageEventContent \<times> bytes" where
  "text_start be msg =
     (let subject = GetSubject msg;
          content = text_content MsgText ''''
      in (if subject \<noteq> ''''
          then content\<lparr>ec_FormatHTML := True, ec_Body := [CHR 0x0A] @ ''**'' @ subject @ ''**'',
                 ec_FormattedBody := ''<strong>'' @ be_TextToHTML be subject @ ''</strong>''\<rparr>
          else content,
          string_bytes subject @ [0]))"

definition text_collect :: "bridge_env \<Rightarrow> Message \<Rightarrow> MessageEventContent \<times> bytes" where
  "text_collect be msg =
     (let st = text_loop be (msg_messageInfo msg) (text_start be msg)
      in ((fst st)\<lparr>ec_Body := trim_prefix (ec_Body (fst st)) [CHR 0x0A]\<rparr>, snd st))"

definition text_hash :: "bridge_env \<Rightarrow> sha256_fun \<Rightarrow> Message \<Rightarrow> string" where
  "text_hash be sha256 msg =
     (let st = text_collect be msg
      in if ec_Body (fst st) \<noteq> '''' then hex_bytes (sum256 sha256 (snd st)) else '''')"

definition add_download_status :: "bridge_env \<Rightarrow> string \<Rightarrow> MessageEventContent \<Rightarrow> MessageEventContent" where
  "add_download_status be downloadStatus content =
     (if downloadStatus = '''' then content
      else if ec_Body content \<noteq> '''' then
        let c1 = be_EnsureHasHTML be content
        in c1\<lparr>ec_Body := ec_Body c1 @ [CHR 0x0A, CHR 0x0A] @ downloadStatus,
              ec_FormattedBody := ''<p>'' @ ec_FormattedBody c1 @ ''</p><p>'' @ be_TextToHTML be downloadStatus @ ''</p>''\<rparr>
      else content\<lparr>ec_Body := downloadStatus\<rparr>)"

definition getTextPart :: "bridge_env \<Rightarrow> sha256_fun \<Rightarrow> Message \<Rightarrow> ConvertedMessagePart option \<times> string" where
  "getTextPart be sha256 msg =
     (let textHash = text_hash be sha256 msg;
          downloadStatus = downloadPendingStatusMessage (GetStatus msg);
          content = add_download_status be downloadStatus (fst (text_collect be msg))
      in (if ec_Body content = '''' then None
          else Some \<lparr>cp_ID = '''', cp_Content = content,
            cp_DBMetadata = zero_metadata\<lparr>mm_Type := GetStatus msg, mm_TextHash := textHash,
              mm_GlobalMediaStatus := downloadStatus, mm_GlobalPartCount := int (length (msg_messageInfo msg))\<rparr>,
            cp_DontBridge = False, cp_RawDebugData = None\<rparr>,
          textHash))"

section \<open>Media parts\<close>

definition gm_DownloadMedia ::
  "media_env \<Rightarrow> env \<Rightarrow> string \<Rightarrow> bytes \<Rightarrow> GMClient \<Rightarrow> (go_error, bytes) outcome \<times> GMClient" where
  "gm_DownloadMedia me env mediaID key gc =
     (case gm_Client gc of
        None \<Rightarrow> (Panic ''nil pointer dereference'', gc)
      | Some c \<Rightarrow> (fst (DownloadMedia me env mediaID key c), put_client (snd (DownloadMedia me env mediaID key c)) gc))"

text \<open>The three sources of the bytes: the media, its thumbnail, or data inside the message.\<close>

definition media_bytes ::
  "media_env \<Rightarrow> env \<Rightarrow> MediaContent \<Rightarrow> GMClient \<Rightarrow> (go_error, bytes) outcome \<times> string \<times> bool \<times> GMClient" where
  "media_bytes me env msg gc =
     (if mc_mediaID msg \<noteq> '''' then
        let r = gm_DownloadMedia me env (mc_mediaID msg) (mc_decryptionKey msg) gc
        in (fst r, mc_mediaID msg, False, snd r)
      else if mc_thumbnailMediaID msg \<noteq> '''' then
        let r = gm_DownloadMedia me env (mc_thumbnailMediaID msg) (mc_thumbnailDecryptionKey msg) gc
        in (fst r, mc_thumbnailMediaID msg, True, snd r)
      else if mc_mediaData msg \<noteq> [] then (Return (mc_mediaData msg), ''inline'', False, gc)
      else (Error (ErrText ''no media ID found''), '''', False, gc))"

definition main_type :: "string \<Rightarrow> string" where
  "main_type mime = hd (split_char CHR ''/'' mime)"

definition media_mime :: "bridge_env \<Rightarrow> MediaContent \<Rightarrow> bytes \<Rightarrow> string" where
  "media_mime be msg data =
     (let f = mt_Format (format_lookup (be_format_order be) (mc_format msg))
      in if f = '''' then be_mime_Detect be data else f)"

definition media_name :: "bridge_env \<Rightarrow> MediaContent \<Rightarrow> string \<Rightarrow> (go_error, string) outcome" where
  "media_name be msg mime =
     (if contains_char (mc_mediaName msg) CHR ''.'' then Return (mc_mediaName msg)
      else case be_mime_Lookup be mime of
             None \<Rightarrow> Panic ''nil pointer dereference''
           | Some ext \<Rightarrow> Return (mc_mediaName msg @ ext))"

definition audio_convert ::
  "bridge_env \<Rightarrow> bytes \<Rightarrow> string \<Rightarrow> string \<Rightarrow> go_error + bytes \<times> string \<times> string" where
  "audio_convert be data body mime =
     (if main_type mime = ''audio'' \<and> mime \<noteq> ''audio/ogg'' \<and> be_ffmpeg_Supported be
      then case be_ffmpeg_Convert be data mime of
             Inl err \<Rightarrow> Inl (ErrWrap ''failed to convert media'' err)
           | Inr converted \<Rightarrow> Inr (converted, body @ ''.ogg'', ''audio/ogg'')
      else Inr (data, body, mime))"

definition msg_type_of_mime :: "string \<Rightarrow> MsgType" where
  "msg_type_of_mime mime =
     (if main_type mime = ''image'' then MsgImage else if main_type mime = ''video'' then MsgVideo
      else if main_type mime = ''audio'' then MsgAudio else MsgFile)"

definition reupload ::
  "bridge_env \<Rightarrow> Portal \<Rightarrow> MediaContent \<Rightarrow> bytes \<Rightarrow> (go_error, MessageEventContent) outcome" where
  "reupload be portal msg data =
     (let mime = media_mime be msg data
      in bind_outcome (media_name be msg mime) (\<lambda>name.
           case audio_convert be data name mime of
             Inl err \<Rightarrow> Error err
           | Inr r \<Rightarrow>
               (case be_UploadMedia be (po_MXID portal) (fst r) (fst (snd r)) (snd (snd r)) of
                  Inl err \<Rightarrow> Error (ErrWrap ''failed to reupload media'' err)
                | Inr url \<Rightarrow> Return
                    \<lparr>ec_MsgType = msg_type_of_mime mime, ec_FormatHTML = False, ec_Body = fst (snd r),
                     ec_FormattedBody = '''', ec_MimeType = snd (snd r), ec_Size = int (length data),
                     ec_Voice = (main_type mime = ''audio''), ec_URL = url\<rparr>)))"

definition convertGoogleMedia ::
  "bridge_env \<Rightarrow> media_env \<Rightarrow> env \<Rightarrow> Portal \<Rightarrow> MediaContent \<Rightarrow> GMClient
    \<Rightarrow> (go_error, MessageEventContent) outcome \<times> string \<times> bool \<times> GMClient" where
  "convertGoogleMedia be me env portal msg gc =
     (let r = media_bytes me env msg gc
      in (case fst r of
            Panic p \<Rightarrow> Panic p
          | Error err \<Rightarrow> Error (ErrWrap ''failed to download media'' err)
          | Return data \<Rightarrow> reupload be portal msg data,
          snd r))"

section \<open>Whole messages\<close>

definition media_meta :: "Message \<Rightarrow> MessageInfo \<Rightarrow> bool \<Rightarrow> MessageMetadata" where
  "media_meta m part isFirstPart =
     (let meta = zero_metadata\<lparr>mm_Type := GetStatus m, mm_MediaPartID := GetActionMessageID part\<rparr>
      in if isFirstPart
         then meta\<lparr>mm_GlobalPartCount := int (length (msg_messageInfo m)),
                mm_GlobalMediaStatus := downloadPendingStatusMessage (GetStatus m)\<rparr>
         else meta)"

text \<open>
  One round of the loop over the media parts: the converted part, the login and whether the full
  size of a thumbnail is to be requested.
\<close>

definition convert_media_part ::
  "bridge_env \<Rightarrow> media_env \<Rightarrow> env \<Rightarrow> Portal \<Rightarrow> Message \<Rightarrow> bool \<Rightarrow> bool \<Rightarrow> MessageInfo \<Rightarrow> MediaContent \<Rightarrow> GMClient
    \<Rightarrow> (go_error, ConvertedMessagePart \<times> bool) outcome \<times> GMClient" where
  "convert_media_part be me env portal m dontBridge isFirstPart part mc gc =
     (let meta = media_meta m part isFirstPart;
          partID = (if isFirstPart then '''' else GetActionMessageID part);
          mk = (\<lambda>content meta'. \<lparr>cp_ID = partID, cp_Content = content, cp_DBMetadata = meta',
                  cp_DontBridge = dontBridge, cp_RawDebugData = None\<rparr>)
      in if mc_mediaID mc = '''' \<and> mc_thumbnailMediaID mc = ''''
         then (Return (mk (text_content MsgNotice (''Waiting for attachment '' @ mc_mediaName mc))
                        (meta\<lparr>mm_MediaPending := True\<rparr>), False), gc)
         else
           let r = convertGoogleMedia be me env portal mc gc;
               mediaID = fst (snd r);
               isThumbnail = fst (snd (snd r));
               gc' = snd (snd (snd r))
           in case fst r of
                Panic p \<Rightarrow> (Panic p, gc')
              | Error err \<Rightarrow>
                  (Return (mk (text_content MsgNotice (''Failed to transfer attachment '' @ mc_mediaName mc))
                     (meta\<lparr>mm_MediaPending := True, mm_MediaID := mediaID\<rparr>), False), gc')
              | Return content \<Rightarrow> (Return (mk content (meta\<lparr>mm_MediaID := mediaID\<rparr>), isThumbnail), gc'))"

fun convert_media_loop ::
  "bridge_env \<Rightarrow> media_env \<Rightarrow> env \<Rightarrow> Portal \<Rightarrow> Message \<Rightarrow> bool \<Rightarrow> bool \<Rightarrow> MessageInfo list \<Rightarrow> GMClient
    \<Rightarrow> (go_error, ConvertedMessagePart list \<times> (string \<times> string) list) outcome \<times> GMClient" where
  "convert_media_loop be me env portal m dontBridge isFirstPart [] gc = (Return ([], []), gc)"
| "convert_media_loop be me env portal m dontBridge isFirstPart (part # parts) gc =
     (case mi_data part of
        MessageInfo_MediaContent mc \<Rightarrow>
          (let r = convert_media_part be me env portal m dontBridge isFirstPart part mc gc
           in case fst r of
                Panic p \<Rightarrow> (Panic p, snd r)
              | Error err \<Rightarrow> (Error err, snd r)
              | Return pb \<Rightarrow>
                  let s = convert_media_loop be me env portal m dontBridge False parts (snd r)
                  in (bind_outcome (fst s) (\<lambda>ps. Return (fst pb # fst ps,
                        (if snd pb then [(msg_messageID m, GetActionMessageID part)] else []) @ snd ps)), snd s))
      | _ \<Rightarrow> convert_media_loop be me env portal m dontBridge isFirstPart parts gc)"

text \<open>
  The merge of a caption.  The code reads both the merged and the text metadata from the first part
  of the merged message, so the three assignments copy fields onto themselves.
\<close>

definition copy_text_meta :: "MessageMetadata \<Rightarrow> MessageMetadata \<Rightarrow> MessageMetadata" where
  "copy_text_meta mergedMeta textMeta = mergedMeta
     \<lparr>mm_GlobalMediaStatus := mm_GlobalMediaStatus textMeta,
      mm_GlobalPartCount := mm_GlobalPartCount textMeta,
      mm_TextHash := mm_TextHash textMeta\<rparr>"

definition merge_caption :: "bridge_env \<Rightarrow> bool \<Rightarrow> bool \<Rightarrow> ConvertedMessagePart list \<Rightarrow> ConvertedMessagePart list" where
  "merge_caption be allowMergeCaption hasText parts =
     (if allowMergeCaption \<and> hasText
      then case be_MergeCaption be parts of
             None \<Rightarrow> parts
           | Some [] \<Rightarrow> []
           | Some (p # ps) \<Rightarrow>
               p\<lparr>cp_ID := '''', cp_DBMetadata := copy_text_meta (cp_DBMetadata p) (cp_DBMetadata p)\<rparr> # ps
      else parts)"

definition base64_len :: "nat \<Rightarrow> nat" where
  "base64_len n = (n + 2) div 3 * 4"

definition add_debug_data :: "bytes option \<Rightarrow> ConvertedMessagePart list \<Rightarrow> ConvertedMessagePart list" where
  "add_debug_data data parts =
     (case data of
        None \<Rightarrow> parts
      | Some d \<Rightarrow>
          if base64_len (length d) < 8192
          then case parts of [] \<Rightarrow> []
               | p # ps \<Rightarrow> p\<lparr>cp_RawDebugData := Some (bytes_string (b64_encode d))\<rparr> # ps
          else parts)"

definition ConvertGoogleMessage ::
  "bridge_env \<Rightarrow> media_env \<Rightarrow> env \<Rightarrow> Portal \<Rightarrow> Message \<Rightarrow> bytes option \<Rightarrow> bool \<Rightarrow> GMClient
    \<Rightarrow> (go_error, ConvertedMessage \<times> (string \<times> string) list) outcome \<times> GMClient" where
  "ConvertGoogleMessage be me env portal m data allowMergeCaption gc =
     (let dontBridge = shouldIgnoreStatus (GetStatus m) (po_isDM portal);
          replyTo = map_option (MakeMessageID gc) (msg_replyMessage m);
          textPart = map_option (\<lambda>p. p\<lparr>cp_DontBridge := dontBridge\<rparr>) (fst (getTextPart be (env_sha256 env) m));
          r = convert_media_loop be me env portal m dontBridge (textPart = None) (msg_messageInfo m) gc
      in (bind_outcome (fst r) (\<lambda>ps.
            let parts = (case textPart of None \<Rightarrow> [] | Some t \<Rightarrow> [t]) @ fst ps
            in Return (\<lparr>co_ReplyTo = replyTo,
                 co_Parts = add_debug_data data
                   (merge_caption be allowMergeCaption (textPart \<noteq> None) parts)\<rparr>, snd ps)),
          snd r))"

definition requestFullMedia ::
  "env \<Rightarrow> time \<Rightarrow> wait \<Rightarrow> string \<Rightarrow> string \<Rightarrow> GMClient \<Rightarrow> ((go_error, unit) outcome \<times> GMClient) option" where
  "requestFullMedia env now w messageID actionMessageID gc =
     (if actionMessageID = '''' then Some (Return (), gc)
      else if (messageID, actionMessageID) \<in> set (gm_fullMediaRequests gc) then Some (Return (), gc)
      else
        let gc1 = gc\<lparr>gm_fullMediaRequests := (messageID, actionMessageID) # gm_fullMediaRequests gc\<rparr>
        in case gm_Client gc1 of
             None \<Rightarrow> Some (Panic ''nil pointer dereference'', gc1)
           | Some c \<Rightarrow>
               (case GetFullSizeImage env now w messageID actionMessageID c of
                  None \<Rightarrow> None
                | Some (Panic p, c1) \<Rightarrow> Some (Panic p, put_client c1 gc1)
                | Some (_, c1) \<Rightarrow> Some (Return (), put_client c1 gc1)))"

definition idToInt :: "string \<Rightarrow> int" where
  "idToInt i = (case parse_int 64 (snd (parseAnyID i)) of None \<Rightarrow> 0 | Some n \<Rightarrow> n)"

datatype convert_error = IgnoringRemoteEvent string

definition rcs_switch :: "MessageStatusType \<Rightarrow> PortalMetadata \<Rightarrow> PortalMetadata" where
  "rcs_switch s meta =
     (if s = MessageStatusType_MESSAGE_STATUS_TOMBSTONE_PROTOCOL_SWITCH_RCS_TO_E2EE \<or>
         s = MessageStatusType_MESSAGE_STATUS_TOMBSTONE_PROTOCOL_SWITCH_TEXT_TO_E2EE
      then meta\<lparr>pm_ForceRCS := True\<rparr>
      else if s = MessageStatusType_MESSAGE_STATUS_TOMBSTONE_PROTOCOL_SWITCH_E2EE_TO_RCS \<or>
         s = MessageStatusType_MESSAGE_STATUS_TOMBSTONE_PROTOCOL_SWITCH_E2EE_TO_TEXT
      then meta\<lparr>pm_ForceRCS := False\<rparr>
      else meta)"

definition too_old :: "bridge_env \<Rightarrow> time \<Rightarrow> Portal \<Rightarrow> Message \<Rightarrow> bool" where
  "too_old be now portal m \<longleftrightarrow>
     time_sub now (UnixMicro (msg_timestamp m)) > 24 * hour \<and>
     (case be_LastMessage be (po_PortalKey portal) (now + 10 * second) of
        Inr (Some lastMessage) \<Rightarrow> db_Timestamp lastMessage > UnixMicro (msg_timestamp m)
      | _ \<Rightarrow> False)"

text \<open>
  \<open>MessageEvent.ConvertMessage\<close>: the portal (saved when the flag changed) and the converted message
  or the reason for ignoring it.
\<close>

definition ConvertMessage ::
  "bridge_env \<Rightarrow> media_env \<Rightarrow> env \<Rightarrow> time \<Rightarrow> Portal \<Rightarrow> Message \<Rightarrow> bytes option \<Rightarrow> GMClient
    \<Rightarrow> (convert_error + (go_error, ConvertedMessage \<times> (string \<times> string) list) outcome) \<times> Portal \<times> GMClient" where
  "ConvertMessage be me env now portal m data gc =
     (let s = GetStatus m in
      if s = MessageStatusType_INCOMING_AUTO_DOWNLOADING \<or> s = MessageStatusType_INCOMING_RETRYING_AUTO_DOWNLOAD
      then (Inl (IgnoringRemoteEvent ''not handling incoming auto-downloading MMS''), portal, gc)
      else
        let portal' = portal\<lparr>po_Metadata := rcs_switch s (po_Metadata portal)\<rparr>
        in if too_old be now portal' m
           then (Inl (IgnoringRemoteEvent ''not handling old message''), portal', gc)
           else let r = ConvertGoogleMessage be me env portal' m data True gc
                in (Inr (fst r), portal', snd r))"

section \<open>Events of a message\<close>

datatype RemoteEventType =
    RemoteEventMessageRemove | RemoteEventMessageUpsert | RemoteEventEdit | RemoteEventReactionSync
  | RemoteEventChatDelete | RemoteEventChatResync | RemoteEventUnknown

definition MessageEvent_GetType :: "Message \<Rightarrow> RemoteEventType" where
  "MessageEvent_GetType m =
     (if GetStatus m = MessageStatusType_MESSAGE_DELETED then RemoteEventMessageRemove
      else RemoteEventMessageUpsert)"

definition MessageEvent_ShouldCreatePortal :: "Message \<Rightarrow> bool" where
  "MessageEvent_ShouldCreatePortal m \<longleftrightarrow>
     GetStatus m \<in> {MessageStatusType_INCOMING_COMPLETE, MessageStatusType_OUTGOING_COMPLETE,
                    MessageStatusType_OUTGOING_DELIVERED, MessageStatusType_OUTGOING_DISPLAYED}"

definition MessageEvent_GetPortalKey :: "GMClient \<Rightarrow> Message \<Rightarrow> PortalKey" where
  "MessageEvent_GetPortalKey gc m = MakePortalKey gc (msg_conversationID m)"

definition MessageEvent_GetID :: "GMClient \<Rightarrow> Message \<Rightarrow> string" where
  "MessageEvent_GetID gc m = MakeMessageID gc (msg_messageID m)"

definition MessageEvent_GetStreamOrder :: "Message \<Rightarrow> int" where
  "MessageEvent_GetStreamOrder m = msg_timestamp m"

definition MessageEvent_GetSender :: "GMClient \<Rightarrow> Message \<Rightarrow> EventSender" where
  "MessageEvent_GetSender gc m = getEventSenderFromMessage gc m"

definition MessageEvent_GetTransactionID :: "Message \<Rightarrow> string" where
  "MessageEvent_GetTransactionID m = msg_tmpID m"

definition MessageEvent_GetTargetMessage :: "GMClient \<Rightarrow> Message \<Rightarrow> string" where
  "MessageEvent_GetTargetMessage gc m = MessageEvent_GetID gc m"

definition MessageEvent_GetTimestamp :: "Message \<Rightarrow> time" where
  "MessageEvent_GetTimestamp m = UnixMicro (msg_timestamp m)"

text \<open>The synchronisation of the reactions of a message; its sender is the zero value.\<close>

definition ReactionSyncEvent_GetType :: "Message \<Rightarrow> RemoteEventType" where
  "ReactionSyncEvent_GetType m = RemoteEventReactionSync"

definition ReactionSyncEvent_GetPortalKey :: "GMClient \<Rightarrow> Message \<Rightarrow> PortalKey" where
  "ReactionSyncEvent_GetPortalKey gc m = MakePortalKey gc (msg_conversationID m)"

definition ReactionSyncEvent_GetSender :: "Message \<Rightarrow> EventSender" where
  "ReactionSyncEvent_GetSender m = no_sender"

definition ReactionSyncEvent_GetTargetMessage :: "GMClient \<Rightarrow> Message \<Rightarrow> string" where
  "ReactionSyncEvent_GetTargetMessage gc m = MakeMessageID gc (msg_messageID m)"


section \<open>Properties of the conversion\<close>

lemma MakeUserID_inj [simp]: "MakeUserID gc p = MakeUserID gc q \<longleftrightarrow> p = q"
  by (simp add: MakeUserID_def makeAnyID_def)

definition reactions_by :: "reaction_map \<Rightarrow> string \<Rightarrow> BackfillReaction list" where
  "reactions_by users u = (case map_of users u of None \<Rightarrow> [] | Some rs \<Rightarrow> rs)"

definition reaction :: "GMClient \<Rightarrow> string \<Rightarrow> bool \<Rightarrow> string \<Rightarrow> string \<Rightarrow> BackfillReaction" where
  "reaction gc conversationID historical emoji p =
     \<lparr>br_Sender = makeEventSender gc conversationID p False False, br_Emoji = emoji, br_Historical = historical\<rparr>"

lemma addReaction_eq:
  "addReaction gc cid h e users p =
     AList.update (MakeUserID gc p) (reactions_by users (MakeUserID gc p) @ [reaction gc cid h e p]) users"
  by (simp add: addReaction_def Let_def reactions_by_def reaction_def)

lemma reactions_by_add:
  "reactions_by (addReaction gc cid h e users p) (MakeUserID gc q) =
     reactions_by users (MakeUserID gc q) @ (if p = q then [reaction gc cid h e p] else [])"
  by (auto simp: addReaction_eq reactions_by_def update_conv)

lemma reactions_by_foldl:
  "reactions_by (foldl (addReaction gc cid h e) users ps) (MakeUserID gc q) =
     reactions_by users (MakeUserID gc q) @ map (reaction gc cid h e) (filter (\<lambda>p. p = q) ps)"
  by (induction ps arbitrary: users) (auto simp: reactions_by_add)

definition users_ok :: "GMClient \<Rightarrow> reaction_map \<Rightarrow> bool" where
  "users_ok gc users \<longleftrightarrow> distinct (map fst users) \<and>
     (\<forall>u rs. (u, rs) \<in> set users \<longrightarrow> rs \<noteq> [] \<and> (\<exists>p. u = MakeUserID gc p))"

lemma users_ok_update:
  assumes "users_ok gc users" "rs \<noteq> []"
  shows "users_ok gc (AList.update (MakeUserID gc p) rs users)"
proof -
  have "distinct (map fst (AList.update (MakeUserID gc p) rs users))"
    using assms(1) by (intro distinct_update) (simp add: users_ok_def)
  moreover have "set (AList.update (MakeUserID gc p) rs users) \<subseteq> insert (MakeUserID gc p, rs) (set users)"
    by (induction users) auto
  ultimately show ?thesis using assms by (fastforce simp: users_ok_def)
qed

lemma users_ok_add: "users_ok gc users \<Longrightarrow> users_ok gc (addReaction gc cid h e users p)"
  unfolding addReaction_eq by (rule users_ok_update) simp_all

lemma users_ok_foldl: "users_ok gc users \<Longrightarrow> users_ok gc (foldl (addReaction gc cid h e) users ps)"
  by (induction ps arbitrary: users) (simp_all add: users_ok_add)

definition entry_reactions :: "GMClient \<Rightarrow> string \<Rightarrow> bool \<Rightarrow> string \<Rightarrow> ReactionEntry \<Rightarrow> BackfillReaction list" where
  "entry_reactions gc cid h q r =
     (case reaction_emoji r of None \<Rightarrow> []
      | Some e \<Rightarrow> map (reaction gc cid h e) (filter (\<lambda>p. p = q) (re_participantIDs r)))"

text \<open>
  (C31) The reactions of a message: the reactions that are synchronised for a participant are exactly
  those of the entries that list it, in the order of the entries, with the emoji of the entry's type
  (or its own for a custom one) and marked as historical when the message is older than a day.  Only
  participants with a reaction are listed, each once.
\<close>

theorem GetReactions_correct:
  "reactions_by (GetReactions gc now m) (MakeUserID gc q) =
     concat (map (entry_reactions gc (msg_conversationID m)
       (time_sub now (UnixMicro (msg_timestamp m)) > 24 * hour) q) (msg_reactions m)) \<and>
   users_ok gc (GetReactions gc now m)"
proof -
  define h where "h = (time_sub now (UnixMicro (msg_timestamp m)) > 24 * hour)"
  define f where "f = (\<lambda>users r. case reaction_emoji r of None \<Rightarrow> users
    | Some emoji \<Rightarrow> foldl (addReaction gc (msg_conversationID m) h emoji) users (re_participantIDs r))"
  have step: "reactions_by (f users r) (MakeUserID gc q) =
      reactions_by users (MakeUserID gc q) @ entry_reactions gc (msg_conversationID m) h q r"
    "users_ok gc users \<Longrightarrow> users_ok gc (f users r)" for users r
    by (simp_all add: f_def entry_reactions_def reactions_by_foldl users_ok_foldl split: option.split)
  have "reactions_by (foldl f users rs) (MakeUserID gc q) =
      reactions_by users (MakeUserID gc q) @ concat (map (entry_reactions gc (msg_conversationID m) h q) rs)"
    "users_ok gc users \<Longrightarrow> users_ok gc (foldl f users rs)" for users rs
    by (induction rs arbitrary: users) (simp_all add: step)
  moreover have "GetReactions gc now m = foldl f [] (msg_reactions m)"
    by (simp only: GetReactions_def Let_def f_def h_def)
  moreover have "users_ok gc []" "reactions_by [] (MakeUserID gc q) = []"
    by (simp_all add: users_ok_def reactions_by_def)
  ultimately show ?thesis unfolding h_def by simp
qed

text \<open>Facts on the text part.\<close>

lemma getTextPart_Some:
  "fst (getTextPart be sha m) = Some t \<Longrightarrow>
     cp_ID t = '''' \<and> cp_DBMetadata t = zero_metadata\<lparr>mm_Type := GetStatus m, mm_TextHash := snd (getTextPart be sha m),
       mm_GlobalMediaStatus := downloadPendingStatusMessage (GetStatus m),
       mm_GlobalPartCount := int (length (msg_messageInfo m))\<rparr>"
  by (auto simp: getTextPart_def Let_def split: if_splits)

lemma getTextPart_None: "fst (getTextPart be sha m) = None \<Longrightarrow> snd (getTextPart be sha m) = ''''"
  by (auto simp: getTextPart_def Let_def add_download_status_def text_hash_def split: if_splits)

text \<open>The media of a message, and what the conversion stores for each of them.\<close>

definition bestMediaID :: "MediaContent \<Rightarrow> string" where
  "bestMediaID mc = (if mc_mediaID mc = '''' then mc_thumbnailMediaID mc else mc_mediaID mc)"

fun media_parts :: "MessageInfo list \<Rightarrow> (MessageInfo \<times> MediaContent) list" where
  "media_parts [] = []"
| "media_parts (i # is) =
     (case mi_data i of MessageInfo_MediaContent mc \<Rightarrow> (i, mc) # media_parts is | _ \<Rightarrow> media_parts is)"

definition media_stored :: "Message \<Rightarrow> bool \<Rightarrow> MessageMetadata \<Rightarrow> MessageInfo \<times> MediaContent \<Rightarrow> bool" where
  "media_stored m first meta im \<longleftrightarrow>
     (\<exists>pending. meta = (media_meta m (fst im) first)\<lparr>mm_MediaPending := pending, mm_MediaID := bestMediaID (snd im)\<rparr>)"

lemma same_media_id: "mm_MediaID meta = x \<Longrightarrow> meta\<lparr>mm_MediaPending := b, mm_MediaID := x\<rparr> = meta\<lparr>mm_MediaPending := b\<rparr>"
  by (cases meta) simp

lemma same_pending: "mm_MediaPending meta = b \<Longrightarrow> meta\<lparr>mm_MediaPending := b, mm_MediaID := x\<rparr> = meta\<lparr>mm_MediaID := x\<rparr>"
  by (cases meta) simp

lemma convert_media_part_stored:
  assumes "fst (convert_media_part be me env portal m db first i mc gc) = Return pb"
  shows "cp_ID (fst pb) = (if first then '''' else GetActionMessageID i) \<and>
    media_stored m first (cp_DBMetadata (fst pb)) (i, mc)"
proof -
  have z: "mm_MediaID (media_meta m i first) = ''''" "mm_MediaPending (media_meta m i first) = False"
    by (simp_all add: media_meta_def zero_metadata_def Let_def)
  have id: "fst (snd (convertGoogleMedia be me env portal mc gc)) = bestMediaID mc"
    if "mc_mediaID mc \<noteq> '''' \<or> mc_thumbnailMediaID mc \<noteq> ''''"
    using that by (auto simp: convertGoogleMedia_def media_bytes_def bestMediaID_def Let_def)
  show ?thesis
  proof (cases "mc_mediaID mc = '''' \<and> mc_thumbnailMediaID mc = ''''")
    case True
    then have "bestMediaID mc = mm_MediaID (media_meta m i first)" by (simp add: bestMediaID_def z)
    then have "media_stored m first ((media_meta m i first)\<lparr>mm_MediaPending := True\<rparr>) (i, mc)"
      unfolding media_stored_def fst_conv snd_conv by (metis same_media_id)
    with True assms show ?thesis by (auto simp: convert_media_part_def Let_def)
  next
    case False
    have "media_stored m first ((media_meta m i first)\<lparr>mm_MediaID := bestMediaID mc\<rparr>) (i, mc)"
      unfolding media_stored_def fst_conv snd_conv using same_pending [OF z(2)] by metis
    moreover have "media_stored m first
        ((media_meta m i first)\<lparr>mm_MediaPending := True, mm_MediaID := bestMediaID mc\<rparr>) (i, mc)"
      unfolding media_stored_def fst_conv snd_conv by blast
    ultimately show ?thesis
      using False assms id by (auto simp: convert_media_part_def Let_def split: outcome.splits)
  qed
qed


lemma convert_media_loop_stored:
  assumes "fst (convert_media_loop be me env portal m db first infos gc) = Return (ps, rq)"
  shows "length ps = length (media_parts infos) \<and>
    (\<forall>k < length ps. media_stored m (first \<and> k = 0) (cp_DBMetadata (ps ! k)) (media_parts infos ! k))"
  using assms
proof (induction infos arbitrary: first gc ps rq)
  case Nil
  then show ?case by simp
next
  case (Cons i infos)
  show ?case
  proof (cases "mi_data i")
    case (MessageInfo_MediaContent mc)
    let ?r = "convert_media_part be me env portal m db first i mc gc"
    let ?s = "convert_media_loop be me env portal m db False infos (snd ?r)"
    obtain pb where pb: "fst ?r = Return pb"
      using Cons.prems MessageInfo_MediaContent by (cases "fst ?r") (simp_all add: Let_def)
    obtain qs where qs: "fst ?s = Return qs"
      using Cons.prems MessageInfo_MediaContent pb by (cases "fst ?s") (simp_all add: Let_def)
    have ps: "ps = fst pb # fst qs"
      using Cons.prems MessageInfo_MediaContent pb qs by (simp add: Let_def)
    have ih: "length (fst qs) = length (media_parts infos) \<and>
      (\<forall>k < length (fst qs). media_stored m False (cp_DBMetadata (fst qs ! k)) (media_parts infos ! k))"
      using Cons.IH [of False "snd ?r" "fst qs" "snd qs"] qs by simp
    have "media_stored m first (cp_DBMetadata (fst pb)) (i, mc)"
      using convert_media_part_stored [OF pb] by simp
    then have "media_stored m (first \<and> k = 0) (cp_DBMetadata (ps ! k)) (((i, mc) # media_parts infos) ! k)"
      if "k < length ps" for k
      using that ih ps by (cases k) auto
    with ih ps MessageInfo_MediaContent show ?thesis by simp
  qed (use Cons in auto)
qed

lemma ConvertGoogleMessage_parts:
  assumes conv: "fst (ConvertGoogleMessage be me env portal m data am gc) = Return (cm, rq)"
    and merge: "am \<longrightarrow> (\<forall>ps. be_MergeCaption be ps = None)"
  shows "\<exists>ps rq'. fst (convert_media_loop be me env portal m (shouldIgnoreStatus (GetStatus m) (po_isDM portal))
          (fst (getTextPart be (env_sha256 env) m) = None) (msg_messageInfo m) gc) = Return (ps, rq') \<and>
    map cp_DBMetadata (co_Parts cm) =
      map cp_DBMetadata (case fst (getTextPart be (env_sha256 env) m) of None \<Rightarrow> [] | Some t \<Rightarrow> [t])
      @ map cp_DBMetadata ps"
proof -
  let ?t = "fst (getTextPart be (env_sha256 env) m)"
  let ?db = "shouldIgnoreStatus (GetStatus m) (po_isDM portal)"
  let ?r = "convert_media_loop be me env portal m ?db (?t = None) (msg_messageInfo m) gc"
  have eqN: "(map_option f ?t = None) = (?t = None)" for f by simp
  obtain ps rq' where r: "fst ?r = Return (ps, rq')"
    using conv unfolding ConvertGoogleMessage_def Let_def fst_conv eqN bind_outcome_Return_iff by auto
  have mc: "merge_caption be am hasText parts = parts" for hasText parts
    using merge by (auto simp: merge_caption_def)
  have dbg: "map cp_DBMetadata (add_debug_data data parts) = map cp_DBMetadata parts" for parts
    by (auto simp: add_debug_data_def split: option.split list.split)
  have "map cp_DBMetadata (co_Parts cm) =
      map cp_DBMetadata ((case map_option (\<lambda>p. p\<lparr>cp_DontBridge := ?db\<rparr>) ?t of None \<Rightarrow> [] | Some t \<Rightarrow> [t]) @ ps)"
    using conv r unfolding ConvertGoogleMessage_def Let_def fst_conv eqN mc by (auto simp: dbg)
  also have "\<dots> = map cp_DBMetadata (case ?t of None \<Rightarrow> [] | Some t \<Rightarrow> [t]) @ map cp_DBMetadata ps"
    by (cases ?t) simp_all
  finally show ?thesis using r by blast
qed

end
