(* ===== verification/Gm_Upsert.thy ===== *)
theory Gm_Upsert
  imports Gm_Convert
begin

text \<open>
  Updates of messages that are already bridged (\<open>MessageEvent.HandleExisting\<close>,
  \<open>MessageUpdateEvent.ConvertEdit\<close> and the \<open>DBMessages\<close> helpers of
  \<open>pkg/connector/handlegmessages.go\<close>).  The lemmas show that a message is notified at most once of
  each kind, that download states never go backwards, when an update is a no-op, and how an edit
  partitions the parts of a message.
\<close>

section \<open>Stored messages\<close>

definition GetMainMeta :: "DBMessage list \<Rightarrow> MessageMetadata" where
  "GetMainMeta dbm = db_Metadata (hd dbm)"

definition HasPendingMedia :: "DBMessage list \<Rightarrow> bool" where
  "HasPendingMedia dbm = list_ex (\<lambda>msg. mm_MediaPending (db_Metadata msg)) dbm"

definition findMediaPart :: "DBMessage list \<Rightarrow> string \<Rightarrow> DBMessage option" where
  "findMediaPart dbm actionMessageID = find (\<lambda>p. mm_MediaPartID (db_Metadata p) = actionMessageID) dbm"


definition media_part_changed :: "DBMessage list \<Rightarrow> MessageInfo \<Rightarrow> bool" where
  "media_part_changed dbm part =
     (case mi_data part of
        MessageInfo_MediaContent mc \<Rightarrow>
          (case findMediaPart dbm (GetActionMessageID part) of
             None \<Rightarrow> True
           | Some existingPart \<Rightarrow> mm_MediaID (db_Metadata existingPart) \<noteq> bestMediaID mc)
      | _ \<Rightarrow> False)"

definition MessageWasEdited :: "bridge_env \<Rightarrow> sha256_fun \<Rightarrow> DBMessage list \<Rightarrow> Message \<Rightarrow> bool" where
  "MessageWasEdited be sha256 dbm new \<longleftrightarrow>
     (\<not> mm_IsOutgoing (GetMainMeta dbm) \<and> list_ex (media_part_changed dbm) (msg_messageInfo new)) \<or>
     mm_TextHash (GetMainMeta dbm) \<noteq> snd (getTextPart be sha256 new)"

definition hasInProgressMedia :: "Message \<Rightarrow> bool" where
  "hasInProgressMedia m = list_ex (\<lambda>part. case mi_data part of
       MessageInfo_MediaContent mc \<Rightarrow> mc_mediaID mc = '''' \<and> mc_thumbnailMediaID mc = ''''
     | _ \<Rightarrow> False) (msg_messageInfo m)"

section \<open>Names of readers\<close>

record nameList =
  nl_visible :: "string list"
  nl_invisible :: "string list"

definition nameList_Add :: "string \<Rightarrow> bool \<Rightarrow> nameList \<Rightarrow> nameList" where
  "nameList_Add i visible nl =
     (if visible then nl\<lparr>nl_visible := nl_visible nl @ [i]\<rparr> else nl\<lparr>nl_invisible := nl_invisible nl @ [i]\<rparr>)"

definition nameList_Pop :: "nameList \<Rightarrow> string \<times> nameList" where
  "nameList_Pop nl =
     (case nl_visible nl of
        x # xs \<Rightarrow> (x, nl\<lparr>nl_visible := xs\<rparr>)
      | [] \<Rightarrow> (case nl_invisible nl of x # xs \<Rightarrow> (x, nl\<lparr>nl_invisible := xs\<rparr>) | [] \<Rightarrow> ('''', nl)))"

type_synonym names = "(string \<times> nameList) list"

definition participant_name :: "Participant \<Rightarrow> string" where
  "participant_name p = (if pt_firstName p = '''' then pt_formattedNumber p else pt_firstName p)"

definition names_step :: "names \<Rightarrow> Participant \<Rightarrow> names" where
  "names_step out p =
     (let name = participant_name p in
      if pt_isMe p \<or> name = '''' \<or> GetParticipantID p = '''' then out
      else AList.update name
             (nameList_Add (GetParticipantID p) (pt_isVisible p)
               (case map_of out name of None \<Rightarrow> \<lparr>nl_visible = [], nl_invisible = []\<rparr> | Some nl \<Rightarrow> nl)) out)"

definition getNamesFromChatInfo :: "Conversation \<Rightarrow> names" where
  "getNamesFromChatInfo chatInfo = foldl names_step [] (cv_participants chatInfo)"

fun read_by_loop :: "names \<Rightarrow> string list \<Rightarrow> string list" where
  "read_by_loop names [] = []"
| "read_by_loop names (n # ns) =
     (let name = trim_space n
      in case map_of names name of
           None \<Rightarrow> read_by_loop names ns
         | Some nl \<Rightarrow>
             let r = nameList_Pop nl; rest = read_by_loop (AList.update name (snd r) names) ns
             in if fst r \<noteq> '''' then fst r # rest else rest)"

section \<open>Updates\<close>

datatype SubEvent =
    SE_ReactionSync
  | SE_Edit bool
  | SE_DeliveryReceipt EventSender "string list"
  | SE_ReadReceipt EventSender string

record UpsertResult =
  ur_SubEvents :: "SubEvent list"
  ur_SaveParts :: bool
  ur_ContinueMessageHandling :: bool

record StatusInfo =
  si_RoomID :: string
  si_SourceEventID :: string
  si_NewEventID :: string
  si_Sender :: string
  si_StreamOrder :: int

text \<open>What an update does besides its result: deleting the stored parts, redacting the events of the
  old room, and sending a message status (of success, with or without a list of recipients, or of
  failure, with its code and message).\<close>

datatype upsert_effect =
    UE_DeleteAllParts string string
  | UE_Redact string
  | UE_StatusSuccess bool StatusInfo
  | UE_StatusFail string string StatusInfo

definition empty_result :: UpsertResult where
  "empty_result = \<lparr>ur_SubEvents = [], ur_SaveParts = False, ur_ContinueMessageHandling = False\<rparr>"

definition DeleteAndResendThreshold :: duration where
  "DeleteAndResendThreshold = 7 * 24 * hour"

definition needsMSSEvent :: "MessageMetadata \<Rightarrow> MessageStatusType \<Rightarrow> bool" where
  "needsMSSEvent meta s \<longleftrightarrow> mm_IsOutgoing meta \<and> \<not> mm_MSSSent meta \<and> isSuccessfullySentStatus s"

definition needsMSSFailureEvent :: "MessageMetadata \<Rightarrow> MessageStatusType \<Rightarrow> bool" where
  "needsMSSFailureEvent meta s \<longleftrightarrow> \<not> mm_MSSFailSent meta \<and> \<not> mm_MSSSent meta \<and> getFailMessage s \<noteq> ''''"

definition needsMSSDeliveryEvent :: "MessageMetadata \<Rightarrow> bool \<Rightarrow> MessageStatusType \<Rightarrow> bool" where
  "needsMSSDeliveryEvent meta isDM s \<longleftrightarrow> \<not> mm_MSSDeliverySent meta \<and> isDM \<and>
     (s = MessageStatusType_OUTGOING_DELIVERED \<or> s = MessageStatusType_OUTGOING_DISPLAYED)"

definition needsReadReceipt :: "MessageMetadata \<Rightarrow> bool \<Rightarrow> MessageStatusType \<Rightarrow> bool" where
  "needsReadReceipt meta isDM s \<longleftrightarrow> \<not> mm_ReadReceiptSent meta \<and> isDM \<and> s = MessageStatusType_OUTGOING_DISPLAYED"

definition read_by_prefix :: string where
  "read_by_prefix = ''Read by ''"

definition needsGroupReadReceipt :: "MessageMetadata \<Rightarrow> bool \<Rightarrow> Message \<Rightarrow> bool" where
  "needsGroupReadReceipt meta isDM m \<longleftrightarrow> \<not> isDM \<and> GetStatus m = MessageStatusType_OUTGOING_DISPLAYED \<and>
     GetStatusText m \<noteq> mm_GlobalStatusText meta \<and> has_prefix (GetStatusText m) read_by_prefix"

definition needsSomeMSSEvent :: "MessageMetadata \<Rightarrow> bool \<Rightarrow> MessageStatusType \<Rightarrow> bool" where
  "needsSomeMSSEvent meta isDM s \<longleftrightarrow> needsMSSEvent meta s \<or> needsMSSFailureEvent meta s \<or>
     needsMSSDeliveryEvent meta isDM s \<or> needsReadReceipt meta isDM s"

definition chatIDChanged :: "Portal \<Rightarrow> DBMessage list \<Rightarrow> bool" where
  "chatIDChanged portal dbm \<longleftrightarrow> pky_ID (db_Room (hd dbm)) \<noteq> pky_ID (po_PortalKey portal)"

definition doMessageResync ::
  "bridge_env \<Rightarrow> sha256_fun \<Rightarrow> Portal \<Rightarrow> Message \<Rightarrow> DBMessage list \<Rightarrow> bool" where
  "doMessageResync be sha256 portal m dbm \<longleftrightarrow>
     chatIDChanged portal dbm \<or>
     mm_GlobalMediaStatus (GetMainMeta dbm) \<noteq> downloadPendingStatusMessage (GetStatus m) \<or>
     (HasPendingMedia dbm \<and> \<not> hasInProgressMedia m) \<or>
     MessageWasEdited be sha256 dbm m \<or>
     mm_GlobalPartCount (GetMainMeta dbm) \<noteq> int (length (msg_messageInfo m))"

definition status_info :: "Portal \<Rightarrow> Message \<Rightarrow> DBMessage \<Rightarrow> StatusInfo" where
  "status_info portal m first =
     \<lparr>si_RoomID = po_MXID portal, si_SourceEventID = GetOrigMXID (db_Metadata first) (db_MXID first),
      si_NewEventID = db_MXID first, si_Sender = db_SenderMXID first,
      si_StreamOrder = MessageEvent_GetStreamOrder m\<rparr>"

text \<open>The message status events: the new metadata and what is sent.\<close>

definition send_mss ::
  "Portal \<Rightarrow> Message \<Rightarrow> DBMessage \<Rightarrow> MessageMetadata \<Rightarrow> MessageMetadata \<times> upsert_effect list" where
  "send_mss portal m first meta =
     (let s = GetStatus m in
      if needsMSSEvent meta s
      then (meta\<lparr>mm_MSSSent := True\<rparr>,
            [UE_StatusSuccess (po_isDM portal \<and> pm_Type (po_Metadata portal) = ConversationType_RCS)
               (status_info portal m first)])
      else if needsMSSFailureEvent meta s
      then (meta\<lparr>mm_MSSFailSent := True\<rparr>,
            case wrapStatusInError s of None \<Rightarrow> []
            | Some cm \<Rightarrow> [UE_StatusFail (fst cm) (snd cm) (status_info portal m first)])
      else (meta, []))"

definition other_user :: "Portal \<Rightarrow> EventSender" where
  "other_user portal = no_sender\<lparr>es_Sender := po_OtherUserID portal\<rparr>"

definition send_delivery ::
  "Portal \<Rightarrow> bool \<Rightarrow> DBMessage \<Rightarrow> MessageMetadata \<Rightarrow> MessageMetadata \<times> SubEvent list" where
  "send_delivery portal needed first meta =
     (if needed
      then (meta\<lparr>mm_MSSDeliverySent := True\<rparr>, [SE_DeliveryReceipt (other_user portal) [db_ID first]])
      else (meta, []))"

definition group_readers :: "Conversation \<Rightarrow> string \<Rightarrow> string list" where
  "group_readers conv statusText =
     read_by_loop (getNamesFromChatInfo conv) (split_str '', '' (trim_prefix statusText read_by_prefix))"

definition send_read ::
  "bridge_env \<Rightarrow> GMClient \<Rightarrow> Portal \<Rightarrow> Message \<Rightarrow> bool \<Rightarrow> bool \<Rightarrow> DBMessage \<Rightarrow> MessageMetadata
    \<Rightarrow> MessageMetadata \<times> SubEvent list" where
  "send_read be gc portal m needsRead needsGroup first meta =
     (if needsRead
      then (meta\<lparr>mm_ReadReceiptSent := True\<rparr>, [SE_ReadReceipt (other_user portal) (db_ID first)])
      else case map_of (gm_chatInfoCache gc) (msg_conversationID m) of
             None \<Rightarrow> (meta, [])
           | Some conv \<Rightarrow>
               if \<not> needsGroup then (meta, [])
               else
                 let newReadBy = group_readers conv (GetStatusText m);
                     addedReads = be_Diff be newReadBy (mm_GroupReadBy meta)
                 in (meta\<lparr>mm_GlobalStatusText := GetStatusText m, mm_GroupReadBy := newReadBy\<rparr>,
                     map (\<lambda>pid. SE_ReadReceipt (makeEventSender gc (msg_conversationID m) pid False False) (db_ID first))
                       addedReads))"

definition redact_old_room :: "bridge_env \<Rightarrow> DBMessage list \<Rightarrow> upsert_effect list" where
  "redact_old_room be dbm =
     (case be_PortalMXID be (db_Room (hd dbm)) of
        Inr (Some mxid) \<Rightarrow> if mxid = '''' then [] else [UE_Redact mxid]
      | _ \<Rightarrow> [])"

definition set_main_meta :: "MessageMetadata \<Rightarrow> DBMessage list \<Rightarrow> DBMessage list" where
  "set_main_meta meta dbm = (case dbm of [] \<Rightarrow> [] | x # xs \<Rightarrow> x\<lparr>db_Metadata := meta\<rparr> # xs)"

text \<open>The part of \<open>HandleExisting\<close> after its early returns.\<close>

definition apply_update ::
  "bridge_env \<Rightarrow> sha256_fun \<Rightarrow> GMClient \<Rightarrow> Portal \<Rightarrow> Message \<Rightarrow> DBMessage list
    \<Rightarrow> UpsertResult \<times> DBMessage list \<times> upsert_effect list" where
  "apply_update be sha256 gc portal m dbm =
     (let first = hd dbm;
          meta = db_Metadata first;
          isDM = po_isDM portal;
          s = GetStatus m;
          moved = chatIDChanged portal dbm;
          base = (if doMessageResync be sha256 portal m dbm then [SE_Edit moved, SE_ReactionSync]
                  else [SE_ReactionSync]);
          mss = send_mss portal m first meta;
          dlv = send_delivery portal (needsMSSDeliveryEvent meta isDM s) first (fst mss);
          rd = send_read be gc portal m (needsReadReceipt meta isDM s) (needsGroupReadReceipt meta isDM m)
                 first (fst dlv)
      in (\<lparr>ur_SubEvents = base @ snd dlv @ snd rd, ur_SaveParts = True, ur_ContinueMessageHandling = False\<rparr>,
          set_main_meta (fst rd) dbm,
          (if moved then redact_old_room be dbm else []) @ snd mss))"

definition HandleExisting ::
  "bridge_env \<Rightarrow> sha256_fun \<Rightarrow> GMClient \<Rightarrow> Portal \<Rightarrow> Message \<Rightarrow> DBMessage list
    \<Rightarrow> UpsertResult \<times> DBMessage list \<times> upsert_effect list" where
  "HandleExisting be sha256 gc portal m dbm =
     (let first = hd dbm;
          meta = db_Metadata first;
          s = GetStatus m;
          syncOnly = empty_result\<lparr>ur_SubEvents := [SE_ReactionSync]\<rparr>
      in if downloadStatusRank s < downloadStatusRank (mm_Type meta) then (empty_result, dbm, [])
         else if time_sub (UnixMicro (msg_timestamp m)) (db_Timestamp first) > DeleteAndResendThreshold
         then (empty_result\<lparr>ur_ContinueMessageHandling := True\<rparr>, dbm,
               [UE_DeleteAllParts (pky_Receiver (po_PortalKey portal)) (db_ID first)])
         else if mm_Type meta = s \<and> \<not> doMessageResync be sha256 portal m dbm \<and>
                 \<not> needsSomeMSSEvent meta (po_isDM portal) s
         then (syncOnly, dbm, [])
         else if chatIDChanged portal dbm \<and> downloadPendingStatusMessage s \<noteq> '''' \<and> \<not> po_isDM portal
         then (empty_result, dbm, [])
         else apply_update be sha256 gc portal m dbm)"

section \<open>Edits\<close>

definition MaxDelayForNewMessagePart :: duration where
  "MaxDelayForNewMessagePart = 24 * hour"

record ConvertedEdit =
  ce_ModifiedParts :: "(ConvertedMessagePart \<times> DBMessage) list"
  ce_DeletedParts :: "DBMessage list"
  ce_AddedParts :: "ConvertedMessagePart list"

definition carry_flags :: "MessageMetadata \<Rightarrow> MessageMetadata \<Rightarrow> MessageMetadata" where
  "carry_flags prevMainMeta newMainMeta = newMainMeta
     \<lparr>mm_IsOutgoing := mm_IsOutgoing prevMainMeta,
      mm_MSSSent := mm_MSSSent prevMainMeta,
      mm_MSSFailSent := mm_MSSFailSent prevMainMeta,
      mm_MSSDeliverySent := mm_MSSDeliverySent prevMainMeta,
      mm_ReadReceiptSent := mm_ReadReceiptSent prevMainMeta\<rparr>"

definition carry_main :: "MessageMetadata \<Rightarrow> ConvertedMessagePart list \<Rightarrow> ConvertedMessagePart list" where
  "carry_main prev parts =
     (case parts of [] \<Rightarrow> [] | p # ps \<Rightarrow> p\<lparr>cp_DBMetadata := carry_flags prev (cp_DBMetadata p)\<rparr> # ps)"

definition existingPartMap :: "DBMessage list \<Rightarrow> (string \<times> DBMessage) list" where
  "existingPartMap existing = foldl (\<lambda>al msg. AList.update (db_PartID msg) msg al) [] existing"

fun edit_loop ::
  "bool \<Rightarrow> (string \<times> DBMessage) list \<Rightarrow> ConvertedMessagePart list
    \<Rightarrow> (ConvertedMessagePart \<times> DBMessage) list \<times> ConvertedMessagePart list \<times> (string \<times> DBMessage) list" where
  "edit_loop allowNew al [] = ([], [], al)"
| "edit_loop allowNew al (p # ps) =
     (case map_of al (cp_ID p) of
        Some e \<Rightarrow>
          let r = edit_loop allowNew (AList.delete (cp_ID p) al) ps
          in ((p, e) # fst r, snd r)
      | None \<Rightarrow>
          let r = edit_loop allowNew al ps
          in (fst r, (if allowNew then p # fst (snd r) else fst (snd r)), snd (snd r)))"

text \<open>
  The partition that \<open>ConvertEdit\<close> makes of the converted and the stored parts.  A conversion without
  any part makes the code index an empty slice.
\<close>

definition edit_parts ::
  "time \<Rightarrow> bool \<Rightarrow> Message \<Rightarrow> ConvertedMessagePart list \<Rightarrow> DBMessage list \<Rightarrow> (go_error, ConvertedEdit) outcome" where
  "edit_parts now moved m parts existing =
     (if parts = [] then Panic ''index out of range [0] with length 0''
      else
        let allowNew = (moved \<or> time_sub now (UnixMicro (msg_timestamp m)) < MaxDelayForNewMessagePart);
            r = edit_loop allowNew (existingPartMap existing) (carry_main (GetMainMeta existing) parts)
        in Return \<lparr>ce_ModifiedParts = fst r, ce_DeletedParts = map snd (snd (snd r)), ce_AddedParts = fst (snd r)\<rparr>)"

definition ConvertEdit ::
  "bridge_env \<Rightarrow> media_env \<Rightarrow> env \<Rightarrow> time \<Rightarrow> Portal \<Rightarrow> bool \<Rightarrow> Message \<Rightarrow> bytes option \<Rightarrow> DBMessage list \<Rightarrow> GMClient
    \<Rightarrow> (go_error, ConvertedEdit) outcome \<times> GMClient" where
  "ConvertEdit be me env now portal moved m data existing gc =
     (let r = ConvertGoogleMessage be me env portal m data (length existing = 1) gc
      in (bind_outcome (fst r) (\<lambda>c. edit_parts now moved m (co_Parts (fst c)) existing), snd r))"


text \<open>The event of an edit: the converted message, the stored parts it replaces, and whether they are in
  another room.  The time of an edit is left open unless the message moved.\<close>

record MessageUpdateEvent =
  mue_Message :: Message
  mue_Data :: "bytes option"
  mue_bundle :: "DBMessage list"
  mue_chatIDChanged :: bool

definition MessageUpdateEvent_GetType :: "MessageUpdateEvent \<Rightarrow> RemoteEventType" where
  "MessageUpdateEvent_GetType evt = RemoteEventEdit"

definition MessageUpdateEvent_GetPortalKey :: "GMClient \<Rightarrow> MessageUpdateEvent \<Rightarrow> PortalKey" where
  "MessageUpdateEvent_GetPortalKey gc evt = MakePortalKey gc (msg_conversationID (mue_Message evt))"

definition MessageUpdateEvent_GetSender :: "GMClient \<Rightarrow> MessageUpdateEvent \<Rightarrow> EventSender" where
  "MessageUpdateEvent_GetSender gc evt = getEventSenderFromMessage gc (mue_Message evt)"

definition MessageUpdateEvent_GetTargetMessage :: "GMClient \<Rightarrow> MessageUpdateEvent \<Rightarrow> string" where
  "MessageUpdateEvent_GetTargetMessage gc evt = MakeMessageID gc (msg_messageID (mue_Message evt))"

definition MessageUpdateEvent_GetTargetDBMessage :: "MessageUpdateEvent \<Rightarrow> DBMessage list" where
  "MessageUpdateEvent_GetTargetDBMessage evt = mue_bundle evt"

definition MessageUpdateEvent_GetTimestamp :: "MessageUpdateEvent \<Rightarrow> time" where
  "MessageUpdateEvent_GetTimestamp evt =
     (if mue_chatIDChanged evt then UnixMicro (msg_timestamp (mue_Message evt)) else zero_time)"

section \<open>Notifications are sent at most once\<close>

datatype notice = N_Success | N_Fail | N_Delivery | N_Read

fun effect_notice :: "upsert_effect \<Rightarrow> notice list" where
  "effect_notice (UE_StatusSuccess _ _) = [N_Success]"
| "effect_notice (UE_StatusFail _ _ _) = [N_Fail]"
| "effect_notice _ = []"

text \<open>Read receipts of a group come from each reader; those of a direct chat count here.\<close>

fun event_notice :: "bool \<Rightarrow> SubEvent \<Rightarrow> notice list" where
  "event_notice isDM (SE_DeliveryReceipt _ _) = [N_Delivery]"
| "event_notice isDM (SE_ReadReceipt _ _) = (if isDM then [N_Read] else [])"
| "event_notice isDM _ = []"

definition notices :: "bool \<Rightarrow> UpsertResult \<Rightarrow> upsert_effect list \<Rightarrow> notice list" where
  "notices isDM r effs = concat (map effect_notice effs) @ concat (map (event_notice isDM) (ur_SubEvents r))"

text \<open>
  The life of a bridged message: updates in any portal and with any state of the login, and edits,
  after which the main part has the metadata that \<open>ConvertEdit\<close> gave it.
\<close>

inductive msg_step :: "bridge_env \<Rightarrow> sha256_fun \<Rightarrow> DBMessage list \<times> notice list \<Rightarrow> DBMessage list \<times> notice list \<Rightarrow> bool"
  for be sha where
  update: "HandleExisting be sha gc portal m dbm = (r, dbm', effs) \<Longrightarrow> dbm \<noteq> [] \<Longrightarrow>
    msg_step be sha (dbm, log) (dbm', log @ notices (po_isDM portal) r effs)"
| edit: "edit_parts now moved m parts dbm = Return ce \<Longrightarrow> dbm \<noteq> [] \<Longrightarrow> dbm' \<noteq> [] \<Longrightarrow>
    GetMainMeta dbm' = cp_DBMetadata (hd (carry_main (GetMainMeta dbm) parts)) \<Longrightarrow>
    msg_step be sha (dbm, log) (dbm', log)"

inductive_cases msg_stepE: "msg_step be sha (dbm, log) s'"

definition flag :: "bool \<Rightarrow> nat" where
  "flag b = (if b then 1 else 0)"

definition notices_inv :: "DBMessage list \<times> notice list \<Rightarrow> bool" where
  "notices_inv s \<longleftrightarrow>
     (let meta = GetMainMeta (fst s); log = snd s
      in fst s \<noteq> [] \<and>
         count_list log N_Success = flag (mm_MSSSent meta) \<and>
         count_list log N_Fail = flag (mm_MSSFailSent meta) \<and>
         count_list log N_Delivery = flag (mm_MSSDeliverySent meta) \<and>
         count_list log N_Read = flag (mm_ReadReceiptSent meta) \<and>
         (\<forall>xs ys. log = xs @ N_Fail # ys \<longrightarrow> N_Success \<notin> set xs))"

lemmas upsert_defs = needsMSSEvent_def needsMSSFailureEvent_def needsMSSDeliveryEvent_def needsReadReceipt_def
  needsSomeMSSEvent_def

definition mss_notice :: "MessageMetadata \<Rightarrow> MessageStatusType \<Rightarrow> notice list" where
  "mss_notice meta s = (if needsMSSEvent meta s then [N_Success] else if needsMSSFailureEvent meta s then [N_Fail] else [])"

definition sent_meta :: "MessageMetadata \<Rightarrow> bool \<Rightarrow> MessageStatusType \<Rightarrow> MessageMetadata \<Rightarrow> bool" where
  "sent_meta meta isDM s meta' \<longleftrightarrow>
     (mm_MSSSent meta' \<longleftrightarrow> mm_MSSSent meta \<or> needsMSSEvent meta s) \<and>
     (mm_MSSFailSent meta' \<longleftrightarrow> mm_MSSFailSent meta \<or> \<not> needsMSSEvent meta s \<and> needsMSSFailureEvent meta s) \<and>
     (mm_MSSDeliverySent meta' \<longleftrightarrow> mm_MSSDeliverySent meta \<or> needsMSSDeliveryEvent meta isDM s) \<and>
     (mm_ReadReceiptSent meta' \<longleftrightarrow> mm_ReadReceiptSent meta \<or> needsReadReceipt meta isDM s)"

lemma send_mss_notice:
  "concat (map effect_notice (snd (send_mss portal m first meta))) = mss_notice meta (GetStatus m)"
proof -
  have "\<exists>c. wrapStatusInError (GetStatus m) = Some c" if "needsMSSFailureEvent meta (GetStatus m)"
    using that by (simp add: wrapStatusInError_def needsMSSFailureEvent_def)
  then show ?thesis by (auto simp: send_mss_def mss_notice_def Let_def)
qed

lemma redact_notice: "concat (map effect_notice (redact_old_room be dbm)) = []"
  by (auto simp: redact_old_room_def split: sum.split option.split)

lemma send_delivery_notice:
  "concat (map (event_notice isDM) (snd (send_delivery portal b first meta))) = (if b then [N_Delivery] else [])"
  by (simp add: send_delivery_def)

lemma send_read_notice:
  "(b1 \<longrightarrow> isDM) \<Longrightarrow> (b2 \<longrightarrow> \<not> isDM) \<Longrightarrow>
   concat (map (event_notice isDM) (snd (send_read be gc portal m b1 b2 first meta))) = (if b1 then [N_Read] else [])"
  by (auto simp: send_read_def Let_def split: option.split)

lemma send_read_flags:
  "mm_MSSSent (fst (send_read be gc portal m b1 b2 first meta)) = mm_MSSSent meta"
  "mm_MSSFailSent (fst (send_read be gc portal m b1 b2 first meta)) = mm_MSSFailSent meta"
  "mm_MSSDeliverySent (fst (send_read be gc portal m b1 b2 first meta)) = mm_MSSDeliverySent meta"
  "mm_ReadReceiptSent (fst (send_read be gc portal m b1 b2 first meta)) = (mm_ReadReceiptSent meta \<or> b1)"
  by (auto simp: send_read_def Let_def split: option.split)

lemma apply_update_notices:
  assumes "dbm \<noteq> []" "apply_update be sha gc portal m dbm = (r, dbm', effs)"
  defines "meta \<equiv> GetMainMeta dbm" and "s \<equiv> GetStatus m" and "isDM \<equiv> po_isDM portal"
  shows "dbm' \<noteq> [] \<and> sent_meta meta isDM s (GetMainMeta dbm') \<and>
    notices isDM r effs = mss_notice meta s
      @ (if needsMSSDeliveryEvent meta isDM s then [N_Delivery] else [])
      @ (if needsReadReceipt meta isDM s then [N_Read] else [])"
proof -
  obtain x xs where dbm: "dbm = x # xs" using assms(1) by (cases dbm) auto
  have meta: "meta = db_Metadata x" by (simp add: meta_def GetMainMeta_def dbm)
  let ?mss = "send_mss portal m x meta"
  let ?dlv = "send_delivery portal (needsMSSDeliveryEvent meta isDM s) x (fst ?mss)"
  let ?rd = "send_read be gc portal m (needsReadReceipt meta isDM s) (needsGroupReadReceipt meta isDM m) x (fst ?dlv)"
  have out: "dbm' = x\<lparr>db_Metadata := fst ?rd\<rparr> # xs"
    "effs = (if chatIDChanged portal dbm then redact_old_room be dbm else []) @ snd ?mss"
    "ur_SubEvents r = (if doMessageResync be sha portal m dbm then [SE_Edit (chatIDChanged portal dbm), SE_ReactionSync]
       else [SE_ReactionSync]) @ snd ?dlv @ snd ?rd"
    using assms(2) by (auto simp: apply_update_def Let_def dbm meta s_def isDM_def set_main_meta_def)
  have n: "needsReadReceipt meta isDM s \<longrightarrow> isDM" "needsGroupReadReceipt meta isDM m \<longrightarrow> \<not> isDM"
    by (simp_all add: needsReadReceipt_def needsGroupReadReceipt_def)
  have "notices isDM r effs = mss_notice meta s
      @ (if needsMSSDeliveryEvent meta isDM s then [N_Delivery] else [])
      @ (if needsReadReceipt meta isDM s then [N_Read] else [])"
    using send_read_notice [OF n] by (simp add: notices_def out(2,3) send_mss_notice s_def redact_notice send_delivery_notice)
  moreover have "sent_meta meta isDM s (GetMainMeta dbm')"
    by (simp add: out(1) GetMainMeta_def sent_meta_def send_read_flags send_delivery_def send_mss_def Let_def
        s_def [symmetric])
  ultimately show ?thesis by (simp add: out(1))
qed


lemma HandleExisting_cases:
  "HandleExisting be sha gc portal m dbm = apply_update be sha gc portal m dbm \<or>
   (\<exists>r effs. HandleExisting be sha gc portal m dbm = (r, dbm, effs) \<and> notices isDM r effs = [] \<and>
      (\<forall>moved. SE_Edit moved \<notin> set (ur_SubEvents r)))"
  by (simp add: HandleExisting_def Let_def notices_def empty_result_def)

lemma log_no_fail_append:
  assumes "\<forall>xs ys. log = xs @ N_Fail # ys \<longrightarrow> N_Success \<notin> set xs"
    and "N_Fail \<in> set new \<longrightarrow> N_Success \<notin> set log"
    and "\<forall>xs ys. new = xs @ N_Fail # ys \<longrightarrow> N_Success \<notin> set xs"
  shows "\<forall>xs ys. log @ new = xs @ N_Fail # ys \<longrightarrow> N_Success \<notin> set xs"
proof (intro allI impI)
  fix xs ys
  assume "log @ new = xs @ N_Fail # ys"
  then consider us where "log = xs @ us" "us @ new = N_Fail # ys" | us where "xs = log @ us" "new = us @ N_Fail # ys"
    by (auto simp: append_eq_append_conv2)
  then show "N_Success \<notin> set xs"
  proof cases
    case 1
    then show ?thesis using assms(1,2) by (cases us) auto
  next
    case 2
    then have "N_Fail \<in> set new" "N_Success \<notin> set us" using assms(3) by auto
    with 2 assms(2) show ?thesis by auto
  qed
qed

lemma notices_inv_apply:
  assumes inv: "notices_inv (dbm, log)" and upd: "apply_update be sha gc portal m dbm = (r, dbm', effs)"
  shows "notices_inv (dbm', log @ notices (po_isDM portal) r effs)"
proof -
  let ?meta = "GetMainMeta dbm" and ?s = "GetStatus m" and ?dm = "po_isDM portal"
  have "dbm \<noteq> []" using inv by (simp add: notices_inv_def Let_def)
  note a = apply_update_notices [OF this upd]
  define new where "new = notices ?dm r effs"
  have new: "new = mss_notice ?meta ?s @ (if needsMSSDeliveryEvent ?meta ?dm ?s then [N_Delivery] else [])
      @ (if needsReadReceipt ?meta ?dm ?s then [N_Read] else [])"
    using a by (simp add: new_def)
  have fail: "N_Fail \<in> set new \<longrightarrow> N_Success \<notin> set log"
  proof
    assume "N_Fail \<in> set new"
    then have "\<not> mm_MSSSent ?meta" by (auto simp: new mss_notice_def needsMSSFailureEvent_def split: if_splits)
    then have "count_list log N_Success = 0" using inv by (simp add: notices_inv_def Let_def flag_def)
    then show "N_Success \<notin> set log" by (simp add: count_list_0_iff)
  qed
  have order: "\<forall>xs ys. new = xs @ N_Fail # ys \<longrightarrow> N_Success \<notin> set xs"
    by (auto simp: new mss_notice_def Cons_eq_append_conv append_eq_Cons_conv split: if_splits)
  have "\<forall>xs ys. log @ new = xs @ N_Fail # ys \<longrightarrow> N_Success \<notin> set xs"
    using inv fail order by (intro log_no_fail_append) (simp_all add: notices_inv_def Let_def)
  moreover have "count_list (log @ new) N_Success = flag (mm_MSSSent (GetMainMeta dbm'))"
    "count_list (log @ new) N_Fail = flag (mm_MSSFailSent (GetMainMeta dbm'))"
    "count_list (log @ new) N_Delivery = flag (mm_MSSDeliverySent (GetMainMeta dbm'))"
    "count_list (log @ new) N_Read = flag (mm_ReadReceiptSent (GetMainMeta dbm'))"
    using inv a by (simp_all add: new notices_inv_def sent_meta_def Let_def flag_def mss_notice_def upsert_defs)
  ultimately show ?thesis using a by (simp add: notices_inv_def Let_def new_def)
qed

lemma notices_inv_step: "msg_step be sha s s' \<Longrightarrow> notices_inv s \<Longrightarrow> notices_inv s'"
proof (induction rule: msg_step.induct)
  case (update gc portal m dbm r dbm' effs log)
  consider "HandleExisting be sha gc portal m dbm = apply_update be sha gc portal m dbm"
    | "dbm' = dbm" "notices (po_isDM portal) r effs = []"
    using HandleExisting_cases [of be sha gc portal m dbm "po_isDM portal"] update.hyps(1) by auto
  then show ?case
    using update notices_inv_apply by cases auto
next
  case (edit now moved m parts dbm ce dbm' log)
  obtain p ps where "parts = p # ps" using edit.hyps(1) by (cases parts) (simp_all add: edit_parts_def)
  then show ?case using edit by (simp add: notices_inv_def Let_def carry_main_def carry_flags_def)
qed

lemma notices_inv_reachable: "(msg_step be sha)\<^sup>*\<^sup>* s s' \<Longrightarrow> notices_inv s \<Longrightarrow> notices_inv s'"
  by (induction rule: rtranclp_induct) (auto dest: notices_inv_step)


definition sample_portal :: "bool \<Rightarrow> Portal" where
  "sample_portal isDM = \<lparr>po_PortalKey = \<lparr>pky_ID = ''1.c'', pky_Receiver = ''alice''\<rparr>, po_MXID = ''!r'', po_isDM = isDM,
     po_OtherUserID = ''1.5'', po_Metadata = \<lparr>pm_Type = ConversationType_RCS,
       pm_SendMode = ConversationSendMode_SEND_MODE_AUTO, pm_ForceRCS = False, pm_OutgoingID = ''1''\<rparr>\<rparr>"

definition sample_bridge_env :: bridge_env where
  "sample_bridge_env = \<lparr>be_TextToHTML = (\<lambda>s. s), be_EnsureHasHTML = (\<lambda>c. c), be_MergeCaption = (\<lambda>_. None),
     be_mime_Detect = (\<lambda>_. ''''), be_mime_Lookup = (\<lambda>_. Some ''''), be_ffmpeg_Supported = False,
     be_ffmpeg_Convert = (\<lambda>d _. Inr d), be_UploadMedia = (\<lambda>_ _ _ _. Inr ''mxc''),
     be_Diff = (\<lambda>a b. filter (\<lambda>x. x \<notin> set b) a), be_PortalMXID = (\<lambda>_. Inr None), be_LastMessage = (\<lambda>_ _. Inr None),
     be_format_order = MimeToMediaType\<rparr>"

definition sample_text :: "MessageStatusType \<Rightarrow> string \<Rightarrow> Message" where
  "sample_text s statusText = \<lparr>msg_messageID = ''7'', msg_messageStatus = Some \<lparr>ms_status = s, ms_statusText = statusText\<rparr>,
     msg_timestamp = 0, msg_conversationID = ''c'', msg_participantID = ''1'',
     msg_messageInfo = [\<lparr>mi_actionMessageID = None, mi_data = MessageInfo_MessageContent ''hi''\<rparr>],
     msg_tmpID = '''', msg_subject = None, msg_reactions = [], msg_replyMessage = None\<rparr>"

definition sample_stored :: "MessageStatusType \<Rightarrow> DBMessage" where
  "sample_stored s = \<lparr>db_ID = ''1.7'', db_PartID = '''', db_MXID = ''$e'', db_Room = \<lparr>pky_ID = ''1.c'', pky_Receiver = ''alice''\<rparr>,
     db_SenderID = ''1.1'', db_SenderMXID = ''@alice'', db_Timestamp = 0,
     db_Metadata = zero_metadata\<lparr>mm_Type := s, mm_IsOutgoing := True, mm_GlobalPartCount := 1,
       mm_TextHash := snd (getTextPart sample_bridge_env (\<lambda>_. 0) (sample_text s ''''))\<rparr>\<rparr>"



section \<open>An update that changes nothing is quiet\<close>

text \<open>The metadata stored for a converted message that was not merged.\<close>

definition stored_as :: "bridge_env \<Rightarrow> sha256_fun \<Rightarrow> Message \<Rightarrow> DBMessage list \<Rightarrow> bool" where
  "stored_as be sha m dbm \<longleftrightarrow>
     (let meta = GetMainMeta dbm in
      mm_Type meta = GetStatus m \<and> mm_GlobalMediaStatus meta = downloadPendingStatusMessage (GetStatus m) \<and>
      mm_GlobalPartCount meta = int (length (msg_messageInfo m)) \<and>
      mm_TextHash meta = snd (getTextPart be sha m) \<and> \<not> mm_IsOutgoing meta) \<and>
     (\<forall>im \<in> set (media_parts (msg_messageInfo m)). \<exists>e \<in> set dbm.
        mm_MediaPartID (db_Metadata e) = GetActionMessageID (fst im)) \<and>
     (\<forall>e \<in> set dbm. mm_MediaPartID (db_Metadata e) \<noteq> '''' \<longrightarrow>
        (\<exists>im \<in> set (media_parts (msg_messageInfo m)).
           mm_MediaPartID (db_Metadata e) = GetActionMessageID (fst im) \<and> mm_MediaID (db_Metadata e) = bestMediaID (snd im)))"

lemma media_stored_fields:
  assumes "media_stored m first meta im"
  shows "mm_Type meta = GetStatus m" "mm_MediaPartID meta = GetActionMessageID (fst im)"
    "mm_MediaID meta = bestMediaID (snd im)" "mm_TextHash meta = ''''" "\<not> mm_IsOutgoing meta"
    "first \<Longrightarrow> mm_GlobalMediaStatus meta = downloadPendingStatusMessage (GetStatus m)"
    "first \<Longrightarrow> mm_GlobalPartCount meta = int (length (msg_messageInfo m))"
  using assms by (auto simp: media_stored_def media_meta_def zero_metadata_def Let_def split: if_splits)

lemma converted_stored_as:
  assumes conv: "fst (ConvertGoogleMessage be me env portal m data am gc) = Return (cm, rq)"
    and merge: "am \<longrightarrow> (\<forall>ps. be_MergeCaption be ps = None)"
    and stored: "map db_Metadata dbm = map cp_DBMetadata (co_Parts cm)" "dbm \<noteq> []"
  shows "stored_as be (env_sha256 env) m dbm"
proof -
  let ?sha = "env_sha256 env"
  let ?t = "fst (getTextPart be ?sha m)" and ?ims = "media_parts (msg_messageInfo m)"
  obtain ps rq' where loop: "fst (convert_media_loop be me env portal m (shouldIgnoreStatus (GetStatus m) (po_isDM portal))
          (?t = None) (msg_messageInfo m) gc) = Return (ps, rq')"
    and metas: "map db_Metadata dbm = map cp_DBMetadata (case ?t of None \<Rightarrow> [] | Some t \<Rightarrow> [t]) @ map cp_DBMetadata ps"
    using ConvertGoogleMessage_parts [OF conv merge] stored(1) by auto
  note media = convert_media_loop_stored [OF loop]
  define tm where "tm = map cp_DBMetadata (case ?t of None \<Rightarrow> [] | Some t \<Rightarrow> [t])"
  have sets: "db_Metadata ` set dbm = set tm \<union> cp_DBMetadata ` set ps"
    using arg_cong [OF metas, of set] by (simp add: tm_def image_Un)
  have ex1: "\<exists>e \<in> set dbm. mm_MediaPartID (db_Metadata e) = GetActionMessageID (fst im)" if im: "im \<in> set ?ims" for im
  proof -
    obtain k where "k < length ?ims" "?ims ! k = im" using im by (auto simp: in_set_conv_nth)
    with media have k: "k < length ps" "im = ?ims ! k" by simp_all
    with media have "media_stored m (?t = None \<and> k = 0) (cp_DBMetadata (ps ! k)) im" by simp
    then have "mm_MediaPartID (cp_DBMetadata (ps ! k)) = GetActionMessageID (fst im)"
      by (rule media_stored_fields(2))
    moreover have "cp_DBMetadata (ps ! k) \<in> db_Metadata ` set dbm" using k(1) sets by auto
    ultimately show ?thesis by auto
  qed
  have tm: "tm = [] \<or> (\<exists>meta. tm = [meta] \<and> mm_MediaPartID meta = '''')"
    using getTextPart_Some [of be ?sha m] by (cases ?t) (auto simp: tm_def zero_metadata_def)
  have ex2: "\<exists>im \<in> set ?ims. mm_MediaPartID (db_Metadata e) = GetActionMessageID (fst im) \<and>
      mm_MediaID (db_Metadata e) = bestMediaID (snd im)"
    if "e \<in> set dbm" "mm_MediaPartID (db_Metadata e) \<noteq> ''''" for e
  proof -
    have "db_Metadata e \<in> set tm \<union> cp_DBMetadata ` set ps" using that(1) by (simp flip: sets)
    then have "db_Metadata e \<in> cp_DBMetadata ` set ps" using tm that(2) by auto
    then obtain k where k: "k < length ps" "db_Metadata e = cp_DBMetadata (ps ! k)" by (auto simp: in_set_conv_nth)
    with media have "media_stored m (?t = None \<and> k = 0) (db_Metadata e) (?ims ! k)" "?ims ! k \<in> set ?ims" by simp_all
    then show ?thesis using media_stored_fields(2,3) by blast
  qed
  have main: "GetMainMeta dbm = hd (tm @ map cp_DBMetadata ps)"
    using metas stored(2) unfolding tm_def [symmetric] GetMainMeta_def by (metis hd_map)
  have "mm_Type (GetMainMeta dbm) = GetStatus m \<and>
      mm_GlobalMediaStatus (GetMainMeta dbm) = downloadPendingStatusMessage (GetStatus m) \<and>
      mm_GlobalPartCount (GetMainMeta dbm) = int (length (msg_messageInfo m)) \<and>
      mm_TextHash (GetMainMeta dbm) = snd (getTextPart be ?sha m) \<and> \<not> mm_IsOutgoing (GetMainMeta dbm)"
  proof (cases ?t)
    case (Some t)
    then show ?thesis using getTextPart_Some [OF Some] by (simp add: main tm_def zero_metadata_def)
  next
    case None
    then have "ps \<noteq> []" using metas stored(2) by (auto simp: tm_def)
    with None media have "media_stored m True (cp_DBMetadata (ps ! 0)) (?ims ! 0)" by auto
    note f = media_stored_fields [OF this]
    have "GetMainMeta dbm = cp_DBMetadata (ps ! 0)"
      using None \<open>ps \<noteq> []\<close> by (simp add: main tm_def hd_conv_nth)
    with f getTextPart_None [OF None] show ?thesis by simp
  qed
  with ex1 ex2 show ?thesis by (simp add: stored_as_def Let_def)
qed

lemma media_parts_data: "i \<in> set is \<Longrightarrow> mi_data i = MessageInfo_MediaContent mc \<Longrightarrow> (i, mc) \<in> set (media_parts is)"
  by (induction "is") (auto split: MessageInfoData.splits)

lemma stored_as_not_edited:
  assumes st: "stored_as be sha m dbm"
    and ids: "\<forall>im \<in> set (media_parts (msg_messageInfo m)). GetActionMessageID (fst im) \<noteq> ''''"
    and dist: "distinct (map (\<lambda>im. GetActionMessageID (fst im)) (media_parts (msg_messageInfo m)))"
  shows "\<not> MessageWasEdited be sha dbm m"
proof -
  let ?ims = "media_parts (msg_messageInfo m)"
  have "\<not> media_part_changed dbm i" if "i \<in> set (msg_messageInfo m)" for i
  proof (cases "mi_data i")
    case (MessageInfo_MediaContent mc)
    with that have im: "(i, mc) \<in> set ?ims" by (rule media_parts_data)
    then have "\<exists>e \<in> set dbm. mm_MediaPartID (db_Metadata e) = GetActionMessageID i"
      using st by (fastforce simp: stored_as_def)
    then obtain e where e: "findMediaPart dbm (GetActionMessageID i) = Some e"
      unfolding findMediaPart_def using find_None_iff [of _ dbm] by (metis (mono_tags, lifting) option.exhaust)
    then have e': "e \<in> set dbm" "mm_MediaPartID (db_Metadata e) = GetActionMessageID i"
      unfolding findMediaPart_def using find_SomeD by fastforce+
    moreover have "GetActionMessageID i \<noteq> ''''" using ids im by force
    ultimately obtain im' where "im' \<in> set ?ims" "GetActionMessageID i = GetActionMessageID (fst im')"
      "mm_MediaID (db_Metadata e) = bestMediaID (snd im')"
      using st unfolding stored_as_def by metis
    moreover from this have "im' = (i, mc)"
      using im dist by (metis (mono_tags, lifting) distinct_map fst_conv inj_onD)
    ultimately show ?thesis using MessageInfo_MediaContent e by (simp add: media_part_changed_def)
  qed (simp_all add: media_part_changed_def)
  moreover have "mm_TextHash (GetMainMeta dbm) = snd (getTextPart be sha m)"
    using st by (simp add: stored_as_def Let_def)
  ultimately show ?thesis by (auto simp: MessageWasEdited_def list_ex_iff)
qed




section \<open>Merged captions\<close>

text \<open>
  A message with a caption is edited again on every update.  When the text and the medium of a
  message are merged into one part that keeps the metadata of the medium, the text hash that
  identifies the text is lost (the code copies the merged metadata onto itself), so the same message
  arriving again counts as edited, and an edit is queued although nothing changed.
\<close>

lemma merged_caption_is_edited_again:
  assumes conv: "fst (ConvertGoogleMessage be me env portal m data True gc) = Return (cm, rq)"
    and merge: "\<And>t p. \<exists>q. be_MergeCaption be [t, p] = Some [q] \<and> cp_DBMetadata q = cp_DBMetadata p"
    and parts: "msg_messageInfo m = [i1, i2]" "mi_data i1 = MessageInfo_MessageContent txt"
      "mi_data i2 = MessageInfo_MediaContent mc"
    and caption: "fst (getTextPart be (env_sha256 env) m) \<noteq> None" "snd (getTextPart be (env_sha256 env) m) \<noteq> ''''"
    and stored: "map db_Metadata dbm = map cp_DBMetadata (co_Parts cm)" "dbm \<noteq> []"
      "db_Timestamp (hd dbm) = UnixMicro (msg_timestamp m)"
      "pky_ID (db_Room (hd dbm)) = pky_ID (po_PortalKey portal2)"
  shows "SE_Edit False \<in> set (ur_SubEvents (fst (HandleExisting be (env_sha256 env) gc2 portal2 m dbm)))"
proof -
  let ?db = "shouldIgnoreStatus (GetStatus m) (po_isDM portal)"
  obtain t where t: "fst (getTextPart be (env_sha256 env) m) = Some t" using caption(1) by blast
  obtain ps rq' where loop: "fst (convert_media_loop be me env portal m ?db False (msg_messageInfo m) gc) = Return (ps, rq')"
    using conv t unfolding ConvertGoogleMessage_def Let_def fst_conv bind_outcome_Return_iff by auto
  have "media_parts (msg_messageInfo m) = [(i2, mc)]" using parts by simp
  with convert_media_loop_stored [OF loop] obtain p where ps: "ps = [p]" and p: "media_stored m False (cp_DBMetadata p) (i2, mc)"
    by (auto simp: length_Suc_conv)
  obtain q where q: "be_MergeCaption be [t\<lparr>cp_DontBridge := ?db\<rparr>, p] = Some [q]" "cp_DBMetadata q = cp_DBMetadata p"
    using merge by blast
  have dbg: "map cp_DBMetadata (add_debug_data data qs) = map cp_DBMetadata qs" for qs
    by (auto simp: add_debug_data_def split: option.split list.split)
  have "map cp_DBMetadata (co_Parts cm) = [copy_text_meta (cp_DBMetadata p) (cp_DBMetadata p)]"
    using conv t loop ps q by (auto simp: ConvertGoogleMessage_def Let_def merge_caption_def dbg)
  moreover have "copy_text_meta meta meta = meta" for meta by (simp add: copy_text_meta_def)
  ultimately have meta: "GetMainMeta dbm = cp_DBMetadata p" using stored(1,2) by (cases dbm) (auto simp: GetMainMeta_def)
  have "doMessageResync be (env_sha256 env) portal2 m dbm"
    using caption(2) media_stored_fields(4) [OF p] by (simp add: doMessageResync_def MessageWasEdited_def meta)
  moreover have "mm_Type (GetMainMeta dbm) = GetStatus m" using media_stored_fields(1) [OF p] meta by simp
  ultimately show ?thesis
    using stored(3,4) by (simp add: HandleExisting_def Let_def GetMainMeta_def time_sub_def go_simps chatIDChanged_def
        DeleteAndResendThreshold_def apply_update_def)
qed


definition merging_env :: bridge_env where
  "merging_env = sample_bridge_env\<lparr>be_MergeCaption := (\<lambda>ps. case ps of [t, p] \<Rightarrow> Some [p] | _ \<Rightarrow> None)\<rparr>"

definition sample_captioned :: Message where
  "sample_captioned = (sample_text 100 '''')\<lparr>msg_messageInfo :=
     [\<lparr>mi_actionMessageID = None, mi_data = MessageInfo_MessageContent ''hi''\<rparr>,
      \<lparr>mi_actionMessageID = Some ''a1'', mi_data = MessageInfo_MediaContent
         \<lparr>mc_format = 3, mc_mediaID = '''', mc_mediaName = ''x.png'', mc_size = 0, mc_mediaData = [], mc_thumbnailMediaID = '''',
          mc_decryptionKey = [], mc_thumbnailDecryptionKey = [], mc_mimeType = ''''\<rparr>\<rparr>]\<rparr>"

lemma merged_caption_is_edited_again_witness:
  "\<exists>dbm. SE_Edit False \<in> set (ur_SubEvents (fst (HandleExisting merging_env (\<lambda>_. 0) sample_gm (sample_portal True)
     sample_captioned dbm)))"
proof -
  let ?be = merging_env and ?m = sample_captioned
  let ?c = "ConvertGoogleMessage ?be sample_media_env sample_env (sample_portal True) ?m None True sample_gm"
  have t: "fst (getTextPart ?be (\<lambda>_. 0) ?m) \<noteq> None" "snd (getTextPart ?be (\<lambda>_. 0) ?m) \<noteq> ''''"
    by (simp_all add: getTextPart_def Let_def add_download_status_def downloadPendingStatusMessage_def GetStatus_def
        sample_captioned_def sample_text_def text_collect_def text_start_def GetSubject_def text_content_def
        trim_prefix_def text_hash_def hex_bytes_def sum256_def be_bytes_def upt_conv_Cons)
  then obtain p where p: "fst (getTextPart ?be (\<lambda>_. 0) ?m) = Some p" by blast
  have sha: "env_sha256 sample_env = (\<lambda>_. 0)" by (simp add: sample_env_def)
  obtain cm where cm: "fst ?c = Return (cm, [])" "length (co_Parts cm) = 1"
    using p sha by (simp add: ConvertGoogleMessage_def Let_def sample_captioned_def convert_media_part_def
        merge_caption_def merging_env_def add_debug_data_def)
  define dbm where "dbm = [(sample_stored 100)\<lparr>db_Metadata := cp_DBMetadata (hd (co_Parts cm))\<rparr>]"
  have "map db_Metadata dbm = map cp_DBMetadata (co_Parts cm)"
    using cm(2) by (auto simp: dbm_def length_Suc_conv)
  moreover have "\<exists>q. be_MergeCaption ?be [a, b] = Some [q] \<and> cp_DBMetadata q = cp_DBMetadata b" for a b
    by (simp add: merging_env_def)
  moreover obtain i1 i2 mc where "msg_messageInfo ?m = [i1, i2]" "mi_data i1 = MessageInfo_MessageContent ''hi''"
      "mi_data i2 = MessageInfo_MediaContent mc"
    by (simp add: sample_captioned_def)
  moreover have "dbm \<noteq> []" "db_Timestamp (hd dbm) = UnixMicro (msg_timestamp ?m)"
      "pky_ID (db_Room (hd dbm)) = pky_ID (po_PortalKey (sample_portal True))"
    by (simp_all add: sample_captioned_def sample_text_def dbm_def sample_stored_def sample_portal_def UnixMicro_def)
  ultimately have "SE_Edit False \<in> set (ur_SubEvents (fst (HandleExisting ?be (env_sha256 sample_env) sample_gm
      (sample_portal True) ?m dbm)))"
    using t unfolding sha [symmetric] by (intro merged_caption_is_edited_again [OF cm(1)])
  then show ?thesis unfolding sha by blast
qed

section \<open>Read receipts of groups\<close>

text \<open>
  Further readers of a group message can be lost: \<open>HandleExisting\<close> returns early when the stored
  status is the new one and no other notification is due, and the check does not count group read
  receipts.  So once the stored status is \<open>OUTGOING_DISPLAYED\<close>, an update that names new readers sends
  no receipt and does not even store the names.
\<close>

lemma group_read_receipt_lost:
  assumes "needsGroupReadReceipt (GetMainMeta dbm) (po_isDM portal) m"
    and "mm_Type (GetMainMeta dbm) = MessageStatusType_OUTGOING_DISPLAYED"
    and "mm_MSSSent (GetMainMeta dbm) \<or> \<not> mm_IsOutgoing (GetMainMeta dbm)"
    and "\<not> doMessageResync be sha portal m dbm"
    and "time_sub (UnixMicro (msg_timestamp m)) (db_Timestamp (hd dbm)) \<le> DeleteAndResendThreshold"
  shows "HandleExisting be sha gc portal m dbm = (empty_result\<lparr>ur_SubEvents := [SE_ReactionSync]\<rparr>, dbm, [])"
proof -
  have "GetStatus m = MessageStatusType_OUTGOING_DISPLAYED" "\<not> po_isDM portal"
    using assms(1) by (simp_all add: needsGroupReadReceipt_def)
  moreover from this have "\<not> needsSomeMSSEvent (GetMainMeta dbm) (po_isDM portal) (GetStatus m)"
    using assms(3) by (auto simp: upsert_defs getFailMessage_def)
  ultimately show ?thesis
    using assms by (simp add: HandleExisting_def Let_def GetMainMeta_def)
qed

lemma group_read_receipt_lost_witness:
  "needsGroupReadReceipt (db_Metadata ((sample_stored 11)\<lparr>db_Metadata := (db_Metadata (sample_stored 11))\<lparr>mm_Type := 11, mm_MSSSent := True\<rparr>\<rparr>))
     False (sample_text 11 ''Read by Bob'') \<and>
   HandleExisting sample_bridge_env (\<lambda>_. 0) sample_gm (sample_portal False) (sample_text 11 ''Read by Bob'')
     [(sample_stored 11)\<lparr>db_Metadata := (db_Metadata (sample_stored 11))\<lparr>mm_Type := 11, mm_MSSSent := True\<rparr>\<rparr>] =
   (empty_result\<lparr>ur_SubEvents := [SE_ReactionSync]\<rparr>,
    [(sample_stored 11)\<lparr>db_Metadata := (db_Metadata (sample_stored 11))\<lparr>mm_Type := 11, mm_MSSSent := True\<rparr>\<rparr>], [])"
proof -
  let ?x = "(sample_stored 11)\<lparr>db_Metadata := (db_Metadata (sample_stored 11))\<lparr>mm_Type := 11, mm_MSSSent := True\<rparr>\<rparr>"
  have n: "needsGroupReadReceipt (db_Metadata ?x) False (sample_text 11 ''Read by Bob'')"
    by (simp add: needsGroupReadReceipt_def sample_text_def GetStatus_def GetStatusText_def sample_stored_def zero_metadata_def
        has_prefix_def read_by_prefix_def)
  have h: "snd (getTextPart sample_bridge_env (\<lambda>_. 0) (sample_text 11 '''')) =
      snd (getTextPart sample_bridge_env (\<lambda>_. 0) (sample_text 11 ''Read by Bob''))"
    by (simp add: getTextPart_def Let_def text_hash_def text_collect_def text_start_def GetSubject_def sample_text_def)
  have "\<not> doMessageResync sample_bridge_env (\<lambda>_. 0) (sample_portal False) (sample_text 11 ''Read by Bob'') [?x]"
    using h by (simp add: doMessageResync_def chatIDChanged_def sample_stored_def sample_portal_def GetMainMeta_def zero_metadata_def
        HasPendingMedia_def MessageWasEdited_def) (simp add: sample_text_def downloadPendingStatusMessage_def GetStatus_def)
  with n show ?thesis
    using group_read_receipt_lost [of "[?x]" "sample_portal False" "sample_text 11 ''Read by Bob''" sample_bridge_env "\<lambda>_. 0" sample_gm]
    by (simp add: GetMainMeta_def sample_stored_def sample_portal_def zero_metadata_def sample_text_def UnixMicro_def time_sub_def
        DeleteAndResendThreshold_def go_simps)
qed


section \<open>Edits partition the parts\<close>

lemma update_new: "k \<notin> fst ` set al \<Longrightarrow> AList.update k v al = al @ [(k, v)]"
  by (induction al) auto

lemma existingPartMap_distinct:
  "distinct (map db_PartID es) \<Longrightarrow> existingPartMap es = map (\<lambda>e. (db_PartID e, e)) es"
proof (induction es rule: rev_induct)
  case (snoc e es)
  have "existingPartMap (es @ [e]) = AList.update (db_PartID e) e (existingPartMap es)"
    by (simp add: existingPartMap_def)
  with snoc show ?case by (subst (asm) update_new) auto
qed (simp add: existingPartMap_def)

lemma edit_loop_spec:
  assumes "distinct (map fst al)" "distinct (map cp_ID ps)"
  shows "map fst (fst (edit_loop allowNew al ps)) = filter (\<lambda>p. cp_ID p \<in> fst ` set al) ps \<and>
    (\<forall>pe \<in> set (fst (edit_loop allowNew al ps)). (cp_ID (fst pe), snd pe) \<in> set al) \<and>
    fst (snd (edit_loop allowNew al ps)) = (if allowNew then filter (\<lambda>p. cp_ID p \<notin> fst ` set al) ps else []) \<and>
    snd (snd (edit_loop allowNew al ps)) = filter (\<lambda>kv. fst kv \<notin> cp_ID ` set ps) al"
  using assms
proof (induction ps arbitrary: al)
  case Nil
  then show ?case by simp
next
  case (Cons p ps)
  let ?k = "cp_ID p"
  have ps: "distinct (map cp_ID ps)" "?k \<notin> cp_ID ` set ps" using Cons.prems(2) by auto
  show ?case
  proof (cases "map_of al ?k")
    case None
    then have "?k \<notin> fst ` set al" by (simp add: map_of_eq_None_iff)
    then have "filter (\<lambda>kv. fst kv \<notin> cp_ID ` set (p # ps)) al = filter (\<lambda>kv. fst kv \<notin> cp_ID ` set ps) al"
      by (intro filter_cong) (force simp: image_iff)+
    then show ?thesis
      using Cons.IH [OF Cons.prems(1) ps(1)] None \<open>?k \<notin> fst ` set al\<close> by (cases allowNew) (simp_all add: Let_def)
  next
    case (Some e)
    let ?al = "AList.delete ?k al"
    have al: "?al = filter (\<lambda>kv. fst kv \<noteq> ?k) al" by (auto simp: AList.delete_eq intro: filter_cong)
    have d: "distinct (map fst ?al)" using Cons.prems(1) by (rule distinct_delete)
    have mem: "(?k, e) \<in> set al" using Some by (rule map_of_SomeD)
    have same: "cp_ID q \<in> fst ` set ?al \<longleftrightarrow> cp_ID q \<in> fst ` set al" if "q \<in> set ps" for q
    proof -
      have "cp_ID q \<noteq> ?k" using that ps(2) by (metis imageI)
      then show ?thesis unfolding al by (auto intro: rev_image_eqI)
    qed
    note ih = Cons.IH [OF d ps(1)]
    have f: "filter (\<lambda>q. cp_ID q \<in> fst ` set ?al) ps = filter (\<lambda>q. cp_ID q \<in> fst ` set al) ps"
      "filter (\<lambda>q. cp_ID q \<notin> fst ` set ?al) ps = filter (\<lambda>q. cp_ID q \<notin> fst ` set al) ps"
      using same by (auto intro!: filter_cong)
    have g: "filter (\<lambda>kv. fst kv \<notin> cp_ID ` set ps) ?al = filter (\<lambda>kv. fst kv \<notin> cp_ID ` set (p # ps)) al"
      unfolding al by (auto intro!: filter_cong)
    have sub: "set ?al \<subseteq> set al" unfolding al by auto
    have k: "?k \<in> fst ` set al" using mem by (metis fst_conv imageI)
    have eq: "edit_loop allowNew al (p # ps) =
      ((p, e) # fst (edit_loop allowNew ?al ps), snd (edit_loop allowNew ?al ps))"
      using Some by (simp add: Let_def)
    from ih [unfolded f g] k mem sub show ?thesis
      unfolding eq by (intro conjI) (simp, fastforce, simp, simp)
  qed
qed



end
