(* ===== verification/Gm_Bridge.thy ===== *)
theory Gm_Bridge
  imports Gm_Convert Gm_Pairing
begin

text \<open>
  The connection of a login as the bridge sees it: the life cycle of the client
  (\<open>pkg/connector/client.go\<close>), the state reported to the user (\<open>pkg/connector/bridgestate.go\<close>), the
  events of the client library (\<open>pkg/connector/handlegmessages.go\<close>, up to \<open>hackyResetActive\<close>) and
  push notifications (\<open>pkg/connector/push.go\<close>).  The lemmas show that the reported state is a function
  of five facts about the connection which the event handler tracks exactly, that no change of them
  goes unreported, and when a handler can crash.
\<close>

section \<open>Bridge states\<close>

definition GMListenError :: string where "GMListenError = ''gm-listen-error''"
definition GMFatalError :: string where "GMFatalError = ''gm-listen-fatal-error''"
definition GMUnpaired :: string where "GMUnpaired = ''gm-unpaired''"
definition GMUnpaired404 :: string where "GMUnpaired404 = ''gm-unpaired-entity-not-found''"
definition GMLoggedOut401 :: string where "GMLoggedOut401 = ''gm-logged-out-401-polling''"
definition GMLoggedOutInvalidCreds :: string where "GMLoggedOutInvalidCreds = ''gm-logged-out-invalid-credentials''"
definition GMLoggedOutNoEmailInConfig :: string where
  "GMLoggedOutNoEmailInConfig = ''gm-logged-out-no-email-in-config''"
definition GMNotLoggedIn :: string where "GMNotLoggedIn = ''gm-not-logged-in''"
definition GMNotLoggedInCanReauth :: string where "GMNotLoggedInCanReauth = ''gm-not-logged-in-can-reauth''"
definition GMConnecting :: string where "GMConnecting = ''gm-connecting''"
definition GMConnectionFailed :: string where "GMConnectionFailed = ''gm-connection-failed''"
definition GMPingFailed :: string where "GMPingFailed = ''gm-ping-failed''"
definition GMBrowserInactive :: string where "GMBrowserInactive = ''gm-browser-inactive''"
definition GMBrowserInactiveTimeout :: string where "GMBrowserInactiveTimeout = ''gm-browser-inactive-timeout''"
definition GMBrowserInactiveInactivity :: string where
  "GMBrowserInactiveInactivity = ''gm-browser-inactive-inactivity''"
definition GMPhoneNotResponding :: string where "GMPhoneNotResponding = ''gm-phone-not-responding''"
definition GMSwitchedToGoogleLogin :: string where "GMSwitchedToGoogleLogin = ''gm-switched-to-google-login''"

lemmas error_code_defs = GMListenError_def GMConnecting_def GMBrowserInactive_def
  GMBrowserInactiveTimeout_def GMBrowserInactiveInactivity_def GMPhoneNotResponding_def GMSwitchedToGoogleLogin_def

datatype StateEvent =
    StateConnected
  | StateConnecting
  | StateBadCredentials
  | StateTransientDisconnect
  | StateUnknownError

text \<open>The additional information of a state: the text of an error, and the facts shown with a
  connected state.\<close>

record state_info =
  in_sims :: "bridgeStateSIMMeta list"
  in_settings :: UserSettings
  in_battery_low :: bool
  in_mobile_data :: bool
  in_browser_active :: bool
  in_google_account_pairing :: bool

record BridgeState =
  bst_StateEvent :: StateEvent
  bst_Error :: string
  bst_UserAction :: string
  bst_go_error :: "string option"
  bst_Info :: "state_info option"

definition bridge_state :: "StateEvent \<Rightarrow> string \<Rightarrow> string option \<Rightarrow> BridgeState" where
  "bridge_state ev err go_err = \<lparr>bst_StateEvent = ev, bst_Error = err, bst_UserAction = '''',
     bst_go_error = go_err, bst_Info = None\<rparr>"

definition connected_state :: BridgeState where
  "connected_state = bridge_state StateConnected '''' None"

text \<open>The text of an error.  A \<open>RequestError\<close> without data panics.\<close>

fun go_error_Error :: "go_error \<Rightarrow> (go_error, string) outcome" where
  "go_error_Error (ErrOpaque _ s) = Return s"
| "go_error_Error (ErrNetwork s) = Return s"
| "go_error_Error (ErrHTTP he) = Return (HTTPError_Error he)"
| "go_error_Error (ErrRequest re) = RequestError_Error re"
| "go_error_Error (ErrWrap s e) = bind_outcome (go_error_Error e) (\<lambda>t. Return (s @ '': '' @ t))"

definition UserActionOpenNative :: string where "UserActionOpenNative = ''OPEN_NATIVE''"

definition fill_ready :: "GMClient \<Rightarrow> BridgeState \<Rightarrow> BridgeState" where
  "fill_ready gc s =
     (if \<not> gm_ready gc then s\<lparr>bst_StateEvent := StateConnecting, bst_Error := GMConnecting\<rparr> else s)"

definition fill_phone :: "GMClient \<Rightarrow> BridgeState \<Rightarrow> BridgeState" where
  "fill_phone gc s =
     (if \<not> gm_PhoneResponding gc
      then s\<lparr>bst_StateEvent := StateBadCredentials, bst_Error := GMPhoneNotResponding,
             bst_UserAction := UserActionOpenNative\<rparr>
      else s)"

definition fill_switched :: "GMClient \<Rightarrow> BridgeState \<Rightarrow> BridgeState" where
  "fill_switched gc s =
     (if gm_SwitchedToGoogleLogin gc
      then s\<lparr>bst_StateEvent := StateBadCredentials, bst_Error := GMSwitchedToGoogleLogin\<rparr> else s)"

definition fill_listen :: "GMClient \<Rightarrow> BridgeState \<Rightarrow> (go_error, BridgeState) outcome" where
  "fill_listen gc s =
     (case gm_longPollingError gc of
        None \<Rightarrow> Return s
      | Some err \<Rightarrow> bind_outcome (go_error_Error err) (\<lambda>t. Return
          (s\<lparr>bst_StateEvent := StateTransientDisconnect, bst_Error := GMListenError, bst_go_error := Some t\<rparr>)))"

definition fill_inactive :: "GMClient \<Rightarrow> BridgeState \<Rightarrow> BridgeState" where
  "fill_inactive gc s =
     (if gm_browserInactiveType gc \<noteq> ''''
      then s\<lparr>bst_StateEvent := (if cf_AggressiveReconnect (gm_Config gc) then StateTransientDisconnect
                                else StateBadCredentials),
             bst_Error := gm_browserInactiveType gc\<rparr>
      else s)"

definition state_facts :: "GMClient \<Rightarrow> state_info" where
  "state_facts gc =
     \<lparr>in_sims = GetSIMsForBridgeState (gm_Meta gc), in_settings = ulm_Settings (gm_Meta gc),
      in_battery_low = gm_batteryLow gc, in_mobile_data = gm_mobileData gc,
      in_browser_active = (gm_browserInactiveType gc = ''''),
      in_google_account_pairing = gm_SwitchedToGoogleLogin gc\<rparr>"

definition FillBridgeState :: "GMClient \<Rightarrow> BridgeState \<Rightarrow> (go_error, BridgeState) outcome" where
  "FillBridgeState gc state =
     (if bst_StateEvent state = StateConnected
      then bind_outcome
             (fill_listen gc (fill_switched gc (fill_phone gc (fill_ready gc (state\<lparr>bst_Info := Some (state_facts gc)\<rparr>)))))
             (\<lambda>s. Return (fill_inactive gc s))
      else Return state)"

section \<open>Effects\<close>

text \<open>What a handler does besides changing its own state: report a bridge state, save the login, queue
  an event for the bridge, or start a goroutine.\<close>

record GMChatResync =
  rs_Conv :: Conversation
  rs_AllowBackfill :: bool
  rs_OnlyBackfill :: bool

datatype remote_event =
    RE_Message Message bool "bytes option"
  | RE_Typing PortalKey EventSender duration
  | RE_ChatResync GMChatResync
  | RE_Receipt PortalKey string time

datatype task =
    Task_invalidateSession BridgeState bool
  | Task_hackyResetActive
  | Task_Save
  | Task_syncConversation Conversation string
  | Task_SyncConversations time bool
  | Task_aggressiveSetActive
  | Task_delayedBackfill string nat GMChatResync "remote_event option"

datatype effect =
    Eff_State BridgeState
  | Eff_Save
  | Eff_Queue remote_event
  | Eff_Go task

type_synonym handled = "(go_error, GMClient \<times> effect list) outcome"

section \<open>The life cycle of a login\<close>

definition CurrentSessionID :: "Client \<Rightarrow> string" where
  "CurrentSessionID c = sh_sessionID (cl_sessionHandler c)"

definition not_connected :: go_error where
  "not_connected = ErrText ''not connected''"

definition GMClient_NewClient :: "GMClient \<Rightarrow> GMClient" where
  "GMClient_NewClient gc =
     (case ulm_Session (gm_Meta gc) of
        None \<Rightarrow> gc
      | Some sess \<Rightarrow> gc\<lparr>gm_Client := Some
          (SetAlertTimeoutCount (cf_AlertTimeoutCount (gm_Config gc))
            (SetPingInterval (cf_PingInterval (gm_Config gc))
              (NewClient sess (PublicPushKeys (gm_Meta gc)))))\<rparr>)"

definition LoadUserLogin :: "ConnectorConfig \<Rightarrow> string \<Rightarrow> UserLoginMetadata \<Rightarrow> GMClient" where
  "LoadUserLogin cfg loginID meta = GMClient_NewClient
     \<lparr>gm_Config = cfg, gm_UserLoginID = loginID, gm_Client = None, gm_Meta = meta,
      gm_fullMediaRequests = [], gm_longPollingError = Some not_connected, gm_browserInactiveType = '''',
      gm_SwitchedToGoogleLogin = False, gm_batteryLow = False, gm_mobileData = False, gm_PhoneResponding = True,
      gm_ready = False, gm_sessionID = '''', gm_batteryLowAlertSent = zero_time, gm_pollErrorAlertSent = False,
      gm_phoneNotRespondingAlertSent = False, gm_didHackySetActive = False, gm_noDataReceivedRecently = False,
      gm_lastDataReceived = zero_time, gm_syncingConversations = False, gm_syncingMobileDatabase = False,
      gm_chatInfoCache = [], gm_conversationMeta = []\<rparr>"

definition GMClient_Disconnect :: "GMClient \<Rightarrow> GMClient" where
  "GMClient_Disconnect gc = gc\<lparr>gm_longPollingError := Some not_connected, gm_PhoneResponding := True,
     gm_batteryLow := False, gm_SwitchedToGoogleLogin := False, gm_ready := False, gm_browserInactiveType := '''',
     gm_Client := map_option Disconnect (gm_Client gc)\<rparr>"

definition ResetClient :: "GMClient \<Rightarrow> GMClient" where
  "ResetClient gc = GMClient_NewClient ((GMClient_Disconnect gc)\<lparr>gm_Client := None\<rparr>)"

definition GMClient_IsLoggedIn :: "GMClient \<Rightarrow> bool" where
  "GMClient_IsLoggedIn gc = IsLoggedIn (gm_Client gc)"

definition LogoutRemote :: "pair_env \<Rightarrow> env \<Rightarrow> time \<Rightarrow> GMClient \<Rightarrow> GMClient" where
  "LogoutRemote pe env now gc =
     (let gc1 = (case gm_Client gc of None \<Rightarrow> gc | Some cli \<Rightarrow> put_client (snd (Unpair pe env now cli)) gc);
          gc2 = GMClient_Disconnect gc1
      in gc2\<lparr>gm_Meta := (gm_Meta gc2)\<lparr>ulm_Session := None\<rparr>, gm_Client := None\<rparr>)"

text \<open>Clearing the cookies of the session clears those of the client, which shares it; a missing
  session is dereferenced.\<close>

definition invalidateSession :: "BridgeState \<Rightarrow> bool \<Rightarrow> GMClient \<Rightarrow> handled" where
  "invalidateSession state deleteFull gc =
     (if deleteFull
      then let gc1 = GMClient_Disconnect (gc\<lparr>gm_Meta := (gm_Meta gc)\<lparr>ulm_Session := None\<rparr>\<rparr>)
           in Return (gc1\<lparr>gm_Client := None\<rparr>, [Eff_Save, Eff_State state])
      else case ulm_Session (gm_Meta gc) of
             None \<Rightarrow> Panic ''nil pointer dereference''
           | Some sess \<Rightarrow> Return (GMClient_Disconnect
               (gc\<lparr>gm_Meta := (gm_Meta gc)\<lparr>ulm_Session := Some (SetCookies None sess)\<rparr>,
                   gm_Client := map_option (\<lambda>c. c\<lparr>cl_AuthData := SetCookies None (cl_AuthData c)\<rparr>) (gm_Client gc)\<rparr>),
               [Eff_Save, Eff_State state]))"

definition connect_failed :: "go_error \<Rightarrow> GMClient \<Rightarrow> handled" where
  "connect_failed err gc = bind_outcome (go_error_Error err) (\<lambda>t.
     if errors_Is err (ErrRequest ErrRequestedEntityNotFound)
     then Return (gc, [Eff_Go (Task_invalidateSession (bridge_state StateBadCredentials GMUnpaired404 (Some t)) True)])
     else if errors_Is err (ErrRequest ErrInvalidCredentials)
     then Return (gc, [Eff_Go (Task_invalidateSession
            (bridge_state StateBadCredentials GMLoggedOutInvalidCreds (Some t)) False)])
     else Return (gc, [Eff_State (bridge_state StateUnknownError GMConnectionFailed (Some t))]))"

definition client_email :: "Client \<Rightarrow> string" where
  "client_email c = (case cl_Config c of None \<Rightarrow> '''' | Some cfg \<Rightarrow> cg_Email cfg)"

text \<open>An error of \<open>FetchConfig\<close> is only logged; after a successful one, a Google account without an
  email address has been logged out.\<close>

definition GMClient_Connect :: "env \<Rightarrow> time \<Rightarrow> GMClient \<Rightarrow> handled" where
  "GMClient_Connect env now gc =
     (case gm_Client gc of
        None \<Rightarrow> Return (gc, [Eff_State (bridge_state StateBadCredentials GMNotLoggedIn None)])
      | Some cli \<Rightarrow>
          (case ulm_Session (gm_Meta gc) of
             None \<Rightarrow> Panic ''nil pointer dereference''
           | Some sess \<Rightarrow>
               if IsGoogleAccount sess \<and> \<not> HasCookies (Some sess)
               then Return (gc, [Eff_State (bridge_state StateBadCredentials GMNotLoggedInCanReauth None)])
               else
                 let f = FetchConfig env now cli;
                     gc1 = put_client (snd f) gc;
                     try_connect =
                       (let r = Connect env now (snd f); gc2 = put_client (snd r) gc1
                        in case fst r of None \<Rightarrow> Return (gc2, []) | Some err \<Rightarrow> connect_failed err gc2)
                 in case fst f of
                      Panic p \<Rightarrow> Panic p
                    | Error err \<Rightarrow> try_connect
                    | Return _ \<Rightarrow>
                        if IsGoogleAccount (cl_AuthData (snd f)) \<and> client_email (snd f) = ''''
                        then Return (gc1, [Eff_Go (Task_invalidateSession
                               (bridge_state StateBadCredentials GMLoggedOutNoEmailInConfig None) False)])
                        else try_connect))"

section \<open>Push notifications\<close>

definition GeneratePushKeys :: "bytes \<Rightarrow> bytes \<Rightarrow> bytes \<Rightarrow> UserLoginMetadata \<Rightarrow> UserLoginMetadata" where
  "GeneratePushKeys public auth private ulm = ulm\<lparr>ulm_PushKeys := Some
     \<lparr>spk_Token = '''', spk_P256DH = public, spk_Auth = auth, spk_Private = private\<rparr>\<rparr>"

definition set_push_token :: "string \<Rightarrow> GMClient \<Rightarrow> GMClient" where
  "set_push_token token gc = gc\<lparr>gm_Meta := (gm_Meta gc)
     \<lparr>ulm_PushKeys := map_option (\<lambda>k. k\<lparr>spk_Token := token\<rparr>) (ulm_PushKeys (gm_Meta gc))\<rparr>\<rparr>"

text \<open>\<open>web\<close>: the push type is \<open>PushTypeWeb\<close>; \<open>gen\<close> is the randomness of new keys; \<open>save\<close> the result of
  saving the login.\<close>

definition RegisterPushNotifications ::
  "env \<Rightarrow> time \<Rightarrow> bool \<Rightarrow> string \<Rightarrow> bytes \<times> bytes \<times> bytes \<Rightarrow> go_error option \<Rightarrow> GMClient
    \<Rightarrow> (go_error, go_error option \<times> GMClient) outcome" where
  "RegisterPushNotifications env now web token gen save gc =
     (if \<not> web then Return (Some (ErrText ''unsupported push type''), gc)
      else
        let gc1 = (if ulm_PushKeys (gm_Meta gc) = None
                   then gc\<lparr>gm_Meta := GeneratePushKeys (fst gen) (fst (snd gen)) (snd (snd gen)) (gm_Meta gc)\<rparr>
                   else gc);
            needsUpdate = (map_option spk_Token (ulm_PushKeys (gm_Meta gc1)) \<noteq> Some token);
            gc2 = set_push_token token gc1
        in case (gm_Client gc2, PublicPushKeys (gm_Meta gc2)) of
             (Some cli, Some keys) \<Rightarrow>
               let r = RegisterPush env now keys cli; gc3 = put_client (snd r) gc2
               in (case fst r of
                     Some err \<Rightarrow> Return (Some err, set_push_token '''' gc3)
                   | None \<Rightarrow>
                       if needsUpdate
                       then Return (map_option (ErrWrap ''failed to save user login after updating push keys'') save, gc3)
                       else Return (None, gc3))
           | _ \<Rightarrow> Panic ''nil pointer dereference'')"

text \<open>\<open>None\<close> when the background poll hangs.\<close>

definition GMClient_ConnectBackground :: "env \<Rightarrow> poll_world \<Rightarrow> time \<Rightarrow> GMClient \<Rightarrow> (go_error, GMClient) outcome option" where
  "GMClient_ConnectBackground env pw now gc =
     (case gm_Client gc of
        None \<Rightarrow> Some (Return gc)
      | Some cli \<Rightarrow>
          (case ulm_Session (gm_Meta gc) of
             None \<Rightarrow> Some (Panic ''nil pointer dereference'')
           | Some sess \<Rightarrow>
               if IsGoogleAccount sess \<and> \<not> HasCookies (Some sess) then Some (Return gc)
               else let r = ConnectBackground env pw now cli
                    in case fst r of
                         None \<Rightarrow> None
                       | Some (Panic p) \<Rightarrow> Some (Panic p)
                       | Some _ \<Rightarrow> Some (Return (put_client (snd r) gc))))"

section \<open>Events of the client library\<close>

definition handleAccountChange :: "AccountChangeOrSomethingEvent \<Rightarrow> bool \<Rightarrow> GMClient \<Rightarrow> GMClient \<times> effect list" where
  "handleAccountChange v isFake gc =
     (let switched = ac_Enabled v \<or> isFake;
          gc1 = gc\<lparr>gm_SwitchedToGoogleLogin := switched\<rparr>
      in (if \<not> isFake \<and> \<not> switched then gc1\<lparr>gm_ready := True\<rparr> else gc1, [Eff_State connected_state]))"

text \<open>The end of an alert: reconnect aggressively if the session became inactive, and report.\<close>

definition alert_done :: "bool \<Rightarrow> GMClient \<times> effect list \<Rightarrow> handled" where
  "alert_done becameInactive r = Return (fst r, snd r
     @ (if becameInactive \<and> cf_AggressiveReconnect (gm_Config (fst r)) then [Eff_Go Task_aggressiveSetActive] else [])
     @ [Eff_State connected_state])"

definition browser_active :: "time \<Rightarrow> Client \<Rightarrow> GMClient \<Rightarrow> GMClient \<times> effect list" where
  "browser_active now cli gc =
     (let wasInactive = (gm_browserInactiveType gc \<noteq> '''' \<or> \<not> gm_ready gc);
          newSessionID = CurrentSessionID cli;
          sessionIDChanged = (gm_sessionID gc \<noteq> newSessionID);
          resync = (sessionIDChanged \<or> wasInactive \<or> gm_noDataReceivedRecently gc);
          gc1 = gc\<lparr>gm_pollErrorAlertSent := False, gm_browserInactiveType := '''', gm_ready := True,
                   gm_sessionID := (if resync then newSessionID else gm_sessionID gc),
                   gm_noDataReceivedRecently := False, gm_lastDataReceived := now\<rparr>
      in (gc1, if resync then [Eff_Go (Task_SyncConversations (gm_lastDataReceived gc)
                                 (\<not> sessionIDChanged \<and> \<not> wasInactive))] else []))"

definition battery_low :: "time \<Rightarrow> GMClient \<Rightarrow> GMClient" where
  "battery_low now gc =
     (let gc1 = gc\<lparr>gm_batteryLow := True\<rparr>
      in if time_sub now (gm_batteryLowAlertSent gc) > 30 * minute then gc1\<lparr>gm_batteryLowAlertSent := now\<rparr> else gc1)"

definition battery_restored :: "GMClient \<Rightarrow> GMClient" where
  "battery_restored gc =
     (let gc1 = gc\<lparr>gm_batteryLow := False\<rparr>
      in if gm_batteryLowAlertSent gc \<noteq> zero_time then gc1\<lparr>gm_batteryLowAlertSent := zero_time\<rparr> else gc1)"

definition data_received :: "time \<Rightarrow> GMClient \<Rightarrow> GMClient" where
  "data_received now gc = (if \<not> gm_noDataReceivedRecently gc then gc\<lparr>gm_lastDataReceived := now\<rparr> else gc)"

definition handleUserAlert :: "time \<Rightarrow> AlertType \<Rightarrow> GMClient \<Rightarrow> handled" where
  "handleUserAlert now v gc0 =
     (let gc = data_received now gc0 in
      case v of
        AlertType_BROWSER_INACTIVE \<Rightarrow> alert_done True (gc\<lparr>gm_browserInactiveType := GMBrowserInactive\<rparr>, [])
      | AlertType_BROWSER_ACTIVE \<Rightarrow>
          (case gm_Client gc of
             None \<Rightarrow> Panic ''nil pointer dereference''
           | Some cli \<Rightarrow> alert_done False (browser_active now cli gc))
      | AlertType_MOBILE_DATABASE_SYNC_STARTED \<Rightarrow> alert_done False (gc\<lparr>gm_syncingMobileDatabase := True\<rparr>, [])
      | AlertType_MOBILE_DATABASE_SYNC_COMPLETE \<Rightarrow>
          alert_done False (gc\<lparr>gm_syncingMobileDatabase := False\<rparr>,
            [Eff_Go (Task_SyncConversations (gm_lastDataReceived gc) True)])
      | AlertType_BROWSER_INACTIVE_FROM_TIMEOUT \<Rightarrow>
          alert_done True (gc\<lparr>gm_browserInactiveType := GMBrowserInactiveTimeout\<rparr>, [])
      | AlertType_BROWSER_INACTIVE_FROM_INACTIVITY \<Rightarrow>
          alert_done True (gc\<lparr>gm_browserInactiveType := GMBrowserInactiveInactivity\<rparr>, [])
      | AlertType_MOBILE_DATA_CONNECTION \<Rightarrow> alert_done False (gc\<lparr>gm_mobileData := True\<rparr>, [])
      | AlertType_MOBILE_WIFI_CONNECTION \<Rightarrow> alert_done False (gc\<lparr>gm_mobileData := False\<rparr>, [])
      | AlertType_MOBILE_BATTERY_LOW \<Rightarrow> alert_done False (battery_low now gc, [])
      | AlertType_MOBILE_BATTERY_RESTORED \<Rightarrow> alert_done False (battery_restored gc, [])
      | _ \<Rightarrow> Return (gc, []))"

definition rcs :: "(RCSSettings \<Rightarrow> bool) \<Rightarrow> Settings \<Rightarrow> bool" where
  "rcs f s = (case st_RCSSettings s of None \<Rightarrow> False | Some r \<Rightarrow> f r)"

definition new_settings :: "Settings \<Rightarrow> UserSettings" where
  "new_settings s =
     \<lparr>us_SettingsReceived = True, us_RCSEnabled = rcs rs_isEnabled s, us_ReadReceipts = rcs rs_sendReadReceipts s,
      us_TypingNotifications = rcs rs_showTypingIndicators s, us_IsDefaultSMSApp = rcs rs_isDefaultSMSApp s,
      us_PushNotifications = st_pushEnabled s\<rparr>"

definition handleSettings :: "Settings \<Rightarrow> GMClient \<Rightarrow> GMClient \<times> effect list" where
  "handleSettings settings gc =
     (case st_SIMCards settings of
        None \<Rightarrow> (gc, [])
      | Some sims \<Rightarrow>
          let r = SetSIMs (gm_Meta gc) sims;
              differ = (ulm_Settings (snd r) \<noteq> new_settings settings);
              meta = (if differ then (snd r)\<lparr>ulm_Settings := new_settings settings\<rparr> else snd r)
          in (gc\<lparr>gm_Meta := meta\<rparr>, if fst r \<or> differ then [Eff_Save, Eff_State connected_state] else []))"

definition handle_fatal :: "go_error \<Rightarrow> GMClient \<Rightarrow> handled" where
  "handle_fatal err gc = bind_outcome (go_error_Error err) (\<lambda>t.
     let invalid = errors_Is err (ErrRequest ErrInvalidCredentials) in
     if invalid \<or> t = ''http 401 while polling''
     then Return (gc, [Eff_Go (Task_invalidateSession (bridge_state StateBadCredentials
            (if invalid then GMLoggedOutInvalidCreds else GMLoggedOut401) (Some t)) False)])
     else Return (gc, [Eff_State (bridge_state StateUnknownError GMFatalError (Some t))]))"

definition handle_ping_failed :: "go_error \<Rightarrow> int \<Rightarrow> GMClient \<Rightarrow> handled" where
  "handle_ping_failed err errorCount gc =
     (if errors_Is err (ErrRequest ErrRequestedEntityNotFound)
      then bind_outcome (go_error_Error err) (\<lambda>t. Return (gc, [Eff_Go (Task_invalidateSession
             (bridge_state StateBadCredentials GMUnpaired404 (Some t)) True)]))
      else if errorCount > 1
      then bind_outcome (go_error_Error err) (\<lambda>t.
             Return (gc, [Eff_State (bridge_state StateUnknownError GMPingFailed (Some t))]))
      else Return (gc, []))"

definition handle_message :: "time \<Rightarrow> Message \<Rightarrow> bool \<Rightarrow> bytes option \<Rightarrow> GMClient \<Rightarrow> handled" where
  "handle_message now msg isOld data gc =
     (let last = (if msg_timestamp msg > now div microsecond then UnixMicro (msg_timestamp msg) else now);
          gc1 = gc\<lparr>gm_noDataReceivedRecently := False, gm_lastDataReceived := last\<rparr>
      in if GetStatus msg = MessageStatusType_MESSAGE_DELETED \<and> (gm_syncingMobileDatabase gc \<or> gm_syncingConversations gc)
         then Return (gc1, [])
         else Return (gc1, [Eff_Queue (RE_Message msg isOld data)]))"

definition handle_typing :: "TypingData option \<Rightarrow> GMClient \<Rightarrow> handled" where
  "handle_typing td gc =
     (case td of
        None \<Rightarrow> Panic ''nil pointer dereference''
      | Some evt \<Rightarrow>
          let timeout = (if ty_Type evt = TypingTypes_STOPPED_TYPING then 0 else 15 * second) in
          (case map_of (gm_chatInfoCache gc) (ty_ConversationID evt) of
             None \<Rightarrow> Return (gc, [])
           | Some chatInfo \<Rightarrow>
               let participantID = getPhoneNumberParticipantID (Some chatInfo) (ty_Number evt) in
               if participantID = '''' then Return (gc, [])
               else Return (gc, [Eff_Queue (RE_Typing (MakePortalKey gc (ty_ConversationID evt))
                      (makeEventSender gc '''' participantID False False) timeout)])))"

text \<open>\<open>trace\<close>: the log level is trace.\<close>

definition handleGMEvent :: "time \<Rightarrow> bool \<Rightarrow> event \<Rightarrow> GMClient \<Rightarrow> handled" where
  "handleGMEvent now trace rawEvt gc =
     (case rawEvt of
        Ev_ListenFatalError err \<Rightarrow> handle_fatal err gc
      | Ev_ListenTemporaryError err \<Rightarrow> bind_outcome (go_error_Error err) (\<lambda>t.
          Return (gc\<lparr>gm_longPollingError := Some err, gm_pollErrorAlertSent := True\<rparr>,
            [Eff_State (bridge_state StateTransientDisconnect GMListenError (Some t))]))
      | Ev_ListenRecovered \<Rightarrow>
          Return (gc\<lparr>gm_longPollingError := None, gm_pollErrorAlertSent := False\<rparr>, [Eff_State connected_state])
      | Ev_PhoneNotResponding \<Rightarrow>
          Return (gc\<lparr>gm_PhoneResponding := False,
                     gm_phoneNotRespondingAlertSent := (trace \<or> gm_phoneNotRespondingAlertSent gc)\<rparr>, [Eff_State connected_state])
      | Ev_PhoneRespondingAgain \<Rightarrow>
          Return (gc\<lparr>gm_PhoneResponding := True, gm_phoneNotRespondingAlertSent := False\<rparr>, [Eff_State connected_state])
      | Ev_HackySetActiveMayFail \<Rightarrow> Return (gc, [Eff_Go Task_hackyResetActive])
      | Ev_PingFailed err errorCount \<Rightarrow> handle_ping_failed err errorCount gc
      | Ev_RevokePairData \<Rightarrow>
          Return (gc, [Eff_Go (Task_invalidateSession (bridge_state StateBadCredentials GMUnpaired None) True)])
      | Ev_GaiaLoggedOut \<Rightarrow>
          Return (gc, [Eff_Go (Task_invalidateSession (bridge_state StateBadCredentials GMUnpaired None) True)])
      | Ev_AuthTokenRefreshed \<Rightarrow> Return (gc, [Eff_Go Task_Save])
      | Ev_Conversation conv \<Rightarrow>
          Return (gc\<lparr>gm_chatInfoCache := AList.update (cv_conversationID conv) conv (gm_chatInfoCache gc),
                     gm_noDataReceivedRecently := False, gm_lastDataReceived := now\<rparr>,
            [Eff_Go (Task_syncConversation conv ''event'')])
      | Ev_WrappedMessage msg isOld data \<Rightarrow> handle_message now msg isOld data gc
      | Ev_TypingData td \<Rightarrow> handle_typing td gc
      | Ev_UserAlertEvent v \<Rightarrow> handleUserAlert now v gc
      | Ev_Settings s \<Rightarrow> Return (handleSettings s (data_received now gc))
      | Ev_AccountChange v isFake \<Rightarrow> Return (handleAccountChange v isFake gc)
      | Ev_NoDataReceived \<Rightarrow> Return (gc\<lparr>gm_noDataReceivedRecently := True\<rparr>, [])
      | Ev_PairSuccessful _ _ \<Rightarrow> Return (gc, [])
      | Ev_PairCallback _ \<Rightarrow> Return (gc, []))"

section \<open>Reactivating the session\<close>

definition set_active :: "env \<Rightarrow> time \<Rightarrow> GMClient \<Rightarrow> (go_error, go_error option \<times> GMClient) outcome" where
  "set_active env now gc =
     (case gm_Client gc of
        None \<Rightarrow> Panic ''nil pointer dereference''
      | Some cli \<Rightarrow> let r = SetActiveSession env now cli in Return (fst r, put_client (snd r) gc))"

text \<open>The three attempts; \<open>sleep i\<close> is what the other goroutines do during the \<open>i\<close>-th sleep.\<close>

fun aggressive_loop :: "nat \<Rightarrow> env \<Rightarrow> time \<Rightarrow> (nat \<Rightarrow> GMClient \<Rightarrow> GMClient) \<Rightarrow> nat \<Rightarrow> GMClient \<Rightarrow> (go_error, GMClient) outcome" where
  "aggressive_loop 0 env now sleep i gc = Return gc"
| "aggressive_loop (Suc n) env now sleep i gc =
     (let gc1 = sleep i gc in
      if gm_browserInactiveType gc1 = '''' then Return gc1
      else bind_outcome (set_active env now gc1) (\<lambda>r.
        if fst r = None then Return (snd r) else aggressive_loop n env now sleep (Suc i) (snd r)))"

definition aggressiveSetActive ::
  "env \<Rightarrow> time \<Rightarrow> (nat \<Rightarrow> GMClient \<Rightarrow> GMClient) \<Rightarrow> GMClient \<Rightarrow> (go_error, GMClient) outcome" where
  "aggressiveSetActive env now sleep gc = aggressive_loop 3 env now sleep 0 gc"

definition still_waiting :: "GMClient \<Rightarrow> bool" where
  "still_waiting gc \<longleftrightarrow> \<not> gm_ready gc \<and> gm_PhoneResponding gc \<and> gm_Client gc \<noteq> None"

definition hackyResetActive :: "env \<Rightarrow> time \<Rightarrow> (nat \<Rightarrow> GMClient \<Rightarrow> GMClient) \<Rightarrow> GMClient \<Rightarrow> handled" where
  "hackyResetActive env now sleep gc =
     (if gm_didHackySetActive gc then Return (gc, [])
      else
        let gc1 = sleep 0 (gc\<lparr>gm_didHackySetActive := True, gm_noDataReceivedRecently := False,
                    gm_lastDataReceived := zero_time\<rparr>)
        in if \<not> still_waiting gc1 then Return (gc1, [])
           else bind_outcome (set_active env now gc1) (\<lambda>r.
             let gc2 = sleep 1 (snd r) in
             if still_waiting gc2 then GMClient_Connect env now (ResetClient gc2) else Return (gc2, [])))"

section \<open>The connection as five facts\<close>

text \<open>What the reported state depends on, and how an event changes it.\<close>

record health =
  h_inactive :: string
  h_listen :: "go_error option"
  h_switched :: bool
  h_phone :: bool
  h_ready :: bool

definition health_of :: "GMClient \<Rightarrow> health" where
  "health_of gc = \<lparr>h_inactive = gm_browserInactiveType gc, h_listen = gm_longPollingError gc,
     h_switched = gm_SwitchedToGoogleLogin gc, h_phone = gm_PhoneResponding gc, h_ready = gm_ready gc\<rparr>"

definition healthy :: "health \<Rightarrow> bool" where
  "healthy h \<longleftrightarrow> h_inactive h = '''' \<and> h_listen h = None \<and> \<not> h_switched h \<and> h_phone h \<and> h_ready h"

definition alert_health :: "AlertType \<Rightarrow> health \<Rightarrow> health" where
  "alert_health v h =
     (case v of
        AlertType_BROWSER_ACTIVE \<Rightarrow> h\<lparr>h_inactive := '''', h_ready := True\<rparr>
      | AlertType_BROWSER_INACTIVE \<Rightarrow> h\<lparr>h_inactive := GMBrowserInactive\<rparr>
      | AlertType_BROWSER_INACTIVE_FROM_TIMEOUT \<Rightarrow> h\<lparr>h_inactive := GMBrowserInactiveTimeout\<rparr>
      | AlertType_BROWSER_INACTIVE_FROM_INACTIVITY \<Rightarrow> h\<lparr>h_inactive := GMBrowserInactiveInactivity\<rparr>
      | _ \<Rightarrow> h)"

definition health_step :: "event \<Rightarrow> health \<Rightarrow> health" where
  "health_step e h =
     (case e of
        Ev_ListenTemporaryError err \<Rightarrow> h\<lparr>h_listen := Some err\<rparr>
      | Ev_ListenRecovered \<Rightarrow> h\<lparr>h_listen := None\<rparr>
      | Ev_PhoneNotResponding \<Rightarrow> h\<lparr>h_phone := False\<rparr>
      | Ev_PhoneRespondingAgain \<Rightarrow> h\<lparr>h_phone := True\<rparr>
      | Ev_AccountChange v fake \<Rightarrow>
          h\<lparr>h_switched := (ac_Enabled v \<or> fake), h_ready := (h_ready h \<or> (\<not> ac_Enabled v \<and> \<not> fake))\<rparr>
      | Ev_UserAlertEvent v \<Rightarrow> alert_health v h
      | _ \<Rightarrow> h)"

text \<open>The state and error code that is shown: the first problem of the list, in this order.\<close>

definition shown :: "bool \<Rightarrow> health \<Rightarrow> StateEvent \<times> string" where
  "shown aggressive h =
     (if h_inactive h \<noteq> ''''
      then (if aggressive then StateTransientDisconnect else StateBadCredentials, h_inactive h)
      else if h_listen h \<noteq> None then (StateTransientDisconnect, GMListenError)
      else if h_switched h then (StateBadCredentials, GMSwitchedToGoogleLogin)
      else if \<not> h_phone h then (StateBadCredentials, GMPhoneNotResponding)
      else if \<not> h_ready h then (StateConnecting, GMConnecting)
      else (StateConnected, ''''))"

lemma shown_connected: "fst (shown aggressive h) = StateConnected \<longleftrightarrow> healthy h"
  by (simp add: shown_def healthy_def)

lemma FillBridgeState_shown:
  assumes "FillBridgeState gc connected_state = Return s"
  shows "(bst_StateEvent s, bst_Error s) = shown (cf_AggressiveReconnect (gm_Config gc)) (health_of gc)"
proof -
  let ?s = "fill_switched gc (fill_phone gc (fill_ready gc (connected_state\<lparr>bst_Info := Some (state_facts gc)\<rparr>)))"
  obtain s1 where s1: "fill_listen gc ?s = Return s1" and s: "s = fill_inactive gc s1"
    using assms by (cases "fill_listen gc ?s") (simp_all add: FillBridgeState_def connected_state_def bridge_state_def)
  have "bst_StateEvent s1 = fst (shown b (health_of (gc\<lparr>gm_browserInactiveType := ''''\<rparr>)))
      \<and> bst_Error s1 = snd (shown b (health_of (gc\<lparr>gm_browserInactiveType := ''''\<rparr>)))" for b
  proof (cases "gm_longPollingError gc")
    case None
    with s1 have "s1 = ?s" by (simp add: fill_listen_def)
    then show ?thesis using None
      by (simp add: shown_def health_of_def fill_switched_def fill_phone_def fill_ready_def
          connected_state_def bridge_state_def)
  next
    case (Some err)
    with s1 show ?thesis
      by (cases "go_error_Error err") (auto simp: fill_listen_def shown_def health_of_def)
  qed
  then show ?thesis
    unfolding s by (auto simp: fill_inactive_def shown_def health_of_def)
qed

lemma health_frame [simp]:
  "health_of (gc\<lparr>gm_batteryLow := b\<rparr>) = health_of gc"
  "health_of (gc\<lparr>gm_mobileData := b\<rparr>) = health_of gc"
  "health_of (gc\<lparr>gm_batteryLowAlertSent := t\<rparr>) = health_of gc"
  "health_of (gc\<lparr>gm_syncingMobileDatabase := b\<rparr>) = health_of gc"
  "health_of (gc\<lparr>gm_lastDataReceived := t\<rparr>) = health_of gc"
  "health_of (gc\<lparr>gm_noDataReceivedRecently := b\<rparr>) = health_of gc"
  "health_of (gc\<lparr>gm_Meta := m\<rparr>) = health_of gc"
  "health_of (gc\<lparr>gm_pollErrorAlertSent := b\<rparr>) = health_of gc"
  "health_of (gc\<lparr>gm_phoneNotRespondingAlertSent := b\<rparr>) = health_of gc"
  "health_of (gc\<lparr>gm_sessionID := i\<rparr>) = health_of gc"
  "health_of (gc\<lparr>gm_chatInfoCache := cc\<rparr>) = health_of gc"
  by (simp_all add: health_of_def)

lemma health_change [simp]:
  "health_of (gc\<lparr>gm_browserInactiveType := i\<rparr>) = (health_of gc)\<lparr>h_inactive := i\<rparr>"
  "health_of (gc\<lparr>gm_longPollingError := e\<rparr>) = (health_of gc)\<lparr>h_listen := e\<rparr>"
  "health_of (gc\<lparr>gm_SwitchedToGoogleLogin := b\<rparr>) = (health_of gc)\<lparr>h_switched := b\<rparr>"
  "health_of (gc\<lparr>gm_PhoneResponding := b\<rparr>) = (health_of gc)\<lparr>h_phone := b\<rparr>"
  "health_of (gc\<lparr>gm_ready := b\<rparr>) = (health_of gc)\<lparr>h_ready := b\<rparr>"
  by (simp_all add: health_of_def)

lemma health_helpers [simp]:
  "health_of (data_received now gc) = health_of gc"
  "health_of (battery_low now gc) = health_of gc"
  "health_of (battery_restored gc) = health_of gc"
  "health_of (fst (browser_active now cli gc)) = (health_of gc)\<lparr>h_inactive := '''', h_ready := True\<rparr>"
  "health_of (fst (handleSettings s gc)) = health_of gc"
  by (simp_all add: data_received_def battery_low_def battery_restored_def browser_active_def handleSettings_def
      Let_def split: option.split)

lemma alert_done_Return:
  "alert_done b r = Return (gc', effs) \<longleftrightarrow> gc' = fst r \<and> effs = snd r
     @ (if b \<and> cf_AggressiveReconnect (gm_Config (fst r)) then [Eff_Go Task_aggressiveSetActive] else [])
     @ [Eff_State connected_state]"
  by (auto simp: alert_done_def)

lemma alert_cases:
  assumes "handleUserAlert now v gc = Return (gc', effs)"
  shows "(\<exists>b r. alert_done b r = Return (gc', effs) \<and> health_of (fst r) = alert_health v (health_of gc))
    \<or> (health_of gc' = health_of gc \<and> alert_health v (health_of gc) = health_of gc)"
proof (cases "v = AlertType_BROWSER_ACTIVE")
  case True
  then obtain cli where "alert_done False (browser_active now cli (data_received now gc)) = Return (gc', effs)"
    using assms by (auto simp: handleUserAlert_def Let_def split: option.splits)
  then show ?thesis using True
    by (intro disjI1 exI [of _ False] exI [of _ "browser_active now cli (data_received now gc)"])
       (simp add: alert_health_def)
next
  case False
  have "(\<exists>b g l. handleUserAlert now v gc = alert_done b (g, l) \<and> health_of g = alert_health v (health_of gc))
    \<or> (handleUserAlert now v gc = Return (data_received now gc, []) \<and> alert_health v (health_of gc) = health_of gc)"
    using False
    by (cases v, simp_all only: handleUserAlert_def alert_health_def Let_def AlertType.case simp_thms)
       ((intro disjI1 exI conjI, rule refl, simp) | (rule disjI2, simp))+
  then show ?thesis using assms by (metis fst_conv health_helpers(1) outcome.inject(1))
qed

lemma alert_health_refines:
  assumes "handleUserAlert now v gc = Return (gc', effs)"
  shows "health_of gc' = alert_health v (health_of gc)
    \<and> (health_of gc' = health_of gc \<or> (\<exists>s. Eff_State s \<in> set effs))"
  using alert_cases [OF assms] by (auto simp: alert_done_Return)


lemma handleGMEvent_health:
  assumes "handleGMEvent now trace e gc = Return (gc', effs)"
  shows "health_of gc' = health_step e (health_of gc)
    \<and> (health_of gc' = health_of gc \<or> (\<exists>s. Eff_State s \<in> set effs))"
proof (cases e)
  case (Ev_UserAlertEvent v)
  then show ?thesis
    using assms alert_health_refines [of now v gc gc' effs] by (auto simp: handleGMEvent_def health_step_def)
next
  case (Ev_ListenFatalError err)
  with assms show ?thesis
    by (cases "go_error_Error err")
       (auto simp: handleGMEvent_def health_step_def handle_fatal_def Let_def split: if_splits)
next
  case (Ev_ListenTemporaryError err)
  with assms show ?thesis
    by (cases "go_error_Error err") (auto simp: handleGMEvent_def health_step_def)
next
  case (Ev_PingFailed err n)
  with assms show ?thesis
    by (cases "go_error_Error err")
       (auto simp: handleGMEvent_def health_step_def handle_ping_failed_def split: if_splits)
next
  case (Ev_TypingData td)
  with assms show ?thesis
    by (auto simp: handleGMEvent_def health_step_def handle_typing_def Let_def split: option.splits if_splits)
next
  case (Ev_WrappedMessage msg old data)
  with assms show ?thesis
    by (auto simp: handleGMEvent_def health_step_def handle_message_def Let_def split: if_splits)
next
  case (Ev_AccountChange v fake)
  with assms show ?thesis
    by (auto simp: handleGMEvent_def health_step_def handleAccountChange_def Let_def health_of_def split: if_splits)
next
  case (Ev_Settings s)
  then have "handleSettings s (data_received now gc) = (gc', effs)" using assms by (simp add: handleGMEvent_def)
  then have "health_of gc' = health_of gc" using health_helpers(5) [of s "data_received now gc"] by simp
  with Ev_Settings show ?thesis by (simp add: health_step_def)
qed (use assms in \<open>auto simp: handleGMEvent_def health_step_def\<close>)

text \<open>A component that handles events one at a time, and an abstraction of its state that every event
  changes by a fixed step: after any sequence of events the abstraction is the fold of the steps.\<close>

fun run_handler :: "('e \<Rightarrow> 's \<Rightarrow> (go_error, 's \<times> 'o list) outcome) \<Rightarrow> 'e list \<Rightarrow> 's \<Rightarrow> (go_error, 's \<times> 'o list) outcome" where
  "run_handler handle [] s = Return (s, [])"
| "run_handler handle (e # es) s = bind_outcome (handle e s) (\<lambda>r.
     bind_outcome (run_handler handle es (fst r)) (\<lambda>q. Return (fst q, snd r @ snd q)))"

locale monitor =
  fixes handle :: "'e \<Rightarrow> 's \<Rightarrow> (go_error, 's \<times> 'o list) outcome"
    and view :: "'s \<Rightarrow> 'a"
    and step :: "'e \<Rightarrow> 'a \<Rightarrow> 'a"
    and report :: "'o \<Rightarrow> bool"
  assumes refines: "handle e s = Return (s', os) \<Longrightarrow> view s' = step e (view s)"
    and reports: "handle e s = Return (s', os) \<Longrightarrow> view s' \<noteq> view s \<Longrightarrow> list_ex report os"
begin

lemma run_view: "run_handler handle es s = Return (s', os) \<Longrightarrow> view s' = fold step es (view s)"
proof (induction es arbitrary: s os)
  case (Cons e es)
  obtain r where r: "handle e s = Return r" using Cons.prems by (cases "handle e s") auto
  obtain q where q: "run_handler handle es (fst r) = Return q"
    using Cons.prems r by (cases "run_handler handle es (fst r)") auto
  have "s' = fst q" using Cons.prems r q by simp
  moreover have "view (fst q) = fold step es (view (fst r))" using Cons.IH [of "fst r" "snd q"] q calculation by simp
  moreover have "view (fst r) = step e (view s)" using refines [of e s "fst r" "snd r"] r by simp
  ultimately show ?case by simp
qed simp

lemma run_reports: "run_handler handle es s = Return (s', os) \<Longrightarrow> view s' \<noteq> view s \<Longrightarrow> list_ex report os"
proof (induction es arbitrary: s os)
  case (Cons e es)
  obtain r where r: "handle e s = Return r" using Cons.prems by (cases "handle e s") auto
  obtain q where q: "run_handler handle es (fst r) = Return q"
    using Cons.prems r by (cases "run_handler handle es (fst r)") auto
  have eq: "s' = fst q" "os = snd r @ snd q" using Cons.prems r q by simp_all
  show ?case
  proof (cases "view (fst r) = view s")
    case True
    then show ?thesis using Cons.IH [of "fst r" "snd q"] Cons.prems(2) q eq by (auto simp: list_ex_iff)
  next
    case False
    then show ?thesis using reports [of e s "fst r" "snd r"] r eq by (auto simp: list_ex_iff)
  qed
qed simp

end

definition handle_at :: "bool \<Rightarrow> time \<times> event \<Rightarrow> GMClient \<Rightarrow> handled" where
  "handle_at trace te gc = handleGMEvent (fst te) trace (snd te) gc"

fun is_state :: "effect \<Rightarrow> bool" where
  "is_state (Eff_State _) = True"
| "is_state _ = False"

interpretation gm: monitor "handle_at trace" health_of "\<lambda>te. health_step (snd te)" is_state
proof
  show "health_of s' = health_step (snd e) (health_of s)" if "handle_at trace e s = Return (s', os)" for e s s' os
    using handleGMEvent_health that by (simp add: handle_at_def)
  show "list_ex is_state os" if "handle_at trace e s = Return (s', os)" and "health_of s' \<noteq> health_of s" for e s s' os
    using handleGMEvent_health [of "fst e" trace "snd e" s s' os] that
    by (force simp: handle_at_def list_ex_iff)
qed


text \<open>
  (C34) The reported bridge state follows the connection: after any sequence of events the five facts
  (browser active, listening, account pairing, phone responding, ready) are exactly what the events
  make of them, a state is reported whenever one of them changed, and the state shown is the most
  urgent problem, in this order, so that the login is shown as connected exactly when all five are fine.
\<close>

theorem bridge_state_follows_connection:
  assumes "run_handler (handle_at trace) es gc = Return (gc', effs)"
  shows "health_of gc' = fold (\<lambda>te. health_step (snd te)) es (health_of gc)
    \<and> (health_of gc' \<noteq> health_of gc \<longrightarrow> (\<exists>s. Eff_State s \<in> set effs))
    \<and> (\<forall>s. FillBridgeState gc' connected_state = Return s \<longrightarrow>
         (bst_StateEvent s, bst_Error s) = shown (cf_AggressiveReconnect (gm_Config gc')) (health_of gc') \<and>
         (bst_StateEvent s = StateConnected \<longleftrightarrow> healthy (health_of gc')))"
proof -
  have "\<exists>s. Eff_State s \<in> set effs" if "health_of gc' \<noteq> health_of gc"
  proof -
    have "list_ex is_state effs" using assms that by (rule gm.run_reports)
    then obtain x where "x \<in> set effs" "is_state x" by (auto simp: list_ex_iff)
    then show ?thesis by (metis is_state.elims(2))
  qed
  moreover have "(bst_StateEvent s, bst_Error s) = shown (cf_AggressiveReconnect (gm_Config gc')) (health_of gc') \<and>
      (bst_StateEvent s = StateConnected \<longleftrightarrow> healthy (health_of gc'))"
    if "FillBridgeState gc' connected_state = Return s" for s
    using FillBridgeState_shown [OF that] shown_connected by (metis fst_conv)
  ultimately show ?thesis using gm.run_view [OF assms] by blast
qed

definition sample_bridge_client :: GMClient where
  "sample_bridge_client = LoadUserLogin sample_config ''alice'' (sample_meta\<lparr>ulm_Session := Some sample_auth\<rparr>)"

lemma sample_bridge_run:
  "\<exists>gc' effs. run_handler (handle_at False)
     [(0, Ev_ListenRecovered), (1, Ev_UserAlertEvent AlertType_BROWSER_ACTIVE)] sample_bridge_client = Return (gc', effs)"
  by (simp add: handle_at_def handleGMEvent_def handleUserAlert_def data_received_def alert_done_def Let_def
      sample_bridge_client_def LoadUserLogin_def GMClient_NewClient_def)

theorem bridge_state_follows_connection_witness:
  "\<exists>gc' effs. run_handler (handle_at False)
     [(0, Ev_ListenRecovered), (1, Ev_UserAlertEvent AlertType_BROWSER_ACTIVE)] sample_bridge_client = Return (gc', effs)
     \<and> healthy (health_of gc') \<and> \<not> healthy (health_of sample_bridge_client) \<and> (\<exists>s. Eff_State s \<in> set effs)"
proof -
  obtain gc' effs where r: "run_handler (handle_at False)
     [(0, Ev_ListenRecovered), (1, Ev_UserAlertEvent AlertType_BROWSER_ACTIVE)] sample_bridge_client = Return (gc', effs)"
    using sample_bridge_run by blast
  have h: "health_of sample_bridge_client = \<lparr>h_inactive = '''', h_listen = Some not_connected, h_switched = False,
      h_phone = True, h_ready = False\<rparr>"
    by (simp add: sample_bridge_client_def LoadUserLogin_def GMClient_NewClient_def health_of_def split: option.split)
  have "health_of gc' = \<lparr>h_inactive = '''', h_listen = None, h_switched = False, h_phone = True, h_ready = True\<rparr>"
    using bridge_state_follows_connection [OF r] by (simp add: h health_step_def alert_health_def)
  then show ?thesis using bridge_state_follows_connection [OF r] r h by (auto simp: healthy_def)
qed

section \<open>Crashes\<close>

text \<open>Which events have an error whose text can be printed, and a typing notification with content.\<close>

fun printable :: "event \<Rightarrow> bool" where
  "printable (Ev_ListenFatalError err) = (\<not> panics (go_error_Error err))"
| "printable (Ev_ListenTemporaryError err) = (\<not> panics (go_error_Error err))"
| "printable (Ev_PingFailed err n) = (\<not> panics (go_error_Error err))"
| "printable (Ev_TypingData td) = (td \<noteq> None)"
| "printable _ = True"

lemma alert_panics_iff:
  "panics (handleUserAlert now v gc) \<longleftrightarrow> v = AlertType_BROWSER_ACTIVE \<and> gm_Client gc = None"
proof -
  have c: "gm_Client (data_received now gc) = gm_Client gc" by (simp add: data_received_def)
  show ?thesis
    by (cases v) (simp_all add: handleUserAlert_def alert_done_def Let_def c split: option.split)
qed

lemma go_error_Error_total: "\<not> panics (go_error_Error err) \<Longrightarrow> \<exists>t. go_error_Error err = Return t"
proof (induction err)
  case (ErrWrap s e)
  then show ?case by (cases "go_error_Error e") auto
qed (auto simp: RequestError_Error_def split: option.splits)

text \<open>
  A session that the server revoked leaves handlers that crash: once a session is invalidated in
  full there is no client and no session, so an alert that the browser is active, and a second
  invalidation that only drops the cookies, both dereference nil.  Among the events that can be
  printed at all, that alert is the only one that crashes.
\<close>

lemma invalidated_session_panics:
  assumes "invalidateSession state True gc = Return (gc', effs)"
  shows "panics (invalidateSession state' False gc')
    \<and> (\<forall>e. printable e \<longrightarrow>
         (panics (handleGMEvent now trace e gc') \<longleftrightarrow> e = Ev_UserAlertEvent AlertType_BROWSER_ACTIVE))"
proof -
  have gone: "gm_Client gc' = None" "ulm_Session (gm_Meta gc') = None"
    using assms by (auto simp: invalidateSession_def GMClient_Disconnect_def Let_def)
  have "panics (handleGMEvent now trace e gc') \<longleftrightarrow> e = Ev_UserAlertEvent AlertType_BROWSER_ACTIVE" if "printable e" for e
  proof (cases e)
    case (Ev_UserAlertEvent v)
    then show ?thesis by (simp add: handleGMEvent_def alert_panics_iff gone)
  next
    case (Ev_ListenFatalError err)
    with that go_error_Error_total [of err] show ?thesis
      by (auto simp: handleGMEvent_def handle_fatal_def Let_def split: if_splits)
  next
    case (Ev_ListenTemporaryError err)
    with that go_error_Error_total [of err] show ?thesis by (auto simp: handleGMEvent_def)
  next
    case (Ev_PingFailed err n)
    with that go_error_Error_total [of err] show ?thesis
      by (auto simp: handleGMEvent_def handle_ping_failed_def)
  next
    case (Ev_TypingData td)
    with that show ?thesis
      by (auto simp: handleGMEvent_def handle_typing_def Let_def split: option.split)
  next
    case (Ev_WrappedMessage msg old data)
    then show ?thesis by (simp add: handleGMEvent_def handle_message_def Let_def)
  qed (simp_all add: handleGMEvent_def)
  then show ?thesis using gone by (simp add: invalidateSession_def)
qed

lemma invalidated_session_panics_witness:
  "\<exists>gc' effs. invalidateSession connected_state True sample_bridge_client = Return (gc', effs)
     \<and> panics (invalidateSession connected_state False gc')
     \<and> panics (handleGMEvent 0 False (Ev_UserAlertEvent AlertType_BROWSER_ACTIVE) gc')"
proof -
  obtain gc' effs where r: "invalidateSession connected_state True sample_bridge_client = Return (gc', effs)"
    by (simp add: invalidateSession_def Let_def)
  show ?thesis using invalidated_session_panics [OF r, of connected_state 0 False] r by force
qed

end
