(* ===== verification/Gm_ChatSync.thy ===== *)
theory Gm_ChatSync
  imports Gm_Bridge
begin

text \<open>
  Synchronising chats: the list of conversations and the state kept for each of them
  (\<open>pkg/connector/chatsync.go\<close>), and what the bridge is told about a chat and its members
  (\<open>pkg/connector/chatinfo.go\<close>).  The lemmas show that of several delayed backfills of a chat only the
  last one runs, when an update is held back because of a spam marking, and who may write in a chat.
\<close>

section \<open>Parameters\<close>

text \<open>The decoders of the answers used here (conversations, one conversation, image buffers), the ghosts
  of the bridge and the display name template.\<close>

record sync_env =
  sy_convs :: "bytes \<Rightarrow> Conversation list"
  sy_conv :: "bytes \<Rightarrow> Conversation option"
  sy_images :: "bytes \<Rightarrow> bytes list"
  sy_ghost :: "string \<Rightarrow> go_error + GhostMetadata"
  sy_FormatDisplayname :: "string \<Rightarrow> string \<Rightarrow> string \<Rightarrow> string \<Rightarrow> string"

fun resp_bytes :: "DecryptedMessage \<Rightarrow> bytes" where
  "resp_bytes (DM_Response _ b) = b"
| "resp_bytes (DM_UpdateEvents _) = []"

definition prefix_mismatch :: go_error where
  "prefix_mismatch = ErrText ''internal error: account mismatch''"

section \<open>The state of a conversation\<close>

definition new_conversation_meta :: conversationMeta where
  "new_conversation_meta = \<lparr>cm_markedSpamAt = zero_time, cm_cancelPendingBackfill = None, cm_unread = False,
     cm_readUpTo = '''', cm_readUpToTS = zero_time\<rparr>"

definition get_meta :: "GMClient \<Rightarrow> string \<Rightarrow> conversationMeta" where
  "get_meta gc convID = (case map_of (gm_conversationMeta gc) convID of None \<Rightarrow> new_conversation_meta | Some m \<Rightarrow> m)"

definition put_meta :: "string \<Rightarrow> conversationMeta \<Rightarrow> GMClient \<Rightarrow> GMClient" where
  "put_meta convID m gc = gc\<lparr>gm_conversationMeta := AList.update convID m (gm_conversationMeta gc)\<rparr>"

definition update_read :: "Conversation \<Rightarrow> conversationMeta \<Rightarrow> conversationMeta" where
  "update_read v m =
     (let m1 = m\<lparr>cm_unread := cv_unread v\<rparr> in
      if \<not> cv_unread v
      then m1\<lparr>cm_readUpTo := cv_latestMessageID v, cm_readUpToTS := UnixMicro (cv_lastMessageTimestamp v)\<rparr>
      else if cm_readUpTo m1 = cv_latestMessageID v
      then m1\<lparr>cm_readUpTo := '''', cm_readUpToTS := zero_time\<rparr>
      else m1)"

definition is_spam :: "ConversationStatus \<Rightarrow> bool" where
  "is_spam s \<longleftrightarrow> s = ConversationStatus_SPAM_FOLDER \<or> s = ConversationStatus_BLOCKED_FOLDER"

definition is_gone :: "ConversationStatus \<Rightarrow> bool" where
  "is_gone s \<longleftrightarrow> is_spam s \<or> s = ConversationStatus_DELETED"

text \<open>The second component: the conversation was marked as spam less than a minute ago.\<close>

definition update_spam :: "time \<Rightarrow> Conversation \<Rightarrow> conversationMeta \<Rightarrow> conversationMeta \<times> bool" where
  "update_spam now v m =
     (if is_spam (cv_status v)
      then (if cm_markedSpamAt m = zero_time then m\<lparr>cm_markedSpamAt := now\<rparr> else m, False)
      else if cv_status v = ConversationStatus_DELETED then (m, False)
      else (m, time_sub now (cm_markedSpamAt m) < 1 * minute))"

definition syncConversationMeta :: "time \<Rightarrow> Conversation \<Rightarrow> GMClient \<Rightarrow> (conversationMeta \<times> bool) \<times> GMClient" where
  "syncConversationMeta now v gc =
     (let r = update_spam now v (update_read v (get_meta gc (cv_conversationID v)))
      in (r, put_meta (cv_conversationID v) (fst r) gc))"

section \<open>Synchronising one conversation\<close>

text \<open>A pending backfill is named by a token of its conversation: it is cancelled when another one has
  taken its place.\<close>

definition next_token :: "conversationMeta \<Rightarrow> nat" where
  "next_token m = (case cm_cancelPendingBackfill m of None \<Rightarrow> 0 | Some t \<Rightarrow> Suc t)"

definition schedule_backfill :: "string \<Rightarrow> conversationMeta \<Rightarrow> GMClient \<Rightarrow> GMClient" where
  "schedule_backfill convID m gc = put_meta convID (m\<lparr>cm_cancelPendingBackfill := Some (next_token m)\<rparr>) gc"

definition mark_read_event :: "GMClient \<Rightarrow> Conversation \<Rightarrow> conversationMeta \<Rightarrow> remote_event option" where
  "mark_read_event gc v m =
     (if \<not> cv_unread v
      then Some (RE_Receipt (MakePortalKey gc (cv_conversationID v)) (MakeMessageID gc (cm_readUpTo m)) (cm_readUpToTS m))
      else None)"

definition queue_opt :: "remote_event option \<Rightarrow> effect list" where
  "queue_opt e = (case e of None \<Rightarrow> [] | Some x \<Rightarrow> [Eff_Queue x])"

definition syncConversation :: "time \<Rightarrow> Conversation \<Rightarrow> GMClient \<Rightarrow> GMClient \<times> effect list" where
  "syncConversation now v gc =
     (let s = syncConversationMeta now v gc;
          meta = fst (fst s); gc1 = snd s; convID = cv_conversationID v
      in if snd (fst s) then (gc1, [])
         else
           let allowBackfill = (time_sub now (UnixMicro (cv_lastMessageTimestamp v)) > 5 * minute);
               markRead = mark_read_event gc1 v meta;
               resync = Eff_Queue (RE_ChatResync \<lparr>rs_Conv = v, rs_AllowBackfill = allowBackfill, rs_OnlyBackfill = False\<rparr>)
           in if is_gone (cv_status v) then (gc1, [resync])
              else if \<not> allowBackfill
              then (schedule_backfill convID meta gc1,
                    [resync, Eff_Go (Task_delayedBackfill convID (next_token meta)
                       \<lparr>rs_Conv = v, rs_AllowBackfill = True, rs_OnlyBackfill = True\<rparr> markRead)])
              else (gc1, resync # queue_opt markRead))"

text \<open>The goroutine of a delayed backfill, when its fifteen seconds are over.\<close>

definition delayedBackfill :: "string \<Rightarrow> nat \<Rightarrow> GMChatResync \<Rightarrow> remote_event option \<Rightarrow> GMClient \<Rightarrow> effect list" where
  "delayedBackfill convID token evt markRead gc =
     (if cm_cancelPendingBackfill (get_meta gc convID) = Some token
      then Eff_Queue (RE_ChatResync evt) # queue_opt markRead else [])"

section \<open>Synchronising the list\<close>

fun sync_all :: "time \<Rightarrow> Conversation list \<Rightarrow> GMClient \<Rightarrow> GMClient \<times> effect list" where
  "sync_all now [] gc = (gc, [])"
| "sync_all now (conv # convs) gc =
     (let cached = (if map_of (gm_chatInfoCache gc) (cv_conversationID conv) = None
                    then gc\<lparr>gm_chatInfoCache := AList.update (cv_conversationID conv) conv (gm_chatInfoCache gc)\<rparr>
                    else gc);
          r = syncConversation now conv cached;
          q = sync_all now convs (fst r)
      in (fst q, snd r @ snd q))"

definition sync_needed :: "time \<Rightarrow> bool \<Rightarrow> Conversation list \<Rightarrow> bool" where
  "sync_needed lastDataReceived minimalSync convs \<longleftrightarrow>
     \<not> minimalSync \<or> (lastDataReceived \<noteq> zero_time \<and>
       list_ex (\<lambda>conv. UnixMicro (cv_lastMessageTimestamp conv) > lastDataReceived) convs)"

text \<open>\<open>None\<close> when the answer never comes; the flag \<open>syncingConversations\<close> is set while it is awaited.\<close>

definition SyncConversations ::
  "sync_env \<Rightarrow> env \<Rightarrow> time \<Rightarrow> wait \<Rightarrow> time \<Rightarrow> bool \<Rightarrow> GMClient \<Rightarrow> handled option" where
  "SyncConversations se env now w lastDataReceived minimalSync gc0 =
     (let gc = gc0\<lparr>gm_syncingConversations := True\<rparr> in
      case gm_Client gc of
        None \<Rightarrow> Some (Panic ''nil pointer dereference'')
      | Some cli \<Rightarrow>
          (case ListConversations env now w (cf_InitialChatSyncCount (gm_Config gc)) ListConversationsRequest_INBOX cli of
             None \<Rightarrow> None
           | Some (Panic p, _) \<Rightarrow> Some (Panic p)
           | Some (Error err, c1) \<Rightarrow> Some (Return ((put_client c1 gc)\<lparr>gm_syncingConversations := False\<rparr>, []))
           | Some (Return resp, c1) \<Rightarrow>
               let convs = sy_convs se (resp_bytes resp);
                   gc1 = put_client c1 gc;
                   r = (if sync_needed lastDataReceived minimalSync convs then sync_all now convs gc1 else (gc1, []))
               in Some (Return ((fst r)\<lparr>gm_syncingConversations := False\<rparr>, snd r))))"

section \<open>A chat resync event\<close>

datatype resync_type = RemoteEventChatDelete | RemoteEventChatResync | RemoteEventUnknown_resync

definition GMChatResync_GetType :: "GMChatResync \<Rightarrow> resync_type" where
  "GMChatResync_GetType evt =
     (let s = cv_status (rs_Conv evt) in
      if is_gone s then RemoteEventChatDelete
      else if s \<in> {ConversationStatus_ACTIVE, ConversationStatus_ARCHIVED, ConversationStatus_KEEP_ARCHIVED}
      then RemoteEventChatResync
      else RemoteEventUnknown_resync)"

text \<open>A decoded conversation without participants has a nil slice.\<close>

definition GMChatResync_ShouldCreatePortal :: "GMChatResync \<Rightarrow> bool" where
  "GMChatResync_ShouldCreatePortal evt \<longleftrightarrow>
     \<not> rs_OnlyBackfill evt \<and> cv_participants (rs_Conv evt) \<noteq> [] \<and>
     cv_status (rs_Conv evt) \<in> {ConversationStatus_ACTIVE, ConversationStatus_ARCHIVED}"

definition GMChatResync_GetPortalKey :: "GMClient \<Rightarrow> GMChatResync \<Rightarrow> PortalKey" where
  "GMChatResync_GetPortalKey gc evt = MakePortalKey gc (cv_conversationID (rs_Conv evt))"

definition GMChatResync_GetSender :: "GMChatResync \<Rightarrow> EventSender" where
  "GMChatResync_GetSender evt = no_sender"

definition DeleteOnlyForMe :: "GMChatResync \<Rightarrow> bool" where
  "DeleteOnlyForMe evt \<longleftrightarrow> False"

definition CheckNeedsBackfill :: "GMClient \<Rightarrow> GMChatResync \<Rightarrow> DBMessage option \<Rightarrow> bool" where
  "CheckNeedsBackfill gc evt latestMessage \<longleftrightarrow>
     rs_AllowBackfill evt \<and> cv_lastMessageTimestamp (rs_Conv evt) \<noteq> 0 \<and>
     (case latestMessage of
        None \<Rightarrow> True
      | Some m \<Rightarrow> UnixMicro (cv_lastMessageTimestamp (rs_Conv evt)) > db_Timestamp m \<and>
          MakeMessageID gc (cv_latestMessageID (rs_Conv evt)) \<noteq> db_ID m)"

section \<open>Information about a chat\<close>

record UserInfo =
  ui_Identifiers :: "string list"
  ui_Name :: "string option"
  ui_IsBot :: bool

record ChatMember =
  cmb_IsFromMe :: bool
  cmb_Sender :: string
  cmb_UserInfo :: "UserInfo option"
  cmb_PowerLevel :: "int option"

datatype event_type = StateRoomName | StateRoomAvatar | EventReaction | EventRedaction | BeeperDeleteChat

record PowerLevelOverrides =
  pl_Events :: "(event_type \<times> int) list"
  pl_UsersDefault :: int
  pl_EventsDefault :: int
  pl_StateDefault :: int
  pl_Invite :: int
  pl_Kick :: int
  pl_Ban :: int
  pl_Redact :: int

datatype RoomTag = NoTag | RoomTagFavourite | RoomTagLowPriority

text \<open>The name is \<open>None\<close> for \<open>DefaultChatName\<close>; the avatar is the URL of a group avatar.\<close>

record ChatInfo =
  ci_Name :: "string option"
  ci_IsDM :: bool
  ci_Members :: "(string \<times> ChatMember) list"
  ci_PowerLevels :: PowerLevelOverrides
  ci_Avatar :: "string option"
  ci_Tag :: RoomTag

definition FillPortalBridgeInfo :: "PortalMetadata \<Rightarrow> string \<times> string \<Rightarrow> string \<times> string" where
  "FillPortalBridgeInfo portal protocol =
     (case pm_Type portal of
        ConversationType_SMS \<Rightarrow> (''gmessages-sms'', ''Google Messages (SMS)'')
      | ConversationType_RCS \<Rightarrow> (''gmessages-rcs'', ''Google Messages (RCS)'')
      | _ \<Rightarrow> protocol)"

definition makeUserInfo ::
  "sync_env \<Rightarrow> GMClient \<Rightarrow> GhostMetadata \<Rightarrow> string \<Rightarrow> string \<Rightarrow> string \<Rightarrow> string \<Rightarrow> UserInfo" where
  "makeUserInfo se gc ghost phone formattedNumber fullName firstName =
     (let hasName = (fullName \<noteq> '''' \<or> firstName \<noteq> '''');
          name = sy_FormatDisplayname se (cf_DisplaynameTemplate (gm_Config gc)) formattedNumber fullName firstName
      in \<lparr>ui_Identifiers = (if phone \<noteq> '''' then [''tel:'' @ phone] else []),
          ui_Name = (if \<not> hasName \<and> gh_HasName ghost then None else Some name),
          ui_IsBot = False\<rparr>)"

definition wrapParticipantInfo :: "sync_env \<Rightarrow> GMClient \<Rightarrow> GhostMetadata \<Rightarrow> Participant \<Rightarrow> UserInfo" where
  "wrapParticipantInfo se gc ghost contact =
     makeUserInfo se gc ghost (GetNumber contact) (pt_formattedNumber contact) (pt_fullName contact) (pt_firstName contact)"

text \<open>The avatar of a group: its identifier, and the download when the framework asks for it.\<close>

definition makeGroupAvatarFromURL ::
  "media_env \<Rightarrow> env \<Rightarrow> string \<Rightarrow> GMClient \<Rightarrow> string \<times> (go_error, bytes) outcome \<times> GMClient" where
  "makeGroupAvatarFromURL me env url gc =
     (url, case gm_Client gc of
             None \<Rightarrow> (Panic ''nil pointer dereference'', gc)
           | Some cli \<Rightarrow> let r = DownloadAvatar me env url cli
                         in (case fst r of Inl err \<Rightarrow> Error err | Inr data \<Rightarrow> Return data, put_client (snd r) gc))"

text \<open>The names of users come with the chats: there is nothing to look up for one of them.\<close>

definition GetUserInfo :: "string \<Rightarrow> UserInfo option" where
  "GetUserInfo ghost = None"

definition MinAvatarUpdateInterval :: duration where
  "MinAvatarUpdateInterval = 24 * hour"

definition GeminiPhoneNumber :: string where
  "GeminiPhoneNumber = ''+18339913448''"

definition phoneNumberMightHaveAvatar :: "string \<Rightarrow> bool" where
  "phoneNumberMightHaveAvatar phone \<longleftrightarrow> has_suffix phone ''.goog'' \<or> phone = GeminiPhoneNumber"

datatype avatar_update = KeepAvatar | RemoveAvatar | SetAvatar bytes

definition thumbnail_update :: "bytes list \<Rightarrow> avatar_update" where
  "thumbnail_update images =
     (case images of [] \<Rightarrow> RemoveAvatar | img # _ \<Rightarrow> if img = [] then RemoveAvatar else SetAvatar img)"

text \<open>Whether the ghost was updated (or an error), the new metadata, the update of the avatar, the new
  state; \<open>None\<close> when the thumbnail never arrives.\<close>

definition updateGhostAvatar ::
  "sync_env \<Rightarrow> env \<Rightarrow> time \<Rightarrow> wait \<Rightarrow> string \<Rightarrow> GhostMetadata \<Rightarrow> GMClient
    \<Rightarrow> ((go_error, bool \<times> GhostMetadata \<times> avatar_update) outcome \<times> GMClient) option" where
  "updateGhostAvatar se env now w ghostID meta gc =
     (if time_sub now (gh_AvatarUpdateTS meta) < MinAvatarUpdateInterval then Some (Return (False, meta, KeepAvatar), gc)
      else if gh_ContactID meta = '''' \<and> \<not> phoneNumberMightHaveAvatar (gh_Phone meta)
      then Some (Return (False, meta, KeepAvatar), gc)
      else (case ParseUserID gc ghostID of
              Inl _ \<Rightarrow> Some (Error (prefix_mismatch), gc)
            | Inr participantID \<Rightarrow>
                (case gm_Client gc of
                   None \<Rightarrow> Some (Panic ''nil pointer dereference'', gc)
                 | Some cli \<Rightarrow>
                     (case GetParticipantThumbnail env now w [participantID] cli of
                        None \<Rightarrow> None
                      | Some (Panic p, _) \<Rightarrow> Some (Panic p, gc)
                      | Some (Error err, c1) \<Rightarrow>
                          Some (Error (ErrWrap ''failed to get participant thumbnail'' err), put_client c1 gc)
                      | Some (Return resp, c1) \<Rightarrow>
                          Some (Return (True, meta\<lparr>gh_AvatarUpdateTS := now\<rparr>,
                                  thumbnail_update (sy_images se (resp_bytes resp))), put_client c1 gc)))))"

text \<open>The first part of \<open>ExtraUpdates\<close> of a user: what changes in the metadata of the ghost.\<close>

definition ghost_updates :: "string \<Rightarrow> string \<Rightarrow> bool \<Rightarrow> GhostMetadata \<Rightarrow> bool \<times> GhostMetadata" where
  "ghost_updates phone contactID hasName meta =
     (let meta' = meta\<lparr>gh_ContactID := contactID, gh_HasName := (hasName \<or> gh_HasName meta), gh_Phone := phone\<rparr>
      in (gh_ContactID meta \<noteq> contactID \<or> (hasName \<and> \<not> gh_HasName meta) \<or> gh_Phone meta \<noteq> phone, meta'))"

text \<open>\<open>ExtraUpdates\<close> of a chat.\<close>

definition portal_updates :: "Conversation \<Rightarrow> PortalMetadata \<Rightarrow> bool \<times> PortalMetadata" where
  "portal_updates conv meta =
     (pm_Type meta \<noteq> cv_type conv \<or> pm_SendMode meta \<noteq> cv_sendMode conv \<or> pm_OutgoingID meta \<noteq> cv_defaultOutgoingID conv,
      meta\<lparr>pm_Type := cv_type conv, pm_SendMode := cv_sendMode conv, pm_OutgoingID := cv_defaultOutgoingID conv\<rparr>)"

definition power_levels :: "int \<Rightarrow> PowerLevelOverrides" where
  "power_levels eventsDefaultPL =
     \<lparr>pl_Events = [(StateRoomName, 0), (StateRoomAvatar, 0), (EventReaction, eventsDefaultPL), (EventRedaction, 0),
        (BeeperDeleteChat, 0)],
      pl_UsersDefault = 0, pl_EventsDefault = eventsDefaultPL, pl_StateDefault = 99, pl_Invite = 99, pl_Kick = 99,
      pl_Ban = 99, pl_Redact = 0\<rparr>"

record members_state =
  mb_hasSelf :: bool
  mb_changed :: bool
  mb_map :: "(string \<times> ChatMember) list"

text \<open>The loop over the participants; one without an identifier is dereferenced.\<close>

fun members_loop ::
  "sync_env \<Rightarrow> Participant list \<Rightarrow> GMClient \<Rightarrow> members_state \<Rightarrow> (go_error, members_state) outcome \<times> GMClient" where
  "members_loop se [] gc st = (Return st, gc)"
| "members_loop se (pcp # pcps) gc st =
     (case pt_ID pcp of
        None \<Rightarrow> (Panic ''nil pointer dereference'', gc)
      | Some info \<Rightarrow>
          if pt_isMe pcp
          then let a = AddSelfParticipantID (gm_Meta gc) (si_participantID info)
               in members_loop se pcps (gc\<lparr>gm_Meta := snd a\<rparr>) (st\<lparr>mb_hasSelf := True, mb_changed := (mb_changed st \<or> fst a)\<rparr>)
          else if si_number info = '''' \<or> \<not> pt_isVisible pcp then members_loop se pcps gc st
          else let userID = MakeUserID gc (si_participantID info)
               in (case sy_ghost se userID of
                     Inl err \<Rightarrow> (Error err, gc)
                   | Inr ghost \<Rightarrow> members_loop se pcps gc (st\<lparr>mb_map := AList.update userID
                       \<lparr>cmb_IsFromMe = False, cmb_Sender = userID,
                        cmb_UserInfo = Some (wrapParticipantInfo se gc ghost pcp), cmb_PowerLevel = Some 50\<rparr> (mb_map st)\<rparr>)))"

definition self_member :: ChatMember where
  "self_member = \<lparr>cmb_IsFromMe = True, cmb_Sender = '''', cmb_UserInfo = None, cmb_PowerLevel = None\<rparr>"

definition chat_tag :: "Conversation \<Rightarrow> RoomTag" where
  "chat_tag conv =
     (if cv_pinned conv then RoomTagFavourite
      else if cv_status conv = ConversationStatus_ARCHIVED \<or> cv_status conv = ConversationStatus_KEEP_ARCHIVED
      then RoomTagLowPriority else NoTag)"

definition events_level :: "Conversation \<Rightarrow> bool \<Rightarrow> int" where
  "events_level conv hasSelf =
     (if cv_readOnly conv \<and> cv_isGroupChat conv \<and> hasSelf then 0 else if cv_readOnly conv then 50 else 0)"

definition wrapChatInfo ::
  "sync_env \<Rightarrow> Conversation \<Rightarrow> GMClient \<Rightarrow> (go_error, ChatInfo \<times> effect list) outcome \<times> GMClient" where
  "wrapChatInfo se conv gc =
     (let r = members_loop se (cv_participants conv) gc
                \<lparr>mb_hasSelf = False, mb_changed = False, mb_map = [('''', self_member)]\<rparr>
      in (bind_outcome (fst r) (\<lambda>st. Return
            (\<lparr>ci_Name = (if cv_isGroupChat conv then Some (cv_name conv) else None),
              ci_IsDM = (\<not> cv_isGroupChat conv), ci_Members = mb_map st,
              ci_PowerLevels = power_levels (events_level conv (mb_hasSelf st)),
              ci_Avatar = (if cv_groupAvatarURL conv \<noteq> '''' then Some (cv_groupAvatarURL conv) else None),
              ci_Tag = chat_tag conv\<rparr>,
             if mb_changed st then [Eff_Save] else [])), snd r))"

definition GMChatResync_GetChatInfo ::
  "sync_env \<Rightarrow> GMChatResync \<Rightarrow> GMClient \<Rightarrow> (go_error, ChatInfo option \<times> effect list) outcome \<times> GMClient" where
  "GMChatResync_GetChatInfo se evt gc =
     (if rs_OnlyBackfill evt then (Return (None, []), gc)
      else let r = wrapChatInfo se (rs_Conv evt) gc
           in (bind_outcome (fst r) (\<lambda>q. Return (Some (fst q), snd q)), snd r))"

definition GetChatInfo ::
  "sync_env \<Rightarrow> env \<Rightarrow> time \<Rightarrow> wait \<Rightarrow> string \<Rightarrow> GMClient
    \<Rightarrow> ((go_error, ChatInfo \<times> effect list) outcome \<times> GMClient) option" where
  "GetChatInfo se env now w portalID gc =
     (case ParsePortalID gc portalID of
        Inl _ \<Rightarrow> Some (Error (prefix_mismatch), gc)
      | Inr conversationID \<Rightarrow>
          (case gm_Client gc of
             None \<Rightarrow> Some (Panic ''nil pointer dereference'', gc)
           | Some cli \<Rightarrow>
               (case GetConversation env now w conversationID cli of
                  None \<Rightarrow> None
                | Some (Panic p, c1) \<Rightarrow> Some (Panic p, put_client c1 gc)
                | Some (Error err, c1) \<Rightarrow> Some (Error err, put_client c1 gc)
                | Some (Return resp, c1) \<Rightarrow>
                    (case sy_conv se (resp_bytes resp) of
                       None \<Rightarrow> Some (Panic ''nil pointer dereference'', put_client c1 gc)
                     | Some conv \<Rightarrow>
                         let gc0 = put_client c1 gc;
                             gc1 = gc0\<lparr>gm_chatInfoCache := AList.update conversationID conv (gm_chatInfoCache gc0)\<rparr>
                         in if is_gone (cv_status conv)
                            then Some (Error (ErrText ''conversation is in a blocked status''), gc1)
                            else Some (wrapChatInfo se conv gc1)))))"

section \<open>Sequences of updates\<close>

text \<open>The updates of conversations, each with its time, as the goroutines process them one by one.\<close>

fun sync_run :: "(time \<times> Conversation) list \<Rightarrow> GMClient \<Rightarrow> GMClient \<times> effect list" where
  "sync_run [] gc = (gc, [])"
| "sync_run (tv # tvs) gc =
     (let r = syncConversation (fst tv) (snd tv) gc; q = sync_run tvs (fst r) in (fst q, snd r @ snd q))"

lemma get_put_meta [simp]: "get_meta (put_meta i m gc) j = (if i = j then m else get_meta gc j)"
  by (simp add: get_meta_def put_meta_def update_conv')

abbreviation pending :: "GMClient \<Rightarrow> string \<Rightarrow> nat option" where
  "pending gc i \<equiv> cm_cancelPendingBackfill (get_meta gc i)"

fun backfill_token :: "string \<Rightarrow> effect \<Rightarrow> nat list" where
  "backfill_token i (Eff_Go (Task_delayedBackfill j t _ _)) = (if i = j then [t] else [])"
| "backfill_token i _ = []"

text \<open>The delayed backfills of a conversation that a list of effects starts.\<close>

definition backfills :: "string \<Rightarrow> effect list \<Rightarrow> nat list" where
  "backfills i effs = concat (map (backfill_token i) effs)"

lemma backfills_simps [simp]:
  "backfills i [] = []" "backfills i (e # es) = backfill_token i e @ backfills i es"
  "backfills i (es @ fs) = backfills i es @ backfills i fs"
  by (simp_all add: backfills_def)

lemma backfills_queue [simp]: "backfills i (queue_opt e) = []"
  by (simp add: queue_opt_def split: option.split)

lemma pending_update: "cm_cancelPendingBackfill (fst (update_spam now v (update_read v m))) = cm_cancelPendingBackfill m"
  by (simp add: update_spam_def update_read_def Let_def)

lemma pending_meta:
  "pending (snd (syncConversationMeta now v gc)) i = pending gc i"
  "cm_cancelPendingBackfill (fst (fst (syncConversationMeta now v gc))) = pending gc (cv_conversationID v)"
  by (simp_all add: syncConversationMeta_def Let_def pending_update)

lemma syncConversation_pending:
  "(backfills i (snd (syncConversation now v gc)) = [] \<and> pending (fst (syncConversation now v gc)) i = pending gc i)
   \<or> (backfills i (snd (syncConversation now v gc)) = [next_token (get_meta gc i)] \<and>
      pending (fst (syncConversation now v gc)) i = Some (next_token (get_meta gc i)))"
proof -
  have t: "next_token (fst (fst (syncConversationMeta now v gc))) = next_token (get_meta gc (cv_conversationID v))"
    by (simp add: next_token_def pending_meta)
  show ?thesis
    by (cases "i = cv_conversationID v")
       (simp_all add: syncConversation_def Let_def schedule_backfill_def pending_meta t)
qed

lemma sync_run_pending:
  "pending (fst (sync_run tvs gc)) i
     = (if backfills i (snd (sync_run tvs gc)) = [] then pending gc i
        else Some (last (backfills i (snd (sync_run tvs gc)))))
   \<and> (\<forall>t \<in> set (backfills i (snd (sync_run tvs gc))). next_token (get_meta gc i) \<le> t)
   \<and> sorted_wrt (<) (backfills i (snd (sync_run tvs gc)))"
proof (induction tvs arbitrary: gc)
  case (Cons tv tvs)
  define gc1 where "gc1 = fst (syncConversation (fst tv) (snd tv) gc)"
  define bs where "bs = backfills i (snd (sync_run tvs gc1))"
  define b where "b = backfills i (snd (syncConversation (fst tv) (snd tv) gc))"
  have all: "backfills i (snd (sync_run (tv # tvs) gc)) = b @ bs"
    "pending (fst (sync_run (tv # tvs) gc)) i = pending (fst (sync_run tvs gc1)) i"
    by (simp_all add: Let_def gc1_def bs_def b_def)
  note ih = Cons.IH [of gc1, folded bs_def]
  from syncConversation_pending [of i "fst tv" "snd tv" gc, folded b_def gc1_def] show ?case
  proof (elim disjE conjE)
    assume "b = []" "pending gc1 i = pending gc i"
    then show ?thesis unfolding all using ih by (simp add: next_token_def)
  next
    assume b: "b = [next_token (get_meta gc i)]" "pending gc1 i = Some (next_token (get_meta gc i))"
    then have "next_token (get_meta gc1 i) = Suc (next_token (get_meta gc i))"
      unfolding next_token_def [of "get_meta gc1 i"] by simp
    with b ih show ?thesis unfolding all by (auto simp: Suc_le_eq)
  qed
qed simp


definition sample_conv :: "string \<Rightarrow> ConversationStatus \<Rightarrow> Conversation" where
  "sample_conv i status = \<lparr>cv_conversationID = i, cv_name = '''', cv_lastMessageTimestamp = 0, cv_unread = True,
     cv_isGroupChat = False, cv_defaultOutgoingID = '''', cv_status = status, cv_readOnly = False,
     cv_latestMessageID = ''m'', cv_sendMode = ConversationSendMode_SEND_MODE_AUTO, cv_participants = [],
     cv_type = ConversationType_SMS, cv_pinned = False, cv_groupAvatarURL = ''''\<rparr>"

definition sample_resync :: GMChatResync where
  "sample_resync = \<lparr>rs_Conv = sample_conv ''c'' ConversationStatus_ACTIVE, rs_AllowBackfill = True, rs_OnlyBackfill = True\<rparr>"



section \<open>The spam guard\<close>

text \<open>The time of the first update of a chat that marks it as spam.\<close>

fun first_spam :: "string \<Rightarrow> (time \<times> Conversation) list \<Rightarrow> time option" where
  "first_spam i [] = None"
| "first_spam i (tv # tvs) =
     (if cv_conversationID (snd tv) = i \<and> is_spam (cv_status (snd tv)) then Some (fst tv) else first_spam i tvs)"

abbreviation marked :: "GMClient \<Rightarrow> string \<Rightarrow> time" where
  "marked gc i \<equiv> cm_markedSpamAt (get_meta gc i)"

lemma syncConversation_marked:
  "marked (fst (syncConversation now v gc)) i =
     (if cv_conversationID v = i \<and> is_spam (cv_status v) \<and> marked gc i = zero_time then now else marked gc i)"
  by (simp add: syncConversation_def syncConversationMeta_def Let_def schedule_backfill_def update_spam_def update_read_def)

lemma sync_run_marked_keeps:
  "marked gc i \<noteq> zero_time \<Longrightarrow> marked (fst (sync_run tvs gc)) i = marked gc i"
  by (induction tvs arbitrary: gc) (simp_all add: Let_def syncConversation_marked)

lemma sync_run_marked:
  "marked gc i = zero_time \<Longrightarrow> \<forall>tv \<in> set tvs. fst tv \<noteq> zero_time \<Longrightarrow>
   marked (fst (sync_run tvs gc)) i = (case first_spam i tvs of None \<Rightarrow> zero_time | Some t \<Rightarrow> t)"
  by (induction tvs arbitrary: gc) (auto simp: Let_def syncConversation_marked sync_run_marked_keeps)

lemma syncConversation_dropped_iff:
  "snd (syncConversation now v gc) = [] \<longleftrightarrow>
     \<not> is_gone (cv_status v) \<and> time_sub now (marked gc (cv_conversationID v)) < 1 * minute"
  by (auto simp: syncConversation_def syncConversationMeta_def Let_def update_spam_def update_read_def is_gone_def
      queue_opt_def split: option.split)

text \<open>
  The guard against a race with the spam flag looks at the first marking only: after any sequence
  of updates, a later update of a chat is held back exactly when it is not itself a deletion or a spam
  marking and the first spam marking of that chat was less than a minute ago.  A chat that is marked
  as spam a second time, later, is not protected.
\<close>

lemma spam_guard_first_marking:
  assumes "marked gc i = zero_time" and "\<forall>tv \<in> set tvs. zero_time < fst tv"
    and "cv_conversationID v = i" and "zero_time + 2 ^ 63 \<le> now"
  shows "snd (syncConversation now v (fst (sync_run tvs gc))) = [] \<longleftrightarrow>
    \<not> is_gone (cv_status v) \<and> (\<exists>t. first_spam i tvs = Some t \<and> time_sub now t < 1 * minute)"
proof -
  have m: "marked (fst (sync_run tvs gc)) i = (case first_spam i tvs of None \<Rightarrow> zero_time | Some t \<Rightarrow> t)"
    using assms(1,2) by (intro sync_run_marked) auto
  have "\<not> time_sub now zero_time < 1 * minute"
    using assms(4) by (simp add: time_sub_def go_simps)
  then show ?thesis
    unfolding syncConversation_dropped_iff assms(3) m by (cases "first_spam i tvs") auto
qed

lemma spam_guard_first_marking_witness:
  "snd (syncConversation (150 * second) (sample_conv ''c'' ConversationStatus_ACTIVE)
     (fst (sync_run [(0, sample_conv ''c'' ConversationStatus_SPAM_FOLDER),
       (140 * second, sample_conv ''c'' ConversationStatus_SPAM_FOLDER)] sample_bridge_client))) \<noteq> []
   \<and> snd (syncConversation (10 * second) (sample_conv ''c'' ConversationStatus_ACTIVE)
     (fst (sync_run [(0, sample_conv ''c'' ConversationStatus_SPAM_FOLDER)] sample_bridge_client))) = []"
proof -
  have m: "marked sample_bridge_client ''c'' = zero_time"
    by (simp add: sample_bridge_client_def LoadUserLogin_def GMClient_NewClient_def get_meta_def
        new_conversation_meta_def split: option.split)
  have f: "cv_conversationID (sample_conv i s) = i" "cv_status (sample_conv i s) = s" for i s
    by (simp_all add: sample_conv_def)
  have t: "zero_time < 0" "zero_time < 140 * second" "zero_time + 2 ^ 63 \<le> 150 * second" "zero_time + 2 ^ 63 \<le> 10 * second"
    "\<not> time_sub (150 * second) 0 < minute" "time_sub (10 * second) 0 < minute"
    by (simp_all add: time_sub_def go_simps)
  show ?thesis
  proof (rule conjI)
    show "snd (syncConversation (150 * second) (sample_conv ''c'' ConversationStatus_ACTIVE)
     (fst (sync_run [(0, sample_conv ''c'' ConversationStatus_SPAM_FOLDER),
       (140 * second, sample_conv ''c'' ConversationStatus_SPAM_FOLDER)] sample_bridge_client))) \<noteq> []"
      by (subst spam_guard_first_marking [OF m _ f(1) t(3)]) (simp_all add: f t is_gone_def is_spam_def)
    show "snd (syncConversation (10 * second) (sample_conv ''c'' ConversationStatus_ACTIVE)
     (fst (sync_run [(0, sample_conv ''c'' ConversationStatus_SPAM_FOLDER)] sample_bridge_client))) = []"
      by (subst spam_guard_first_marking [OF m _ f(1) t(4)]) (simp_all add: f t is_gone_def is_spam_def)
  qed
qed

end
