(* ===== verification/Gm_HandleMatrix.thy ===== *)
theory Gm_HandleMatrix
  imports Gm_Backfill
begin

text \<open>
  Events of a Matrix room that go to the phone (\<open>pkg/connector/handlematrix.go\<close>): messages and their
  remote echo, media, reactions, redactions, read receipts, typing notifications and the deletion of a
  chat.  The lemmas show which request a message becomes, that a message stays pending exactly when the
  phone accepted it, that nothing is sent for identifiers of another login, and that a direct chat is
  only deleted together with the number of its other participant.
\<close>

section \<open>Matrix events and parameters\<close>

datatype MatrixMsgType = Mx_Text | Mx_Emote | Mx_Notice | Mx_Image | Mx_Video | Mx_Audio | Mx_File | Mx_Other string

text \<open>The content of a message: \<open>mx_MimeType\<close> is \<open>None\<close> when the content has no \<open>info\<close> object.\<close>

record MatrixContent =
  mx_MsgType :: MatrixMsgType
  mx_Body :: string
  mx_FileName :: string
  mx_MimeType :: "string option"
  mx_Voice :: bool
  mx_URL :: string

record MatrixMessage =
  mx_Content :: MatrixContent
  mx_Portal :: Portal
  mx_ReplyTo :: "DBMessage option"
  mx_InputTransactionID :: string

text \<open>
  Parameters: the download from the Matrix server, the conversion to \<open>.m4a\<close> by ffmpeg, full
  qualification of emoji, the decoders of the answers, the ghosts that exist and the last message of a
  portal before a time.
\<close>

record matrix_env =
  mv_DownloadMedia :: "string \<Rightarrow> go_error + bytes"
  mv_ffmpeg_m4a :: "bytes \<Rightarrow> string \<Rightarrow> go_error + bytes"
  mv_FullyQualify :: "string \<Rightarrow> string"
  mv_send_response :: "bytes \<Rightarrow> SendMessageResponse"
  mv_success :: "bytes \<Rightarrow> bool"
  mv_conv :: "bytes \<Rightarrow> Conversation option"
  mv_existing_ghost :: "string \<Rightarrow> go_error + GhostMetadata option"
  mv_last_part :: "PortalKey \<Rightarrow> time \<Rightarrow> go_error + DBMessage option"
  mv_OutgoingMessageReID :: bool


definition ErrNonSuccessResponse :: go_error where
  "ErrNonSuccessResponse = ErrText ''got non-success response''"

text \<open>The temporary identifier of a message; \<open>n\<close> is the random number below \<open>10 ^ 12\<close>.\<close>

definition GenerateTmpID :: "nat \<Rightarrow> string" where
  "GenerateTmpID n = ''tmp_'' @ replicate (12 - length (show_nat n)) (CHR ''0'') @ show_nat n"

definition GenerateTransactionID :: "nat \<Rightarrow> string" where
  "GenerateTransactionID n = GenerateTmpID n"

section \<open>Messages\<close>

text \<open>Random bytes for the media key and the nonces of its chunks.\<close>

type_synonym upload_random = "(nat \<Rightarrow> byte) \<times> (nat \<Rightarrow> 96 word)"

definition upload_to_phone ::
  "media_env \<Rightarrow> env \<Rightarrow> upload_random \<Rightarrow> bytes \<Rightarrow> string \<Rightarrow> string \<Rightarrow> GMClient
    \<Rightarrow> (go_error, MediaContent) outcome \<times> GMClient" where
  "upload_to_phone me env rnd data fileName mime gc =
     (case gm_Client gc of
        None \<Rightarrow> (Panic ''nil pointer dereference'', gc)
      | Some cli \<Rightarrow>
          let u = UploadMedia me env (fst rnd) (snd rnd) data fileName mime cli
          in (case fst u of
                Return r \<Rightarrow> Return r
              | Error err \<Rightarrow> Error (ErrWrap ''failed to reupload media'' err)
              | Panic p \<Rightarrow> Panic p, put_client (snd u) gc))"

text \<open>The data, file name and type that are uploaded, after the conversion of a voice message.\<close>

definition voice_to_m4a ::
  "matrix_env \<Rightarrow> bridge_env \<Rightarrow> MatrixContent \<Rightarrow> bytes \<Rightarrow> string \<Rightarrow> go_error + (bytes \<times> string \<times> string)" where
  "voice_to_m4a mv be content data mime =
     (let fileName = (if mx_FileName content \<noteq> '''' then mx_FileName content else mx_Body content)
      in if mx_MsgType content = Mx_Audio \<and> mx_Voice content \<and> mime \<noteq> ''audio/mp4'' \<and> be_ffmpeg_Supported be
         then case mv_ffmpeg_m4a mv data mime of
                Inl err \<Rightarrow> Inl (ErrWrap ''failed to convert media (ogg to m4a)'' err)
              | Inr converted \<Rightarrow> Inr (converted, fileName @ ''.m4a'', ''audio/mp4'')
         else Inr (data, fileName, mime))"

text \<open>The second component is the content, whose type is filled in.\<close>

definition reuploadMedia ::
  "matrix_env \<Rightarrow> bridge_env \<Rightarrow> media_env \<Rightarrow> env \<Rightarrow> upload_random \<Rightarrow> MatrixContent \<Rightarrow> GMClient
    \<Rightarrow> (go_error, MediaContent) outcome \<times> MatrixContent \<times> GMClient" where
  "reuploadMedia mv be me env rnd content gc =
     (case mv_DownloadMedia mv (mx_URL content) of
        Inl err \<Rightarrow> (Error (ErrWrap ''failed to download media'' err), content, gc)
      | Inr data \<Rightarrow>
          (case mx_MimeType content of
             None \<Rightarrow> (Panic ''nil pointer dereference'', content, gc)
           | Some m \<Rightarrow>
               let mime = (if m = '''' then be_mime_Detect be data else m);
                   content1 = content\<lparr>mx_MimeType := Some mime\<rparr>
               in (case voice_to_m4a mv be content1 data mime of
                     Inl err \<Rightarrow> (Error err, content1, gc)
                   | Inr v \<Rightarrow>
                       let content2 = content1\<lparr>mx_MimeType := Some (snd (snd v))\<rparr>;
                           u = upload_to_phone me env rnd (fst v) (fst (snd v)) (snd (snd v)) gc
                       in (fst u, content2, snd u))))"

definition message_info :: "MessageInfoData \<Rightarrow> MessageInfo" where
  "message_info d = \<lparr>mi_actionMessageID = None, mi_data = d\<rparr>"

definition base_request :: "GMClient \<Rightarrow> Portal \<Rightarrow> string \<Rightarrow> string \<Rightarrow> SendMessageRequest" where
  "base_request gc portal conversationID txnID =
     (let portalMeta = po_Metadata portal
      in \<lparr>sr_ConversationID = conversationID,
          sr_MessagePayload = \<lparr>mp_TmpID = txnID, mp_MessageContent = None, mp_ConversationID = conversationID,
            mp_ParticipantID = pm_OutgoingID portalMeta, mp_MessageInfo = [], mp_TmpID2 = txnID\<rparr>,
          sr_SIMPayload = GetSIMPayload (GMClient_GetSIM gc portalMeta),
          sr_TmpID = txnID,
          sr_ForceRCS = (pm_Type portalMeta = ConversationType_RCS \<and>
            pm_SendMode portalMeta = ConversationSendMode_SEND_MODE_AUTO \<and> pm_ForceRCS portalMeta),
          sr_Reply = None\<rparr>)"

definition add_reply :: "GMClient \<Rightarrow> DBMessage option \<Rightarrow> SendMessageRequest \<Rightarrow> go_error + SendMessageRequest" where
  "add_reply gc replyTo req =
     (case replyTo of
        None \<Rightarrow> Inr req
      | Some m \<Rightarrow>
          (case ParseMessageID gc (db_ID m) of
             Inl _ \<Rightarrow> Inl (ErrWrap ''in reply to event'' prefix_mismatch)
           | Inr replyToID \<Rightarrow> Inr (req\<lparr>sr_Reply := Some replyToID\<rparr>)))"

definition set_info :: "MessageInfo list \<Rightarrow> SendMessageRequest \<Rightarrow> SendMessageRequest" where
  "set_info infos req = req\<lparr>sr_MessagePayload := (sr_MessagePayload req)\<lparr>mp_MessageInfo := infos\<rparr>\<rparr>"

definition matrix_text :: "MatrixContent \<Rightarrow> string" where
  "matrix_text content = (if mx_MsgType content = Mx_Emote then ''/me '' @ mx_Body content else mx_Body content)"

definition media_infos :: "MatrixContent \<Rightarrow> MediaContent \<Rightarrow> MessageInfo list" where
  "media_infos content resp =
     message_info (MessageInfo_MediaContent resp) #
     (if mx_FileName content \<noteq> '''' \<and> mx_FileName content \<noteq> mx_Body content
      then [message_info (MessageInfo_MessageContent (mx_Body content))] else [])"

text \<open>The switch on the type of the message.\<close>

definition fill_request ::
  "matrix_env \<Rightarrow> bridge_env \<Rightarrow> media_env \<Rightarrow> env \<Rightarrow> upload_random \<Rightarrow> MatrixContent \<Rightarrow> SendMessageRequest \<Rightarrow> GMClient
    \<Rightarrow> (go_error, SendMessageRequest) outcome \<times> MatrixContent \<times> GMClient" where
  "fill_request mv be me env rnd content req gc =
     (if mx_MsgType content \<in> {Mx_Text, Mx_Emote, Mx_Notice}
      then (Return (set_info [message_info (MessageInfo_MessageContent (matrix_text content))] req), content, gc)
      else if mx_MsgType content \<in> {Mx_Image, Mx_Video, Mx_Audio, Mx_File}
      then let r = reuploadMedia mv be me env rnd content gc
           in (bind_outcome (fst r) (\<lambda>resp. Return (set_info (media_infos (fst (snd r)) resp) req)), snd r)
      else (Error (ErrText (''unsupported message type '' @ (case mx_MsgType content of Mx_Other s \<Rightarrow> s | _ \<Rightarrow> ''''))), content, gc))"

definition ConvertMatrixMessage ::
  "matrix_env \<Rightarrow> bridge_env \<Rightarrow> media_env \<Rightarrow> env \<Rightarrow> upload_random \<Rightarrow> MatrixMessage \<Rightarrow> string \<Rightarrow> GMClient
    \<Rightarrow> (go_error, SendMessageRequest) outcome \<times> MatrixContent \<times> GMClient" where
  "ConvertMatrixMessage mv be me env rnd msg txnID gc =
     (case ParsePortalID gc (pky_ID (po_PortalKey (mx_Portal msg))) of
        Inl _ \<Rightarrow> (Error prefix_mismatch, mx_Content msg, gc)
      | Inr conversationID \<Rightarrow>
          (case add_reply gc (mx_ReplyTo msg) (base_request gc (mx_Portal msg) conversationID txnID) of
             Inl err \<Rightarrow> (Error err, mx_Content msg, gc)
           | Inr req \<Rightarrow> fill_request mv be me env rnd (mx_Content msg) req gc))"

definition send_to_phone :: "env \<Rightarrow> time \<Rightarrow> wait \<Rightarrow> SendMessageRequest \<Rightarrow> GMClient
    \<Rightarrow> ((go_error, DecryptedMessage) outcome \<times> GMClient) option" where
  "send_to_phone env now w req gc =
     (case gm_Client gc of
        None \<Rightarrow> Some (Panic ''nil pointer dereference'', gc)
      | Some cli \<Rightarrow> map_option (\<lambda>r. (fst r, put_client (snd r) gc)) (SendMessage_call env now w req cli))"

text \<open>
  \<open>outgoing\<close> are the transaction identifiers of the portal that wait for their echo
  (\<open>AddPendingToSave\<close>, \<open>RemovePending\<close>); \<open>meanwhile\<close> is what the arrival of echoes does to them while the
  call waits for its answer.  The result is whether the message is pending.
\<close>

definition HandleMatrixMessage ::
  "matrix_env \<Rightarrow> bridge_env \<Rightarrow> media_env \<Rightarrow> env \<Rightarrow> time \<Rightarrow> wait \<Rightarrow> (string list \<Rightarrow> string list) \<Rightarrow> nat \<Rightarrow> upload_random
    \<Rightarrow> MatrixMessage \<Rightarrow> string list \<Rightarrow> GMClient \<Rightarrow> ((go_error, bool) outcome \<times> string list \<times> GMClient) option" where
  "HandleMatrixMessage mv be me env now w meanwhile n rnd msg outgoing gc =
     (if gm_Client gc = None then Some (Error ErrNotLoggedIn, outgoing, gc)
      else let txnID = (if mx_InputTransactionID msg \<noteq> '''' then mx_InputTransactionID msg else GenerateTmpID n);
               r = ConvertMatrixMessage mv be me env rnd msg txnID gc;
               gc1 = snd (snd r)
           in case fst r of
                Panic p \<Rightarrow> Some (Panic p, outgoing, gc1)
              | Error err \<Rightarrow> Some (Error err, outgoing, gc1)
              | Return req \<Rightarrow>
                  let waiting = List.insert txnID outgoing
                  in (case send_to_phone env now w req gc1 of
                        None \<Rightarrow> None
                      | Some (Panic p, gc2) \<Rightarrow> Some (Panic p, meanwhile waiting, gc2)
                      | Some (Error err, gc2) \<Rightarrow> Some (Error err, removeAll txnID (meanwhile waiting), gc2)
                      | Some (Return m, gc2) \<Rightarrow>
                          let resp = mv_send_response mv (resp_bytes m)
                          in if sm_status resp \<noteq> SendMessageResponse_SUCCESS
                             then Some (Error (ErrText (responseStatusError_Error resp)),
                                    removeAll txnID (meanwhile waiting), gc2)
                             else Some (Return True, meanwhile waiting, gc2)))"

section \<open>The remote echo\<close>

text \<open>What arrives as the echo of a pending message.\<close>

datatype RemoteEcho = Echo_MessageEvent Message | Echo_BackfillMessage ConvertedMessage | Echo_Other

fun echo_media :: "MessageInfo list \<Rightarrow> MessageMetadata \<Rightarrow> MessageMetadata" where
  "echo_media [] meta = meta"
| "echo_media (part # parts) meta =
     (case mi_data part of
        MessageInfo_MediaContent mc \<Rightarrow>
          echo_media parts (meta\<lparr>mm_MediaPartID := (case mi_actionMessageID part of None \<Rightarrow> '''' | Some i \<Rightarrow> i),
            mm_MediaID := mc_mediaID mc\<rparr>)
      | _ \<Rightarrow> echo_media parts meta)"

text \<open>The metadata stored with the message (\<open>None\<close>: nil), whether it is saved, and the status error.\<close>

definition handleRemoteEcho ::
  "matrix_env \<Rightarrow> bridge_env \<Rightarrow> sha256_fun \<Rightarrow> RemoteEcho \<Rightarrow> DBMessage
    \<Rightarrow> (go_error, MessageMetadata option \<times> bool \<times> string) outcome" where
  "handleRemoteEcho mv be sha256 rawEvt dbMessage =
     (let meta = (case rawEvt of
            Echo_MessageEvent m \<Rightarrow> Return (Some (echo_media (msg_messageInfo m)
              (zero_metadata\<lparr>mm_IsOutgoing := True, mm_Type := GetStatus m, mm_TextHash := snd (getTextPart be sha256 m),
                 mm_GlobalPartCount := int (length (msg_messageInfo m))\<rparr>)))
          | Echo_BackfillMessage conv \<Rightarrow>
              (case co_Parts conv of
                 [] \<Rightarrow> Return None
               | part # _ \<Rightarrow> Return (Some ((cp_DBMetadata part)\<lparr>mm_IsOutgoing := True\<rparr>)))
          | Echo_Other \<Rightarrow> Panic ''unexpected event type in remote echo handler'')
      in bind_outcome meta (\<lambda>m.
           if mv_OutgoingMessageReID mv
           then (case m of
                   None \<Rightarrow> Panic ''nil pointer dereference''
                 | Some meta \<Rightarrow> Return (Some (meta\<lparr>mm_OrigMXID := db_MXID dbMessage\<rparr>), True, ''omit message status''))
           else Return (m, True, ''omit message status'')))"

section \<open>The other handlers\<close>

text \<open>A call whose answer carries a success flag; \<open>unit\<close> is the answer of a handler that succeeded.\<close>

type_synonym handler_result = "((go_error, unit) outcome \<times> GMClient) option"

definition need_success :: "matrix_env \<Rightarrow> GMClient \<Rightarrow> call_result \<Rightarrow> handler_result" where
  "need_success mv gc r =
     (case r of
        None \<Rightarrow> None
      | Some (Panic p, c) \<Rightarrow> Some (Panic p, put_client c gc)
      | Some (Error err, c) \<Rightarrow> Some (Error err, put_client c gc)
      | Some (Return m, c) \<Rightarrow>
          Some (if mv_success mv (resp_bytes m) then Return () else Error ErrNonSuccessResponse, put_client c gc))"

definition HandleMatrixMessageRemove ::
  "matrix_env \<Rightarrow> env \<Rightarrow> time \<Rightarrow> wait \<Rightarrow> DBMessage \<Rightarrow> GMClient \<Rightarrow> handler_result" where
  "HandleMatrixMessageRemove mv env now w target gc =
     (case gm_Client gc of
        None \<Rightarrow> Some (Error ErrNotLoggedIn, gc)
      | Some cli \<Rightarrow>
          (case ParseMessageID gc (db_ID target) of
             Inl _ \<Rightarrow> Some (Error prefix_mismatch, gc)
           | Inr msgID \<Rightarrow> need_success mv gc (DeleteMessage_call env now w msgID cli)))"

text \<open>The sender and the emoji of a reaction.\<close>

definition PreHandleMatrixReaction :: "matrix_env \<Rightarrow> Portal \<Rightarrow> string \<Rightarrow> GMClient \<Rightarrow> string \<times> string" where
  "PreHandleMatrixReaction mv portal key gc =
     (MakeUserID gc (pm_OutgoingID (po_Metadata portal)), mv_FullyQualify mv key)"

definition HandleMatrixReaction ::
  "matrix_env \<Rightarrow> env \<Rightarrow> time \<Rightarrow> wait \<Rightarrow> Portal \<Rightarrow> DBMessage \<Rightarrow> string \<Rightarrow> bool \<Rightarrow> GMClient \<Rightarrow> handler_result" where
  "HandleMatrixReaction mv env now w portal target emoji override gc =
     (case gm_Client gc of
        None \<Rightarrow> Some (Error ErrNotLoggedIn, gc)
      | Some cli \<Rightarrow>
          (case ParseMessageID gc (db_ID target) of
             Inl _ \<Rightarrow> Some (Error prefix_mismatch, gc)
           | Inr msgID \<Rightarrow> need_success mv gc (SendReaction_call env now w msgID (MakeReactionData emoji)
               (if override then SendReactionRequest_SWITCH else SendReactionRequest_ADD)
               (GetSIMPayload (GMClient_GetSIM gc (po_Metadata portal))) cli)))"

definition HandleMatrixReactionRemove ::
  "matrix_env \<Rightarrow> env \<Rightarrow> time \<Rightarrow> wait \<Rightarrow> string \<Rightarrow> string \<Rightarrow> GMClient \<Rightarrow> handler_result" where
  "HandleMatrixReactionRemove mv env now w messageID emoji gc =
     (case gm_Client gc of
        None \<Rightarrow> Some (Error ErrNotLoggedIn, gc)
      | Some cli \<Rightarrow>
          (case ParseMessageID gc messageID of
             Inl _ \<Rightarrow> Some (Error prefix_mismatch, gc)
           | Inr msgID \<Rightarrow> need_success mv gc (SendReaction_call env now w msgID (MakeReactionData emoji)
               SendReactionRequest_REMOVE None cli)))"

text \<open>The message a read receipt is for: the exact one, or the last one before its time.\<close>

definition receipt_target ::
  "matrix_env \<Rightarrow> Portal \<Rightarrow> DBMessage option \<Rightarrow> time \<Rightarrow> go_error + DBMessage" where
  "receipt_target mv portal exact readUpTo =
     (case exact of
        Some m \<Rightarrow> Inr m
      | None \<Rightarrow>
          (case mv_last_part mv (po_PortalKey portal) readUpTo of
             Inl err \<Rightarrow> Inl err
           | Inr None \<Rightarrow> Inl (ErrText ''read receipt target not found'')
           | Inr (Some m) \<Rightarrow> Inr m))"

definition HandleMatrixReadReceipt ::
  "matrix_env \<Rightarrow> env \<Rightarrow> time \<Rightarrow> wait \<Rightarrow> Portal \<Rightarrow> DBMessage option \<Rightarrow> time \<Rightarrow> GMClient \<Rightarrow> handler_result" where
  "HandleMatrixReadReceipt mv env now w portal exact readUpTo gc =
     (case gm_Client gc of
        None \<Rightarrow> Some (Error ErrNotLoggedIn, gc)
      | Some cli \<Rightarrow>
          (case receipt_target mv portal exact readUpTo of
             Inl err \<Rightarrow> Some (Error err, gc)
           | Inr target \<Rightarrow>
               (case (ParsePortalID gc (pky_ID (po_PortalKey portal)), ParseMessageID gc (db_ID target)) of
                  (Inr convID, Inr msgID) \<Rightarrow>
                    (case MarkRead env now w convID msgID cli of
                       None \<Rightarrow> None
                     | Some (Panic p, _, c) \<Rightarrow> Some (Panic p, put_client c gc)
                     | Some (Error err, _, c) \<Rightarrow> Some (Error err, put_client c gc)
                     | Some (Return _, _, c) \<Rightarrow> Some (Return (), put_client c gc))
                | _ \<Rightarrow> Some (Error prefix_mismatch, gc))))"

definition HandleMatrixTyping ::
  "env \<Rightarrow> time \<Rightarrow> Portal \<Rightarrow> bool \<Rightarrow> GMClient \<Rightarrow> go_error option \<times> GMClient" where
  "HandleMatrixTyping env now portal isTyping gc =
     (if \<not> isTyping then (None, gc)
      else case gm_Client gc of
             None \<Rightarrow> (Some ErrNotLoggedIn, gc)
           | Some cli \<Rightarrow>
               (case ParsePortalID gc (pky_ID (po_PortalKey portal)) of
                  Inl _ \<Rightarrow> (Some prefix_mismatch, gc)
                | Inr convID \<Rightarrow>
                    let r = SetTyping env now convID (GetSIMPayload (GMClient_GetSIM gc (po_Metadata portal))) cli
                    in (fst r, put_client (snd r) gc)))"

section \<open>Deleting a chat\<close>

text \<open>The number of the first visible participant that is not the user; a participant without an
  identifier is dereferenced.\<close>

fun participant_phone :: "Participant list \<Rightarrow> (go_error, string) outcome" where
  "participant_phone [] = Return ''''"
| "participant_phone (pcp # pcps) =
     (if pt_isVisible pcp \<and> \<not> pt_isMe pcp
      then case pt_ID pcp of
             None \<Rightarrow> Panic ''nil pointer dereference''
           | Some info \<Rightarrow> if si_number info \<noteq> '''' then Return (si_number info) else participant_phone pcps
      else participant_phone pcps)"

definition conversation_phone ::
  "matrix_env \<Rightarrow> env \<Rightarrow> time \<Rightarrow> wait \<Rightarrow> string \<Rightarrow> Client \<Rightarrow> ((go_error, string) outcome \<times> Client) option" where
  "conversation_phone mv env now w convID cli =
     (case GetConversation env now w convID cli of
        None \<Rightarrow> None
      | Some (Panic p, c) \<Rightarrow> Some (Panic p, c)
      | Some (Error err, c) \<Rightarrow> Some (Error (ErrWrap ''failed to get conversation for phone number'' err), c)
      | Some (Return m, c) \<Rightarrow>
          (case mv_conv mv (resp_bytes m) of
             None \<Rightarrow> Some (Return '''', c)
           | Some conv \<Rightarrow> Some (participant_phone (cv_participants conv), c)))"

text \<open>The number of the other user of a direct chat; a group has none.\<close>

definition chat_phone ::
  "matrix_env \<Rightarrow> env \<Rightarrow> time \<Rightarrow> wait \<Rightarrow> Portal \<Rightarrow> string \<Rightarrow> Client \<Rightarrow> ((go_error, string) outcome \<times> Client) option" where
  "chat_phone mv env now w portal convID cli =
     (if \<not> po_isDM portal then Some (Return '''', cli)
      else case mv_existing_ghost mv (po_OtherUserID portal) of
             Inl err \<Rightarrow> Some (Error (ErrWrap ''failed to get ghost'' err), cli)
           | Inr None \<Rightarrow> Some (Error (ErrText (''ghost not found for user '' @ po_OtherUserID portal)), cli)
           | Inr (Some ghost) \<Rightarrow>
               if gh_Phone ghost \<noteq> '''' then Some (Return (gh_Phone ghost), cli)
               else (case conversation_phone mv env now w convID cli of
                       None \<Rightarrow> None
                     | Some (r, c) \<Rightarrow> Some (bind_outcome r (\<lambda>phone.
                         if phone = '''' then Error (ErrText (''phone number not available for conversation '' @ convID))
                         else Return phone), c)))"

text \<open>\<open>w1\<close> is the wait for the conversation, \<open>w2\<close> the one for the deletion.\<close>

definition HandleMatrixDeleteChat ::
  "matrix_env \<Rightarrow> env \<Rightarrow> time \<Rightarrow> wait \<Rightarrow> wait \<Rightarrow> Portal \<Rightarrow> GMClient \<Rightarrow> handler_result" where
  "HandleMatrixDeleteChat mv env now w1 w2 portal gc =
     (case gm_Client gc of
        None \<Rightarrow> Some (Error ErrNotLoggedIn, gc)
      | Some cli \<Rightarrow>
          (case ParsePortalID gc (pky_ID (po_PortalKey portal)) of
             Inl _ \<Rightarrow> Some (Error prefix_mismatch, gc)
           | Inr convID \<Rightarrow>
               (case chat_phone mv env now w1 portal convID cli of
                  None \<Rightarrow> None
                | Some (Panic p, c) \<Rightarrow> Some (Panic p, put_client c gc)
                | Some (Error err, c) \<Rightarrow> Some (Error err, put_client c gc)
                | Some (Return phone, c) \<Rightarrow>
                    (case DeleteConversation env now w2 convID phone c of
                       None \<Rightarrow> None
                     | Some (Panic p, c1) \<Rightarrow> Some (Panic p, put_client c1 gc)
                     | Some (Error err, c1) \<Rightarrow> Some (Error err, put_client c1 gc)
                     | Some (Return _, c1) \<Rightarrow> Some (Return (), put_client c1 gc)))))"

section \<open>Sent messages\<close>

lemma base_request_fields [simp]:
  "sr_ConversationID (base_request gc portal conv txn) = conv"
  "sr_TmpID (base_request gc portal conv txn) = txn"
  "mp_TmpID (sr_MessagePayload (base_request gc portal conv txn)) = txn"
  "mp_TmpID2 (sr_MessagePayload (base_request gc portal conv txn)) = txn"
  "mp_ConversationID (sr_MessagePayload (base_request gc portal conv txn)) = conv"
  "mp_ParticipantID (sr_MessagePayload (base_request gc portal conv txn)) = pm_OutgoingID (po_Metadata portal)"
  by (simp_all add: base_request_def Let_def)

text \<open>A request for a conversation that carries one transaction identifier in all its places.\<close>

definition request_for :: "string \<Rightarrow> string \<Rightarrow> string \<Rightarrow> SendMessageRequest \<Rightarrow> bool" where
  "request_for conv txn outgoingID req \<longleftrightarrow>
     sr_ConversationID req = conv \<and> mp_ConversationID (sr_MessagePayload req) = conv \<and>
     sr_TmpID req = txn \<and> mp_TmpID (sr_MessagePayload req) = txn \<and> mp_TmpID2 (sr_MessagePayload req) = txn \<and>
     mp_ParticipantID (sr_MessagePayload req) = outgoingID"

lemma request_for_set_info [simp]: "request_for conv txn p (set_info infos req) = request_for conv txn p req"
  by (simp add: request_for_def set_info_def)

lemma request_for_add_reply:
  "add_reply gc replyTo req = Inr req' \<Longrightarrow> request_for conv txn p req' = request_for conv txn p req"
  by (auto simp: add_reply_def request_for_def split: option.splits sum.splits)

lemma fill_request_for:
  "fst (fill_request mv be me env rnd content req gc) = Return req' \<Longrightarrow>
   request_for conv txn p req' = request_for conv txn p req \<and> mp_MessageInfo (sr_MessagePayload req') \<noteq> []"
  by (cases "fst (reuploadMedia mv be me env rnd content gc)")
    (auto simp: fill_request_def Let_def set_info_def request_for_def media_infos_def split: if_splits)

lemma ConvertMatrixMessage_request:
  assumes "fst (ConvertMatrixMessage mv be me env rnd msg txn gc) = Return req"
  shows "\<exists>conv. ParsePortalID gc (pky_ID (po_PortalKey (mx_Portal msg))) = Inr conv \<and>
    request_for conv txn (pm_OutgoingID (po_Metadata (mx_Portal msg))) req \<and>
    mp_MessageInfo (sr_MessagePayload req) \<noteq> []"
proof -
  obtain conv where c: "ParsePortalID gc (pky_ID (po_PortalKey (mx_Portal msg))) = Inr conv"
    using assms by (auto simp: ConvertMatrixMessage_def split: sum.splits)
  obtain req0 where r: "add_reply gc (mx_ReplyTo msg) (base_request gc (mx_Portal msg) conv txn) = Inr req0"
    using assms c by (auto simp: ConvertMatrixMessage_def split: sum.splits)
  have f: "fst (fill_request mv be me env rnd (mx_Content msg) req0 gc) = Return req"
    using assms c r by (simp add: ConvertMatrixMessage_def)
  show ?thesis
    using fill_request_for [OF f] request_for_add_reply [OF r] c by (force simp: request_for_def)
qed

text \<open>The transaction identifier of a message.\<close>

definition message_txn :: "nat \<Rightarrow> MatrixMessage \<Rightarrow> string" where
  "message_txn n msg = (if mx_InputTransactionID msg \<noteq> '''' then mx_InputTransactionID msg else GenerateTmpID n)"


section \<open>Echoes\<close>

lemma echo_media_keeps [simp]:
  "mm_TextHash (echo_media parts meta) = mm_TextHash meta" "mm_IsOutgoing (echo_media parts meta) = mm_IsOutgoing meta"
  "mm_Type (echo_media parts meta) = mm_Type meta"
  by (induction parts meta rule: echo_media.induct) (simp_all split: MessageInfoData.split)

text \<open>
  (C37) The echo of a message that was sent from Matrix is stored so that it is not mistaken for an edit:
  as long as the text of later updates has the hash of the echoed text, no update of the message counts
  as edited, even if the phone replaces the uploaded media by its own copies; a different hash does.
\<close>

theorem own_echo_is_not_an_edit:
  assumes "handleRemoteEcho mv be sha256 (Echo_MessageEvent m) dbMessage = Return (Some meta, save, status)"
  shows "save \<and> mm_IsOutgoing meta \<and> mm_Type meta = GetStatus m \<and>
    (MessageWasEdited be sha256 [dbMessage\<lparr>db_Metadata := meta\<rparr>] new \<longleftrightarrow>
       snd (getTextPart be sha256 new) \<noteq> snd (getTextPart be sha256 m)) \<and>
    GetOrigMXID meta (db_MXID dbMessage) = db_MXID dbMessage"
proof -
  have "mm_TextHash meta = snd (getTextPart be sha256 m)" "mm_IsOutgoing meta" "save" "mm_Type meta = GetStatus m"
    using assms by (auto simp: handleRemoteEcho_def Let_def split: if_splits)
  moreover have "mm_OrigMXID meta = (if mv_OutgoingMessageReID mv then db_MXID dbMessage else '''')"
  proof -
    have "mm_OrigMXID (echo_media parts x) = mm_OrigMXID x" for parts x
      by (induction parts x rule: echo_media.induct) (simp_all split: MessageInfoData.split)
    then show ?thesis using assms by (auto simp: handleRemoteEcho_def Let_def zero_metadata_def split: if_splits)
  qed
  ultimately show ?thesis by (auto simp: MessageWasEdited_def GetMainMeta_def GetOrigMXID_def)
qed

definition sample_matrix_env :: matrix_env where
  "sample_matrix_env = \<lparr>mv_DownloadMedia = (\<lambda>_. Inr []), mv_ffmpeg_m4a = (\<lambda>d _. Inr d), mv_FullyQualify = (\<lambda>s. s),
     mv_send_response = (\<lambda>_. \<lparr>sm_googleAccountSwitch = None, sm_status = SendMessageResponse_SUCCESS\<rparr>),
     mv_success = (\<lambda>_. True), mv_conv = (\<lambda>_. None), mv_existing_ghost = (\<lambda>_. Inr None),
     mv_last_part = (\<lambda>_ _. Inr None), mv_OutgoingMessageReID = True\<rparr>"

definition sample_matrix_message :: MatrixMessage where
  "sample_matrix_message = \<lparr>mx_Content = \<lparr>mx_MsgType = Mx_Emote, mx_Body = ''waves'', mx_FileName = '''',
       mx_MimeType = None, mx_Voice = False, mx_URL = ''''\<rparr>,
     mx_Portal = sample_portal True, mx_ReplyTo = None, mx_InputTransactionID = ''t1''\<rparr>"

text \<open>A wait in which an empty answer of the expected type arrives.\<close>

definition sample_wait :: "ResponseType \<Rightarrow> wait" where
  "sample_wait t = \<lparr>wt_first = upd_session (\<lambda>s. s\<lparr>sh_channels := [\<lparr>ch_buf =
       [sample_reply\<lparr>im_DecryptedMessage := Some (DM_Response t [])\<rparr>], ch_closed = False\<rparr>]\<rparr>),
     wt_rest = (\<lambda>c. c), wt_pinger = False\<rparr>"

lemma sample_typed_call:
  assumes "ad_RequestCrypto (cl_AuthData c) = ad_RequestCrypto sample_auth" and "sh_channels (cl_sessionHandler c) = []"
  shows "\<exists>c1. typed_call t (sendMessage sample_env_ok 0 (sample_wait t) a d c) = Some (Return (DM_Response t []), c1)"
proof -
  have "fst (sendAsyncMessage sample_env_ok 0 params c) = Return 0" for params
    using sample_async_ok [OF assms(1)] assms(2) by simp
  then show ?thesis
    by (simp add: typed_call_def typedResponse_def sendMessage_def sendMessageWithParams_def
        sample_wait_def upd_session_def chan_recv_def Let_def)
qed

lemma sample_client_ready:
  obtains cli where "gm_Client sample_bridge_client = Some cli"
    "ad_RequestCrypto (cl_AuthData cli) = ad_RequestCrypto sample_auth" "sh_channels (cl_sessionHandler cli) = []"
  by (simp add: sample_bridge_client_def LoadUserLogin_def GMClient_NewClient_def NewClient_def newSessionHandler_def
        SetAlertTimeoutCount_def SetPingInterval_def)

lemma sample_prefix: "ulm_IDPrefix (gm_Meta sample_bridge_client) = ''1''"
  by (simp add: sample_bridge_client_def LoadUserLogin_def GMClient_NewClient_def sample_meta_def)

lemma sample_portal_parses: "ParsePortalID sample_bridge_client (pky_ID (po_PortalKey (sample_portal b))) = Inr ''c''"
proof -
  have "pky_ID (po_PortalKey (sample_portal b)) = makeAnyID sample_bridge_client ''c''"
    by (simp add: sample_portal_def MakePortalKey_def MakePortalID_def makeAnyID_def sample_prefix)
  then show ?thesis by (simp add: ParsePortalID_def ids.parse_make prefix_ok_def sample_prefix)
qed


theorem own_echo_is_not_an_edit_witness:
  "\<exists>meta. handleRemoteEcho sample_matrix_env sample_bridge_env (\<lambda>_. 0) (Echo_MessageEvent (sample_text 1 ''''))
      (sample_stored 1) = Return (Some meta, True, ''omit message status'') \<and>
    \<not> MessageWasEdited sample_bridge_env (\<lambda>_. 0) [(sample_stored 1)\<lparr>db_Metadata := meta\<rparr>] (sample_text 2 '''')"
proof -
  obtain meta where m: "handleRemoteEcho sample_matrix_env sample_bridge_env (\<lambda>_. 0) (Echo_MessageEvent (sample_text 1 ''''))
      (sample_stored 1) = Return (Some meta, True, ''omit message status'')"
    by (simp add: handleRemoteEcho_def sample_matrix_env_def Let_def)
  have "snd (getTextPart sample_bridge_env (\<lambda>_. 0) (sample_text 2 '''')) = snd (getTextPart sample_bridge_env (\<lambda>_. 0) (sample_text 1 ''''))"
    by (simp add: getTextPart_def Let_def text_hash_def text_collect_def text_start_def GetSubject_def sample_text_def)
  then show ?thesis using own_echo_is_not_an_edit [OF m] m by blast
qed

section \<open>Identifiers of other logins\<close>

lemma foreign_id:
  assumes "prefix_ok other" "prefix_ok gc" "ulm_IDPrefix (gm_Meta other) \<noteq> ulm_IDPrefix (gm_Meta gc)"
    "ulm_IDPrefix (gm_Meta gc) \<noteq> ''''"
  shows "ParsePortalID gc (MakePortalID other c) = Inl ErrPrefixMismatch"
    "ParseMessageID gc (MakeMessageID other c) = Inl ErrPrefixMismatch"
  using ids.parse_other [OF assms] by (simp_all add: ParsePortalID_def MakePortalID_def ParseMessageID_def MakeMessageID_def)

text \<open>
  (C11) Nothing is sent to the phone of one login for the chats and messages of another one: every handler
  that gets a portal or a message whose identifier was made by a login with another prefix returns
  the account mismatch error and leaves the client, and so the list of its requests, unchanged.
\<close>

theorem foreign_ids_send_nothing:
  assumes prefixes: "prefix_ok other" "prefix_ok gc" "ulm_IDPrefix (gm_Meta other) \<noteq> ulm_IDPrefix (gm_Meta gc)"
      "ulm_IDPrefix (gm_Meta gc) \<noteq> ''''"
    and client: "gm_Client gc \<noteq> None"
    and portal: "pky_ID (po_PortalKey portal) = MakePortalID other convID"
    and target: "db_ID target = MakeMessageID other msgID"
  shows "HandleMatrixMessage mv be me env now w meanwhile n rnd (msg\<lparr>mx_Portal := portal\<rparr>) outgoing gc
       = Some (Error prefix_mismatch, outgoing, gc) \<and>
     HandleMatrixMessageRemove mv env now w target gc = Some (Error prefix_mismatch, gc) \<and>
     HandleMatrixReaction mv env now w anyportal target emoji override gc = Some (Error prefix_mismatch, gc) \<and>
     HandleMatrixReactionRemove mv env now w (db_ID target) emoji gc = Some (Error prefix_mismatch, gc) \<and>
     HandleMatrixReadReceipt mv env now w anyportal (Some target) ts gc = Some (Error prefix_mismatch, gc) \<and>
     HandleMatrixReadReceipt mv env now w portal (Some anytarget) ts gc = Some (Error prefix_mismatch, gc) \<and>
     HandleMatrixTyping env now portal True gc = (Some prefix_mismatch, gc) \<and>
     HandleMatrixDeleteChat mv env now w w2 portal gc = Some (Error prefix_mismatch, gc)"
proof -
  obtain cli where "gm_Client gc = Some cli" using client by blast
  then show ?thesis using foreign_id [OF prefixes] portal target
    by (simp add: HandleMatrixMessage_def ConvertMatrixMessage_def HandleMatrixMessageRemove_def HandleMatrixReaction_def
        HandleMatrixReactionRemove_def HandleMatrixReadReceipt_def receipt_target_def HandleMatrixTyping_def
        HandleMatrixDeleteChat_def split: sum.split)
qed

theorem foreign_ids_send_nothing_witness:
  "HandleMatrixDeleteChat sample_matrix_env sample_env_ok 0 (sample_wait GetConversationResponse)
     (sample_wait UpdateConversationResponse)
     ((sample_portal True)\<lparr>po_PortalKey := \<lparr>pky_ID = ''9.c'', pky_Receiver = ''''\<rparr>\<rparr>) sample_bridge_client
   = Some (Error prefix_mismatch, sample_bridge_client)"
proof -
  let ?other = "sample_gm\<lparr>gm_Meta := sample_meta\<lparr>ulm_IDPrefix := ''9''\<rparr>\<rparr>"
  have p: "prefix_ok ?other" "prefix_ok sample_bridge_client"
    "ulm_IDPrefix (gm_Meta ?other) \<noteq> ulm_IDPrefix (gm_Meta sample_bridge_client)" "ulm_IDPrefix (gm_Meta sample_bridge_client) \<noteq> ''''"
    by (simp_all add: prefix_ok_def sample_prefix)
  have c: "gm_Client sample_bridge_client \<noteq> None" using sample_client_ready by blast
  show ?thesis
    using foreign_ids_send_nothing [OF p c, of "(sample_portal True)\<lparr>po_PortalKey := \<lparr>pky_ID = ''9.c'', pky_Receiver = ''''\<rparr>\<rparr>" "''c''"
        "(sample_stored 1)\<lparr>db_ID := ''9.m''\<rparr>" "''m''"]
    by (simp add: MakePortalID_def MakeMessageID_def makeAnyID_def)
qed

section \<open>Deleted chats\<close>

lemma participant_phone_visible:
  "participant_phone pcps = Return phone \<Longrightarrow> phone \<noteq> '''' \<Longrightarrow>
   \<exists>pcp \<in> set pcps. pt_isVisible pcp \<and> \<not> pt_isMe pcp \<and> GetNumber pcp = phone"
  by (induction pcps) (auto simp: GetNumber_def split: if_splits option.splits)

lemma chat_phone_DM:
  "po_isDM portal \<Longrightarrow> chat_phone mv env now w portal convID cli = Some (Return phone, c) \<Longrightarrow> phone \<noteq> ''''"
  by (auto simp: chat_phone_def split: if_splits sum.splits option.splits outcome.splits
      elim!: bind_outcome.elims)

text \<open>A direct chat is deleted only together with the number of its other participant, and a group
  without a number.\<close>

lemma deleted_chat_has_phone:
  assumes "HandleMatrixDeleteChat mv env now w1 w2 portal gc = Some (Return (), gc')"
  shows "\<exists>convID phone c c1 m. ParsePortalID gc (pky_ID (po_PortalKey portal)) = Inr convID \<and>
    DeleteConversation env now w2 convID phone c = Some (Return m, c1) \<and> (po_isDM portal \<longleftrightarrow> phone \<noteq> '''')"
proof -
  obtain cli convID phone c m c1 where s: "ParsePortalID gc (pky_ID (po_PortalKey portal)) = Inr convID"
      "chat_phone mv env now w1 portal convID cli = Some (Return phone, c)"
      "DeleteConversation env now w2 convID phone c = Some (Return m, c1)"
    using assms by (auto simp: HandleMatrixDeleteChat_def split: option.splits sum.splits outcome.splits)
  moreover have "po_isDM portal \<longleftrightarrow> phone \<noteq> ''''"
    using chat_phone_DM [of portal mv env now w1 convID cli phone c] s(2) by (cases "po_isDM portal") (auto simp: chat_phone_def)
  ultimately show ?thesis by blast
qed

section \<open>Reactions\<close>

text \<open>The heart without its variation selector comes back with it; every other emoji is kept.\<close>

definition normal_emoji :: "string \<Rightarrow> string" where
  "normal_emoji e = (if e = [CHR 0xE2, CHR 0x9D, CHR 0xA4] then EmojiType_Unicode EmojiType_RED_HEART else e)"

lemma reaction_emoji_MakeReactionData:
  "reaction_emoji \<lparr>re_data = Some (MakeReactionData e), re_participantIDs = ps\<rparr> = Some (normal_emoji e)"
  unfolding reaction_emoji_def MakeReactionData_def UnicodeToEmojiType_def normal_emoji_def
  by (simp add: Let_def)

lemma need_success_Return:
  "need_success mv gc r = Some (Return x, gc') \<Longrightarrow>
   \<exists>m c. r = Some (Return m, c) \<and> mv_success mv (resp_bytes m) \<and> gc' = put_client c gc"
  by (auto simp: need_success_def split: option.splits outcome.splits if_splits)

text \<open>
  (C38) Reactions survive the trip to the phone and back: when the handler of a Matrix reaction succeeds, the
  phone has accepted a request for the message with that identifier whose reaction data, listed in a
  message of the phone, are read back as the same emoji (with the variation selector added to the
  bare heart), and the request replaces the previous reaction exactly when there was one.
\<close>

theorem reaction_round_trip:
  assumes "HandleMatrixReaction mv env now w portal target emoji override gc = Some (Return (), gc')"
  shows "\<exists>msgID d action cli m c.
    ParseMessageID gc (db_ID target) = Inr msgID \<and> gm_Client gc = Some cli \<and>
    SendReaction_call env now w msgID d action (GetSIMPayload (GMClient_GetSIM gc (po_Metadata portal))) cli
      = Some (Return m, c) \<and> mv_success mv (resp_bytes m) \<and> gc' = put_client c gc \<and>
    reaction_emoji \<lparr>re_data = Some d, re_participantIDs = ps\<rparr> = Some (normal_emoji emoji) \<and>
    action = (if override then SendReactionRequest_SWITCH else SendReactionRequest_ADD)"
proof -
  obtain cli msgID where s: "gm_Client gc = Some cli" "ParseMessageID gc (db_ID target) = Inr msgID"
    using assms by (auto simp: HandleMatrixReaction_def split: option.splits sum.splits)
  have "need_success mv gc (SendReaction_call env now w msgID (MakeReactionData emoji)
      (if override then SendReactionRequest_SWITCH else SendReactionRequest_ADD)
      (GetSIMPayload (GMClient_GetSIM gc (po_Metadata portal))) cli) = Some (Return (), gc')"
    using assms s by (simp add: HandleMatrixReaction_def)
  from need_success_Return [OF this] s show ?thesis
    using reaction_emoji_MakeReactionData [of emoji ps] by blast
qed

theorem reaction_round_trip_witness:
  "\<exists>gc' d. HandleMatrixReaction sample_matrix_env sample_env_ok 0 (sample_wait SendReactionResponse) (sample_portal True)
      ((sample_stored 1)\<lparr>db_ID := ''1.m''\<rparr>) ''x'' True sample_bridge_client = Some (Return (), gc') \<and>
    reaction_emoji \<lparr>re_data = Some d, re_participantIDs = [''7'']\<rparr> = Some ''x''"
proof -
  obtain cli where cli: "gm_Client sample_bridge_client = Some cli"
    "ad_RequestCrypto (cl_AuthData cli) = ad_RequestCrypto sample_auth" "sh_channels (cl_sessionHandler cli) = []"
    by (rule sample_client_ready)
  have "ParseMessageID sample_bridge_client (makeAnyID sample_bridge_client ''m'') = Inr ''m''"
    by (simp add: ParseMessageID_def ids.parse_make prefix_ok_def sample_prefix)
  then have i: "ParseMessageID sample_bridge_client ''1.m'' = Inr ''m''" by (simp add: makeAnyID_def sample_prefix)
  obtain c1 where c1: "SendReaction_call sample_env_ok 0 (sample_wait SendReactionResponse) ''m'' (MakeReactionData ''x'')
      SendReactionRequest_SWITCH (GetSIMPayload (GMClient_GetSIM sample_bridge_client (po_Metadata (sample_portal True)))) cli
      = Some (Return (DM_Response SendReactionResponse []), c1)"
    unfolding SendReaction_call_def using sample_typed_call [OF cli(2,3)] by blast
  have run: "HandleMatrixReaction sample_matrix_env sample_env_ok 0 (sample_wait SendReactionResponse) (sample_portal True)
      ((sample_stored 1)\<lparr>db_ID := ''1.m''\<rparr>) ''x'' True sample_bridge_client = Some (Return (), put_client c1 sample_bridge_client)"
    using cli(1) c1 i by (simp add: HandleMatrixReaction_def need_success_def sample_matrix_env_def)
  show ?thesis using reaction_round_trip [OF run, of "[''7'']"] run by (auto simp: normal_emoji_def)
qed

text \<open>A backfilled echo without parts leaves no metadata, which panics when messages get a new Matrix
  identifier.\<close>

lemma backfill_echo_without_parts_panics:
  "co_Parts conv = [] \<Longrightarrow>
   panics (handleRemoteEcho mv be sha256 (Echo_BackfillMessage conv) dbMessage) \<longleftrightarrow> mv_OutgoingMessageReID mv"
  by (simp add: handleRemoteEcho_def)

end
