(* ===== verification/Gm_StartChat.thy ===== *)
theory Gm_StartChat
  imports Gm_HandleMatrix
begin

text \<open>
  Starting chats (\<open>pkg/connector/startchat.go\<close>): which identifiers are users, resolving a user or a
  phone number to a direct chat, creating groups, and the cached contact list.  The lemmas show that the
  identifiers a login makes are accepted, that a lookup alone sends nothing, which numbers a group
  request carries and when it is repeated for RCS, and how often the contacts are fetched.
\<close>

section \<open>Identifiers of users\<close>

definition isNumber :: "char \<Rightarrow> bool" where
  "isNumber c \<longleftrightarrow> 48 \<le> (of_char c :: nat) \<and> (of_char c :: nat) \<le> 57"

definition isHexLetter :: "char \<Rightarrow> bool" where
  "isHexLetter c \<longleftrightarrow> 97 \<le> (of_char c :: nat) \<and> (of_char c :: nat) \<le> 102"

definition ValidateUserID :: "ConnectorConfig \<Rightarrow> string \<Rightarrow> bool" where
  "ValidateUserID cf i =
     (let p = parseAnyID i
      in if fst p = '''' \<or> snd p = '''' then False
         else list_all (\<lambda>d. isNumber d \<or> (cf_DeterministicIDPrefix cf \<and> isHexLetter d)) (fst p) \<and>
              list_all isNumber (snd p))"

section \<open>Parameters and results\<close>

datatype GetOrCreateConversationResponse_Status =
    GetOrCreateConversationResponse_UNKNOWN
  | GetOrCreateConversationResponse_SUCCESS
  | GetOrCreateConversationResponse_CREATE_RCS
  | GetOrCreateConversationResponse_Unrecognized int

record GetOrCreateConversationResponse_data =
  go_Conversation :: "Conversation option"
  go_Status :: GetOrCreateConversationResponse_Status

text \<open>A contact; of its number the plain and the formatted form are read (empty when it has none).\<close>

record Contact =
  ct_ParticipantID :: string
  ct_Name :: string
  ct_Number :: string
  ct_FormattedNumber :: string
  ct_ContactID :: string

type_synonym ghost = "string \<times> GhostMetadata"

text \<open>
  Parameters: the ghosts that exist, \<open>CleanNonInternationalPhoneNumber\<close>, the decoders of the two answers,
  and the portal operations of the bridge that connect a group to an existing room (the name and the
  room of the portal are set by it).
\<close>

record start_env =
  sv_existing_ghost :: "string \<Rightarrow> go_error + ghost option"
  sv_CleanPhone :: "string \<Rightarrow> go_error + string"
  sv_created :: "bytes \<Rightarrow> GetOrCreateConversationResponse_data"
  sv_contacts :: "bytes \<Rightarrow> Contact list"
  sv_GetPortal :: "PortalKey \<Rightarrow> go_error option"
  sv_UpdateMatrixRoomID :: "PortalKey \<Rightarrow> string \<Rightarrow> string \<Rightarrow> ChatInfo \<Rightarrow> go_error option"

record CreateChatResponse =
  ch_PortalKey :: PortalKey
  ch_PortalInfo :: ChatInfo
  ch_Portal :: "PortalKey option"

record ResolveIdentifierResponse =
  rr_Ghost :: "ghost option"
  rr_UserID :: string
  rr_UserInfo :: "UserInfo option"
  rr_Chat :: "CreateChatResponse option"

definition contact_number :: "string \<Rightarrow> ContactNumber" where
  "contact_number phone = \<lparr>cn_MysteriousInt = 2, cn_Number = phone, cn_Number2 = phone\<rparr>"

text \<open>The call with the receiver's client; the client it leaves is part of the result.\<close>

definition get_or_create ::
  "env \<Rightarrow> time \<Rightarrow> wait \<Rightarrow> GetOrCreateConversationRequest \<Rightarrow> GMClient
    \<Rightarrow> ((go_error, DecryptedMessage) outcome \<times> GMClient) option" where
  "get_or_create env now w req gc =
     (case gm_Client gc of
        None \<Rightarrow> Some (Panic ''nil pointer dereference'', gc)
      | Some cli \<Rightarrow> map_option (\<lambda>r. (fst r, put_client (snd r) gc)) (GetOrCreateConversation env now w req cli))"

section \<open>Resolving an identifier\<close>

text \<open>The first part: either the answer (without a chat), or the phone number to write to.\<close>

datatype resolved = Resolved ResolveIdentifierResponse | Phone string

definition plain_response :: "ghost option \<Rightarrow> string \<Rightarrow> ResolveIdentifierResponse" where
  "plain_response g userID = \<lparr>rr_Ghost = g, rr_UserID = userID, rr_UserInfo = None, rr_Chat = None\<rparr>"

definition resolve_ghost :: "start_env \<Rightarrow> GMClient \<Rightarrow> string \<Rightarrow> bool \<Rightarrow> go_error + resolved option" where
  "resolve_ghost sv gc identifier createChat =
     (if \<not> ValidateUserID (gm_Config gc) identifier then Inr None
      else case sv_existing_ghost sv identifier of
             Inl err \<Rightarrow> Inl (ErrWrap ''failed to get ghost by ID'' err)
           | Inr None \<Rightarrow> Inr None
           | Inr (Some ghost) \<Rightarrow>
               if fst (parseAnyID (fst ghost)) \<noteq> ulm_IDPrefix (gm_Meta gc)
               then Inl (ErrText ''prefix mismatch'')
               else if gh_Phone (snd ghost) = '''' then Inl (ErrText ''phone number of ghost not known'')
               else if \<not> createChat then Inr (Some (Resolved (plain_response (Some ghost) (fst ghost))))
               else Inr (Some (Phone (gh_Phone (snd ghost)))))"

definition resolve_phone :: "start_env \<Rightarrow> GMClient \<Rightarrow> string \<Rightarrow> bool \<Rightarrow> go_error + resolved" where
  "resolve_phone sv gc identifier createChat =
     (case resolve_ghost sv gc identifier createChat of
        Inl err \<Rightarrow> Inl err
      | Inr (Some r) \<Rightarrow> Inr r
      | Inr None \<Rightarrow>
          (case sv_CleanPhone sv identifier of
             Inl err \<Rightarrow> Inl err
           | Inr phone \<Rightarrow> if \<not> createChat then Inr (Resolved (plain_response None phone)) else Inr (Phone phone)))"

text \<open>The other participant of a direct chat: the last one that is visible and not the user.\<close>

definition other_participant :: "Participant list \<Rightarrow> Participant option" where
  "other_participant pcps = find (\<lambda>p. \<not> pt_isMe p \<and> pt_isVisible p) (rev pcps)"

definition other_user ::
  "sync_env \<Rightarrow> GMClient \<Rightarrow> Participant list \<Rightarrow> go_error + (ghost option \<times> string \<times> UserInfo option)" where
  "other_user se gc pcps =
     (case other_participant pcps of
        None \<Rightarrow> Inr (None, '''', None)
      | Some member \<Rightarrow>
          let userID = MakeUserID gc (GetParticipantID member)
          in (case sy_ghost se userID of
                Inl err \<Rightarrow> Inl (ErrWrap ''failed to get ghost'' err)
              | Inr meta \<Rightarrow> Inr (Some (userID, meta), userID, Some (wrapParticipantInfo se gc meta member))))"

text \<open>
  What is made of the answer of the phone.  A conversation that is missing is dereferenced: \<open>proto.Clone\<close> of a
  nil message is a nil message, and its field is assigned before the identifier is checked.
\<close>

definition resolve_chat ::
  "sync_env \<Rightarrow> Conversation option \<Rightarrow> GMClient
    \<Rightarrow> (go_error, ResolveIdentifierResponse \<times> effect list) outcome \<times> GMClient" where
  "resolve_chat se conversation gc =
     (case conversation of
        None \<Rightarrow> (Panic ''nil pointer dereference'', gc)
      | Some conv \<Rightarrow>
          if cv_conversationID conv = '''' then (Error (ErrText ''no conversation ID in response''), gc)
          else let portalKey = MakePortalKey gc (cv_conversationID conv);
                   r = wrapChatInfo se conv gc
               in (case fst r of
                     Panic p \<Rightarrow> (Panic p, snd r)
                   | Error err \<Rightarrow> (Error (ErrWrap ''failed to wrap chat info'' err), snd r)
                   | Return info \<Rightarrow>
                       (case other_user se (snd r) (cv_participants conv) of
                          Inl err \<Rightarrow> (Error err, snd r)
                        | Inr u \<Rightarrow> (Return (\<lparr>rr_Ghost = fst u, rr_UserID = fst (snd u), rr_UserInfo = snd (snd u),
                            rr_Chat = Some \<lparr>ch_PortalKey = portalKey, ch_PortalInfo = fst info, ch_Portal = None\<rparr>\<rparr>,
                            snd info), snd r))))"

definition ResolveIdentifier ::
  "sync_env \<Rightarrow> start_env \<Rightarrow> env \<Rightarrow> time \<Rightarrow> wait \<Rightarrow> string \<Rightarrow> bool \<Rightarrow> GMClient
    \<Rightarrow> ((go_error, ResolveIdentifierResponse \<times> effect list) outcome \<times> GMClient) option" where
  "ResolveIdentifier se sv env now w identifier createChat gc =
     (case resolve_phone sv gc identifier createChat of
        Inl err \<Rightarrow> Some (Error err, gc)
      | Inr (Resolved r) \<Rightarrow> Some (Return (r, []), gc)
      | Inr (Phone phone) \<Rightarrow>
          (case get_or_create env now w
                  \<lparr>gc_Numbers = [contact_number phone], gc_RCSGroupName = None, gc_CreateRCSGroup = None\<rparr> gc of
             None \<Rightarrow> None
           | Some (Panic p, gc1) \<Rightarrow> Some (Panic p, gc1)
           | Some (Error err, gc1) \<Rightarrow> Some (Error err, gc1)
           | Some (Return m, gc1) \<Rightarrow> Some (resolve_chat se (go_Conversation (sv_created sv (resp_bytes m))) gc1)))"

section \<open>Creating a group\<close>

record GroupCreateParams =
  gp_Participants :: "string list"
  gp_Name :: string
  gp_RoomID :: string

definition ErrMinimumTwoUsers :: go_error where
  "ErrMinimumTwoUsers = ErrText ''need at least 2 users to create a group''"

text \<open>The phone number of a participant.  A ghost that does not exist is dereferenced.\<close>

definition participant_number :: "start_env \<Rightarrow> GMClient \<Rightarrow> string \<Rightarrow> (go_error, string) outcome" where
  "participant_number sv gc user =
     (case ParseUserID gc user of
        Inl _ \<Rightarrow> Return user
      | Inr _ \<Rightarrow>
          (case sv_existing_ghost sv user of
             Inl err \<Rightarrow> Error (ErrWrap ''failed to get ghost'' err)
           | Inr None \<Rightarrow> Panic ''nil pointer dereference''
           | Inr (Some ghost) \<Rightarrow>
               if gh_Phone (snd ghost) = '''' then Error (ErrText ''phone number of ghost not known'')
               else Return (gh_Phone (snd ghost))))"

fun group_numbers :: "start_env \<Rightarrow> GMClient \<Rightarrow> string list \<Rightarrow> (go_error, ContactNumber list) outcome" where
  "group_numbers sv gc [] = Return []"
| "group_numbers sv gc (user # users) =
     bind_outcome (participant_number sv gc user) (\<lambda>phone.
       bind_outcome (group_numbers sv gc users) (\<lambda>ns. Return (contact_number phone # ns)))"

definition group_request :: "GroupCreateParams \<Rightarrow> ContactNumber list \<Rightarrow> GetOrCreateConversationRequest" where
  "group_request params numbers =
     \<lparr>gc_Numbers = numbers, gc_RCSGroupName = (if gp_Name params = '''' then None else Some (gp_Name params)),
      gc_CreateRCSGroup = None\<rparr>"

definition rcs_request :: "GetOrCreateConversationRequest \<Rightarrow> GetOrCreateConversationRequest" where
  "rcs_request req = req\<lparr>gc_RCSGroupName := Some (case gc_RCSGroupName req of None \<Rightarrow> '''' | Some n \<Rightarrow> n),
     gc_CreateRCSGroup := Some True\<rparr>"

text \<open>The request, repeated once if the phone asks for an RCS group; \<open>resp.GetStatus()\<close> of a failed call is
  \<open>UNKNOWN\<close>.\<close>

definition create_group_call ::
  "start_env \<Rightarrow> env \<Rightarrow> time \<Rightarrow> wait \<Rightarrow> wait \<Rightarrow> GetOrCreateConversationRequest \<Rightarrow> GMClient
    \<Rightarrow> ((go_error, DecryptedMessage) outcome \<times> GMClient) option" where
  "create_group_call sv env now w1 w2 req gc =
     (case get_or_create env now w1 req gc of
        Some (Return m, gc1) \<Rightarrow>
          if go_Status (sv_created sv (resp_bytes m)) = GetOrCreateConversationResponse_CREATE_RCS
          then get_or_create env now w2 (rcs_request req) gc1
          else Some (Return m, gc1)
      | r \<Rightarrow> r)"

definition group_portal ::
  "start_env \<Rightarrow> GroupCreateParams \<Rightarrow> PortalKey \<Rightarrow> ChatInfo \<Rightarrow> go_error + PortalKey option" where
  "group_portal sv params portalKey info =
     (if gp_RoomID params = '''' then Inr None
      else case sv_GetPortal sv portalKey of
             Some err \<Rightarrow> Inl (ErrWrap ''failed to get portal by key'' err)
           | None \<Rightarrow>
               (case sv_UpdateMatrixRoomID sv portalKey (gp_RoomID params) (gp_Name params) info of
                  Some err \<Rightarrow> Inl err
                | None \<Rightarrow> Inr (Some portalKey)))"

definition group_chat ::
  "sync_env \<Rightarrow> start_env \<Rightarrow> GroupCreateParams \<Rightarrow> Conversation option \<Rightarrow> GMClient
    \<Rightarrow> (go_error, CreateChatResponse \<times> effect list) outcome \<times> GMClient" where
  "group_chat se sv params conversation gc =
     (case conversation of
        None \<Rightarrow> (Error (ErrText ''no conversation data in response''), gc)
      | Some conv \<Rightarrow>
          if cv_conversationID conv = '''' then (Error (ErrText ''no conversation ID in response''), gc)
          else let portalKey = MakePortalKey gc (cv_conversationID conv);
                   r = wrapChatInfo se conv gc
               in (case fst r of
                     Panic p \<Rightarrow> (Panic p, snd r)
                   | Error err \<Rightarrow> (Error (ErrWrap ''failed to wrap chat info'' err), snd r)
                   | Return info \<Rightarrow>
                       (case group_portal sv params portalKey (fst info) of
                          Inl err \<Rightarrow> (Error err, snd r)
                        | Inr portal \<Rightarrow> (Return (\<lparr>ch_PortalKey = portalKey, ch_PortalInfo = fst info, ch_Portal = portal\<rparr>,
                            snd info), snd r))))"

definition CreateGroup ::
  "sync_env \<Rightarrow> start_env \<Rightarrow> env \<Rightarrow> time \<Rightarrow> wait \<Rightarrow> wait \<Rightarrow> GroupCreateParams \<Rightarrow> GMClient
    \<Rightarrow> ((go_error, CreateChatResponse \<times> effect list) outcome \<times> GMClient) option" where
  "CreateGroup se sv env now w1 w2 params gc =
     (if length (gp_Participants params) < 2 then Some (Error ErrMinimumTwoUsers, gc)
      else case group_numbers sv gc (gp_Participants params) of
             Panic p \<Rightarrow> Some (Panic p, gc)
           | Error err \<Rightarrow> Some (Error err, gc)
           | Return numbers \<Rightarrow>
               (case create_group_call sv env now w1 w2 (group_request params numbers) gc of
                  None \<Rightarrow> None
                | Some (Panic p, gc1) \<Rightarrow> Some (Panic p, gc1)
                | Some (Error err, gc1) \<Rightarrow> Some (Error err, gc1)
                | Some (Return m, gc1) \<Rightarrow>
                    Some (group_chat se sv params (go_Conversation (sv_created sv (resp_bytes m))) gc1)))"

section \<open>The contact list\<close>

text \<open>The fields \<open>contactsFetchedAt\<close> and \<open>cachedContacts\<close> of the login.\<close>

record contact_cache =
  cc_fetchedAt :: time
  cc_contacts :: "ResolveIdentifierResponse list"

definition wrapContactInfo :: "sync_env \<Rightarrow> GMClient \<Rightarrow> GhostMetadata \<Rightarrow> Contact \<Rightarrow> UserInfo" where
  "wrapContactInfo se gc ghost contact =
     makeUserInfo se gc ghost (ct_Number contact) (ct_FormattedNumber contact) (ct_Name contact) ''''"

fun contact_responses :: "sync_env \<Rightarrow> GMClient \<Rightarrow> Contact list \<Rightarrow> go_error + ResolveIdentifierResponse list" where
  "contact_responses se gc [] = Inr []"
| "contact_responses se gc (contact # contacts) =
     (let userID = MakeUserID gc (ct_ParticipantID contact)
      in case sy_ghost se userID of
           Inl err \<Rightarrow> Inl (ErrWrap ''failed to get ghost'' err)
         | Inr meta \<Rightarrow>
             (case contact_responses se gc contacts of
                Inl err \<Rightarrow> Inl err
              | Inr rs \<Rightarrow> Inr (\<lparr>rr_Ghost = Some (userID, meta), rr_UserID = userID,
                  rr_UserInfo = Some (wrapContactInfo se gc meta contact), rr_Chat = None\<rparr> # rs)))"

text \<open>\<open>ctx_err\<close> is the error of the context, \<open>later\<close> the time after the call to the phone.\<close>

definition GetContactList ::
  "sync_env \<Rightarrow> start_env \<Rightarrow> env \<Rightarrow> time \<Rightarrow> time \<Rightarrow> wait \<Rightarrow> go_error option \<Rightarrow> contact_cache \<Rightarrow> GMClient
    \<Rightarrow> ((go_error, ResolveIdentifierResponse list) outcome \<times> contact_cache \<times> GMClient) option" where
  "GetContactList se sv env now later w ctx_err cache gc =
     (if time_sub now (cc_fetchedAt cache) < 5 * minute \<or> \<not> gm_PhoneResponding gc
      then Some (Return (cc_contacts cache), cache, gc)
      else case ctx_err of
             Some err \<Rightarrow> Some (Error err, cache, gc)
           | None \<Rightarrow>
               (case gm_Client gc of
                  None \<Rightarrow> Some (Panic ''nil pointer dereference'', cache, gc)
                | Some cli \<Rightarrow>
                    (case ListContacts env now w cli of
                       None \<Rightarrow> None
                     | Some (Panic p, c) \<Rightarrow> Some (Panic p, cache, put_client c gc)
                     | Some (Error err, c) \<Rightarrow> Some (Error err, cache, put_client c gc)
                     | Some (Return m, c) \<Rightarrow>
                         (case contact_responses se (put_client c gc) (sv_contacts sv (resp_bytes m)) of
                            Inl err \<Rightarrow> Some (Error err, cache, put_client c gc)
                          | Inr rs \<Rightarrow> Some (Return rs, \<lparr>cc_fetchedAt = later, cc_contacts = rs\<rparr>, put_client c gc)))))"

section \<open>Which identifiers are users\<close>

lemma isNumber_digit: "isNumber c \<longleftrightarrow> is_digit c"
  by (simp add: isNumber_def is_digit_def char_digit_def Let_def)

lemma isNumber_show_nat: "c \<in> set (show_nat n) \<Longrightarrow> isNumber c"
  using is_digit_show_nat by (simp add: isNumber_digit)

lemma hex_digit_ok: "n < 16 \<Longrightarrow> isNumber (hex_digit n) \<or> isHexLetter (hex_digit n)"
  by (auto simp: hex_digit_def isNumber_def isHexLetter_def)

lemma hex_bytes_ok: "c \<in> set (hex_bytes bs) \<Longrightarrow> isNumber c \<or> isHexLetter c"
proof -
  assume "c \<in> set (hex_bytes bs)"
  then obtain b where "b \<in> set bs" "c = hex_digit (unat b div 16) \<or> c = hex_digit (unat b mod 16)"
    by (auto simp: hex_bytes_def)
  moreover have "unat b div 16 < 16" using unsigned_less [of b, where ?'a = nat] by simp
  ultimately show ?thesis using hex_digit_ok by (metis mod_less_divisor zero_less_numeral)
qed

text \<open>The prefixes that a login gets: a row number, or with the option for deterministic prefixes the
  start of a hash.\<close>

definition login_prefix :: "ConnectorConfig \<Rightarrow> string \<Rightarrow> bool" where
  "login_prefix cf p \<longleftrightarrow>
     (if cf_DeterministicIDPrefix cf then \<exists>bs. bs \<noteq> [] \<and> p = hex_bytes bs else \<exists>n. p = show_nat n)"

lemma dot_no_digit [simp]: "\<not> isNumber CHR ''.''" "\<not> isHexLetter CHR ''.''"
  by (simp_all add: isNumber_def isHexLetter_def)

lemma login_prefix_chars:
  "login_prefix cf p \<Longrightarrow> c \<in> set p \<Longrightarrow> isNumber c \<or> (cf_DeterministicIDPrefix cf \<and> isHexLetter c)"
  using hex_bytes_ok isNumber_show_nat by (auto simp: login_prefix_def split: if_splits)

lemma login_prefix_nonempty: "login_prefix cf p \<Longrightarrow> p \<noteq> ''''"
  by (auto simp: login_prefix_def hex_bytes_def split: if_splits)

text \<open>
  The users that a login knows are users for the bridge: with a prefix as the login flow assigns it, the
  identifier made for a participant passes the validation exactly when the participant identifier is
  a non-empty string of digits, it is read back as that participant, and an identifier without a prefix
  never passes.
\<close>

lemma own_user_ids_validate:
  assumes "login_prefix (gm_Config gc) (ulm_IDPrefix (gm_Meta gc))"
  shows "(ValidateUserID (gm_Config gc) (MakeUserID gc r) \<longleftrightarrow> r \<noteq> '''' \<and> list_all isNumber r) \<and>
    ParseUserID gc (MakeUserID gc r) = Inr r \<and>
    (CHR ''.'' \<notin> set i \<longrightarrow> \<not> ValidateUserID (gm_Config gc) i)"
proof -
  let ?p = "ulm_IDPrefix (gm_Meta gc)"
  have ok: "prefix_ok gc" using login_prefix_chars [OF assms, of "CHR ''.''"] by (auto simp: prefix_ok_def)
  have parse: "parseAnyID (MakeUserID gc r) = (?p, r)"
    using ok by (simp add: parseAnyID_def MakeUserID_def makeAnyID_def prefix_ok_def split2_append)
  have "list_all (\<lambda>d. isNumber d \<or> (cf_DeterministicIDPrefix (gm_Config gc) \<and> isHexLetter d)) ?p"
    using login_prefix_chars [OF assms] by (simp add: list_all_iff)
  then have "ValidateUserID (gm_Config gc) (MakeUserID gc r) \<longleftrightarrow> r \<noteq> '''' \<and> list_all isNumber r"
    using login_prefix_nonempty [OF assms] by (auto simp: ValidateUserID_def parse)
  moreover have "ParseUserID gc (MakeUserID gc r) = Inr r"
    using ok by (simp add: ParseUserID_def MakeUserID_def ids.parse_make)
  moreover have "\<not> ValidateUserID (gm_Config gc) i" if no_dot: "CHR ''.'' \<notin> set i"
  proof (cases "split2 CHR ''.'' i")
    case (Some pq)
    then have "i = fst pq @ CHR ''.'' # snd pq" by (metis prod.collapse split2_Some)
    then show ?thesis using no_dot by (metis in_set_conv_decomp)
  qed (simp add: ValidateUserID_def parseAnyID_def)
  ultimately show ?thesis by blast
qed

lemma own_user_ids_validate_witness:
  "ValidateUserID (gm_Config sample_bridge_client) (MakeUserID sample_bridge_client ''25'') \<and>
   \<not> ValidateUserID (gm_Config sample_bridge_client) (MakeUserID sample_bridge_client ''abc'')"
proof -
  have "\<not> cf_DeterministicIDPrefix (gm_Config sample_bridge_client)"
    by (simp add: sample_bridge_client_def LoadUserLogin_def GMClient_NewClient_def sample_config_def sample_meta_def)
  moreover have "show_nat 1 = ''1''" by code_simp
  ultimately have p: "login_prefix (gm_Config sample_bridge_client) (ulm_IDPrefix (gm_Meta sample_bridge_client))"
    unfolding sample_prefix login_prefix_def by metis
  show ?thesis using own_user_ids_validate [OF p] by (simp add: isNumber_def)
qed

section \<open>Resolving identifiers\<close>

text \<open>A lookup alone sends nothing, and a chat is created only with a phone number that is known.\<close>

lemma lookup_sends_nothing:
  "\<exists>r. ResolveIdentifier se sv env now w identifier False gc = Some (r, gc) \<and> \<not> panics r"
  by (auto simp: ResolveIdentifier_def resolve_phone_def resolve_ghost_def split: sum.split option.split)

text \<open>
  What an answer of the phone without a conversation does: creating a group reports an error, but
  resolving an identifier panics, because the conversation is copied and changed before it is checked
  (the check for the conversation identifier that follows is reached only with a conversation).
\<close>

lemma missing_conversation:
  assumes "go_Conversation (sv_created sv (resp_bytes m)) = None"
    and "resolve_phone sv gc identifier True = Inr (Phone phone)"
    and "get_or_create env now w
      \<lparr>gc_Numbers = [contact_number phone], gc_RCSGroupName = None, gc_CreateRCSGroup = None\<rparr> gc = Some (Return m, gc1)"
    and "length (gp_Participants params) \<ge> 2" "group_numbers sv gc (gp_Participants params) = Return numbers"
    and "create_group_call sv env now w w2 (group_request params numbers) gc = Some (Return m, gc2)"
  shows "ResolveIdentifier se sv env now w identifier True gc = Some (Panic ''nil pointer dereference'', gc1) \<and>
    CreateGroup se sv env now w w2 params gc = Some (Error (ErrText ''no conversation data in response''), gc2)"
  using assms by (simp add: ResolveIdentifier_def resolve_chat_def CreateGroup_def group_chat_def)

definition sample_start_env :: start_env where
  "sample_start_env = \<lparr>sv_existing_ghost = (\<lambda>_. Inr None), sv_CleanPhone = Inr,
     sv_created = (\<lambda>_. \<lparr>go_Conversation = None, go_Status = GetOrCreateConversationResponse_SUCCESS\<rparr>),
     sv_contacts = (\<lambda>_. []), sv_GetPortal = (\<lambda>_. None), sv_UpdateMatrixRoomID = (\<lambda>_ _ _ _. None)\<rparr>"

definition sample_sync_env :: sync_env where
  "sample_sync_env = \<lparr>sy_convs = (\<lambda>_. []), sy_conv = (\<lambda>_. None), sy_images = (\<lambda>_. []),
     sy_ghost = (\<lambda>_. Inr \<lparr>gh_Phone = [], gh_ContactID = [], gh_AvatarUpdateTS = zero_time, gh_HasName = False\<rparr>),
     sy_FormatDisplayname = (\<lambda>_ phone _ _. phone)\<rparr>"

definition sample_group :: GroupCreateParams where
  "sample_group = \<lparr>gp_Participants = [''+1'', ''+2''], gp_Name = ''trip'', gp_RoomID = ''!r''\<rparr>"

lemma sample_get_or_create:
  "\<exists>gc1. get_or_create sample_env_ok 0 (sample_wait GetOrCreateConversationResponse) req sample_bridge_client
     = Some (Return (DM_Response GetOrCreateConversationResponse []), gc1)"
proof -
  obtain cli where cli: "gm_Client sample_bridge_client = Some cli"
    "ad_RequestCrypto (cl_AuthData cli) = ad_RequestCrypto sample_auth" "sh_channels (cl_sessionHandler cli) = []"
    by (rule sample_client_ready)
  obtain c1 where "GetOrCreateConversation sample_env_ok 0 (sample_wait GetOrCreateConversationResponse) req cli
      = Some (Return (DM_Response GetOrCreateConversationResponse []), c1)"
    unfolding GetOrCreateConversation_def using sample_typed_call [OF cli(2,3)] by blast
  then show ?thesis using cli(1) by (simp add: get_or_create_def)
qed

lemma missing_conversation_witness:
  "\<exists>gc1 gc2. ResolveIdentifier sample_sync_env sample_start_env sample_env_ok 0 (sample_wait GetOrCreateConversationResponse) ''+1'' True
      sample_bridge_client = Some (Panic ''nil pointer dereference'', gc1) \<and>
    CreateGroup sample_sync_env sample_start_env sample_env_ok 0 (sample_wait GetOrCreateConversationResponse)
      (sample_wait GetOrCreateConversationResponse) sample_group sample_bridge_client
      = Some (Error (ErrText ''no conversation data in response''), gc2)"
proof -
  let ?w = "sample_wait GetOrCreateConversationResponse" and ?gc = sample_bridge_client and ?sv = sample_start_env
  let ?m = "DM_Response GetOrCreateConversationResponse []"
  have e: "sv_created ?sv b = \<lparr>go_Conversation = None, go_Status = GetOrCreateConversationResponse_SUCCESS\<rparr>" for b
    by (simp add: sample_start_env_def)
  have no: "parseAnyID ''+1'' = ('''', '''')" "parseAnyID ''+2'' = ('''', '''')" by code_simp+
  have v: "\<not> ValidateUserID cf ''+1''" for cf by (simp add: ValidateUserID_def no)
  have p: "resolve_phone ?sv ?gc ''+1'' True = Inr (Phone ''+1'')"
    by (simp add: resolve_phone_def resolve_ghost_def v sample_start_env_def)
  have n: "group_numbers ?sv ?gc (gp_Participants sample_group) = Return [contact_number ''+1'', contact_number ''+2'']"
    by (simp add: sample_group_def participant_number_def ParseUserID_def GMClient_parseAnyID_def no sample_prefix)
  obtain gc1 where gc1: "get_or_create sample_env_ok 0 ?w
      \<lparr>gc_Numbers = [contact_number ''+1''], gc_RCSGroupName = None, gc_CreateRCSGroup = None\<rparr> ?gc = Some (Return ?m, gc1)"
    using sample_get_or_create by blast
  obtain gc2 where "get_or_create sample_env_ok 0 ?w
      (group_request sample_group [contact_number ''+1'', contact_number ''+2'']) ?gc = Some (Return ?m, gc2)"
    using sample_get_or_create by blast
  then have gc2: "create_group_call ?sv sample_env_ok 0 ?w ?w
      (group_request sample_group [contact_number ''+1'', contact_number ''+2'']) ?gc = Some (Return ?m, gc2)"
    by (simp add: create_group_call_def e)
  have two: "length (gp_Participants sample_group) \<ge> 2" by (simp add: sample_group_def)
  have none: "go_Conversation (sv_created ?sv (resp_bytes ?m)) = None" by (simp add: e)
  show ?thesis using missing_conversation [OF none p gc1 two n gc2] by blast
qed

section \<open>Groups\<close>

lemma put_client_keeps_ids [simp]:
  "ulm_IDPrefix (gm_Meta (put_client c gc)) = ulm_IDPrefix (gm_Meta gc)"
  "gm_UserLoginID (put_client c gc) = gm_UserLoginID gc"
  by (simp_all add: put_client_def)

lemma get_or_create_keeps_keys:
  "get_or_create env now w req gc = Some (r, gc') \<Longrightarrow> MakePortalKey gc' conv = MakePortalKey gc conv"
  by (auto simp: get_or_create_def MakePortalKey_def MakePortalID_def makeAnyID_def split: option.splits)

lemma group_numbers_Return:
  "group_numbers sv gc users = Return ns \<Longrightarrow>
   \<exists>phones. ns = map contact_number phones \<and> list_all2 (\<lambda>u p. participant_number sv gc u = Return p) users phones"
proof (induction users arbitrary: ns)
  case (Cons u users)
  obtain p ns' where p: "participant_number sv gc u = Return p" "group_numbers sv gc users = Return ns'"
      "ns = contact_number p # ns'"
    using Cons.prems by (cases "participant_number sv gc u"; cases "group_numbers sv gc users") auto
  obtain phones where "ns' = map contact_number phones"
      "list_all2 (\<lambda>u p. participant_number sv gc u = Return p) users phones"
    using Cons.IH [OF p(2)] by blast
  then show ?case using p by (intro exI [of _ "p # phones"]) simp
qed simp

lemma group_chat_Return:
  assumes "group_chat se sv params conversation gc = (Return (resp, effs), gc')"
  shows "\<exists>conv. conversation = Some conv \<and> cv_conversationID conv \<noteq> '''' \<and>
    ch_PortalKey resp = MakePortalKey gc (cv_conversationID conv) \<and>
    ch_Portal resp = (if gp_RoomID params = '''' then None else Some (ch_PortalKey resp))"
  using assms by (auto simp: group_chat_def group_portal_def Let_def split: option.splits if_splits outcome.splits sum.splits)

text \<open>The answer that creates the group: that of the first request, or of the second one when the
  first answer asks for an RCS group.\<close>

definition group_created ::
  "start_env \<Rightarrow> env \<Rightarrow> time \<Rightarrow> wait \<Rightarrow> wait \<Rightarrow> GetOrCreateConversationRequest \<Rightarrow> GMClient \<Rightarrow> DecryptedMessage \<Rightarrow> GMClient \<Rightarrow> bool" where
  "group_created sv env now w1 w2 req gc m gc2 \<longleftrightarrow>
     (\<exists>m0 gc1. get_or_create env now w1 req gc = Some (Return m0, gc1) \<and>
        (if go_Status (sv_created sv (resp_bytes m0)) = GetOrCreateConversationResponse_CREATE_RCS
         then get_or_create env now w2 (rcs_request req) gc1 = Some (Return m, gc2)
         else m = m0 \<and> gc2 = gc1))"

lemma create_group_call_Return:
  "create_group_call sv env now w1 w2 req gc = Some (Return m, gc2) \<longleftrightarrow> group_created sv env now w1 w2 req gc m gc2"
  by (auto simp: create_group_call_def group_created_def split: option.splits outcome.splits)

lemma group_created_keeps_keys:
  "group_created sv env now w1 w2 req gc m gc2 \<Longrightarrow> MakePortalKey gc2 conv = MakePortalKey gc conv"
  unfolding group_created_def using get_or_create_keeps_keys by (auto split: if_splits)


definition sample_created_env :: start_env where
  "sample_created_env = sample_start_env\<lparr>sv_created := (\<lambda>_.
     \<lparr>go_Conversation = Some \<lparr>cv_conversationID = ''g'', cv_name = ''trip'', cv_lastMessageTimestamp = 0, cv_unread = False,
        cv_isGroupChat = True, cv_defaultOutgoingID = ''1'', cv_status = ConversationStatus_ACTIVE, cv_readOnly = False,
        cv_latestMessageID = [], cv_sendMode = ConversationSendMode_SEND_MODE_AUTO, cv_participants = [],
        cv_type = ConversationType_RCS, cv_pinned = False, cv_groupAvatarURL = []\<rparr>,
      go_Status = GetOrCreateConversationResponse_SUCCESS\<rparr>)\<rparr>"


section \<open>Contacts\<close>

text \<open>A second call within five minutes of a fetch returns the same list and sends nothing; a call that
  fails keeps the list that was cached.\<close>

lemma contacts_cached:
  assumes "GetContactList se sv env now later w ctx cache gc = Some (Return rs, cache', gc1)"
    and "time_sub t (cc_fetchedAt cache') < 5 * minute"
  shows "GetContactList se' sv' env' t later' w' ctx' cache' gc1 = Some (Return rs, cache', gc1)"
proof -
  have "cc_contacts cache' = rs"
    using assms(1) by (auto simp: GetContactList_def split: if_splits option.splits outcome.splits sum.splits)
  then show ?thesis using assms(2) by (simp add: GetContactList_def)
qed

lemma contacts_failure_keeps_cache:
  "GetContactList se sv env now later w ctx cache gc = Some (Error e, cache', gc1) \<Longrightarrow> cache' = cache"
  by (auto simp: GetContactList_def split: if_splits option.splits outcome.splits sum.splits)

lemma contact_responses_length:
  "contact_responses se gc contacts = Inr rs \<Longrightarrow>
   map rr_UserID rs = map (\<lambda>c. MakeUserID gc (ct_ParticipantID c)) contacts"
  by (induction contacts arbitrary: rs) (auto simp: Let_def split: sum.splits)

end
