(* ===== verification/Gm_Calls.thy ===== *)
theory Gm_Calls
  imports Gm_HandleMatrix
begin

text \<open>
  The calls of \<open>libgm/methods.go\<close> against the table of response types of \<open>libgm/event_handler.go\<close>: each
  call asserts a Go type on its answer, and the answer was decoded by another goroutine into the type that
  the table has for its action.  The two sides are written in different files and agree.
\<close>

section \<open>The calls that wait for a typed answer\<close>

datatype phone_call =
    Call_ListConversations int ListConversationsRequest_Folder "Cursor option"
  | Call_UpdateConversation int string UpdateConversationData
  | Call_ListContacts
  | Call_ListTopContacts
  | Call_GetOrCreateConversation GetOrCreateConversationRequest
  | Call_GetConversationType string
  | Call_GetConversation string
  | Call_FetchMessages string int "Cursor option"
  | Call_SendMessage SendMessageRequest
  | Call_GetParticipantThumbnail "string list"
  | Call_GetContactThumbnail "string list"
  | Call_SendReaction string ReactionData SendReactionRequest_Action "SIMPayload option"
  | Call_DeleteMessage string
  | Call_IsBugleDefault
  | Call_GetFullSizeImage string string

fun run_call :: "env \<Rightarrow> time \<Rightarrow> wait \<Rightarrow> phone_call \<Rightarrow> Client \<Rightarrow> call_result" where
  "run_call env now w (Call_ListConversations n folder cursor) c = ListConversationsWithCursor env now w n folder cursor c"
| "run_call env now w (Call_UpdateConversation action conv d) c = UpdateConversation env now w action conv d c"
| "run_call env now w Call_ListContacts c = ListContacts env now w c"
| "run_call env now w Call_ListTopContacts c = ListTopContacts env now w c"
| "run_call env now w (Call_GetOrCreateConversation req) c = GetOrCreateConversation env now w req c"
| "run_call env now w (Call_GetConversationType conv) c = GetConversationType env now w conv c"
| "run_call env now w (Call_GetConversation conv) c = GetConversation env now w conv c"
| "run_call env now w (Call_FetchMessages conv n cursor) c = FetchMessages_call env now w conv n cursor c"
| "run_call env now w (Call_SendMessage req) c = SendMessage_call env now w req c"
| "run_call env now w (Call_GetParticipantThumbnail ids) c = GetParticipantThumbnail env now w ids c"
| "run_call env now w (Call_GetContactThumbnail ids) c = GetContactThumbnail env now w ids c"
| "run_call env now w (Call_SendReaction msg d action sim) c = SendReaction_call env now w msg d action sim c"
| "run_call env now w (Call_DeleteMessage msg) c = DeleteMessage_call env now w msg c"
| "run_call env now w Call_IsBugleDefault c = IsBugleDefault env now w c"
| "run_call env now w (Call_GetFullSizeImage msg action) c = GetFullSizeImage env now w msg action c"

text \<open>The request that a call sends, and the client as it is then.\<close>

definition plain_request :: "ActionType \<Rightarrow> RequestData option \<Rightarrow> SendMessageParams" where
  "plain_request action d = default_params\<lparr>pr_Action := action, pr_Data := d\<rparr>"

fun call_params :: "phone_call \<Rightarrow> Client \<Rightarrow> SendMessageParams" where
  "call_params (Call_ListConversations n folder cursor) c =
     (plain_request ActionType_LIST_CONVERSATIONS (Some (ListConversationsRequest n folder cursor)))
       \<lparr>pr_MessageType := (if cl_conversationsFetchedOnce c then MessageType_BUGLE_MESSAGE else MessageType_BUGLE_ANNOTATION)\<rparr>"
| "call_params (Call_UpdateConversation action conv d) c =
     plain_request ActionType_UPDATE_CONVERSATION (Some (UpdateConversationRequest action conv d))"
| "call_params Call_ListContacts c = plain_request ActionType_LIST_CONTACTS (Some (ListContactsRequest 1 350 50))"
| "call_params Call_ListTopContacts c = plain_request ActionType_LIST_TOP_CONTACTS (Some (ListTopContactsRequest 8))"
| "call_params (Call_GetOrCreateConversation req) c =
     plain_request ActionType_GET_OR_CREATE_CONVERSATION (Some (RD_GetOrCreateConversation req))"
| "call_params (Call_GetConversationType conv) c =
     plain_request ActionType_GET_CONVERSATION_TYPE (Some (GetConversationTypeRequest conv))"
| "call_params (Call_GetConversation conv) c = plain_request ActionType_GET_CONVERSATION (Some (GetConversationRequest conv))"
| "call_params (Call_FetchMessages conv n cursor) c =
     plain_request ActionType_LIST_MESSAGES (Some (ListMessagesRequest conv n cursor))"
| "call_params (Call_SendMessage req) c = plain_request ActionType_SEND_MESSAGE (Some (RD_SendMessage req))"
| "call_params (Call_GetParticipantThumbnail ids) c =
     plain_request ActionType_GET_PARTICIPANTS_THUMBNAIL (Some (GetThumbnailRequest ids))"
| "call_params (Call_GetContactThumbnail ids) c =
     plain_request ActionType_GET_CONTACTS_THUMBNAIL (Some (GetThumbnailRequest ids))"
| "call_params (Call_SendReaction msg d action sim) c =
     plain_request ActionType_SEND_REACTION (Some (SendReactionRequest msg d action sim))"
| "call_params (Call_DeleteMessage msg) c = plain_request ActionType_DELETE_MESSAGE (Some (DeleteMessageRequest msg))"
| "call_params Call_IsBugleDefault c = plain_request ActionType_IS_BUGLE_DEFAULT None"
| "call_params (Call_GetFullSizeImage msg action) c =
     plain_request ActionType_GET_FULL_SIZE_IMAGE (Some (GetFullSizeImageRequest msg action))"

fun call_client :: "phone_call \<Rightarrow> Client \<Rightarrow> Client" where
  "call_client (Call_ListConversations n folder cursor) c = c\<lparr>cl_conversationsFetchedOnce := True\<rparr>"
| "call_client _ c = c"

lemmas call_defs = ListConversationsWithCursor_def UpdateConversation_def ListContacts_def ListTopContacts_def
  GetOrCreateConversation_def GetConversationType_def GetConversation_def FetchMessages_call_def SendMessage_call_def
  GetParticipantThumbnail_def GetContactThumbnail_def SendReaction_call_def DeleteMessage_call_def IsBugleDefault_def
  GetFullSizeImage_def sendMessage_def plain_request_def

text \<open>Each call expects the type that the table of the event handler has for its action.\<close>

lemma run_call_typed:
  "\<exists>t. responseType (pr_Action (call_params call c)) = Some t \<and>
     run_call env now w call c = typed_call t (sendMessageWithParams env now w (call_params call c) (call_client call c))"
  by (cases call) (simp_all add: call_defs responseType_def Let_def)

text \<open>
  (C17) The calls are well typed: when a call gets an answer that the event handler has decoded and that is for
  the action of the call, the call returns the decoded message, which is of the type the table has for the
  action; no call of the client can fail with an unexpected response type on such an answer.
\<close>

theorem calls_accept_their_answers:
  assumes "sendMessageWithParams env now w (call_params call c) (call_client call c) = Some (Return msg, woken, c1)"
    and "fst (decryptInternalMessage env' data c') = Inr msg" "im_Message msg = Some m"
    and "md_Action m = pr_Action (call_params call c)"
  shows "\<exists>r. run_call env now w call c = Some (Return r, c1) \<and> im_DecryptedMessage msg = Some r \<and>
    responseType (pr_Action (call_params call c)) = Some (message_type r)"
proof -
  obtain t where t: "responseType (pr_Action (call_params call c)) = Some t"
    and run: "run_call env now w call c = typed_call t (sendMessageWithParams env now w (call_params call c) (call_client call c))"
    using run_call_typed by blast
  obtain r where r: "im_DecryptedMessage msg = Some r" "message_type r = t"
    using decoded_messages_are_typed [OF assms(2,3)] t assms(4) by (auto simp: map_option_eq_Some)
  with t run assms(1) show ?thesis by (simp add: typed_call_def typedResponse_def)
qed

text \<open>A concrete call: the contact list, answered by a message without a payload.\<close>

definition sample_contacts :: RPCMessageData where
  "sample_contacts = \<lparr>md_SessionID = ''req'', md_Action = ActionType_LIST_CONTACTS, md_UnencryptedData = None,
     md_EncryptedData = None, md_EncryptedData2 = None\<rparr>"

definition contacts_raw :: RPCIncoming where
  "contacts_raw = sample_raw\<lparr>ri_BugleRoute := BugleRoute_DataEvent\<rparr>"

definition contacts_answer :: IncomingRPCMessage where
  "contacts_answer = (base_message contacts_raw)\<lparr>im_Message := Some sample_contacts,
     im_DecryptedMessage := Some (new_message ListContactsResponse)\<rparr>"

definition contacts_wait :: wait where
  "contacts_wait = \<lparr>wt_first = upd_session (\<lambda>s. s\<lparr>sh_channels := [\<lparr>ch_buf = [contacts_answer], ch_closed = False\<rparr>]\<rparr>),
     wt_rest = (\<lambda>c. c), wt_pinger = False\<rparr>"

theorem calls_accept_their_answers_witness:
  "\<exists>r c1. run_call sample_env_ok 0 contacts_wait Call_ListContacts (NewClient sample_auth None) = Some (Return r, c1) \<and>
    message_type r = ListContactsResponse"
proof -
  let ?c = "NewClient sample_auth None"
  have "fst (sendAsyncMessage sample_env_ok 0 (call_params Call_ListContacts ?c) ?c) = Return 0"
    using sample_async_ok [of ?c] by (simp add: NewClient_def newSessionHandler_def)
  then obtain c1 where s: "sendMessageWithParams sample_env_ok 0 contacts_wait (call_params Call_ListContacts ?c)
      (call_client Call_ListContacts ?c) = Some (Return contacts_answer, False, c1)"
    by (simp add: sendMessageWithParams_def contacts_wait_def upd_session_def chan_recv_def Let_def)
  have d: "fst (decryptInternalMessage (sample_env\<lparr>env_unmarshal_rpc := (\<lambda>_. Inr sample_contacts)\<rparr>)
      contacts_raw ?c) = Inr contacts_answer"
    by (simp add: decryptInternalMessage_def decryptDataEvent_def sample_contacts_def contacts_answer_def
        contacts_raw_def Let_def responseType_def)
  show ?thesis
    using calls_accept_their_answers [OF s d, of sample_contacts]
    by (auto simp: contacts_answer_def sample_contacts_def plain_request_def default_params_def)
qed

end
