(* ===== verification/Gm_Connector.thy ===== *)
theory Gm_Connector
  imports Gm_StartChat
begin

text \<open>
  The connector: its configuration (\<open>pkg/connector/config.go\<close>), its start
  (\<open>pkg/connector/connector.go\<close>), what it announces of itself and of each room
  (\<open>pkg/connector/capabilities.go\<close>, the texts of \<open>pkg/connector/bridgestate.go\<close> and the push
  configuration of \<open>pkg/connector/push.go\<close>).  The lemmas compare what is announced with what the
  handlers do: an announced file is sent with a media format the phone knows, the least size of a group is
  the one \<open>CreateGroup\<close> asks for, and the device names of the configuration are the ones a new pairing
  shows to the phone.
\<close>

section \<open>Configuration\<close>

record DisplaynameTemplateArgs =
  dt_PhoneNumber :: string
  dt_FullName :: string
  dt_FirstName :: string

text \<open>
  The YAML decoder, which may have written some fields when it fails, and the template package: a
  syntax error of a template, and what is written when a template runs, with the error that stops it.
  A compiled template is named by its text.
\<close>

record config_env =
  ct_Decode :: "bytes \<Rightarrow> ConnectorConfig \<Rightarrow> ConnectorConfig \<times> go_error option"
  ct_Parse :: "string \<Rightarrow> go_error option"
  ct_Execute :: "string \<Rightarrow> DisplaynameTemplateArgs \<Rightarrow> string \<times> go_error option"

record loaded_config =
  ld_Config :: ConnectorConfig
  ld_displaynameTemplate :: "string option"

definition UnmarshalYAML :: "config_env \<Rightarrow> bytes \<Rightarrow> loaded_config \<Rightarrow> go_error option \<times> loaded_config" where
  "UnmarshalYAML ct node c =
     (let d = ct_Decode ct node (ld_Config c);
          c1 = c\<lparr>ld_Config := fst d\<rparr>
      in case snd d of
           Some err \<Rightarrow> (Some err, c1)
         | None \<Rightarrow>
             let text = cf_DisplaynameTemplate (ld_Config c1)
             in (case ct_Parse ct text of
                   Some err \<Rightarrow> (Some err, c1\<lparr>ld_displaynameTemplate := None\<rparr>)
                 | None \<Rightarrow> (None, c1\<lparr>ld_displaynameTemplate := Some text\<rparr>)))"

text \<open>The error of the template is dropped; running a template that was never compiled dereferences nil.\<close>

definition FormatDisplayname ::
  "config_env \<Rightarrow> loaded_config \<Rightarrow> string \<Rightarrow> string \<Rightarrow> string \<Rightarrow> (go_error, string) outcome" where
  "FormatDisplayname ct bc phone fullName firstName =
     (case ld_displaynameTemplate bc of
        None \<Rightarrow> Panic ''nil pointer dereference''
      | Some t \<Rightarrow> Return (fst (ct_Execute ct t
          \<lparr>dt_PhoneNumber = phone, dt_FullName = fullName, dt_FirstName = firstName\<rparr>)))"

text \<open>The calls of \<open>helper.Copy\<close>, in their order, on the helper \<open>h\<close>.\<close>

datatype yaml_type = Up_Str | Up_Bool | Up_Int

definition upgradeConfig :: "(yaml_type list \<Rightarrow> string list \<Rightarrow> 'h \<Rightarrow> 'h) \<Rightarrow> 'h \<Rightarrow> 'h" where
  "upgradeConfig Copy h = fold (\<lambda>tp. Copy (fst tp) (snd tp))
     [([Up_Str], [''displayname_template'']),
      ([Up_Str], [''device_meta'', ''os'']),
      ([Up_Str], [''device_meta'', ''browser'']),
      ([Up_Str], [''device_meta'', ''type'']),
      ([Up_Bool], [''aggressive_reconnect'']),
      ([Up_Int], [''initial_chat_sync_count'']),
      ([Up_Str, Up_Int], [''ping_interval'']),
      ([Up_Int], [''alert_timeout_count''])] h"

section \<open>Start of the connector\<close>

definition BrowserType_value :: "(string \<times> BrowserType) list" where
  "BrowserType_value =
     [(''UNKNOWN_BROWSER_TYPE'', BrowserType_UNKNOWN_BROWSER_TYPE), (''OTHER'', BrowserType_OTHER),
      (''CHROME'', BrowserType_CHROME), (''FIREFOX'', BrowserType_FIREFOX), (''SAFARI'', BrowserType_SAFARI),
      (''OPERA'', BrowserType_OPERA), (''IE'', BrowserType_IE), (''EDGE'', BrowserType_EDGE)]"

definition DeviceType_value :: "(string \<times> DeviceType) list" where
  "DeviceType_value =
     [(''UNKNOWN_DEVICE_TYPE'', DeviceType_UNKNOWN_DEVICE_TYPE), (''WEB'', DeviceType_WEB),
      (''TABLET'', DeviceType_TABLET), (''PWA'', DeviceType_PWA)]"

text \<open>The change of the package variable \<open>util.BrowserDetailsMessage\<close>: an unknown name is logged and the
  value is left as it was.  The connector also remembers the bridge and its database.\<close>

definition set_browser :: "string \<Rightarrow> BrowserDetails \<Rightarrow> BrowserDetails" where
  "set_browser name bd =
     (case map_of BrowserType_value name of None \<Rightarrow> bd | Some v \<Rightarrow> bd\<lparr>bd_BrowserType := v\<rparr>)"

definition set_device_type :: "string \<Rightarrow> BrowserDetails \<Rightarrow> BrowserDetails" where
  "set_device_type name bd =
     (case map_of DeviceType_value name of None \<Rightarrow> bd | Some v \<Rightarrow> bd\<lparr>bd_DeviceType := v\<rparr>)"

record 'db GMConnector =
  gn_DB :: "'db option"
  gn_Config :: loaded_config

definition Init :: "'db \<Rightarrow> 'db GMConnector \<Rightarrow> BrowserDetails \<Rightarrow> 'db GMConnector \<times> BrowserDetails" where
  "Init db gc details =
     (let dm = cf_DeviceMeta (ld_Config (gn_Config gc))
      in (gc\<lparr>gn_DB := Some db\<rparr>,
          set_device_type (dm_Type dm) (set_browser (dm_Browser dm) (details\<lparr>bd_OS := dm_OS dm\<rparr>))))"

text \<open>\<open>upgrade\<close> are the schema migrations of the database.\<close>

definition Start :: "('db \<Rightarrow> go_error option \<times> 'db) \<Rightarrow> 'db GMConnector \<Rightarrow> (go_error, unit) outcome \<times> 'db GMConnector" where
  "Start upgrade gc =
     (case gn_DB gc of
        None \<Rightarrow> (Panic ''nil pointer dereference'', gc)
      | Some db \<Rightarrow> (case fst (upgrade db) of Some err \<Rightarrow> Error err | None \<Rightarrow> Return (),
                    gc\<lparr>gn_DB := Some (snd (upgrade db))\<rparr>))"

record BridgeName =
  bn_DisplayName :: string
  bn_NetworkURL :: string
  bn_NetworkIcon :: string
  bn_NetworkID :: string
  bn_BeeperBridgeType :: string
  bn_DefaultPort :: nat
  bn_DefaultCommandPrefix :: string

definition GetName :: BridgeName where
  "GetName = \<lparr>bn_DisplayName = ''Google Messages'', bn_NetworkURL = ''https://messages.google.com'',
     bn_NetworkIcon = ''mxc://maunium.net/yGOdcrJcwqARZqdzbfuxfhzb'', bn_NetworkID = ''gmessages'',
     bn_BeeperBridgeType = ''gmessages'', bn_DefaultPort = 29336, bn_DefaultCommandPrefix = ''!gm''\<rparr>"

section \<open>Capabilities of the network\<close>

record OutgoingTimeoutConfig =
  ot_NoEchoTimeout :: duration
  ot_NoEchoMessage :: string
  ot_NoAckTimeout :: duration
  ot_NoAckMessage :: string
  ot_CheckInterval :: duration

record ResolveIdentifierCapabilities =
  rc_CreateDM :: bool
  rc_LookupPhone :: bool
  rc_AnyPhone :: bool
  rc_ContactList :: bool

record GroupTypeCapabilities =
  gt_TypeDescription :: string
  gt_Participants_Allowed :: bool
  gt_Participants_Required :: bool
  gt_Participants_MinLength :: nat
  gt_Participants_SkipIdentifierValidation :: bool

record NetworkGeneralCapabilities =
  ng_DisappearingMessages :: bool
  ng_AggressiveUpdateInfo :: bool
  ng_OutgoingMessageTimeouts :: OutgoingTimeoutConfig
  ng_ResolveIdentifier :: ResolveIdentifierCapabilities
  ng_GroupCreation :: "(string \<times> GroupTypeCapabilities) list"

definition generalCaps :: NetworkGeneralCapabilities where
  "generalCaps =
     \<lparr>ng_DisappearingMessages = False, ng_AggressiveUpdateInfo = False,
      ng_OutgoingMessageTimeouts =
        \<lparr>ot_NoEchoTimeout = 1 * minute, ot_NoEchoMessage = ''phone has not confirmed message delivery'',
         ot_NoAckTimeout = 3 * minute, ot_NoAckMessage = ''phone is not responding'', ot_CheckInterval = 1 * minute\<rparr>,
      ng_ResolveIdentifier = \<lparr>rc_CreateDM = True, rc_LookupPhone = False, rc_AnyPhone = True, rc_ContactList = False\<rparr>,
      ng_GroupCreation = [(''group'',
        \<lparr>gt_TypeDescription = ''mms/rcs group'', gt_Participants_Allowed = True, gt_Participants_Required = True,
         gt_Participants_MinLength = 2, gt_Participants_SkipIdentifierValidation = True\<rparr>)]\<rparr>"

definition GMConnector_GetCapabilities :: NetworkGeneralCapabilities where
  "GMConnector_GetCapabilities = generalCaps"

definition GetBridgeInfoVersion :: "nat \<times> nat" where
  "GetBridgeInfoVersion = (1, 5)"

section \<open>Capabilities of a room\<close>

definition MaxFileSize :: int where
  "MaxFileSize = 100 * 1024 * 1024"

text \<open>The support levels of the framework that are used, and its zero value.\<close>

datatype CapabilitySupportLevel =
  CapLevelRejected | CapLevelUnsupported | CapLevelPartialSupport | CapLevelFullySupported

datatype CapabilityMsgType = MsgImage | MsgAudio | MsgVideo | MsgFile | CapMsgVoice | CapMsgGIF

type_synonym mime_levels = "(string \<times> CapabilitySupportLevel) list"

record FileFeatures =
  ff_MimeTypes :: mime_levels
  ff_Caption :: CapabilitySupportLevel
  ff_MaxSize :: int

record RoomFeatures =
  rf_ID :: string
  rf_File :: "(CapabilityMsgType \<times> FileFeatures) list"
  rf_Reply :: CapabilitySupportLevel
  rf_DeleteForMe :: bool
  rf_Reaction :: CapabilitySupportLevel
  rf_ReactionCount :: nat
  rf_ReadReceipts :: bool
  rf_TypingNotifications :: bool
  rf_DeleteChat :: bool

text \<open>The argument \<open>ffmpeg\<close> below is the result of \<open>ffmpeg.Supported\<close>.\<close>

definition supportedIfFFmpeg :: "bool \<Rightarrow> CapabilitySupportLevel" where
  "supportedIfFFmpeg ffmpeg = (if ffmpeg then CapLevelPartialSupport else CapLevelRejected)"

definition capID :: "bool \<Rightarrow> string \<Rightarrow> string" where
  "capID ffmpeg chatType =
     (let base = ''fi.mau.gmessages.capabilities.2025_10_27.'' @ chatType
      in if ffmpeg then base @ ''+ffmpeg'' else base)"

definition imageMimes :: mime_levels where
  "imageMimes =
     [(''image/png'', CapLevelFullySupported), (''image/jpeg'', CapLevelFullySupported),
      (''image/gif'', CapLevelFullySupported), (''image/bmp'', CapLevelFullySupported),
      (''image/wbmp'', CapLevelFullySupported), (''image/webp'', CapLevelFullySupported)]"

definition audioMimes :: mime_levels where
  "audioMimes =
     [(''audio/aac'', CapLevelFullySupported), (''audio/amr'', CapLevelFullySupported),
      (''audio/mpeg'', CapLevelFullySupported), (''audio/mp4'', CapLevelFullySupported),
      (''audio/mp4-latm'', CapLevelFullySupported), (''audio/3gpp'', CapLevelFullySupported),
      (''audio/ogg'', CapLevelFullySupported)]"

definition videoMimes :: mime_levels where
  "videoMimes =
     [(''video/mp4'', CapLevelFullySupported), (''video/3gpp'', CapLevelFullySupported),
      (''video/webm'', CapLevelFullySupported)]"

definition fileMimes :: mime_levels where
  "fileMimes = [(''application/*'', CapLevelFullySupported), (''text/*'', CapLevelFullySupported)]"

definition voiceMimes :: "bool \<Rightarrow> mime_levels" where
  "voiceMimes ffmpeg = [(''audio/ogg'', supportedIfFFmpeg ffmpeg), (''audio/mp4'', CapLevelFullySupported)]"

definition gifMimes :: mime_levels where
  "gifMimes = [(''image/gif'', CapLevelFullySupported)]"

definition file_features :: "mime_levels \<Rightarrow> CapabilitySupportLevel \<Rightarrow> FileFeatures" where
  "file_features mimes caption = \<lparr>ff_MimeTypes = mimes, ff_Caption = caption, ff_MaxSize = MaxFileSize\<rparr>"

definition rcsCaps :: "bool \<Rightarrow> RoomFeatures" where
  "rcsCaps ffmpeg =
     \<lparr>rf_ID = capID ffmpeg ''rcs'',
      rf_File =
        [(MsgImage, file_features imageMimes CapLevelUnsupported),
         (MsgAudio, file_features audioMimes CapLevelUnsupported),
         (MsgVideo, file_features videoMimes CapLevelUnsupported),
         (MsgFile, file_features fileMimes CapLevelUnsupported),
         (CapMsgVoice, file_features (voiceMimes ffmpeg) CapLevelUnsupported),
         (CapMsgGIF, file_features gifMimes CapLevelUnsupported)],
      rf_Reply = CapLevelFullySupported, rf_DeleteForMe = True, rf_Reaction = CapLevelFullySupported,
      rf_ReactionCount = 1, rf_ReadReceipts = True, rf_TypingNotifications = True, rf_DeleteChat = True\<rparr>"

definition smsCaps :: "bool \<Rightarrow> RoomFeatures" where
  "smsCaps ffmpeg =
     \<lparr>rf_ID = capID ffmpeg ''sms'',
      rf_File =
        [(MsgImage, file_features imageMimes CapLevelFullySupported),
         (MsgAudio, file_features audioMimes CapLevelFullySupported),
         (MsgVideo, file_features videoMimes CapLevelFullySupported),
         (MsgFile, file_features fileMimes CapLevelFullySupported),
         (CapMsgVoice, file_features (voiceMimes ffmpeg) CapLevelUnsupported),
         (CapMsgGIF, file_features gifMimes CapLevelFullySupported)],
      rf_Reply = CapLevelUnsupported, rf_DeleteForMe = True, rf_Reaction = CapLevelPartialSupport,
      rf_ReactionCount = 1, rf_ReadReceipts = True, rf_TypingNotifications = False, rf_DeleteChat = True\<rparr>"

definition GetCapabilities :: "bool \<Rightarrow> Portal \<Rightarrow> RoomFeatures" where
  "GetCapabilities ffmpeg portal =
     (if pm_Type (po_Metadata portal) = ConversationType_RCS then rcsCaps ffmpeg else smsCaps ffmpeg)"

section \<open>Texts of bridge states and push configuration\<close>

definition GMConfigFetchFailed :: string where "GMConfigFetchFailed = ''gm-config-fetch-failed''"
definition GMNotDefaultSMSApp :: string where "GMNotDefaultSMSApp = ''gm-not-default-sms-app''"

definition relink_text :: string where
  "relink_text = ''Unpaired from Google Messages, please re-link the connection to continue using SMS/RCS''"

definition BridgeStateHumanErrors :: "(string \<times> string) list" where
  "BridgeStateHumanErrors =
     [(GMListenError, ''Error polling messages from Google Messages server, the bridge will try to reconnect''),
      (GMFatalError, ''Fatal error polling messages from Google Messages server''),
      (GMConfigFetchFailed, ''Failed to initialize connection to Google Messages''),
      (GMNotLoggedIn, relink_text),
      (GMNotLoggedInCanReauth, relink_text),
      (GMUnpaired, relink_text),
      (GMUnpaired404, relink_text),
      (GMLoggedOut401, relink_text),
      (GMLoggedOutInvalidCreds, relink_text),
      (GMLoggedOutNoEmailInConfig, relink_text),
      (GMNotDefaultSMSApp, ''Google Messages isn't set as the default SMS app. Please set the default SMS app on your Android phone to Google Messages to continue using SMS/RCS.''),
      (GMBrowserInactive, ''Google Messages opened in another browser''),
      (GMBrowserInactiveTimeout, ''Google Messages disconnected due to timeout''),
      (GMBrowserInactiveInactivity, ''Google Messages disconnected due to inactivity''),
      (GMPhoneNotResponding, ''Your Google Messages app is not responding. Open the Google Messages app on your phone, ensure messages send, and battery optimization is off. If needed, remove and re-add the connection.''),
      (GMSwitchedToGoogleLogin, ''You switched to Google account pairing, please log in to continue using SMS/RCS'')]"

text \<open>The public key of the web push subscription.\<close>

definition pushCfg :: string where
  "pushCfg = ''BKXiqRFb-3xiLFDOB8MjGiShfSfD2mf5TEeOtL9FLiI3gGxxm5LDb4pOmrsv4cY_6n4TD_GQ67uCtblfErqu9d0''"

definition GetPushConfigs :: string where
  "GetPushConfigs = pushCfg"

section \<open>Announced files\<close>

text \<open>
  The reading of a table of types that clients of the framework use: the entry of the type itself, or
  else the entry of all types with its main type.  A file is announced when its entry does not reject it.
\<close>

definition mime_level :: "mime_levels \<Rightarrow> string \<Rightarrow> CapabilitySupportLevel" where
  "mime_level levels mime =
     (case map_of levels mime of
        Some l \<Rightarrow> l
      | None \<Rightarrow> (case map_of levels (hd (split_char CHR ''/'' mime) @ ''/*'') of Some l \<Rightarrow> l | None \<Rightarrow> CapLevelRejected))"

definition announced :: "RoomFeatures \<Rightarrow> CapabilityMsgType \<Rightarrow> string \<Rightarrow> bool" where
  "announced features t mime \<longleftrightarrow>
     (case map_of (rf_File features) t of
        None \<Rightarrow> False
      | Some ff \<Rightarrow> mime_level (ff_MimeTypes ff) mime \<in> {CapLevelPartialSupport, CapLevelFullySupported})"

definition capability_type :: "MatrixContent \<Rightarrow> CapabilityMsgType option" where
  "capability_type content =
     (case mx_MsgType content of
        Mx_Image \<Rightarrow> Some MsgImage
      | Mx_Video \<Rightarrow> Some MsgVideo
      | Mx_Audio \<Rightarrow> Some (if mx_Voice content then CapMsgVoice else MsgAudio)
      | Mx_File \<Rightarrow> Some MsgFile
      | _ \<Rightarrow> None)"

definition known_main_types :: "string list" where
  "known_main_types = [''image'', ''audio'', ''video'', ''application'', ''text'']"

lemma known_main_types_formats: "list_all (\<lambda>main. mt_Type (mime_lookup main) \<noteq> 0) known_main_types"
  by code_simp

lemma known_main_types_format: "main \<in> set known_main_types \<Longrightarrow> mt_Type (mime_lookup main) \<noteq> 0"
  using known_main_types_formats by (simp add: list_all_iff)

text \<open>A type with a known main type always has a media format: that of its main type if no other.\<close>

lemma upload_type_known:
  assumes "hd (split_char CHR ''/'' mime) \<in> set known_main_types"
  shows "mt_Type (upload_type mime) \<noteq> 0"
  using known_main_types_format [OF assms] by (simp add: upload_type_def Let_def)

lemmas mime_tables = imageMimes_def audioMimes_def videoMimes_def fileMimes_def voiceMimes_def gifMimes_def
  supportedIfFFmpeg_def

lemma map_of_level_SomeD: "map_of levels k = Some (l :: CapabilitySupportLevel) \<Longrightarrow> k \<in> fst ` set levels"
  by (force dest: map_of_SomeD)

lemma mime_level_supported:
  assumes "mime_level levels mime \<noteq> CapLevelRejected"
  shows "mime \<in> fst ` set levels \<or> hd (split_char CHR ''/'' mime) @ ''/*'' \<in> fst ` set levels"
  using assms map_of_level_SomeD [of levels mime] map_of_level_SomeD [of levels "hd (split_char CHR ''/'' mime) @ ''/*''"]
  by (auto simp: mime_level_def split: option.splits)

definition tables_known :: "mime_levels \<Rightarrow> bool" where
  "tables_known levels \<longleftrightarrow> list_all (\<lambda>k. hd (split_char CHR ''/'' k) \<in> set known_main_types) (map fst levels)"

lemma hd_split_char: "hd (split_char c s) = takeWhile (\<lambda>x. x \<noteq> c) s"
proof (induction s)
  case (Cons x s)
  then show ?case by (cases "split_char c s") simp_all
qed simp

lemma split_main: "hd (split_char c (hd (split_char c s) @ c # r)) = hd (split_char c s)"
proof -
  have "\<And>x. x \<in> set (takeWhile (\<lambda>x. x \<noteq> c) s) \<Longrightarrow> x \<noteq> c" by (blast dest: set_takeWhileD)
  then show ?thesis by (simp add: hd_split_char takeWhile_append2)
qed

lemma supported_main_type:
  assumes "tables_known levels" "mime_level levels mime \<noteq> CapLevelRejected"
  shows "hd (split_char CHR ''/'' mime) \<in> set known_main_types"
proof -
  let ?main = "hd (split_char CHR ''/'' mime)"
  have known: "k \<in> fst ` set levels \<Longrightarrow> hd (split_char CHR ''/'' k) \<in> set known_main_types" for k
    using assms(1) by (auto simp: tables_known_def list_all_iff)
  have "hd (split_char CHR ''/'' (?main @ ''/*'')) = ?main"
    by (rule split_main)
  with known [of "?main @ ''/*''"] known [of mime] mime_level_supported [OF assms(2)] show ?thesis by auto
qed

lemma tables_are_known:
  "tables_known imageMimes" "tables_known audioMimes" "tables_known videoMimes" "tables_known fileMimes"
  "tables_known (voiceMimes ffmpeg)" "tables_known gifMimes"
  by (code_simp, code_simp, code_simp, code_simp, cases ffmpeg, code_simp, code_simp, code_simp)

lemma features_known:
  assumes "map_of (rf_File (GetCapabilities ffmpeg portal)) t = Some ff"
  shows "tables_known (ff_MimeTypes ff)"
  using assms
  by (auto simp: GetCapabilities_def rcsCaps_def smsCaps_def file_features_def tables_are_known split: if_splits)

lemma announced_main_type:
  assumes "announced (GetCapabilities ffmpeg portal) t mime"
  shows "hd (split_char CHR ''/'' mime) \<in> set known_main_types"
  using assms supported_main_type [OF features_known] by (auto simp: announced_def split: option.splits)

lemma announced_voice:
  assumes "announced (GetCapabilities ffmpeg portal) CapMsgVoice mime"
  shows "mime = ''audio/mp4'' \<or> ffmpeg"
proof (rule ccontr)
  assume n: "\<not> ?thesis"
  have "map_of (rf_File (GetCapabilities ffmpeg portal)) CapMsgVoice =
      Some (file_features (voiceMimes ffmpeg) CapLevelUnsupported)"
    by (simp add: GetCapabilities_def rcsCaps_def smsCaps_def)
  with assms have l: "mime_level (voiceMimes False) mime \<noteq> CapLevelRejected"
    using n by (auto simp: announced_def file_features_def)
  then show False
    using n by (auto simp: mime_level_def voiceMimes_def supportedIfFFmpeg_def split: if_splits option.splits)
qed


lemma capability_type_media:
  "capability_type content = Some t \<Longrightarrow> mx_MsgType content \<in> {Mx_Image, Mx_Video, Mx_Audio, Mx_File}"
  by (auto simp: capability_type_def split: MatrixMsgType.splits)

text \<open>The type with which an announced file is uploaded has a known main type, and a voice message is
  always \<open>audio/mp4\<close> by then.\<close>

lemma announced_upload_type:
  assumes "capability_type content = Some t" "announced (GetCapabilities (be_ffmpeg_Supported be) portal) t mime"
    and v: "voice_to_m4a mv be content data mime = Inr v"
  shows "hd (split_char CHR ''/'' (snd (snd v))) \<in> set known_main_types"
    and "t = CapMsgVoice \<Longrightarrow> snd (snd v) = ''audio/mp4''"
proof -
  have types: "snd (snd v) = mime \<or> snd (snd v) = ''audio/mp4''"
    using v by (auto simp: voice_to_m4a_def Let_def split: if_splits sum.splits)
  have mp4: "hd (split_char CHR ''/'' ''audio/mp4'') \<in> set known_main_types" by code_simp
  from types mp4 announced_main_type [OF assms(2)]
  show "hd (split_char CHR ''/'' (snd (snd v))) \<in> set known_main_types" by auto
  assume t: "t = CapMsgVoice"
  then have c: "mx_MsgType content = Mx_Audio" "mx_Voice content"
    using assms(1) by (auto simp: capability_type_def split: MatrixMsgType.splits if_splits)
  show "snd (snd v) = ''audio/mp4''"
    using announced_voice [of "be_ffmpeg_Supported be" portal mime] assms(2) t c v
    by (auto simp: voice_to_m4a_def Let_def split: if_splits sum.splits)
qed

lemma upload_to_phone_Return:
  assumes "fst (upload_to_phone me env rnd data name mime gc) = Return mc"
  shows "mc_format mc = mt_Type (upload_type mime)" "mc_mimeType mc = mime"
proof -
  obtain cli where cli: "gm_Client gc = Some cli"
    and u: "fst (UploadMedia me env (fst rnd) (snd rnd) data name mime cli) = Return mc"
    using assms by (auto simp: upload_to_phone_def Let_def split: option.splits outcome.splits)
  from u have "UploadMedia me env (fst rnd) (snd rnd) data name mime cli =
      (Return mc, snd (UploadMedia me env (fst rnd) (snd rnd) data name mime cli))" by (metis prod.collapse)
  from UploadMedia_Return [OF this] show "mc_format mc = mt_Type (upload_type mime)" "mc_mimeType mc = mime"
    by (auto simp: uploaded_content_def)
qed

lemma reuploadMedia_Return:
  assumes "fst (reuploadMedia mv be me env rnd content gc) = Return mc" "mx_MimeType content = Some mime" "mime \<noteq> ''''"
  obtains data v where "voice_to_m4a mv be content data mime = Inr v"
    "mc_format mc = mt_Type (upload_type (snd (snd v)))" "mc_mimeType mc = snd (snd v)"
proof -
  have c: "content\<lparr>mx_MimeType := Some mime\<rparr> = content" using assms(2) by simp
  obtain data where d: "mv_DownloadMedia mv (mx_URL content) = Inr data"
    using assms(1) by (auto simp: reuploadMedia_def split: sum.splits)
  obtain v where v: "voice_to_m4a mv be content data mime = Inr v"
    using assms d c by (auto simp: reuploadMedia_def Let_def split: sum.splits)
  have "fst (upload_to_phone me env rnd (fst v) (fst (snd v)) (snd (snd v)) gc) = Return mc"
    using assms d v c by (simp add: reuploadMedia_def Let_def)
  from upload_to_phone_Return [OF this] v show ?thesis using that by blast
qed

lemma ConvertMatrixMessage_media:
  assumes "fst (ConvertMatrixMessage mv be me env rnd msg txnID gc) = Return req"
    and "mx_MsgType (mx_Content msg) \<in> {Mx_Image, Mx_Video, Mx_Audio, Mx_File}"
  obtains mc where "fst (reuploadMedia mv be me env rnd (mx_Content msg) gc) = Return mc"
    "hd (mp_MessageInfo (sr_MessagePayload req)) = message_info (MessageInfo_MediaContent mc)"
    "mp_MessageInfo (sr_MessagePayload req) \<noteq> []"
proof -
  obtain r0 where "fst (fill_request mv be me env rnd (mx_Content msg) r0 gc) = Return req"
    using assms(1) by (auto simp: ConvertMatrixMessage_def split: sum.splits)
  moreover have "mx_MsgType (mx_Content msg) \<notin> {Mx_Text, Mx_Emote, Mx_Notice}" using assms(2) by auto
  ultimately show ?thesis
    using assms(2) that
    by (cases "fst (reuploadMedia mv be me env rnd (mx_Content msg) gc)")
      (auto simp: fill_request_def Let_def set_info_def media_infos_def)
qed

text \<open>
  (C12) Every file that a room announces reaches the phone as media it has a format for: when a Matrix message with
  a file of an announced type is converted, the first part of the request is the uploaded file, its media format
  is not the unspecified one, and a voice message is in the format \<open>audio/mp4\<close>, also when ffmpeg is missing.
\<close>

theorem announced_files_are_sent:
  assumes "fst (ConvertMatrixMessage mv be me env rnd msg txnID gc) = Return req"
    and "mx_MimeType (mx_Content msg) = Some mime" "mime \<noteq> ''''"
    and "capability_type (mx_Content msg) = Some t"
    and "announced (GetCapabilities (be_ffmpeg_Supported be) (mx_Portal msg)) t mime"
  shows "\<exists>mc rest. mp_MessageInfo (sr_MessagePayload req) = message_info (MessageInfo_MediaContent mc) # rest \<and>
    mc_format mc \<noteq> 0 \<and> (t = CapMsgVoice \<longrightarrow> mc_mimeType mc = ''audio/mp4'')"
proof -
  obtain mc where mc: "fst (reuploadMedia mv be me env rnd (mx_Content msg) gc) = Return mc"
    "hd (mp_MessageInfo (sr_MessagePayload req)) = message_info (MessageInfo_MediaContent mc)"
    "mp_MessageInfo (sr_MessagePayload req) \<noteq> []"
    using ConvertMatrixMessage_media [OF assms(1) capability_type_media [OF assms(4)]] by blast
  obtain data v where v: "voice_to_m4a mv be (mx_Content msg) data mime = Inr v"
    "mc_format mc = mt_Type (upload_type (snd (snd v)))" "mc_mimeType mc = snd (snd v)"
    using reuploadMedia_Return [OF mc(1) assms(2,3)] by blast
  have "mc_format mc \<noteq> 0"
    unfolding v(2) by (rule upload_type_known, rule announced_upload_type(1) [OF assms(4,5) v(1)])
  moreover have "t = CapMsgVoice \<longrightarrow> mc_mimeType mc = ''audio/mp4''"
    using announced_upload_type(2) [OF assms(4,5) v(1)] v(3) by simp
  moreover have "mp_MessageInfo (sr_MessagePayload req) =
      message_info (MessageInfo_MediaContent mc) # tl (mp_MessageInfo (sr_MessagePayload req))"
    using mc(2,3) by (metis list.collapse)
  ultimately show ?thesis by blast
qed

definition sample_picture :: MatrixMessage where
  "sample_picture = \<lparr>mx_Content = \<lparr>mx_MsgType = Mx_Image, mx_Body = ''f'', mx_FileName = '''',
       mx_MimeType = Some ''image/png'', mx_Voice = False, mx_URL = ''mxc''\<rparr>,
     mx_Portal = sample_portal True, mx_ReplyTo = None, mx_InputTransactionID = ''t1''\<rparr>"

definition sample_picture_env :: matrix_env where
  "sample_picture_env = sample_matrix_env\<lparr>mv_DownloadMedia := (\<lambda>_. Inr [1, 2, 3])\<rparr>"

definition sample_picture_client :: GMClient where
  "sample_picture_client = sample_bridge_client\<lparr>gm_Client := Some (NewClient sample_auth None)\<rparr>"

lemma sample_picture_announced:
  "capability_type (mx_Content sample_picture) = Some MsgImage"
  "announced (GetCapabilities (be_ffmpeg_Supported sample_bridge_env) (mx_Portal sample_picture)) MsgImage ''image/png''"
proof -
  have "mime_level imageMimes ''image/png'' = CapLevelFullySupported" by code_simp
  then show "announced (GetCapabilities (be_ffmpeg_Supported sample_bridge_env) (mx_Portal sample_picture)) MsgImage ''image/png''"
    by (simp add: announced_def GetCapabilities_def rcsCaps_def smsCaps_def file_features_def)
qed (simp add: capability_type_def sample_picture_def)

lemma sample_picture_converted:
  "\<exists>req. fst (ConvertMatrixMessage sample_picture_env sample_bridge_env sample_media_env (serving [])
     (\<lambda>_. 7, \<lambda>i. of_nat i) sample_picture ''t1'' sample_picture_client) = Return req"
proof -
  have p: "ParsePortalID sample_picture_client (pky_ID (po_PortalKey (sample_portal True))) = Inr ''c''"
    using sample_portal_parses [of True]
    by (simp add: sample_picture_client_def ParsePortalID_def GMClient_parseAnyID_def Let_def)
  have "\<exists>mc. fst (upload_to_phone sample_media_env (serving []) (\<lambda>_. 7, \<lambda>i. of_nat i) [1, 2, 3] ''f'' ''image/png''
      sample_picture_client) = Return mc"
    by (subst upload_to_phone_def, simp add: sample_picture_client_def Let_def, subst sample_upload, simp)
  then show ?thesis
    by (auto simp: ConvertMatrixMessage_def sample_picture_def p add_reply_def fill_request_def Let_def
        reuploadMedia_def sample_picture_env_def voice_to_m4a_def)
qed

theorem announced_files_are_sent_witness:
  "\<exists>req mc rest. fst (ConvertMatrixMessage sample_picture_env sample_bridge_env sample_media_env (serving [])
      (\<lambda>_. 7, \<lambda>i. of_nat i) sample_picture ''t1'' sample_picture_client) = Return req \<and>
    mp_MessageInfo (sr_MessagePayload req) = message_info (MessageInfo_MediaContent mc) # rest \<and> mc_format mc \<noteq> 0"
proof -
  obtain req where r: "fst (ConvertMatrixMessage sample_picture_env sample_bridge_env sample_media_env (serving [])
      (\<lambda>_. 7, \<lambda>i. of_nat i) sample_picture ''t1'' sample_picture_client) = Return req"
    using sample_picture_converted by blast
  have m: "mx_MimeType (mx_Content sample_picture) = Some ''image/png''" "''image/png'' \<noteq> ''''"
    by (simp_all add: sample_picture_def)
  show ?thesis using announced_files_are_sent [OF r m sample_picture_announced] r by blast
qed


section \<open>What is announced and what is done\<close>

text \<open>The least number of participants that is announced for a group is the one \<open>CreateGroup\<close> insists on.\<close>

lemma group_minimum_announced:
  assumes "map_of (ng_GroupCreation GMConnector_GetCapabilities) kind = Some g"
    and "length (gp_Participants params) < gt_Participants_MinLength g"
  shows "CreateGroup se sv env now w1 w2 params gc = Some (Error ErrMinimumTwoUsers, gc)"
  using assms by (auto simp: GMConnector_GetCapabilities_def generalCaps_def CreateGroup_def split: if_splits)

text \<open>A bridge state that a connected login reports with an error has a text for the user, unless the
  connection is only being set up.\<close>

lemma connection_errors_have_text:
  assumes "FillBridgeState gc connected_state = Return s"
    and "gm_browserInactiveType gc \<in> {'''', GMBrowserInactive, GMBrowserInactiveTimeout, GMBrowserInactiveInactivity}"
  shows "bst_Error s \<in> {'''', GMConnecting} \<union> fst ` set BridgeStateHumanErrors"
  using FillBridgeState_shown [OF assms(1)] assms(2)
  by (auto simp: shown_def health_of_def BridgeStateHumanErrors_def split: if_splits)

text \<open>The device that the configuration names is the one a new pairing shows to the phone, in the QR flow and
  in the Google account flow.  A name that is not known leaves the value of the library.\<close>

definition details_named :: "DeviceMetaConfig \<Rightarrow> BrowserDetails \<Rightarrow> bool" where
  "details_named dm d \<longleftrightarrow> bd_UserAgent d = UserAgent \<and> bd_OS d = dm_OS dm \<and>
     bd_BrowserType d = (case map_of BrowserType_value (dm_Browser dm) of None \<Rightarrow> BrowserType_OTHER | Some b \<Rightarrow> b) \<and>
     bd_DeviceType d = (case map_of DeviceType_value (dm_Type dm) of None \<Rightarrow> DeviceType_TABLET | Some t \<Rightarrow> t)"

lemma Init_details:
  "details_named (cf_DeviceMeta (ld_Config (gn_Config gn))) (snd (Init db gn BrowserDetailsMessage))"
  by (simp add: details_named_def Init_def Let_def set_browser_def set_device_type_def BrowserDetailsMessage_def
      split: option.split)

lemma makeProtobufHTTPRequest_payload:
  "r \<in> set (cl_requests (snd (makeProtobufHTTPRequest env now url data ct c))) \<Longrightarrow>
    r \<in> set (cl_requests c) \<or> hr_Payload r = data"
  by (auto simp: makeProtobufHTTPRequest_def makeProtobufHTTPRequestContext_def do_http_def relay_request_def
      AddCookiesToRequest_def Let_def split: sum.splits option.splits if_splits)

lemma configured_device_is_shown:
  assumes "pe_BrowserDetails pe = snd (Init db gn BrowserDetailsMessage)"
    and "r \<in> set (cl_requests (snd (RegisterPhoneRelay pe env now c)))" "r \<notin> set (cl_requests c)"
  shows "\<exists>am d key. hr_Payload r = P_AuthenticationContainer am (Some d) key \<and>
    details_named (cf_DeviceMeta (ld_Config (gn_Config gn))) d"
proof -
  obtain key where k: "pe_PKIX pe (ad_RefreshKey (cl_AuthData c)) = Inr key"
    using assms(2,3) by (auto simp: RegisterPhoneRelay_def split: sum.splits)
  have "cl_requests (snd (new_uuid env c)) = cl_requests c" by (simp add: new_uuid_def)
  then have "hr_Payload r = P_AuthenticationContainer
      \<lparr>am_RequestID = fst (new_uuid env c), am_Network = QRNetwork, am_TachyonAuthToken = None,
       am_ConfigVersion = ConfigMessage\<rparr> (Some (pe_BrowserDetails pe)) (Some key)"
    using assms(2,3) makeProtobufHTTPRequest_payload by (fastforce simp: RegisterPhoneRelay_def Let_def k)
  then show ?thesis using assms(1) Init_details by metis
qed

text \<open>
  The upgrade of a configuration file copies every option of the old file but one.  \<open>get\<close> reads a path of
  the new file, and \<open>Copy\<close> is only known to leave the other paths as they are.
\<close>

lemma deterministic_prefix_not_copied:
  assumes "\<And>t p q h. p \<noteq> q \<Longrightarrow> get q (Copy t p h) = get q h"
  shows "get [''deterministic_id_prefix''] (upgradeConfig Copy h) = get [''deterministic_id_prefix''] h"
  by (simp add: upgradeConfig_def assms)

end
