(* ===== verification/Gm_Keys.thy ===== *)
theory Gm_Keys
  imports Gm_Pairing
begin

text \<open>
  The key of a login and its stored form (\<open>pkg/libgm/crypto/ecdsa.go\<close>): byte strings as JSON strings in
  unpadded URL-safe base64, coordinates as big-endian byte strings, and the key that a new login
  generates (\<open>NewAuthData\<close> of \<open>pkg/libgm/client.go\<close>).  The lemmas show that what is stored is read back.
\<close>

section \<open>Unpadded URL-safe base64\<close>

definition url_digit :: "nat \<Rightarrow> byte" where
  "url_digit n = (if n = 62 then 45 else if n = 63 then 95 else b64_digit n)"

definition url_value :: "byte \<Rightarrow> nat option" where
  "url_value b = (if b = 45 then Some 62 else if b = 95 then Some 63
     else if b = 43 \<or> b = 47 then None else b64_value b)"

fun raw_encode :: "bytes \<Rightarrow> bytes" where
  "raw_encode [] = []"
| "raw_encode [a] = [url_digit (unat a div 4), url_digit (unat a mod 4 * 16)]"
| "raw_encode [a, b] =
     [url_digit (unat a div 4), url_digit (unat a mod 4 * 16 + unat b div 16), url_digit (unat b mod 16 * 4)]"
| "raw_encode (a # b # c # r) =
     url_digit (unat a div 4) # url_digit (unat a mod 4 * 16 + unat b div 16)
     # url_digit (unat b mod 16 * 4 + unat c div 64) # url_digit (unat c mod 64) # raw_encode r"

definition EncodedLen :: "nat \<Rightarrow> nat" where
  "EncodedLen n = n div 3 * 4 + (n mod 3 * 8 + 5) div 6"

definition DecodedLen :: "nat \<Rightarrow> nat" where
  "DecodedLen n = n div 4 * 3 + n mod 4 * 6 div 8"

text \<open>One, two or three bytes from the values of a quantum.\<close>

definition quantum1 :: "nat \<Rightarrow> nat \<Rightarrow> byte" where
  "quantum1 a b = of_nat (a * 4 + b div 16)"

definition quantum2 :: "nat \<Rightarrow> nat \<Rightarrow> byte" where
  "quantum2 b c = of_nat (b mod 16 * 16 + c div 4)"

definition quantum3 :: "nat \<Rightarrow> nat \<Rightarrow> byte" where
  "quantum3 c d = of_nat (c mod 4 * 64 + d)"

text \<open>The bytes that were decoded before the end or the first error, and whether there was none.\<close>

fun decode_quanta :: "bytes \<Rightarrow> bytes \<times> bool" where
  "decode_quanta [] = ([], True)"
| "decode_quanta [a] = ([], False)"
| "decode_quanta [a, b] =
     (case (url_value a, url_value b) of
        (Some va, Some vb) \<Rightarrow> ([quantum1 va vb], True)
      | _ \<Rightarrow> ([], False))"
| "decode_quanta [a, b, c] =
     (case (url_value a, url_value b, url_value c) of
        (Some va, Some vb, Some vc) \<Rightarrow> ([quantum1 va vb, quantum2 vb vc], True)
      | _ \<Rightarrow> ([], False))"
| "decode_quanta (a # b # c # d # r) =
     (case (url_value a, url_value b, url_value c, url_value d) of
        (Some va, Some vb, Some vc, Some vd) \<Rightarrow>
          (let q = decode_quanta r in (quantum1 va vb # quantum2 vb vc # quantum3 vc vd # fst q, snd q))
      | _ \<Rightarrow> ([], False))"

text \<open>\<open>Decode\<close> ignores carriage returns and line feeds.\<close>

definition raw_decode :: "bytes \<Rightarrow> bytes \<times> bool" where
  "raw_decode src = decode_quanta (filter (\<lambda>b. b \<noteq> 10 \<and> b \<noteq> 13) src)"

section \<open>Byte strings in JSON\<close>

definition RawURLBytes_MarshalJSON :: "bytes \<Rightarrow> bytes" where
  "RawURLBytes_MarshalJSON rub = 34 # raw_encode rub @ [34]"

text \<open>The error and the new value.  The number of decoded bytes is not used: the buffer has the length
  that the input could decode to, and is zero behind the decoded bytes.\<close>

definition RawURLBytes_UnmarshalJSON :: "bytes \<Rightarrow> bytes \<Rightarrow> go_error option \<times> bytes" where
  "RawURLBytes_UnmarshalJSON inp rub =
     (if length inp < 2 \<or> hd inp \<noteq> 34 \<or> last inp \<noteq> 34
      then (Some (ErrText ''invalid value for RawURLBytes: not a JSON string''), rub)
      else let src = butlast (tl inp);
               d = raw_decode src
           in (if snd d then None else Some (ErrText ''illegal base64 data''),
               fst d @ replicate (DecodedLen (length src) - length (fst d)) 0))"

section \<open>Keys\<close>

text \<open>\<open>big.Int.SetBytes\<close> and \<open>big.Int.Bytes\<close>.\<close>

definition SetBytes :: "bytes \<Rightarrow> nat" where
  "SetBytes bs = foldl (\<lambda>n b. 256 * n + unat b) 0 bs"

fun Int_Bytes :: "nat \<Rightarrow> bytes" where
  "Int_Bytes n = (if n = 0 then [] else Int_Bytes (n div 256) @ [of_nat (n mod 256)])"

declare Int_Bytes.simps [simp del]

text \<open>The coordinates of the public key on P-256.\<close>

definition GetPublicKey :: "JWK \<Rightarrow> nat \<times> nat" where
  "GetPublicKey t = (SetBytes (jk_X t), SetBytes (jk_Y t))"

definition GetPrivateKey :: "JWK \<Rightarrow> ec_key" where
  "GetPrivateKey t = \<lparr>ec_D = SetBytes (jk_D t), ec_X = fst (GetPublicKey t), ec_Y = snd (GetPublicKey t)\<rparr>"

text \<open>\<open>generated\<close> is the result of \<open>ecdsa.GenerateKey\<close>.\<close>

definition GenerateECDSAKey :: "go_error + ec_key \<Rightarrow> (go_error, JWK) outcome" where
  "GenerateECDSAKey generated =
     (case generated of
        Inl err \<Rightarrow> Panic ''failed to generate ecdsa key''
      | Inr k \<Rightarrow> Return \<lparr>jk_KeyType = ''EC'', jk_Curve = ''P-256'',
          jk_D = Int_Bytes (ec_D k), jk_X = Int_Bytes (ec_X k), jk_Y = Int_Bytes (ec_Y k)\<rparr>)"

definition NewAuthData :: "(nat \<Rightarrow> byte) \<Rightarrow> go_error + ec_key \<Rightarrow> (go_error, AuthData) outcome" where
  "NewAuthData rnd generated =
     bind_outcome (GenerateECDSAKey generated) (\<lambda>key. Return
       \<lparr>ad_RequestCrypto = NewAESCTRHelper rnd, ad_RefreshKey = key, ad_Browser = None, ad_Mobile = None,
        ad_TachyonAuthToken = None, ad_TachyonExpiry = zero_time, ad_TachyonTTL = 0, ad_SessionID = 0,
        ad_DestRegID = 0, ad_PairingID = 0, ad_Cookies = None\<rparr>)"

section \<open>What is stored is read back\<close>

lemma SetBytes_append: "SetBytes (xs @ [b]) = 256 * SetBytes xs + unat b"
  by (simp add: SetBytes_def)

lemma unat_of_nat_byte: "n < 256 \<Longrightarrow> unat (of_nat n :: byte) = n"
  by (simp add: unat_of_nat take_bit_eq_mod)

lemma SetBytes_Int_Bytes [simp]: "SetBytes (Int_Bytes n) = n"
proof (induction n rule: Int_Bytes.induct)
  case (1 n)
  show ?case
  proof (cases "n = 0")
    case True
    then show ?thesis by (simp add: Int_Bytes.simps SetBytes_def)
  next
    case False
    then have "SetBytes (Int_Bytes n) = 256 * (n div 256) + unat (of_nat (n mod 256) :: byte)"
      using 1 by (subst Int_Bytes.simps) (simp add: SetBytes_append)
    also have "\<dots> = n" by (subst unat_of_nat_byte) simp_all
    finally show ?thesis .
  qed
qed

text \<open>The alphabet: 64 digits, none of them a line break.\<close>

lemma url_table: "list_all (\<lambda>n. url_value (url_digit n) = Some n \<and> url_digit n \<notin> {10, 13}) [0..<64]"
  by code_simp

lemma url_value_digit [simp]: "n < 64 \<Longrightarrow> url_value (url_digit n) = Some n"
  and url_digit_visible: "n < 64 \<Longrightarrow> url_digit n \<noteq> 10 \<and> url_digit n \<noteq> 13"
  using url_table by (simp_all add: list_all_iff)


lemma sextets [simp]:
  "unat (a :: byte) div 4 < 64" "unat a mod 4 * 16 < 64" "unat a mod 4 * 16 + unat (b :: byte) div 16 < 64"
  "unat b mod 16 * 4 < 64" "unat b mod 16 * 4 + unat (c :: byte) div 64 < 64" "unat c mod 64 < 64"
  using unat_byte [of a] unat_byte [of b] unat_byte [of c] by linarith+

lemma quanta [simp]:
  "quantum1 (unat a div 4) (unat a mod 4 * 16) = a"
  "quantum1 (unat a div 4) (unat a mod 4 * 16 + unat b div 16) = a"
  "quantum2 (unat a mod 4 * 16 + unat b div 16) (unat b mod 16 * 4) = b"
  "quantum2 (unat a mod 4 * 16 + unat b div 16) (unat b mod 16 * 4 + unat c div 64) = b"
  "quantum3 (unat b mod 16 * 4 + unat c div 64) (unat c mod 64) = c"
proof -
  have n: "of_nat (unat x) = x" for x :: byte by simp
  have d: "(x * 16 + y) div 16 = x" if "y < 16" for x y :: nat using that by simp
  have e: "(x * 4 + y) div 4 = x" if "y < 4" for x y :: nat using that by simp
  have small: "unat b div 16 < 16" "unat c div 64 < 4" using unat_byte [of b] unat_byte [of c] by linarith+
  have "unat a div 4 * 4 + unat a mod 4 * 16 div 16 = unat a" by simp
  then show "quantum1 (unat a div 4) (unat a mod 4 * 16) = a" by (simp add: quantum1_def)
  have "unat a div 4 * 4 + (unat a mod 4 * 16 + unat b div 16) div 16 = unat a" by (simp add: d [OF small(1)])
  then show "quantum1 (unat a div 4) (unat a mod 4 * 16 + unat b div 16) = a" unfolding quantum1_def using n by metis
  have b: "(unat a mod 4 * 16 + unat b div 16) mod 16 = unat b div 16"
    using unat_byte [of b] by (simp add: mod_mult_self3)
  have "unat b div 16 * 16 + unat b mod 16 * 4 div 4 = unat b" by simp
  then show "quantum2 (unat a mod 4 * 16 + unat b div 16) (unat b mod 16 * 4) = b"
    unfolding quantum2_def b using n by metis
  have "unat b div 16 * 16 + (unat b mod 16 * 4 + unat c div 64) div 4 = unat b" by (simp add: e [OF small(2)])
  then show "quantum2 (unat a mod 4 * 16 + unat b div 16) (unat b mod 16 * 4 + unat c div 64) = b"
    unfolding quantum2_def b using n by metis
  have c: "(unat b mod 16 * 4 + unat c div 64) mod 4 = unat c div 64"
    using unat_byte [of c] by (simp add: mod_mult_self3)
  have "unat c div 64 * 64 + unat c mod 64 = unat c" by simp
  then show "quantum3 (unat b mod 16 * 4 + unat c div 64) (unat c mod 64) = c"
    unfolding quantum3_def c using n by metis
qed

lemma decode_raw_encode: "decode_quanta (raw_encode bs) = (bs, True)"
  by (induction bs rule: raw_encode.induct) simp_all

lemma raw_encode_visible: "x \<in> set (raw_encode bs) \<Longrightarrow> x \<noteq> 10 \<and> x \<noteq> 13"
  using url_digit_visible by (induction bs rule: raw_encode.induct) auto

lemma raw_decode_encode: "raw_decode (raw_encode bs) = (bs, True)"
proof -
  have "filter (\<lambda>b. b \<noteq> 10 \<and> b \<noteq> 13) (raw_encode bs) = raw_encode bs"
    using raw_encode_visible by (simp add: filter_id_conv)
  then show ?thesis by (simp add: raw_decode_def decode_raw_encode)
qed

lemma length_raw_encode: "length (raw_encode bs) = EncodedLen (length bs)"
  by (induction bs rule: raw_encode.induct) (simp_all add: EncodedLen_def div_add_self1 flip: add_Suc add_numeral_left(1))

lemma DecodedLen_EncodedLen: "DecodedLen (EncodedLen n) = n"
proof -
  define q r where "q = n div 3" and "r = n mod 3"
  have n: "n = 3 * q + r" "r < 3" by (simp_all add: q_def r_def)
  have e: "EncodedLen n = q * 4 + (r * 8 + 5) div 6" by (simp add: EncodedLen_def q_def r_def)
  have d: "DecodedLen (q * 4 + k) = q * 3 + k * 6 div 8" if "k < 4" for k using that by (simp add: DecodedLen_def)
  from n(2) consider "r = 0" | "r = 1" | "r = 2" by linarith
  then have "DecodedLen (EncodedLen n) = 3 * q + r"
    unfolding e using d [of 0] d [of 2] d [of 3] by cases simp_all
  then show ?thesis using n(1) by simp
qed

lemma RawURLBytes_round_trip: "RawURLBytes_UnmarshalJSON (RawURLBytes_MarshalJSON bs) rub = (None, bs)"
  by (simp add: RawURLBytes_UnmarshalJSON_def RawURLBytes_MarshalJSON_def raw_decode_encode length_raw_encode
      DecodedLen_EncodedLen butlast_append)

text \<open>
  The key of a login survives being stored: the key that a new login generates is recovered from its
  stored numbers, although their leading zero bytes are dropped, and each of the stored byte strings is
  read back from its JSON form, whatever value it replaces.
\<close>

lemma stored_key_round_trip:
  assumes "NewAuthData rnd (Inr k) = Return ad"
  shows "GetPrivateKey (ad_RefreshKey ad) = k \<and>
    (\<forall>part rub. part \<in> {jk_D, jk_X, jk_Y} \<longrightarrow>
       RawURLBytes_UnmarshalJSON (RawURLBytes_MarshalJSON (part (ad_RefreshKey ad))) rub = (None, part (ad_RefreshKey ad)))"
  using assms by (auto simp: NewAuthData_def GenerateECDSAKey_def GetPrivateKey_def GetPublicKey_def RawURLBytes_round_trip)

lemma stored_key_round_trip_witness:
  "\<exists>ad. NewAuthData (\<lambda>_. 0) (Inr \<lparr>ec_D = 5, ec_X = 256, ec_Y = 0\<rparr>) = Return ad \<and>
     GetPrivateKey (ad_RefreshKey ad) = \<lparr>ec_D = 5, ec_X = 256, ec_Y = 0\<rparr>"
proof -
  obtain ad where ad: "NewAuthData (\<lambda>_. 0) (Inr \<lparr>ec_D = 5, ec_X = 256, ec_Y = 0\<rparr>) = Return ad"
    by (simp add: NewAuthData_def GenerateECDSAKey_def)
  from stored_key_round_trip [OF this] ad show ?thesis by blast
qed

end
