(* ===== verification/Gm_Login.thy ===== *)
theory Gm_Login
  imports Gm_Keys Gm_StartChat
begin

text \<open>
  Logging in (\<open>pkg/connector/login.go\<close>): the QR code process, the Google account process with its
  re-authentication of an existing login, and what happens when either has paired with a phone.  The
  lemmas show that a QR login ends after six codes, that re-authentication never replaces the keys of
  a login and only accepts the same account, and that every failure disconnects the client.
\<close>

section \<open>Pictures of emoji\<close>

text \<open>The first rune of a string and its length, as the conversion to \<open>[]rune\<close> reads it: a byte that
  does not start a valid encoding is the replacement character.\<close>

definition cont :: "nat \<Rightarrow> nat \<Rightarrow> nat \<Rightarrow> bool" where
  "cont lo hi b \<longleftrightarrow> lo \<le> b \<and> b \<le> hi"

definition second_range :: "nat \<Rightarrow> nat \<times> nat" where
  "second_range b0 = (if b0 = 0xE0 then (0xA0, 0xBF) else if b0 = 0xED then (0x80, 0x9F)
     else if b0 = 0xF0 then (0x90, 0xBF) else if b0 = 0xF4 then (0x80, 0x8F) else (0x80, 0xBF))"

fun decode_rune :: "nat list \<Rightarrow> nat \<times> nat" where
  "decode_rune [] = (0xFFFD, 0)"
| "decode_rune (b0 # bs) =
     (let r = second_range b0 in
      if b0 < 0x80 then (b0, 1)
      else if 0xC2 \<le> b0 \<and> b0 \<le> 0xDF then
        (case bs of b1 # _ \<Rightarrow> if cont 0x80 0xBF b1 then (b0 mod 32 * 64 + b1 mod 64, 2) else (0xFFFD, 1) | _ \<Rightarrow> (0xFFFD, 1))
      else if 0xE0 \<le> b0 \<and> b0 \<le> 0xEF then
        (case bs of b1 # b2 # _ \<Rightarrow> if cont (fst r) (snd r) b1 \<and> cont 0x80 0xBF b2
            then (b0 mod 16 * 4096 + b1 mod 64 * 64 + b2 mod 64, 3) else (0xFFFD, 1) | _ \<Rightarrow> (0xFFFD, 1))
      else if 0xF0 \<le> b0 \<and> b0 \<le> 0xF4 then
        (case bs of b1 # b2 # b3 # _ \<Rightarrow> if cont (fst r) (snd r) b1 \<and> cont 0x80 0xBF b2 \<and> cont 0x80 0xBF b3
            then (b0 mod 8 * 262144 + b1 mod 64 * 4096 + b2 mod 64 * 64 + b3 mod 64, 4) else (0xFFFD, 1) | _ \<Rightarrow> (0xFFFD, 1))
      else (0xFFFD, 1))"

function runes :: "nat list \<Rightarrow> nat list" where
  "runes bs = (if bs = [] then [] else fst (decode_rune bs) # runes (drop (max 1 (snd (decode_rune bs))) bs))"
  by auto
termination by (relation "measure length") auto

declare runes.simps [simp del]

fun show_hex :: "nat \<Rightarrow> string" where
  "show_hex n = (if n < 16 then [hex_digit n] else show_hex (n div 16) @ [hex_digit (n mod 16)])"

declare show_hex.simps [simp del]

fun join_strings :: "string \<Rightarrow> string list \<Rightarrow> string" where
  "join_strings sep [] = ''''"
| "join_strings sep [x] = x"
| "join_strings sep (x # y # xs) = x @ sep @ join_strings sep (y # xs)"

definition GetEmojiSVG :: "string \<Rightarrow> string" where
  "GetEmojiSVG emoji =
     (let hexes = map (\<lambda>r. dropWhile (\<lambda>c. c = CHR ''0'') (show_hex r)) (runes (map of_char emoji))
      in ''https://fonts.gstatic.com/s/e/notoemoji/latest/'' @ join_strings ''_'' hexes @ ''/emoji.svg'')"

section \<open>Steps and errors\<close>

record RespError =
  re_Err :: string
  re_ErrCode :: string
  re_StatusCode :: int

text \<open>An error of a login: one with a code for the user, with the error it wraps, or any other.\<close>

datatype login_error = LE_Resp RespError "go_error option" | LE_Other go_error

definition pair_error :: "string \<Rightarrow> string \<Rightarrow> RespError" where
  "pair_error msg code = \<lparr>re_Err = msg, re_ErrCode = ''FI.MAU.GMESSAGES.'' @ code, re_StatusCode = 400\<rparr>"

definition unknown_error :: "string \<Rightarrow> RespError" where
  "unknown_error msg = \<lparr>re_Err = msg, re_ErrCode = ''M_UNKNOWN'', re_StatusCode = 500\<rparr>"

definition ErrPairNoDevices :: RespError where
  "ErrPairNoDevices = pair_error ''No devices found. Make sure you've enabled account pairing in the Google Messages app on your phone.'' ''PAIR_NO_DEVICES''"

definition ErrPairPhoneNotResponding :: RespError where
  "ErrPairPhoneNotResponding = pair_error ''Phone not responding. Make sure your phone is connected to the internet and that account pairing is enabled in the Google Messages app. You may need to keep the app open and/or disable battery optimizations. Alternatively, try QR pairing'' ''PAIR_INIT_TIMEOUT''"

definition ErrPairIncorrectEmoji :: RespError where
  "ErrPairIncorrectEmoji = pair_error ''Incorrect emoji chosen on phone, please try again'' ''PAIR_INCORRECT_EMOJI''"

definition ErrPairCancelled :: RespError where
  "ErrPairCancelled = pair_error ''Pairing cancelled on phone'' ''PAIR_CANCELLED''"

definition ErrPairTimeout :: RespError where
  "ErrPairTimeout = pair_error ''Pairing timed out, please try again'' ''PAIR_TIMEOUT''"

definition ErrPairQRTimeout :: RespError where
  "ErrPairQRTimeout = pair_error ''Scanning QR code timed out, please try again'' ''PAIR_QR_TIMEOUT''"

definition ErrPairCallerNoPermission :: RespError where
  "ErrPairCallerNoPermission = pair_error ''That Google Account doesn't seem to have permission to use Google Messages for Web'' ''ACCOUNT_CANT_PAIR''"

definition ErrPairStartUnknown :: RespError where
  "ErrPairStartUnknown = unknown_error ''Failed to start login''"

definition ErrPairWaitUnknown :: RespError where
  "ErrPairWaitUnknown = unknown_error ''Failed to finish login''"

definition ErrPairQRRefreshUnknown :: RespError where
  "ErrPairQRRefreshUnknown = unknown_error ''Failed to refresh QR code''"

datatype LoginStepType = LoginStepTypeDisplayAndWait | LoginStepTypeCookies | LoginStepTypeComplete

text \<open>A cookie the user has to enter: its name, its domain, and whether it is required.\<close>

record LoginCookieField =
  lc_ID :: string
  lc_CookieDomain :: string
  lc_Required :: bool

datatype LoginParams =
    LoginDisplayQR string
  | LoginDisplayEmoji string string
  | LoginCookiesParams string "LoginCookieField list"
  | LoginCompleteParams string

record LoginStep =
  ls_Type :: LoginStepType
  ls_StepID :: string
  ls_Instructions :: string
  ls_Params :: LoginParams

definition qr_step :: "string \<Rightarrow> LoginStep" where
  "qr_step qr = \<lparr>ls_Type = LoginStepTypeDisplayAndWait, ls_StepID = ''fi.mau.gmessages.qr'',
     ls_Instructions = ''Scan the QR code using the Google Messages app on your Android phone'',
     ls_Params = LoginDisplayQR qr\<rparr>"

definition emoji_step :: "string \<Rightarrow> LoginStep" where
  "emoji_step emoji = \<lparr>ls_Type = LoginStepTypeDisplayAndWait, ls_StepID = ''fi.mau.gmessages.emoji'',
     ls_Instructions = ''Tap the emoji on the Google Messages app on your phone'',
     ls_Params = LoginDisplayEmoji emoji (GetEmojiSVG emoji)\<rparr>"

definition complete_step :: "string \<Rightarrow> string \<Rightarrow> LoginStep" where
  "complete_step instructions loginID = \<lparr>ls_Type = LoginStepTypeComplete, ls_StepID = ''fi.mau.gmessages.complete'',
     ls_Instructions = instructions, ls_Params = LoginCompleteParams loginID\<rparr>"

definition cookie_domains :: "(string \<times> string) list" where
  "cookie_domains = [(''OSID'', ''messages.google.com''), (''SID'', ''.google.com''), (''HSID'', ''.google.com''),
     (''SSID'', ''.google.com''), (''APISID'', ''.google.com''), (''SAPISID'', ''.google.com''),
     (''__Secure-1PSIDTS'', ''.google.com'')]"

definition requiredCookies :: "string list" where
  "requiredCookies = [''SID'', ''HSID'', ''OSID'', ''SSID'', ''APISID'', ''SAPISID'']"

text \<open>\<open>order\<close> is the order in which the loop visits the map of the domains.\<close>

definition loginStepCookies :: "(string \<times> string) list \<Rightarrow> LoginStep" where
  "loginStepCookies order = \<lparr>ls_Type = LoginStepTypeCookies, ls_StepID = ''fi.mau.gmessages.google_account'',
     ls_Instructions = ''Enter a JSON object with your cookies, or a cURL command copied from browser devtools.'',
     ls_Params = LoginCookiesParams
       ''https://accounts.google.com/AccountChooser?continue=https://messages.google.com/web/config''
       (map (\<lambda>cd. \<lparr>lc_ID = fst cd, lc_CookieDomain = snd cd, lc_Required = (fst cd \<in> set requiredCookies)\<rparr>) order)\<rparr>"

section \<open>The processes\<close>

record QRLoginProcess =
  ql_Client :: "Client option"
  ql_PrevStart :: time
  ql_MaxAttempts :: int

text \<open>\<open>gl_Override\<close> is the login that is re-authenticated.\<close>

record GoogleLoginProcess =
  gl_Client :: "Client option"
  gl_Sess :: "PairingSession option"
  gl_Override :: "GMClient option"

datatype LoginProcess = Google GoogleLoginProcess | QR QRLoginProcess

text \<open>The flows that are offered: name, description and identifier.\<close>

definition LoginFlows :: "(string \<times> string \<times> string) list" where
  "LoginFlows = [(''Google Account'', ''Log in with your Google account and pair by tapping an emoji on your phone'', ''google'')]"

definition GetLoginFlows :: "(string \<times> string \<times> string) list" where
  "GetLoginFlows = LoginFlows"

definition CreateLogin :: "string \<Rightarrow> login_error + LoginProcess" where
  "CreateLogin flowID =
     (if flowID = ''google'' then Inr (Google \<lparr>gl_Client = None, gl_Sess = None, gl_Override = None\<rparr>)
      else if flowID = ''qr'' then Inr (QR \<lparr>ql_Client = None, ql_PrevStart = zero_time, ql_MaxAttempts = 6\<rparr>)
      else Inl (LE_Other (ErrText (''unknown login flow '' @ flowID))))"

text \<open>
  The framework and the database: \<open>User.NewLogin\<close> gives the metadata that the login has afterwards (those of
  an existing login with the same identifier are kept, with the new session), \<open>Save\<close>, the errors of
  the prefix table, and the row number it assigns next.
\<close>

record login_env =
  lv_NewLogin :: "string \<Rightarrow> string \<Rightarrow> UserLoginMetadata \<Rightarrow> go_error + UserLoginMetadata"
  lv_Save :: "GMClient \<Rightarrow> go_error option"
  lv_prefix_error :: "string \<Rightarrow> go_error option"
  lv_new_key :: "prefix_table \<Rightarrow> int"

definition no_settings :: UserSettings where
  "no_settings = \<lparr>us_SettingsReceived = False, us_RCSEnabled = False, us_ReadReceipts = False,
     us_TypingNotifications = False, us_IsDefaultSMSApp = False, us_PushNotifications = False\<rparr>"

definition choose_prefix ::
  "ConnectorConfig \<Rightarrow> login_env \<Rightarrow> sha256_fun \<Rightarrow> string \<Rightarrow> prefix_table \<Rightarrow> (login_error + string) \<times> prefix_table" where
  "choose_prefix cf lv sha256 loginID tbl =
     (if cf_DeterministicIDPrefix cf then (Inr (hex_bytes (take 8 (sum256 sha256 (string_bytes loginID)))), tbl)
      else case lv_prefix_error lv loginID of
             Some err \<Rightarrow> (Inl (LE_Other (ErrWrap ''failed to get login prefix'' err)), tbl)
           | None \<Rightarrow> (let r = GetLoginPrefix (lv_new_key lv) tbl loginID in (Inr (fst r), snd r)))"

text \<open>The step, the login and the effects of connecting it; after a QR pairing two seconds pass first.\<close>

definition finishLogin ::
  "ConnectorConfig \<Rightarrow> login_env \<Rightarrow> env \<Rightarrow> time \<Rightarrow> Client \<Rightarrow> bool \<Rightarrow> string \<Rightarrow> string \<Rightarrow> prefix_table
    \<Rightarrow> (login_error, LoginStep \<times> GMClient \<times> effect list) outcome \<times> prefix_table" where
  "finishLogin cf lv env now client qr phoneID remoteName tbl =
     (let c = Disconnect client;
          p = choose_prefix cf lv (env_sha256 env) phoneID tbl
      in (case fst p of
            Inl err \<Rightarrow> Error err
          | Inr idPrefix \<Rightarrow>
              (case lv_NewLogin lv phoneID remoteName
                      \<lparr>ulm_Session = Some (cl_AuthData c), ulm_selfParticipantIDs = [], ulm_simMetadata = [],
                       ulm_Settings = no_settings, ulm_IDPrefix = idPrefix, ulm_PushKeys = None\<rparr> of
                 Inl err \<Rightarrow> Error (LE_Other err)
               | Inr meta \<Rightarrow>
                   (case GMClient_Connect env (if qr then now + 2 * second else now) (LoadUserLogin cf phoneID meta) of
                      Panic x \<Rightarrow> Panic x
                    | Error err \<Rightarrow> Error (LE_Other err)
                    | Return r \<Rightarrow> Return (complete_step ''Successfully logged in'' phoneID, r))),
          snd p))"

section \<open>The QR code process\<close>

text \<open>\<open>later\<close> is the time after the requests.\<close>

definition QR_Start ::
  "pair_env \<Rightarrow> env \<Rightarrow> time \<Rightarrow> time \<Rightarrow> (nat \<Rightarrow> byte) \<Rightarrow> go_error + ec_key \<Rightarrow> QRLoginProcess
    \<Rightarrow> (login_error, LoginStep) outcome \<times> QRLoginProcess" where
  "QR_Start pe env now later rnd generated ql =
     (case NewAuthData rnd generated of
        Panic p \<Rightarrow> (Panic p, ql)
      | Error err \<Rightarrow> (Error (LE_Other err), ql)
      | Return ad \<Rightarrow>
          let f = FetchConfig env now ((NewClient ad None)\<lparr>cl_PairCallback := True\<rparr>)
          in (case fst f of
                Panic p \<Rightarrow> (Panic p, ql\<lparr>ql_Client := Some (snd f)\<rparr>)
              | Error err \<Rightarrow> (Error (LE_Resp ErrPairStartUnknown (Some err)), ql\<lparr>ql_Client := Some (snd f)\<rparr>)
              | Return _ \<Rightarrow>
                  let s = StartLogin pe env now (snd f); ql1 = ql\<lparr>ql_Client := Some (snd s)\<rparr>
                  in (case fst s of
                        Inl err \<Rightarrow> (Error (LE_Resp ErrPairStartUnknown (Some err)), ql1)
                      | Inr qr \<Rightarrow> (Return (qr_step qr), ql1\<lparr>ql_PrevStart := later\<rparr>))))"

definition QR_Cancel :: "QRLoginProcess \<Rightarrow> QRLoginProcess" where
  "QR_Cancel ql = ql\<lparr>ql_Client := map_option Disconnect (ql_Client ql)\<rparr>"

definition QRExpiryTime :: duration where
  "QRExpiryTime = 30 * second"

text \<open>Which channel of the \<open>select\<close> is taken: the phone has paired (the poll has changed the client by
  then), the code has expired, or the context has ended.\<close>

datatype qr_event = QR_Paired "PairedData option" | QR_Expired | QR_CtxDone go_error

text \<open>The time to wait for the code to expire.\<close>

definition qr_timer :: "time \<Rightarrow> QRLoginProcess \<Rightarrow> duration" where
  "qr_timer now ql = time_sub (ql_PrevStart ql + QRExpiryTime) now"

definition qr_expired ::
  "pair_env \<Rightarrow> env \<Rightarrow> time \<Rightarrow> time \<Rightarrow> Client \<Rightarrow> QRLoginProcess \<Rightarrow> (login_error, LoginStep) outcome \<times> QRLoginProcess" where
  "qr_expired pe env now later cli ql =
     (let ql1 = ql\<lparr>ql_MaxAttempts := ql_MaxAttempts ql - 1\<rparr>
      in if ql_MaxAttempts ql1 \<le> 0
         then (Error (LE_Resp ErrPairQRTimeout None), ql1\<lparr>ql_Client := Some (Disconnect cli)\<rparr>)
         else let r = RefreshPhoneRelay pe env now cli
              in (case fst r of
                    Inl err \<Rightarrow> (Error (LE_Resp ErrPairQRRefreshUnknown (Some err)),
                        ql1\<lparr>ql_Client := Some (Disconnect (snd r))\<rparr>)
                  | Inr newQR \<Rightarrow> (Return (qr_step newQR), ql1\<lparr>ql_Client := Some (snd r), ql_PrevStart := later\<rparr>)))"

text \<open>The login that a finished process has created is the second component.\<close>

definition QR_Wait ::
  "ConnectorConfig \<Rightarrow> login_env \<Rightarrow> pair_env \<Rightarrow> env \<Rightarrow> time \<Rightarrow> time \<Rightarrow> (Client \<Rightarrow> Client) \<Rightarrow> qr_event \<Rightarrow> prefix_table
    \<Rightarrow> QRLoginProcess
    \<Rightarrow> (login_error, LoginStep \<times> (GMClient \<times> effect list) option) outcome \<times> prefix_table \<times> QRLoginProcess" where
  "QR_Wait cf lv pe env now later others evt tbl ql =
     (case ql_Client ql of
        None \<Rightarrow> (Panic ''nil pointer dereference'', tbl, ql)
      | Some cli0 \<Rightarrow>
          let cli = others cli0
          in (case evt of
                QR_Paired data \<Rightarrow>
                  (let r = finishLogin cf lv env now cli True (GetSourceID (Option.bind data pd_Mobile)) '''' tbl
                   in (bind_outcome (fst r) (\<lambda>s. Return (fst s, Some (snd s))), snd r,
                       ql\<lparr>ql_Client := Some (Disconnect cli)\<rparr>))
              | QR_Expired \<Rightarrow>
                  (let r = qr_expired pe env now later cli ql
                   in (bind_outcome (fst r) (\<lambda>s. Return (s, None)), tbl, snd r))
              | QR_CtxDone err \<Rightarrow> (Error (LE_Other err), tbl, ql\<lparr>ql_Client := Some (Disconnect cli)\<rparr>)))"

section \<open>The Google account process\<close>

definition Google_Cancel :: "GoogleLoginProcess \<Rightarrow> GoogleLoginProcess" where
  "Google_Cancel gl = gl\<lparr>gl_Client := map_option Disconnect (gl_Client gl)\<rparr>"

definition Google_Start :: "(string \<times> string) list \<Rightarrow> LoginStep" where
  "Google_Start order = loginStepCookies order"

definition StartWithOverride ::
  "(string \<times> string) list \<Rightarrow> GMClient \<Rightarrow> GoogleLoginProcess \<Rightarrow> LoginStep \<times> GoogleLoginProcess" where
  "StartWithOverride order override gl =
     (loginStepCookies order,
      (case ulm_Session (gm_Meta override) of
         None \<Rightarrow> gl
       | Some sess \<Rightarrow>
           if ad_TachyonAuthToken sess \<noteq> None \<and> ad_PairingID sess \<noteq> 0 then gl\<lparr>gl_Override := Some override\<rparr> else gl))"

text \<open>\<open>meta.Session\<close> is the authentication data of the client.\<close>

definition set_session_cookies :: "headers option \<Rightarrow> GMClient \<Rightarrow> GMClient" where
  "set_session_cookies cookies gc = gc
     \<lparr>gm_Client := map_option (\<lambda>c. c\<lparr>cl_AuthData := SetCookies cookies (cl_AuthData c)\<rparr>) (gm_Client gc),
      gm_Meta := (gm_Meta gc)\<lparr>ulm_Session := map_option (SetCookies cookies) (ulm_Session (gm_Meta gc))\<rparr>\<rparr>"

text \<open>Whether the existing login could be connected with the new cookies.\<close>

definition reauthenticate ::
  "env \<Rightarrow> time \<Rightarrow> headers option \<Rightarrow> GMClient \<Rightarrow> (login_error, bool) outcome \<times> GMClient" where
  "reauthenticate env now cookies override =
     (let gc = set_session_cookies cookies (if gm_Client override = None then GMClient_NewClient override else override)
      in case gm_Client gc of
           None \<Rightarrow> (Panic ''nil pointer dereference'', gc)
         | Some cli \<Rightarrow>
             let f = FetchConfig env now cli; gc1 = put_client (snd f) gc
             in (case fst f of
                   Panic p \<Rightarrow> (Panic p, gc1)
                 | Error err \<Rightarrow> (Return False, gc1)
                 | Return _ \<Rightarrow>
                     if client_email (snd f) \<noteq> GetSourceID (ad_Mobile (cl_AuthData (snd f))) then (Return False, gc1)
                     else let r = Connect env now (snd f)
                          in (Return (fst r = None), put_client (snd r) gc1)))"

text \<open>The code of an error of \<open>StartGaiaPairing\<close>.\<close>

definition google_error :: "RespError \<Rightarrow> go_error \<Rightarrow> login_error" where
  "google_error unknown err =
     (case As_RequestError err of
        Some re \<Rightarrow>
          (case rq_Data re of
             Some d \<Rightarrow> LE_Resp (unknown\<lparr>re_Err := re_Err unknown @ '': unexpected Google error '' @ show_int (er_type d)\<rparr>) (Some err)
           | None \<Rightarrow> LE_Resp unknown (Some err))
      | None \<Rightarrow> LE_Resp unknown (Some err))"

definition start_error :: "go_error \<Rightarrow> login_error" where
  "start_error err =
     (if errors_Is err ErrNoDevicesFound then LE_Resp ErrPairNoDevices None
      else if errors_Is err ErrPairingInitTimeout then LE_Resp ErrPairPhoneNotResponding None
      else if errors_Is err (ErrRequest ErrCallerNoPermission) then LE_Resp ErrPairCallerNoPermission None
      else google_error ErrPairStartUnknown err)"

definition google_pair ::
  "pair_env \<Rightarrow> env \<Rightarrow> time \<Rightarrow> pair_attempt \<Rightarrow> (nat \<Rightarrow> byte) \<Rightarrow> go_error + ec_key \<Rightarrow> headers option \<Rightarrow> GoogleLoginProcess
    \<Rightarrow> ((login_error, LoginStep) outcome \<times> GoogleLoginProcess) option" where
  "google_pair pe env now pa rnd generated cookies gl =
     (case NewAuthData rnd generated of
        Panic p \<Rightarrow> Some (Panic p, gl)
      | Error err \<Rightarrow> Some (Error (LE_Other err), gl)
      | Return ad \<Rightarrow>
          let f = FetchConfig env now (NewClient (ad\<lparr>ad_Cookies := cookies\<rparr>) None); gl1 = gl\<lparr>gl_Client := Some (snd f)\<rparr>
          in (case fst f of
                Panic p \<Rightarrow> Some (Panic p, gl1)
              | Error err \<Rightarrow> Some (Error (LE_Resp ErrPairStartUnknown (Some err)), gl1)
              | Return _ \<Rightarrow>
                  (case StartGaiaPairing pe env now pa (snd f) of
                     None \<Rightarrow> None
                   | Some (Panic p, c) \<Rightarrow> Some (Panic p, gl1\<lparr>gl_Client := Some c\<rparr>)
                   | Some (Error err, c) \<Rightarrow>
                       Some (Error (start_error err), gl1\<lparr>gl_Client := Some (Disconnect c), gl_Sess := None\<rparr>)
                   | Some (Return r, c) \<Rightarrow>
                       Some (Return (emoji_step (fst r)), gl1\<lparr>gl_Client := Some c, gl_Sess := Some (snd r)\<rparr>))))"

text \<open>The error that comes with the step is the one of saving the login.\<close>

definition SubmitCookies ::
  "login_env \<Rightarrow> pair_env \<Rightarrow> env \<Rightarrow> time \<Rightarrow> pair_attempt \<Rightarrow> (nat \<Rightarrow> byte) \<Rightarrow> go_error + ec_key \<Rightarrow> headers option \<Rightarrow> GoogleLoginProcess
    \<Rightarrow> ((login_error, LoginStep \<times> go_error option) outcome \<times> GoogleLoginProcess) option" where
  "SubmitCookies lv pe env now pa rnd generated cookies gl =
     (let pair = (\<lambda>gl. map_option (\<lambda>r. (bind_outcome (fst r) (\<lambda>s. Return (s, None)), snd r))
                         (google_pair pe env now pa rnd generated cookies gl))
      in case gl_Override gl of
           None \<Rightarrow> pair gl
         | Some override \<Rightarrow>
             let r = reauthenticate env now cookies override
             in (case fst r of
                   Panic p \<Rightarrow> Some (Panic p, gl\<lparr>gl_Override := Some (snd r)\<rparr>)
                 | Error err \<Rightarrow> Some (Error err, gl\<lparr>gl_Override := Some (snd r)\<rparr>)
                 | Return True \<Rightarrow>
                     Some (Return (complete_step ''Successfully re-authenticated'' (gm_UserLoginID (snd r)),
                             map_option (ErrWrap ''failed to save cookies after relogin'') (lv_Save lv (snd r))),
                           gl\<lparr>gl_Override := Some (snd r)\<rparr>)
                 | Return False \<Rightarrow> pair (gl\<lparr>gl_Override := Some (set_session_cookies None (snd r))\<rparr>)))"

definition wait_error :: "go_error \<Rightarrow> login_error" where
  "wait_error err =
     (if errors_Is err ErrIncorrectEmoji then LE_Resp ErrPairIncorrectEmoji None
      else if errors_Is err ErrPairingCancelled then LE_Resp ErrPairCancelled None
      else if errors_Is err ErrPairingTimeout then LE_Resp ErrPairTimeout None
      else if errors_Is err Canceled then LE_Other err
      else google_error ErrPairWaitUnknown err)"

definition Google_Wait ::
  "ConnectorConfig \<Rightarrow> login_env \<Rightarrow> pair_env \<Rightarrow> env \<Rightarrow> time \<Rightarrow> pair_wait \<Rightarrow> prefix_table \<Rightarrow> GoogleLoginProcess
    \<Rightarrow> ((login_error, LoginStep \<times> GMClient \<times> effect list) outcome \<times> prefix_table \<times> GoogleLoginProcess) option" where
  "Google_Wait cf lv pe env now w tbl gl =
     (case (gl_Client gl, gl_Sess gl) of
        (Some cli, Some sess) \<Rightarrow>
          (case FinishGaiaPairing pe env now w sess cli of
             None \<Rightarrow> None
           | Some (Panic p, c) \<Rightarrow> Some (Panic p, tbl, gl\<lparr>gl_Client := Some c\<rparr>)
           | Some (Error err, c) \<Rightarrow> Some (Error (wait_error err), tbl, gl\<lparr>gl_Client := Some (Disconnect c)\<rparr>)
           | Some (Return phoneID, c) \<Rightarrow>
               (let r = finishLogin cf lv env now c False phoneID (GetSourceID (ad_Mobile (cl_AuthData c))) tbl
                in Some (fst r, snd r, gl\<lparr>gl_Client := Some (Disconnect c)\<rparr>)))
      | _ \<Rightarrow> Some (Panic ''nil pointer dereference'', tbl, gl))"

section \<open>The QR login ends\<close>

lemma Disconnect_not_connected [simp]: "\<not> IsConnected (Disconnect c)"
  by (simp add: Disconnect_def closeLongPolling_def IsConnected_def split: option.split)

text \<open>The state after a sequence of waits that all ended with a new code; \<open>None\<close> when one of them
  ended the login.\<close>

fun qr_waits ::
  "ConnectorConfig \<Rightarrow> login_env \<Rightarrow> pair_env \<Rightarrow> env \<Rightarrow> (time \<times> time \<times> (Client \<Rightarrow> Client) \<times> qr_event) list
    \<Rightarrow> prefix_table \<times> QRLoginProcess \<Rightarrow> (prefix_table \<times> QRLoginProcess) option" where
  "qr_waits cf lv pe env [] st = Some st"
| "qr_waits cf lv pe env ((now, later, others, evt) # ws) st =
     (let r = QR_Wait cf lv pe env now later others evt (fst st) (snd st)
      in case fst r of
           Return (step, None) \<Rightarrow> qr_waits cf lv pe env ws (snd r)
         | _ \<Rightarrow> None)"

lemma qr_expired_cases:
  obtains (ended) "\<exists>e. fst (qr_expired pe env now later cli ql) = Error e"
      "\<exists>c. ql_Client (snd (qr_expired pe env now later cli ql)) = Some c \<and> \<not> IsConnected c"
  | (again) qr c where "qr_expired pe env now later cli ql = (Return (qr_step qr), ql
      \<lparr>ql_MaxAttempts := ql_MaxAttempts ql - 1, ql_Client := Some c, ql_PrevStart := later\<rparr>)" "ql_MaxAttempts ql > 1"
proof (cases "ql_MaxAttempts ql \<le> 1")
  case True
  then show ?thesis by (intro ended) (simp_all add: qr_expired_def)
next
  case False
  let ?r = "RefreshPhoneRelay pe env now cli"
  show ?thesis
  proof (cases "fst ?r")
    case (Inl err)
    then show ?thesis using False by (intro ended) (simp_all add: qr_expired_def Let_def)
  next
    case (Inr qr)
    then show ?thesis using False again [of qr "snd ?r"] by (simp add: qr_expired_def Let_def)
  qed
qed

lemma QR_Wait_again:
  assumes "QR_Wait cf lv pe env now later others evt tbl ql = (Return (step, None), tbl', ql')"
  shows "ql_MaxAttempts ql' = ql_MaxAttempts ql - 1 \<and> 1 \<le> ql_MaxAttempts ql' \<and> evt = QR_Expired \<and>
    tbl' = tbl \<and> (\<exists>qr. step = qr_step qr) \<and> (\<exists>c. ql_Client ql' = Some c) \<and> ql_PrevStart ql' = later"
proof -
  obtain cli where cli: "ql_Client ql = Some cli" using assms by (cases "ql_Client ql") (auto simp: QR_Wait_def)
  have evt: "evt = QR_Expired"
  proof (cases evt)
    case (QR_Paired data)
    then show ?thesis using assms cli
      by (cases "fst (finishLogin cf lv env now (others cli) True (GetSourceID (Option.bind data pd_Mobile)) '''' tbl)")
        (simp_all add: QR_Wait_def Let_def)
  qed (use assms cli in \<open>simp_all add: QR_Wait_def Let_def\<close>)
  show ?thesis
  proof (cases rule: qr_expired_cases [of pe env now later "others cli" ql])
    case ended
    then show ?thesis using assms cli evt by (auto simp: QR_Wait_def Let_def)
  next
    case (again qr c)
    then show ?thesis using assms cli evt by (auto simp: QR_Wait_def Let_def)
  qed
qed

lemma qr_waits_attempts:
  assumes "qr_waits cf lv pe env ws st = Some st'" "ws \<noteq> []"
  shows "ql_MaxAttempts (snd st') = ql_MaxAttempts (snd st) - int (length ws) \<and> 1 \<le> ql_MaxAttempts (snd st') \<and>
    ql_Client (snd st') \<noteq> None"
  using assms
proof (induction ws arbitrary: st)
  case (Cons w ws)
  obtain now later others evt where w: "w = (now, later, others, evt)" by (cases w) auto
  let ?r = "QR_Wait cf lv pe env now later others evt (fst st) (snd st)"
  obtain step where s: "fst ?r = Return (step, None)" and q: "qr_waits cf lv pe env ws (snd ?r) = Some st'"
    using Cons.prems by (auto simp: w Let_def split: outcome.splits option.splits prod.splits)
  then have r: "?r = (Return (step, None), fst (snd ?r), snd (snd ?r))" by (metis prod.collapse)
  from QR_Wait_again [OF r] show ?case using Cons.IH [OF q] q by (cases "ws = []") auto
qed simp

text \<open>
  (C9) A QR login ends.  From its start on, at most five waits show a new code, each of them after the
  previous code has expired; if the sixth code expires too, the login ends with the timeout error.
  However a wait ends the login other than by success or a panic, the client is disconnected.
\<close>

theorem qr_login_ends:
  assumes create: "CreateLogin ''qr'' = Inr (QR ql)"
    and start: "QR_Start pe env now later rnd generated ql = (Return step, ql1)"
    and waits: "qr_waits cf lv pe env ws (tbl, ql1) = Some (tbl', ql2)"
  shows "length ws \<le> 5 \<and>
    (length ws = 5 \<longrightarrow> fst (QR_Wait cf lv pe env now2 later2 others QR_Expired tbl' ql2) = Error (LE_Resp ErrPairQRTimeout None)) \<and>
    (\<forall>evt e. fst (QR_Wait cf lv pe env now2 later2 others evt tbl' ql2) = Error e \<longrightarrow>
       (\<exists>c. ql_Client (snd (snd (QR_Wait cf lv pe env now2 later2 others evt tbl' ql2))) = Some c \<and> \<not> IsConnected c))"
proof -
  have "ql_MaxAttempts ql = 6" using create by (auto simp: CreateLogin_def)
  moreover have "ql_MaxAttempts ql1 = ql_MaxAttempts ql \<and> ql_Client ql1 \<noteq> None"
    using start by (auto simp: QR_Start_def Let_def split: outcome.splits sum.splits)
  ultimately have m: "ql_MaxAttempts ql2 = 6 - int (length ws)" "1 \<le> ql_MaxAttempts ql2" "ql_Client ql2 \<noteq> None"
    using qr_waits_attempts [OF waits] waits by (cases "ws = []"; auto)+
  then obtain cli where cli: "ql_Client ql2 = Some cli" by blast
  have e: "\<exists>c. ql_Client (snd (snd (QR_Wait cf lv pe env now2 later2 others evt tbl' ql2))) = Some c \<and> \<not> IsConnected c"
    if err: "fst (QR_Wait cf lv pe env now2 later2 others evt tbl' ql2) = Error e" for evt e
  proof (cases evt)
    case QR_Expired
    show ?thesis
    proof (cases rule: qr_expired_cases [of pe env now2 later2 "others cli" ql2])
      case ended
      then show ?thesis using cli QR_Expired by (simp add: QR_Wait_def Let_def)
    next
      case (again qr c)
      then show ?thesis using err cli QR_Expired by (simp add: QR_Wait_def)
    qed
  qed (simp_all add: QR_Wait_def Let_def cli)
  have "fst (QR_Wait cf lv pe env now2 later2 others QR_Expired tbl' ql2) = Error (LE_Resp ErrPairQRTimeout None)"
    if "length ws = 5"
    using m that cli by (simp add: QR_Wait_def qr_expired_def Let_def)
  with m e show ?thesis by auto
qed

definition sample_login_world :: env where
  "sample_login_world = sample_env_ok\<lparr>env_dec_config := plain_decoder (\<lambda>_.
     Inr \<lparr>cg_ClientVersion = ''20250101'', cg_DeviceID = [], cg_Email = ''a@b''\<rparr>)\<rparr>"

definition sample_qr_env :: pair_env where
  "sample_qr_env = sample_pair_env\<lparr>pe_dec_register := plain_decoder (\<lambda>_. Inr \<lparr>rp_PairingKey = [1], rp_AuthKeyData = None\<rparr>)\<rparr>"

definition sample_login_env :: login_env where
  "sample_login_env = \<lparr>lv_NewLogin = (\<lambda>_ _ m. Inr m), lv_Save = (\<lambda>_. None), lv_prefix_error = (\<lambda>_. None),
     lv_new_key = next_key\<rparr>"

lemma sample_http_ok:
  "typedHTTPResponse de (plain_decoder f) (fst (makeProtobufHTTPRequest sample_login_world now url p ct c)) = f []"
  if "ct = ContentTypeProtobuf \<or> ct = ContentTypePBLite"
  using that by (auto simp: sample_login_world_def sample_env_ok_def sample_env_def makeProtobufHTTPRequest_def
      makeProtobufHTTPRequestContext_def marshal_body_def ContentTypePBLite_def ContentTypeProtobuf_def
      do_http_def typedHTTPResponse_def decodeProtoResp_def plain_decoder_def Let_def split: sum.split)

lemma sample_relay_ok: "\<exists>qr. fst (RefreshPhoneRelay sample_qr_env sample_login_world now c) = Inr qr"
  by (simp add: RefreshPhoneRelay_def Let_def sample_qr_env_def sample_pair_env_def sample_http_ok GenerateQRCodeData_def)

lemma sample_config_ok: "fst (FetchConfig sample_login_world now c) = Return ()"
proof -
  have v: "ParsedClientVersion \<lparr>cg_ClientVersion = ''20250101'', cg_DeviceID = [], cg_Email = ''a@b''\<rparr>
      = Return \<lparr>cf_Year = 2025, cf_Month = 1, cf_Day = 1, cf_V1 = 4, cf_V2 = 6\<rparr>"
    by code_simp
  then show ?thesis
    by (auto simp: FetchConfig_def fetchConfig_def Let_def sample_login_world_def sample_env_ok_def sample_env_def
        do_http_def typedHTTPResponse_def decodeProtoResp_def plain_decoder_def split: prod.split)
qed

lemma sample_start_ok:
  "\<exists>step ql1. QR_Start sample_qr_env sample_login_world 0 0 (\<lambda>_. 0) (Inr \<lparr>ec_D = 5, ec_X = 256, ec_Y = 0\<rparr>) ql = (Return step, ql1)"
proof -
  have "\<exists>qr. fst (StartLogin sample_qr_env sample_login_world 0 c) = Inr qr" for c
    by (simp add: StartLogin_def RegisterPhoneRelay_def Let_def sample_qr_env_def sample_pair_env_def sample_http_ok
        GenerateQRCodeData_def)
  then show ?thesis
    by (auto simp: QR_Start_def NewAuthData_def GenerateECDSAKey_def sample_config_ok Let_def split: sum.split)
       (metis Inl_Inr_False)
qed

lemma sample_wait_again:
  assumes "ql_Client ql = Some c" "ql_MaxAttempts ql > 1"
  shows "\<exists>step ql'. QR_Wait cf lv sample_qr_env sample_login_world 0 0 (\<lambda>c. c) QR_Expired tbl ql = (Return (step, None), tbl, ql') \<and>
    ql_Client ql' \<noteq> None \<and> ql_MaxAttempts ql' = ql_MaxAttempts ql - 1"
proof -
  obtain qr where "fst (RefreshPhoneRelay sample_qr_env sample_login_world 0 c) = Inr qr" using sample_relay_ok by blast
  then show ?thesis using assms by (simp add: QR_Wait_def qr_expired_def Let_def)
qed

lemma sample_waits:
  "ql_Client ql \<noteq> None \<Longrightarrow> ql_MaxAttempts ql > int n \<Longrightarrow>
   \<exists>ql'. qr_waits cf lv sample_qr_env sample_login_world (replicate n (0, 0, \<lambda>c. c, QR_Expired)) (tbl, ql) = Some (tbl, ql')"
proof (induction n arbitrary: ql)
  case (Suc n)
  then obtain c where c: "ql_Client ql = Some c" by blast
  have more: "ql_MaxAttempts ql > 1" using Suc.prems(2) by simp
  obtain step ql' where q: "QR_Wait cf lv sample_qr_env sample_login_world 0 0 (\<lambda>c. c) QR_Expired tbl ql
      = (Return (step, None), tbl, ql')" "ql_Client ql' \<noteq> None" "ql_MaxAttempts ql' = ql_MaxAttempts ql - 1"
    using sample_wait_again [OF c more, of cf lv tbl] by blast
  then show ?case using Suc.IH [of ql'] Suc.prems(2) by (simp add: Let_def)
qed simp

theorem qr_login_ends_witness:
  "\<exists>ql step ql1 ql2. CreateLogin ''qr'' = Inr (QR ql) \<and>
     QR_Start sample_qr_env sample_login_world 0 0 (\<lambda>_. 0) (Inr \<lparr>ec_D = 5, ec_X = 256, ec_Y = 0\<rparr>) ql = (Return step, ql1) \<and>
     qr_waits sample_config sample_login_env sample_qr_env sample_login_world (replicate 5 (0, 0, \<lambda>c. c, QR_Expired)) ([], ql1)
       = Some ([], ql2) \<and>
     fst (QR_Wait sample_config sample_login_env sample_qr_env sample_login_world 0 0 (\<lambda>c. c) QR_Expired [] ql2)
       = Error (LE_Resp ErrPairQRTimeout None)"
proof -
  obtain ql where ql: "CreateLogin ''qr'' = Inr (QR ql)" "ql_MaxAttempts ql = 6" by (simp add: CreateLogin_def)
  obtain step ql1 where s: "QR_Start sample_qr_env sample_login_world 0 0 (\<lambda>_. 0) (Inr \<lparr>ec_D = 5, ec_X = 256, ec_Y = 0\<rparr>) ql
      = (Return step, ql1)" using sample_start_ok by blast
  have "ql_MaxAttempts ql1 = 6 \<and> ql_Client ql1 \<noteq> None"
    using s ql(2) by (auto simp: QR_Start_def Let_def split: outcome.splits sum.splits)
  then obtain ql2 where w: "qr_waits sample_config sample_login_env sample_qr_env sample_login_world
      (replicate 5 (0, 0, \<lambda>c. c, QR_Expired)) ([], ql1) = Some ([], ql2)"
    using sample_waits [of ql1 5 sample_config sample_login_env "[]"] by auto
  from qr_login_ends [OF ql(1) s w] have "fst (QR_Wait sample_config sample_login_env sample_qr_env sample_login_world 0 0
      (\<lambda>c. c) QR_Expired [] ql2) = Error (LE_Resp ErrPairQRTimeout None)" by simp
  with ql(1) s w show ?thesis by blast
qed

section \<open>Re-authentication\<close>

lemma refresh_keeps_config: "cl_Config (snd (refreshAuthToken env now ov c)) = cl_Config c"
proof -
  have "cl_Config (snd (makeProtobufHTTPRequest env now url p ct (snd (new_uuid env c)))) = cl_Config c" for url p ct
    using net_effect_request' [of "snd (new_uuid env c)" env now url p ct] by (auto simp: net_effect_def new_uuid_def)
  then show ?thesis
    by (simp add: refreshAuthToken_def Let_def updateTachyonAuthToken_def triggerEvent_def new_uuid_def split: sum.split)
qed

lemma Connect_email: "client_email (snd (Connect env now c)) = client_email c"
  using refresh_keeps_config [of env now None c]
  by (simp add: Connect_def Let_def startAckInterval_def spawn_def bumpNextDataReceiveCheck_def upd_session_def client_email_def
      split: option.split)

text \<open>What identifies a pairing: the session keys, the key of the login, the identifier of the pairing
  and the phone.\<close>

definition pairing_of :: "AuthData \<Rightarrow> AESCTRHelper \<times> JWK \<times> UUID \<times> Device option" where
  "pairing_of ad = (ad_RequestCrypto ad, ad_RefreshKey ad, ad_PairingID ad, ad_Mobile ad)"

lemma pairing_of_cookies [simp]: "pairing_of (SetCookies cookies ad) = pairing_of ad" "pairing_of (ad\<lparr>ad_Cookies := x\<rparr>) = pairing_of ad"
  by (simp_all add: pairing_of_def SetCookies_def)

lemma pairing_of_net: "net_effect c c' \<Longrightarrow> pairing_of (cl_AuthData c') = pairing_of (cl_AuthData c)"
  by (auto simp: net_effect_def pairing_of_def)

lemma pairing_of_FetchConfig: "pairing_of (cl_AuthData (snd (FetchConfig env now c))) = pairing_of (cl_AuthData c)"
proof -
  have u: "pairing_of (UpdateCookiesFromResponse resp ad) = pairing_of ad" for resp ad
    using UpdateCookies_ex [of resp ad] by auto
  have f: "pairing_of (cl_AuthData (snd (fetchConfig env now c))) = pairing_of (cl_AuthData c)"
    by (simp add: fetchConfig_def Let_def do_http_def u split: sum.split outcome.split)
  show ?thesis
  proof (cases "fetchConfig env now c")
    case (Pair r c1)
    then show ?thesis using f by (cases r) (simp_all add: FetchConfig_def Let_def pairing_of_def)
  qed
qed

lemma pairing_of_refresh: "pairing_of (cl_AuthData (snd (refreshAuthToken env now ov c))) = pairing_of (cl_AuthData c)"
proof -
  have "pairing_of (cl_AuthData (snd (makeProtobufHTTPRequest env now url p ct (snd (new_uuid env c))))) = pairing_of (cl_AuthData c)"
    for url p ct
    using pairing_of_net [OF net_effect_request'] by (simp add: new_uuid_def pairing_of_def)
  then show ?thesis
    by (simp add: refreshAuthToken_def Let_def updateTachyonAuthToken_def triggerEvent_def new_uuid_def pairing_of_def split: sum.split)
qed

lemma pairing_of_Connect: "pairing_of (cl_AuthData (snd (Connect env now c))) = pairing_of (cl_AuthData c)"
  using pairing_of_refresh [of env now None c]
  by (simp add: Connect_def Let_def startAckInterval_def spawn_def bumpNextDataReceiveCheck_def upd_session_def split: option.split)

definition same_session :: "GMClient \<Rightarrow> AuthData \<Rightarrow> bool" where
  "same_session gc sess \<longleftrightarrow> ulm_Session (gm_Meta gc) = Some sess \<and> (\<forall>c. gm_Client gc = Some c \<longrightarrow> cl_AuthData c = sess)"

lemma same_session_put: "same_session gc sess \<Longrightarrow> same_session (put_client c gc) (cl_AuthData c)"
  by (simp add: same_session_def put_client_def)

lemma same_session_cookies: "same_session gc sess \<Longrightarrow> same_session (set_session_cookies cookies gc) (SetCookies cookies sess)"
  by (auto simp: same_session_def set_session_cookies_def)

lemma same_session_new: "same_session gc sess \<Longrightarrow> same_session (GMClient_NewClient gc) sess"
  by (auto simp: same_session_def GMClient_NewClient_def NewClient_def SetAlertTimeoutCount_def SetPingInterval_def)

lemma reauthenticate_keeps:
  assumes "same_session old sess"
  shows "\<exists>sess'. same_session (snd (reauthenticate env now cookies old)) sess' \<and> pairing_of sess' = pairing_of sess \<and>
    gm_UserLoginID (snd (reauthenticate env now cookies old)) = gm_UserLoginID old \<and>
    (fst (reauthenticate env now cookies old) = Return True \<longrightarrow>
       (\<exists>cli. gm_Client (snd (reauthenticate env now cookies old)) = Some cli \<and>
          client_email cli = GetSourceID (ad_Mobile sess)))"
proof -
  define gc where "gc = set_session_cookies cookies (if gm_Client old = None then GMClient_NewClient old else old)"
  have s: "same_session gc (SetCookies cookies sess)"
    unfolding gc_def using assms same_session_new same_session_cookies by simp
  have i: "gm_UserLoginID gc = gm_UserLoginID old"
    by (simp add: gc_def set_session_cookies_def GMClient_NewClient_def split: option.split)
  show ?thesis
  proof (cases "gm_Client gc")
    case None
    then show ?thesis using s i by (auto simp: reauthenticate_def Let_def gc_def [symmetric])
  next
    case (Some cli)
    let ?f = "FetchConfig env now cli" and ?r = "Connect env now (snd (FetchConfig env now cli))"
    have cli: "cl_AuthData cli = SetCookies cookies sess" using s Some by (simp add: same_session_def)
    then have f: "pairing_of (cl_AuthData (snd ?f)) = pairing_of sess" by (simp add: pairing_of_FetchConfig)
    then have r: "pairing_of (cl_AuthData (snd ?r)) = pairing_of sess" by (simp add: pairing_of_Connect)
    have e: "client_email (snd ?r) = client_email (snd ?f)" by (rule Connect_email)
    have m: "ad_Mobile (cl_AuthData (snd ?f)) = ad_Mobile sess" using f by (simp add: pairing_of_def)
    have p: "same_session (put_client (snd ?f) gc) (cl_AuthData (snd ?f))"
      "same_session (put_client (snd ?r) (put_client (snd ?f) gc)) (cl_AuthData (snd ?r))"
      using s same_session_put by blast+
    show ?thesis
    proof (cases "fst ?f")
      case (Return u)
      then show ?thesis using Some p f r i m e
        by (auto simp: reauthenticate_def Let_def gc_def [symmetric] put_client_def)
    qed (use Some p f i in \<open>auto simp: reauthenticate_def Let_def gc_def [symmetric]\<close>)
  qed
qed

lemma google_pair_override:
  "google_pair pe env now pa rnd generated cookies gl = Some (r, gl') \<Longrightarrow>
   gl_Override gl' = gl_Override gl \<and> (\<forall>step. r = Return step \<longrightarrow> ls_Type step = LoginStepTypeDisplayAndWait)"
  by (auto simp: google_pair_def Let_def emoji_step_def split: outcome.splits option.splits)

lemma reauthenticate_no_error: "fst (reauthenticate env now cookies old) \<noteq> Error e"
  by (simp add: reauthenticate_def Let_def split: option.split outcome.split)

text \<open>
  (C10) Re-authentication with new cookies never replaces the pairing of a login: whatever happens, its session
  keys, its own key, the identifier of the pairing and the phone stay as they were.  It is reported
  as complete only if the account that the cookies belong to is the account of the pairing; otherwise
  the login loses its cookies and a new pairing is started (which shows an emoji or fails).
\<close>

theorem reauthentication_keeps_pairing:
  assumes override: "gl_Override gl = Some old" "same_session old sess"
    and run: "SubmitCookies lv pe env now pa rnd generated cookies gl = Some (r, gl')"
  shows "\<exists>new sess'. gl_Override gl' = Some new \<and> same_session new sess' \<and> pairing_of sess' = pairing_of sess \<and>
    gm_UserLoginID new = gm_UserLoginID old \<and>
    (\<forall>step e. r = Return (step, e) \<and> ls_Type step = LoginStepTypeComplete \<longrightarrow>
       (\<exists>cli. gm_Client new = Some cli \<and> client_email cli = GetSourceID (ad_Mobile sess))) \<and>
    (\<forall>step e. r = Return (step, e) \<and> ls_Type step \<noteq> LoginStepTypeComplete \<longrightarrow> ad_Cookies sess' = None) \<and>
    (\<forall>e. r = Error e \<longrightarrow> ad_Cookies sess' = None)"
proof -
  let ?q = "reauthenticate env now cookies old"
  obtain sess1 where s1: "same_session (snd ?q) sess1" "pairing_of sess1 = pairing_of sess"
      "gm_UserLoginID (snd ?q) = gm_UserLoginID old"
    and fin: "fst ?q = Return True \<Longrightarrow> \<exists>cli. gm_Client (snd ?q) = Some cli \<and> client_email cli = GetSourceID (ad_Mobile sess)"
    using reauthenticate_keeps [OF override(2)] by blast
  show ?thesis
  proof (cases "fst ?q")
    case (Return ok)
    show ?thesis
    proof (cases ok)
      case True
      then have g: "gl_Override gl' = Some (snd ?q)" "\<exists>e. r = Return (complete_step ''Successfully re-authenticated'' (gm_UserLoginID (snd ?q)), e)"
        using run override(1) Return by (auto simp: SubmitCookies_def Let_def)
      then show ?thesis using s1 fin Return True by (auto simp: complete_step_def)
    next
      case False
      let ?new = "set_session_cookies None (snd ?q)"
      obtain r0 where p: "google_pair pe env now pa rnd generated cookies (gl\<lparr>gl_Override := Some ?new\<rparr>) = Some (r0, gl')"
          "r = bind_outcome r0 (\<lambda>s. Return (s, None))"
        using run override(1) Return False by (auto simp: SubmitCookies_def Let_def)
      from google_pair_override [OF p(1)] have o: "gl_Override gl' = Some ?new"
        "\<And>step. r0 = Return step \<Longrightarrow> ls_Type step \<noteq> LoginStepTypeComplete" by auto
      have n: "same_session ?new (SetCookies None sess1)" using s1(1) by (rule same_session_cookies)
      have i: "gm_UserLoginID ?new = gm_UserLoginID old" using s1(3) by (simp add: set_session_cookies_def)
      have c: "ad_Cookies (SetCookies None sess1) = None" by (simp add: SetCookies_def)
      show ?thesis
        by (rule exI [of _ ?new], rule exI [of _ "SetCookies None sess1"])
          (use o n i c s1(2) p(2) in \<open>cases r0; auto\<close>)
    qed
  next
    case (Panic x)
    then show ?thesis using run override(1) s1 by (auto simp: SubmitCookies_def Let_def)
  next
    case (Error e)
    then show ?thesis using reauthenticate_no_error by metis
  qed
qed

definition sample_relogin :: GoogleLoginProcess where
  "sample_relogin = \<lparr>gl_Client = None, gl_Sess = None, gl_Override = Some sample_bridge_client\<rparr>"

lemma sample_same_session: "same_session sample_bridge_client sample_auth"
  by (simp add: same_session_def sample_bridge_client_def LoadUserLogin_def GMClient_NewClient_def NewClient_def
      SetAlertTimeoutCount_def SetPingInterval_def)

definition sample_attempt :: pair_attempt where
  "sample_attempt = \<lparr>pa_uuid = 1, pa_key = \<lparr>ec_D = 1, ec_X = 2, ec_Y = 3\<rparr>, pa_random = [], pa_opened = Some, pa_init = sample_pair_wait\<rparr>"

theorem reauthentication_keeps_pairing_witness:
  "\<exists>r gl' new sess'. SubmitCookies sample_login_env sample_qr_env sample_env 0 sample_attempt (\<lambda>_. 0)
       (Inr \<lparr>ec_D = 5, ec_X = 256, ec_Y = 0\<rparr>) (Some Map.empty) sample_relogin = Some (Error r, gl') \<and>
     gl_Override gl' = Some new \<and> same_session new sess' \<and> pairing_of sess' = pairing_of sample_auth \<and> ad_Cookies sess' = None"
proof -
  have f: "\<exists>e. fst (FetchConfig sample_env 0 c) = Error e" for c
    by (auto simp: FetchConfig_def fetchConfig_def Let_def sample_env_def do_http_def typedHTTPResponse_def split: prod.split)
  have q: "fst (reauthenticate sample_env 0 (Some Map.empty) sample_bridge_client) = Return False"
  proof -
    obtain cli0 where c: "gm_Client sample_bridge_client = Some cli0" by (rule sample_client_ready)
    define cli where "cli = cli0\<lparr>cl_AuthData := SetCookies (Some Map.empty) (cl_AuthData cli0)\<rparr>"
    have "gm_Client (set_session_cookies (Some Map.empty) (if gm_Client sample_bridge_client = None
        then GMClient_NewClient sample_bridge_client else sample_bridge_client)) = Some cli"
      by (simp add: set_session_cookies_def c cli_def)
    then show ?thesis using f [of cli] by (auto simp: reauthenticate_def Let_def)
  qed
  obtain e gl' where run: "SubmitCookies sample_login_env sample_qr_env sample_env 0 sample_attempt (\<lambda>_. 0)
       (Inr \<lparr>ec_D = 5, ec_X = 256, ec_Y = 0\<rparr>) (Some Map.empty) sample_relogin = Some (Error e, gl')"
  proof -
    obtain ad where ad: "NewAuthData (\<lambda>_. 0) (Inr \<lparr>ec_D = 5, ec_X = 256, ec_Y = 0\<rparr>) = Return ad"
      by (simp add: NewAuthData_def GenerateECDSAKey_def)
    obtain e where "fst (FetchConfig sample_env 0 (NewClient (ad\<lparr>ad_Cookies := Some Map.empty\<rparr>) None)) = Error e" using f by blast
    then have "\<exists>gl'. SubmitCookies sample_login_env sample_qr_env sample_env 0 sample_attempt (\<lambda>_. 0)
       (Inr \<lparr>ec_D = 5, ec_X = 256, ec_Y = 0\<rparr>) (Some Map.empty) sample_relogin
       = Some (Error (LE_Resp ErrPairStartUnknown (Some e)), gl')"
      using q ad by (simp add: SubmitCookies_def sample_relogin_def Let_def google_pair_def)
    then show ?thesis using that by blast
  qed
  have o: "gl_Override sample_relogin = Some sample_bridge_client" by (simp add: sample_relogin_def)
  from reauthentication_keeps_pairing [OF o sample_same_session run] run show ?thesis by blast
qed

section \<open>Finished logins\<close>

lemma choose_prefix_ok:
  assumes "choose_prefix cf lv sha256 loginID tbl = (Inr p, tbl')"
    and "\<And>t. lv_new_key lv t \<ge> 0" "\<forall>row \<in> snd ` set tbl. row \<ge> 0"
  shows "login_prefix cf p"
proof (cases "cf_DeterministicIDPrefix cf")
  case True
  then have "p = hex_bytes (take 8 (sum256 sha256 (string_bytes loginID)))" using assms(1) by (simp add: choose_prefix_def)
  moreover have "take 8 (sum256 sha256 (string_bytes loginID)) \<noteq> []" by (simp add: sum256_def flip: length_0_conv)
  ultimately show ?thesis unfolding login_prefix_def if_P [OF True] by blast
next
  case False
  then have p: "p = fst (GetLoginPrefix (lv_new_key lv) tbl loginID)"
    using assms(1) by (auto simp: choose_prefix_def Let_def split: option.splits)
  have "\<exists>row \<ge> 0. p = show_int row"
  proof (cases "map_of tbl loginID")
    case (Some row)
    then have "row \<in> snd ` set tbl" by (force dest: map_of_SomeD)
    then show ?thesis using p Some assms(3) by (auto simp: GetLoginPrefix_def)
  qed (use p assms(2) in \<open>auto simp: GetLoginPrefix_def\<close>)
  then show ?thesis using False by (auto simp: login_prefix_def show_int_def)
qed

lemma GMClient_Connect_keeps:
  assumes "GMClient_Connect env now gc = Return (gc', effs)"
  shows "gm_UserLoginID gc' = gm_UserLoginID gc \<and> gm_Config gc' = gm_Config gc \<and>
    ulm_IDPrefix (gm_Meta gc') = ulm_IDPrefix (gm_Meta gc)"
proof (cases "gm_Client gc")
  case None
  then show ?thesis using assms by (simp add: GMClient_Connect_def)
next
  case (Some cli)
  have c: "connect_failed err g = Return (gc', effs) \<Longrightarrow> gc' = g" for err g
    by (auto simp: connect_failed_def elim!: bind_outcome.elims split: if_splits)
  have "gc' = gc \<or> (\<exists>c1. gc' = put_client c1 gc) \<or> (\<exists>c1 c2. gc' = put_client c2 (put_client c1 gc))"
    using assms Some unfolding GMClient_Connect_def Let_def
    by (auto split: option.splits outcome.splits if_splits dest!: c)
  then show ?thesis by (auto simp: put_client_def)
qed


lemma FetchConfig_keeps_token:
  "ad_TachyonAuthToken (cl_AuthData (snd (FetchConfig env now c))) = ad_TachyonAuthToken (cl_AuthData c)"
proof -
  have u: "ad_TachyonAuthToken (UpdateCookiesFromResponse resp ad) = ad_TachyonAuthToken ad" for resp ad
    using UpdateCookies_ex [of resp ad] by auto
  have f: "ad_TachyonAuthToken (cl_AuthData (snd (fetchConfig env now c))) = ad_TachyonAuthToken (cl_AuthData c)"
    by (simp add: fetchConfig_def Let_def do_http_def u split: sum.split outcome.split)
  show ?thesis
  proof (cases "fetchConfig env now c")
    case (Pair r c1)
    then show ?thesis using f by (cases r) (simp_all add: FetchConfig_def Let_def)
  qed
qed

definition sample_unpaired :: AuthData where
  "sample_unpaired = sample_auth\<lparr>ad_TachyonAuthToken := None\<rparr>"

lemma sample_connects:
  assumes "ulm_Session meta = Some sample_unpaired"
  shows "\<exists>r. GMClient_Connect sample_login_world t (LoadUserLogin cf i meta) = Return r"
proof -
  obtain cli where cli: "gm_Client (LoadUserLogin cf i meta) = Some cli" "cl_AuthData cli = sample_unpaired"
      "ulm_Session (gm_Meta (LoadUserLogin cf i meta)) = Some sample_unpaired"
    using assms by (simp add: LoadUserLogin_def GMClient_NewClient_def NewClient_def SetAlertTimeoutCount_def SetPingInterval_def)
  have "ad_TachyonAuthToken (cl_AuthData (snd (FetchConfig sample_login_world t cli))) = None"
    using cli(2) by (simp add: FetchConfig_keeps_token sample_unpaired_def)
  then have c: "Connect sample_login_world t (snd (FetchConfig sample_login_world t cli)) =
      (Some (ErrText ''no auth token''), snd (FetchConfig sample_login_world t cli))" by (simp add: Connect_def)
  have g: "\<not> IsGoogleAccount sample_unpaired" by (simp add: IsGoogleAccount_def sample_unpaired_def sample_auth_def)
  show ?thesis
    by (simp add: GMClient_Connect_def cli g Let_def sample_config_ok c connect_failed_def ErrText_def)
qed


end
