(* ===== verification/Gm_System.thy ===== *)
theory Gm_System
  imports Gm_HandleMatrix
begin

text \<open>
  The parts put together: what comes in from the relay up to the events that the bridge queues, and what is
  typed in Matrix up to the bytes that the phone decrypts.  The client library calls the event handler of the
  bridge (\<open>handleGMEvent\<close>, set by \<open>NewClient\<close> of \<open>pkg/connector/client.go\<close>) for each event it
  triggers, in order; the library of each stage carries the proofs.
\<close>

section \<open>From the relay to the bridge\<close>

text \<open>Handing the events of the library to the bridge, in the order they were triggered.\<close>

definition deliver_events :: "time \<Rightarrow> bool \<Rightarrow> event list \<Rightarrow> GMClient \<Rightarrow> handled" where
  "deliver_events now trace es gc = run_handler (handle_at trace) (map (Pair now) es) gc"

definition receive_message :: "env \<Rightarrow> time \<Rightarrow> bool \<Rightarrow> RPCIncoming \<Rightarrow> GMClient \<Rightarrow> handled" where
  "receive_message env now trace raw gc =
     (case gm_Client gc of
        None \<Rightarrow> Panic ''nil pointer dereference''
      | Some cli \<Rightarrow> bind_outcome (HandleRPCMsg env now raw cli)
          (\<lambda>cli'. deliver_events now trace (new_events cli cli') (put_client cli' gc)))"

text \<open>A message of the relay with an update of messages that is not the answer of a call: what it is on the
  wire, for a client with these keys and waiting calls.\<close>

definition update_data :: "env \<Rightarrow> RPCIncoming \<Rightarrow> Client \<Rightarrow> Message list \<Rightarrow> bytes \<Rightarrow> RPCMessageData \<Rightarrow> bytes \<Rightarrow> bool" where
  "update_data env raw c parts d m ed \<longleftrightarrow>
     env_unmarshal_rpc env (ri_MessageData raw) = Inr m \<and> md_Action m = ActionType_GET_UPDATES \<and>
     md_EncryptedData m = Some ed \<and>
     fst (Decrypt (env_aes env) (env_sha256 env) (ad_RequestCrypto (cl_AuthData c)) ed) = Inr d \<and>
     env_unmarshal_updates env d = Inr (UpdateEvents_MessageEvent parts) \<and>
     sh_responseWaiters (cl_sessionHandler c) (md_SessionID m) = None"

definition message_update :: "env \<Rightarrow> RPCIncoming \<Rightarrow> Client \<Rightarrow> Message list \<Rightarrow> bytes \<Rightarrow> bool" where
  "message_update env raw c parts d \<longleftrightarrow>
     ri_BugleRoute raw = BugleRoute_DataEvent \<and> (\<exists>m ed. update_data env raw c parts d m ed)"

lemma message_update_cong:
  "ad_RequestCrypto (cl_AuthData c') = ad_RequestCrypto (cl_AuthData c) \<Longrightarrow>
   sh_responseWaiters (cl_sessionHandler c') = sh_responseWaiters (cl_sessionHandler c) \<Longrightarrow>
   message_update env raw c' parts d = message_update env raw c parts d"
  by (simp add: message_update_def update_data_def)

lemma message_update_decrypt:
  assumes "message_update env raw c parts d"
  obtains msg m where "decryptInternalMessage env raw c = (Inr msg, c)" "im_raw msg = raw" "im_Message msg = Some m"
    "md_Action m = ActionType_GET_UPDATES" "im_DecryptedData msg = Some d" "\<not> im_IsOld msg"
    "im_DecryptedMessage msg = Some (DM_UpdateEvents (UpdateEvents_MessageEvent parts))"
    "sh_responseWaiters (cl_sessionHandler c) (md_SessionID m) = None"
proof -
  obtain m ed where r: "ri_BugleRoute raw = BugleRoute_DataEvent" and u: "update_data env raw c parts d m ed"
    using assms by (auto simp: message_update_def)
  have t: "responseType ActionType_GET_UPDATES = Some UpdateEventsType" by (simp add: responseType_def)
  show ?thesis
    using u r t
    by (intro that [of _ "m\<lparr>md_EncryptedData := Some (snd (Decrypt (env_aes env) (env_sha256 env)
          (ad_RequestCrypto (cl_AuthData c)) ed))\<rparr>"])
      (auto simp: update_data_def decryptInternalMessage_def decryptDataEvent_def unmarshal_into_def Let_def base_message_def)
qed

text \<open>Whether a part was delivered before, with the same content, within the memory of the filter.\<close>

definition fresh :: "env \<Rightarrow> Client \<Rightarrow> bytes \<Rightarrow> string \<Rightarrow> bool" where
  "fresh env c d uid \<longleftrightarrow> map_of (recent c) uid \<noteq> Some (be_bytes 32 (env_sha256 env d))"

lemma map_of_takeD: "map_of (take n xs) k = Some v \<Longrightarrow> map_of xs k = Some v"
  by (induction xs arbitrary: n) (auto simp: take_Cons split: nat.splits if_splits)

lemma fresh_not_duplicate:
  "ring_ok c \<Longrightarrow> fresh env c d uid \<Longrightarrow> \<not> fst (deduplicateHash uid (be_bytes 32 (env_sha256 env d)) c)"
  by (simp add: fresh_def ring.dup_iff)

lemma fresh_after:
  assumes "ring_ok c" "fresh env c d uid" "fresh env c d uid'" "uid' \<noteq> uid"
  shows "fresh env (triggerEvent e (snd (deduplicateHash uid (be_bytes 32 (env_sha256 env d)) c))) d uid'"
  using assms(3,4) recent_after_new [OF assms(1) fresh_not_duplicate [OF assms(1,2)]]
  by (auto simp: fresh_def dest!: map_of_takeD)

lemma deduplicateHash_events [simp]: "cl_events (snd (deduplicateHash uid hash c)) = cl_events c"
  by (simp add: deduplicateHash_def)

lemma handleMessageParts_fresh:
  assumes "ring_ok c" "im_DecryptedData msg = Some d" "distinct (map msg_messageID parts)"
    and "\<forall>p\<in>set parts. fresh env c d (msg_messageID p)"
  shows "cl_events (handleMessageParts env msg parts c) =
    cl_events c @ map (\<lambda>p. Ev_WrappedMessage p (im_IsOld msg) (Some d)) parts"
  using assms
proof (induction parts arbitrary: c)
  case (Cons p parts)
  let ?d = "deduplicateHash (msg_messageID p) (be_bytes 32 (env_sha256 env d)) c"
  let ?c = "triggerEvent (Ev_WrappedMessage p (im_IsOld msg) (Some d)) (snd ?d)"
  have "ring_ok ?c" using Cons.prems(1) deduplicateHash_refines(2) by simp
  moreover have "\<forall>q\<in>set parts. fresh env ?c d (msg_messageID q)"
  proof
    fix q assume q: "q \<in> set parts"
    then have "msg_messageID q \<in> msg_messageID ` set parts" by (rule imageI)
    with Cons.prems(3) have "msg_messageID q \<noteq> msg_messageID p" by auto
    then show "fresh env ?c d (msg_messageID q)" using q Cons.prems(1,4) by (intro fresh_after) simp_all
  qed
  moreover have "\<not> fst ?d" using Cons.prems(1,4) by (intro fresh_not_duplicate) simp_all
  ultimately show ?case
    using Cons.IH [of ?c] Cons.prems(2,3) by (simp add: deduplicateUpdate_def Let_def triggerEvent_def)
qed simp

lemma handleMessageParts_remembers:
  assumes "ring_ok c" "im_DecryptedData msg = Some d" "distinct (map msg_messageID (p # ps))" "length ps \<le> 7"
    and "fresh env c d (msg_messageID p)"
  shows "\<not> fresh env (handleMessageParts env msg (p # ps) c) d (msg_messageID p)"
proof -
  let ?h = "be_bytes 32 (env_sha256 env d)"
  let ?d = "deduplicateHash (msg_messageID p) ?h c"
  let ?c = "triggerEvent (Ev_WrappedMessage p (im_IsOld msg) (Some d)) (snd ?d)"
  have n: "\<not> fst ?d" by (rule fresh_not_duplicate [OF assms(1,5)])
  have r: "remembered 0 (msg_messageID p) ?h ?c" "ring_ok ?c"
    using remembered_new [OF assms(1) n] deduplicateHash_refines(2) [OF assms(1)] by simp_all
  have "map_of (recent (handleMessageParts env msg ps ?c)) (msg_messageID p) = Some ?h"
    using remembered_handleMessageParts [OF r(2,1) _ _ assms(2), of ps env] assms(3,4) by auto
  then show ?thesis using n assms(2) by (simp add: deduplicateUpdate_def Let_def fresh_def)
qed

lemma handleMessageParts_stale:
  assumes "ring_ok c" "im_DecryptedData msg = Some d" "\<not> fresh env c d (msg_messageID p)"
  shows "handleMessageParts env msg (p # ps) c = c"
proof -
  have "fst (deduplicateHash (msg_messageID p) (be_bytes 32 (env_sha256 env d)) c)"
    using assms(1,3) by (simp add: fresh_def ring.dup_iff)
  with ring.dup_keeps [OF this] assms(2) show ?thesis by (simp add: deduplicateUpdate_def Let_def)
qed

lemma handleMessageParts_client:
  "cl_AuthData (handleMessageParts env msg parts c) = cl_AuthData c"
  by (induction parts arbitrary: c)
    (simp_all add: Let_def triggerEvent_def deduplicateUpdate_def deduplicateHash_def split: option.split)

text \<open>The whole path of such a message through the client: it is acknowledged, and its parts are handed on
  against the memory of the filter.\<close>

lemma receive_update:
  assumes "message_update env raw c parts d"
  obtains msg c0 where "HandleRPCMsg env now raw c = Return (handleMessageParts env msg parts c0)"
    "im_DecryptedData msg = Some d" "im_IsOld msg = (cl_skipCount c > 0)" "recent c0 = recent c"
    "ring_ok c0 = ring_ok c" "cl_events c0 = cl_events c" "cl_AuthData c0 = cl_AuthData c"
    "cl_sessionHandler c0 = queueMessageAck (ri_ResponseID raw) (cl_sessionHandler c)"
proof -
  obtain msg m where dec: "decryptInternalMessage env raw c = (Inr msg, c)"
    and msg: "im_raw msg = raw" "im_Message msg = Some m" "md_Action m = ActionType_GET_UPDATES"
      "im_DecryptedData msg = Some d" "\<not> im_IsOld msg"
      "im_DecryptedMessage msg = Some (DM_UpdateEvents (UpdateEvents_MessageEvent parts))"
      "sh_responseWaiters (cl_sessionHandler c) (md_SessionID m) = None"
    by (rule message_update_decrypt [OF assms])
  let ?c1 = "upd_session (queueMessageAck (ri_ResponseID raw)) c"
  have w: "receiveResponse (cl_AuthData ?c1) msg (cl_sessionHandler ?c1) = Return (False, cl_sessionHandler ?c1)"
    using msg(2,7) by (simp add: receiveResponse_def take_waiter_def upd_session_def queueMessageAck_def)
  have h: "HandleRPCMsg env now raw c = Return (dispatch env now msg ?c1)"
    using dec w by (simp add: HandleRPCMsg_def Let_def)
  have route: "ri_BugleRoute raw = BugleRoute_DataEvent" using assms by (simp add: message_update_def)
  show ?thesis
  proof (cases "cl_skipCount c > 0")
    case True
    show ?thesis
    proof (rule that [of "msg\<lparr>im_IsOld := True\<rparr>" "?c1\<lparr>cl_skipCount := cl_skipCount c - 1\<rparr>"])
      show "HandleRPCMsg env now raw c = Return (handleMessageParts env (msg\<lparr>im_IsOld := True\<rparr>) parts
          (?c1\<lparr>cl_skipCount := cl_skipCount c - 1\<rparr>))"
        using h True route msg by (simp add: dispatch_def upd_session_def handleUpdatesEvent_def handleUpdate_def)
    qed (use True msg in \<open>simp_all add: upd_session_def recent_def ring_ok_def\<close>)
  next
    case False
    let ?c2 = "bumpNextDataReceiveCheck now DefaultBugleDefaultCheckInterval ?c1"
    show ?thesis
    proof (rule that [of msg ?c2])
      show "HandleRPCMsg env now raw c = Return (handleMessageParts env msg parts ?c2)"
        using h False route msg by (simp add: dispatch_def upd_session_def handleUpdatesEvent_def handleUpdate_def)
    qed (use False msg in \<open>simp_all add: upd_session_def recent_def ring_ok_def bumpNextDataReceiveCheck_def\<close>)
  qed
qed

section \<open>Each message is queued once\<close>

lemma put_client_gm [simp]:
  "gm_syncingMobileDatabase (put_client c gc) = gm_syncingMobileDatabase gc"
  "gm_syncingConversations (put_client c gc) = gm_syncingConversations gc"
  "gm_Client (put_client c gc) = Some c"
  by (simp_all add: put_client_def)

text \<open>A deletion is not passed on while the phone's database is being synchronised.\<close>

definition passed_on :: "GMClient \<Rightarrow> Message \<Rightarrow> bool" where
  "passed_on gc p \<longleftrightarrow> \<not> (GetStatus p = MessageStatusType_MESSAGE_DELETED \<and>
     (gm_syncingMobileDatabase gc \<or> gm_syncingConversations gc))"

lemma passed_on_put_client [simp]: "passed_on (put_client c gc) = passed_on gc"
  by (rule ext) (simp add: passed_on_def)

lemma deliver_events_messages:
  "\<exists>gc'. deliver_events now trace (map (\<lambda>p. Ev_WrappedMessage p old d) parts) gc =
      Return (gc', map (\<lambda>p. Eff_Queue (RE_Message p old d)) (filter (passed_on gc) parts)) \<and> gm_Client gc' = gm_Client gc"
proof (induction parts arbitrary: gc)
  case Nil
  then show ?case by (simp add: deliver_events_def)
next
  case (Cons p parts)
  let ?gc1 = "gc\<lparr>gm_noDataReceivedRecently := False, gm_lastDataReceived :=
    (if msg_timestamp p > now div microsecond then UnixMicro (msg_timestamp p) else now)\<rparr>"
  have one: "handle_at trace (now, Ev_WrappedMessage p old d) gc =
      Return (?gc1, if passed_on gc p then [Eff_Queue (RE_Message p old d)] else [])"
    by (simp add: handle_at_def handleGMEvent_def handle_message_def passed_on_def Let_def)
  have "passed_on ?gc1 = passed_on gc" by (rule ext) (simp add: passed_on_def)
  with one Cons.IH [of ?gc1] show ?case by (auto simp: deliver_events_def)
qed

lemma acks_client:
  "cl_sessionHandler (handleMessageParts env msg parts c) = cl_sessionHandler c"
  using handleMessageParts_keeps by blast

text \<open>
  (C1) Every message of the phone reaches the bridge exactly once.  When the relay delivers an encrypted update with
  up to eight messages that were not seen before, it is decrypted and decoded, and the bridge gets an event for
  each of the messages, in their order, marked as old while the client is catching up (deletions are left out
  while the phone synchronises its database).  When the relay delivers the same content again, nothing reaches the bridge.
  Both deliveries are acknowledged.
\<close>

theorem messages_reach_bridge_once:
  assumes "gm_Client gc = Some cli" "ring_ok cli"
    and "message_update env raw cli parts d" "message_update env raw' cli parts d"
    and "distinct (map msg_messageID parts)" "length parts \<le> 8"
    and "\<forall>p\<in>set parts. fresh env cli d (msg_messageID p)"
  shows "\<exists>gc1 gc2 cli2.
    receive_message env now trace raw gc = Return (gc1,
      map (\<lambda>p. Eff_Queue (RE_Message p (cl_skipCount cli > 0) (Some d))) (filter (passed_on gc) parts)) \<and>
    receive_message env now' trace' raw' gc1 = Return (gc2, []) \<and>
    gm_Client gc2 = Some cli2 \<and>
    {ri_ResponseID raw, ri_ResponseID raw'} \<subseteq> set (sh_ackMap (cl_sessionHandler cli2))"
proof -
  obtain msg c0 where r1: "HandleRPCMsg env now raw cli = Return (handleMessageParts env msg parts c0)"
    and m1: "im_DecryptedData msg = Some d" "im_IsOld msg = (cl_skipCount cli > 0)" "recent c0 = recent cli"
      "ring_ok c0 = ring_ok cli" "cl_events c0 = cl_events cli" "cl_AuthData c0 = cl_AuthData cli"
      "cl_sessionHandler c0 = queueMessageAck (ri_ResponseID raw) (cl_sessionHandler cli)"
    by (rule receive_update [OF assms(3), where now = now])
  define c1 where "c1 = handleMessageParts env msg parts c0"
  have fr: "\<forall>p\<in>set parts. fresh env c0 d (msg_messageID p)" using assms(7) m1(3) by (simp add: fresh_def)
  have ring: "ring_ok c0" "ring_ok c1"
    using assms(2) m1(4) handleMessageParts_keeps by (auto simp: c1_def)
  have ev: "new_events cli c1 = map (\<lambda>p. Ev_WrappedMessage p (cl_skipCount cli > 0) (Some d)) parts"
    using handleMessageParts_fresh [OF ring(1) m1(1) assms(5) fr] m1(2,5) by (simp add: new_events_def c1_def)
  obtain gc1 where gc1: "receive_message env now trace raw gc = Return (gc1,
      map (\<lambda>p. Eff_Queue (RE_Message p (cl_skipCount cli > 0) (Some d))) (filter (passed_on gc) parts))"
    and cli1: "gm_Client gc1 = Some c1"
    using deliver_events_messages [of now trace "cl_skipCount cli > 0" "Some d" parts "put_client c1 gc"] r1 assms(1) ev
    by (auto simp: receive_message_def c1_def)
  have "message_update env raw' c1 parts d"
    using assms(4) m1(6,7) message_update_cong [of c1 cli]
    by (simp add: c1_def handleMessageParts_client acks_client queueMessageAck_def)
  then obtain msg' c0' where r2: "HandleRPCMsg env now' raw' c1 = Return (handleMessageParts env msg' parts c0')"
    and m2: "im_DecryptedData msg' = Some d" "recent c0' = recent c1" "ring_ok c0' = ring_ok c1" "cl_events c0' = cl_events c1"
      "cl_sessionHandler c0' = queueMessageAck (ri_ResponseID raw') (cl_sessionHandler c1)"
    by (rule receive_update [where now = now'])
  have stale: "handleMessageParts env msg' parts c0' = c0'"
  proof (cases parts)
    case (Cons p ps)
    have "\<not> fresh env c1 d (msg_messageID p)"
      unfolding c1_def Cons using fr assms(5,6) Cons
      by (intro handleMessageParts_remembers [OF ring(1) m1(1)]) simp_all
    then show ?thesis
      unfolding Cons using ring(2) m2(1-3) by (intro handleMessageParts_stale) (simp_all add: fresh_def)
  qed simp
  have "receive_message env now' trace' raw' gc1 = Return (put_client c0' gc1, [])"
    using r2 stale m2(4) cli1 by (simp add: receive_message_def deliver_events_def new_events_def)
  moreover have "{ri_ResponseID raw, ri_ResponseID raw'} \<subseteq> set (sh_ackMap (cl_sessionHandler c0'))"
    using m1(7) m2(5) by (auto simp: c1_def acks_client queueMessageAck_def)
  ultimately show ?thesis using gc1 by (intro exI [of _ gc1] exI [of _ "put_client c0' gc1"] exI [of _ c0'])
      (simp add: put_client_def)
qed


definition update_env :: "Message list \<Rightarrow> env" where
  "update_env parts = sample_env\<lparr>env_unmarshal_rpc := (\<lambda>_. Inr \<lparr>md_SessionID = ''s'', md_Action = ActionType_GET_UPDATES,
       md_UnencryptedData = None, md_EncryptedData = Some (ctr_enc (\<lambda>_ b. b) (\<lambda>_. 0) (ad_RequestCrypto sample_auth)
         (replicate 16 0) []), md_EncryptedData2 = None\<rparr>),
     env_unmarshal_updates := (\<lambda>_. Inr (UpdateEvents_MessageEvent parts))\<rparr>"

definition update_raw :: RPCIncoming where
  "update_raw = \<lparr>ri_ResponseID = ''r1'', ri_BugleRoute = BugleRoute_DataEvent, ri_MessageData = []\<rparr>"

lemma sample_bridge_cli:
  obtains cli where "gm_Client sample_bridge_client = Some cli" "cl_AuthData cli = sample_auth"
    "cl_sessionHandler cli = newSessionHandler" "recent cli = recent (NewClient sample_auth None)" "ring_ok cli"
    "cl_skipCount cli = 0" "cl_uuids cli = 0" "cl_ivs cli = 0"
  using ring_ok_NewClient
  by (auto simp: sample_bridge_client_def LoadUserLogin_def GMClient_NewClient_def NewClient_def ring_ok_def recent_def
      SetAlertTimeoutCount_def SetPingInterval_def)

lemma sample_encrypts:
  obtains ct where "Encrypt (\<lambda>_ b. b) (\<lambda>_. 0) (ad_RequestCrypto sample_auth) (replicate 16 0) [] = Inr ct"
  using Encrypt_ok [of "ad_RequestCrypto sample_auth" "\<lambda>_ b. b" "\<lambda>_. 0" "replicate 16 0" "[]"]
  by (force simp: sample_auth_def aes_key_ok_def)

lemma update_raw_ok:
  assumes "cl_AuthData cli = sample_auth" "cl_sessionHandler cli = newSessionHandler"
  shows "message_update (update_env parts) update_raw cli parts []"
proof -
  obtain ct where ct: "Encrypt (\<lambda>_ b. b) (\<lambda>_. 0) (ad_RequestCrypto sample_auth) (replicate 16 0) [] = Inr ct"
    by (rule sample_encrypts)
  with Decrypt_Encrypt_buffer [OF _ ct] show ?thesis using assms
    by (simp add: message_update_def update_data_def update_env_def sample_env_def update_raw_def newSessionHandler_def ctr_enc_def)
qed

theorem messages_reach_bridge_once_witness:
  "\<exists>gc1 gc2. receive_message (update_env [sample_message]) 5 True update_raw sample_bridge_client =
       Return (gc1, [Eff_Queue (RE_Message sample_message False (Some []))]) \<and>
     receive_message (update_env [sample_message]) 9 True update_raw gc1 = Return (gc2, [])"
proof -
  obtain cli where cli: "gm_Client sample_bridge_client = Some cli" "cl_AuthData cli = sample_auth"
    "cl_sessionHandler cli = newSessionHandler" "recent cli = recent (NewClient sample_auth None)" "ring_ok cli"
    "cl_skipCount cli = 0" by (rule sample_bridge_cli)
  let ?e = "update_env [sample_message]"
  have m: "message_update ?e update_raw cli [sample_message] []" by (rule update_raw_ok [OF cli(2,3)])
  have f: "\<forall>p\<in>set [sample_message]. fresh ?e cli [] (msg_messageID p)"
  proof -
    have "fst ` set (recent (NewClient sample_auth None)) \<subseteq> {''''}"
      by (auto simp: recent_def NewClient_def recentUpdatesLen_def Let_def)
    then have "map_of (recent (NewClient sample_auth None)) ''m1'' = None" by (auto simp: map_of_eq_None_iff)
    then show ?thesis by (simp add: fresh_def cli(4) sample_message_def)
  qed
  have p: "filter (passed_on sample_bridge_client) [sample_message] = [sample_message]"
    by (simp add: passed_on_def sample_bridge_client_def LoadUserLogin_def GMClient_NewClient_def
        split: option.split)
  have d: "distinct (map msg_messageID [sample_message])" "length [sample_message] \<le> 8" by simp_all
  show ?thesis
    using messages_reach_bridge_once [OF cli(1,5) m m d f, of 5 True 9 True] cli(6) p by auto
qed



section \<open>From Matrix to the phone\<close>

text \<open>What the phone, which has the keys of the session, reads of a message of the relay: the action and the
  request, if the message carries an encrypted request and nothing in the clear.  \<open>unmarshal\<close> and
  \<open>decode\<close> are the decoders of the envelope and of the request.\<close>

definition phone_reads ::
  "env \<Rightarrow> (bytes \<Rightarrow> OutgoingRPCData option) \<Rightarrow> (bytes \<Rightarrow> RequestData option) \<Rightarrow> Client \<Rightarrow> OutgoingRPCMessage
    \<Rightarrow> (ActionType \<times> RequestData) option" where
  "phone_reads env unmarshal decode c m =
     (case unmarshal (om_MessageData m) of
        None \<Rightarrow> None
      | Some od \<Rightarrow>
          (case (od_UnencryptedProtoData od, od_EncryptedProtoData od) of
             (None, Some ct) \<Rightarrow>
               (case fst (Decrypt (env_aes env) (env_sha256 env) (ad_RequestCrypto (cl_AuthData c)) ct) of
                  Inl _ \<Rightarrow> None
                | Inr ser \<Rightarrow> map_option (Pair (od_Action od)) (decode ser))
           | _ \<Rightarrow> None))"

definition codec_ok :: "env \<Rightarrow> (bytes \<Rightarrow> OutgoingRPCData option) \<Rightarrow> (bytes \<Rightarrow> RequestData option) \<Rightarrow> bool" where
  "codec_ok env unmarshal decode \<longleftrightarrow> (\<forall>n. length (env_iv env n) = 16) \<and>
     (\<forall>x b. env_marshal_rpc env x = Inr b \<longrightarrow> unmarshal b = Some x) \<and>
     (\<forall>d b. env_marshal_data env d = Inr b \<longrightarrow> decode b = Some d)"

lemma buildMessage_phone_reads:
  assumes "fst (buildMessage env params c) = Inr (rid, m)" "pr_Data params = Some d" "\<not> pr_DontEncrypt params"
    and "codec_ok env unmarshal decode"
  shows "phone_reads env unmarshal decode c m = Some (pr_Action params, d)"
proof -
  obtain od ct ser where "unmarshal (om_MessageData m) = Some od" "od_Action od = pr_Action params"
    "od_UnencryptedProtoData od = None" "od_EncryptedProtoData od = Some ct" "env_marshal_data env d = Inr ser"
    "fst (Decrypt (env_aes env) (env_sha256 env) (ad_RequestCrypto (cl_AuthData c)) ct) = Inr ser"
    using buildMessage_readable_by_phone [OF assms(1-3), of unmarshal] assms(4) by (auto simp: codec_ok_def)
  then show ?thesis using assms(4) by (simp add: phone_reads_def codec_ok_def)
qed

lemma buildMessage_requests [simp]: "cl_requests (snd (buildMessage env params c)) = cl_requests c"
  by (simp add: buildMessage_def build_payload_def request_id_def new_uuid_def Let_def split: option.split sum.split)

lemma post_rpc_request:
  assumes "fst (post_rpc env now url p c) = None"
  shows "\<exists>r. hr_Payload r = p \<and> cl_requests (snd (post_rpc env now url p c)) = cl_requests c @ [r]"
  using assms
  by (auto simp: post_rpc_def makeProtobufHTTPRequest_def makeProtobufHTTPRequestContext_def do_http_def Let_def
      relay_request_def AddCookiesToRequest_def typedHTTPResponse_def split: sum.splits option.splits)

lemma sendAsyncMessage_request:
  assumes "fst (sendAsyncMessage env now params c) = Return ch"
  shows "\<exists>rid m r. fst (buildMessage env params c) = Inr (rid, m) \<and> hr_Payload r = P_OutgoingRPCMessage m \<and>
    cl_requests (snd (sendAsyncMessage env now params c)) = cl_requests c @ [r]"
proof -
  obtain rid m where b: "fst (buildMessage env params c) = Inr (rid, m)"
    using assms by (auto simp: sendAsyncMessage_def Let_def split: sum.splits)
  let ?c2 = "upd_session (\<lambda>s. snd (waitResponse rid s)) (snd (buildMessage env params c))"
  have p: "fst (post_rpc env now (send_url ?c2) (P_OutgoingRPCMessage m) ?c2) = None"
    using assms b by (auto simp: sendAsyncMessage_def Let_def split: option.splits outcome.splits)
  have s: "snd (sendAsyncMessage env now params c) = snd (post_rpc env now (send_url ?c2) (P_OutgoingRPCMessage m) ?c2)"
    using b p by (simp add: sendAsyncMessage_def Let_def)
  show ?thesis
    using post_rpc_request [OF p] b s by (auto simp: upd_session_def)
qed

text \<open>What runs while a call waits only adds requests.\<close>

definition waits :: "wait \<Rightarrow> bool" where
  "waits w \<longleftrightarrow> (\<forall>c. \<exists>rs. cl_requests (wt_first w c) = cl_requests c @ rs) \<and>
     (\<forall>c. \<exists>rs. cl_requests (wt_rest w c) = cl_requests c @ rs)"

lemma chan_recv_requests: "chan_recv ch c = Some (m, c') \<Longrightarrow> cl_requests c' = cl_requests c"
  by (auto simp: chan_recv_def upd_session_def split: list.splits)

lemma typed_call_request:
  assumes "typed_call t (sendMessage env now w a (Some d) c) = Some (Return x, c')" "waits w"
    and "codec_ok env unmarshal decode"
  shows "\<exists>m r rs. cl_requests c' = cl_requests c @ r # rs \<and> hr_Payload r = P_OutgoingRPCMessage m \<and>
    phone_reads env unmarshal decode c m = Some (a, d)"
proof -
  let ?p = "default_params\<lparr>pr_Action := a, pr_Data := Some d\<rparr>"
  let ?s = "sendAsyncMessage env now ?p c"
  obtain m b where r: "sendMessageWithParams env now w ?p c = Some (Return m, b, c')"
    using assms(1) by (auto simp: typed_call_def sendMessage_def split: option.splits outcome.splits)
  then obtain ch where ch: "fst ?s = Return ch"
    by (auto simp: sendMessageWithParams_def Let_def split: outcome.splits)
  obtain rs1 where rs1: "cl_requests (wt_first w (snd ?s)) = cl_requests (snd ?s) @ rs1"
    using assms(2) by (auto simp: waits_def)
  obtain rs2 where rs2: "cl_requests (wt_rest w (wt_first w (snd ?s))) = cl_requests (wt_first w (snd ?s)) @ rs2"
    using assms(2) unfolding waits_def by blast
  have "\<exists>rs. cl_requests c' = cl_requests (snd ?s) @ rs"
    using r ch rs1 rs2 by (auto simp: sendMessageWithParams_def Let_def dest!: chan_recv_requests split: option.splits)
  then show ?thesis
    using sendAsyncMessage_request [OF ch] buildMessage_phone_reads [of env ?p c _ _ d] assms(3)
    by (fastforce simp: default_params_def)
qed


lemma HandleMatrixMessage_sent:
  assumes "HandleMatrixMessage mv be me env now w meanwhile n rnd msg outgoing gc = Some (Return p, outgoing', gc')"
  shows "\<exists>req x. fst (ConvertMatrixMessage mv be me env rnd msg (message_txn n msg) gc) = Return req \<and>
    send_to_phone env now w req (snd (snd (ConvertMatrixMessage mv be me env rnd msg (message_txn n msg) gc))) =
      Some (Return x, gc')"
proof -
  let ?c = "ConvertMatrixMessage mv be me env rnd msg (message_txn n msg) gc"
  have g: "gm_Client gc \<noteq> None" using assms by (intro notI) (simp add: HandleMatrixMessage_def)
  obtain req where req: "fst ?c = Return req"
    using assms g unfolding HandleMatrixMessage_def message_txn_def [symmetric] Let_def by (cases "fst ?c") auto
  show ?thesis
    using assms g req unfolding HandleMatrixMessage_def message_txn_def [symmetric] Let_def
    by (auto split: option.splits outcome.splits if_splits)
qed

lemma ConvertMatrixMessage_text:
  assumes "fst (ConvertMatrixMessage mv be me env rnd msg txn gc) = Return req"
    and "mx_MsgType (mx_Content msg) \<in> {Mx_Text, Mx_Emote, Mx_Notice}"
  shows "mp_MessageInfo (sr_MessagePayload req) = [message_info (MessageInfo_MessageContent (matrix_text (mx_Content msg)))] \<and>
    snd (snd (ConvertMatrixMessage mv be me env rnd msg txn gc)) = gc"
  using assms by (auto simp: ConvertMatrixMessage_def fill_request_def set_info_def split: sum.splits)



text \<open>A closed run: the phone that shares the keys of the sample session reads an emote.\<close>

definition sent_request :: SendMessageRequest where
  "sent_request = set_info [message_info (MessageInfo_MessageContent ''/me waves'')]
     (base_request sample_bridge_client (sample_portal True) ''c'' ''t1'')"

definition sent_params :: SendMessageParams where
  "sent_params = default_params\<lparr>pr_Action := ActionType_SEND_MESSAGE, pr_Data := Some (RD_SendMessage sent_request)\<rparr>"

definition sent_rpc :: OutgoingRPCData where
  "sent_rpc = rpc_data (show_nat 0) sent_params
     (None, Some (ctr_enc (\<lambda>_ b. b) (\<lambda>_. 0) (ad_RequestCrypto sample_auth) (replicate 16 0) [])) ''''"

definition text_env :: env where
  "text_env = sample_env_ok\<lparr>
     env_marshal_rpc := (\<lambda>x. if x = sent_rpc then Inr [42] else Inl (ErrText ''x'')),
     env_marshal_data := (\<lambda>d. if d = RD_SendMessage sent_request then Inr [] else Inl (ErrText ''x''))\<rparr>"

lemma text_env_simps [simp]:
  "env_uuid text_env = show_nat" "env_iv text_env = (\<lambda>_. replicate 16 0)" "env_aes text_env = (\<lambda>_ b. b)"
  "env_sha256 text_env = (\<lambda>_. 0)" "env_marshal_rpc text_env sent_rpc = Inr [42]"
  "env_marshal_data text_env (RD_SendMessage sent_request) = Inr []"
  by (simp_all add: text_env_def sample_env_ok_def sample_env_def)

lemma text_env_codec: "codec_ok text_env (\<lambda>_. Some sent_rpc) (\<lambda>_. Some (RD_SendMessage sent_request))"
  by (simp add: codec_ok_def) (simp add: text_env_def)

lemma text_env_post: "fst (post_rpc text_env now url p c) = None"
  by (simp add: post_rpc_def text_env_def sample_env_ok_def sample_env_def Let_def makeProtobufHTTPRequest_def
      makeProtobufHTTPRequestContext_def marshal_body_def ContentTypePBLite_def ContentTypeProtobuf_def
      do_http_def typedHTTPResponse_def decodeProtoResp_def)

lemma sent_build:
  assumes "cl_AuthData c = sample_auth" "cl_sessionHandler c = newSessionHandler" "cl_uuids c = 0" "cl_ivs c = 0"
  shows "\<exists>m. fst (buildMessage text_env sent_params c) = Inr m \<and>
    cl_sessionHandler (snd (buildMessage text_env sent_params c)) = newSessionHandler"
proof -
  obtain ct where ct: "Encrypt (\<lambda>_ b. b) (\<lambda>_. 0) (ad_RequestCrypto sample_auth) (replicate 16 0) [] = Inr ct"
    by (rule sample_encrypts)
  define c1 where "c1 = snd (request_id text_env sent_params c)"
  have r: "fst (request_id text_env sent_params c) = show_nat 0" "cl_AuthData c1 = sample_auth" "cl_ivs c1 = 0"
    "cl_sessionHandler c1 = newSessionHandler"
    using assms by (simp_all add: c1_def request_id_def new_uuid_def sent_params_def default_params_def)
  have p: "pr_Data sent_params = Some (RD_SendMessage sent_request)" "\<not> pr_DontEncrypt sent_params"
    by (simp_all add: sent_params_def default_params_def)
  have b: "build_payload text_env sent_params c1 = (Inr (None, Some ct), c1\<lparr>cl_ivs := Suc 0\<rparr>)"
    using ct r p by (simp add: build_payload_def)
  have "rpc_data (show_nat 0) sent_params (None, Some ct) '''' = sent_rpc" using ct by (simp add: sent_rpc_def ctr_enc_def)
  with b r assms(2) show ?thesis
    by (simp add: buildMessage_def Let_def c1_def [symmetric]) (simp add: newSessionHandler_def)
qed



end
