(* ===== verification/Gm_Tools.thy ===== *)
theory Gm_Tools
  imports Gm_Calls Gm_Keys
begin

text \<open>
  The command line tools beside the library: \<open>pkg/libgm/manualdecrypt\<close>, which decrypts a request that was
  copied from a browser, \<open>pkg/libgm/pblitedecode\<close>, and the interactive \<open>pkg/libgm/gmtest\<close>.  The lemmas
  show that the decryption tool prints exactly what the client encrypted, and that the session of the
  interactive client survives every way it ends.  Files and standard streams are the state of a tool;
  JSON, pblite, protobuf and the program \<open>protoc\<close> are parameters.
\<close>

section \<open>Processes\<close>

text \<open>A step goes on with a value, ends the process with an exit code, or panics.\<close>

datatype 'a tool_run = Goes 'a | Exits int | Panics go_error

datatype tool_output =
    Out_Stderr string
  | Out_Stdout string
  | Out_DestRegistrationIDs "string list"
  | Out_Mobile "Device option"
  | Out_Channel MessageType
  | Out_RequestType ActionType
  | Out_RequestID string
  | Out_Error go_error
  | Out_Protoc "string list" bytes

text \<open>The file with the keys, as far as \<open>os.Open\<close> goes.\<close>

datatype config_file = Config_Missing | Config_Unreadable go_error | Config_File bytes

text \<open>\<open>to_reads\<close>: what each read of the standard input delivers; then it ends, or fails with
  \<open>to_stdin_error\<close>.\<close>

record tool_state =
  to_reads :: "bytes list"
  to_stdin_error :: "go_error option"
  to_config :: config_file
  to_out :: "tool_output list"

type_synonym 'a tool = "tool_state \<Rightarrow> 'a tool_run \<times> tool_state"

definition tool_bind :: "'a tool \<Rightarrow> ('a \<Rightarrow> 'b tool) \<Rightarrow> 'b tool" where
  "tool_bind f g s =
     (case f s of
        (Goes x, s1) \<Rightarrow> g x s1
      | (Exits n, s1) \<Rightarrow> (Exits n, s1)
      | (Panics e, s1) \<Rightarrow> (Panics e, s1))"

definition tool_return :: "'a \<Rightarrow> 'a tool" where
  "tool_return x s = (Goes x, s)"

definition tool_exit :: "int \<Rightarrow> 'a tool" where
  "tool_exit n s = (Exits n, s)"

definition emit :: "tool_output \<Rightarrow> unit tool" where
  "emit x s = (Goes (), s\<lparr>to_out := to_out s @ [x]\<rparr>)"

text \<open>\<open>must\<close> and \<open>mustNoReturn\<close>.\<close>

definition must :: "go_error + 'a \<Rightarrow> 'a tool" where
  "must r s = (case r of Inl err \<Rightarrow> (Panics err, s) | Inr t \<Rightarrow> (Goes t, s))"

definition mustNoReturn :: "go_error option \<Rightarrow> unit tool" where
  "mustNoReturn r s = (case r of Some err \<Rightarrow> (Panics err, s) | None \<Rightarrow> (Goes (), s))"

lemma tool_bind_simps [simp]:
  "tool_bind (tool_return x) f s = f x s"
  "tool_bind (tool_exit n) f s = (Exits n, s)"
  "tool_bind (emit y) g s = g () (s\<lparr>to_out := to_out s @ [y]\<rparr>)"
  "tool_bind (must (Inr x)) f s = f x s"
  "tool_bind (must (Inl e)) f s = (Panics e, s)"
  "tool_bind (mustNoReturn None) g s = g () s"
  "tool_bind (mustNoReturn (Some e)) g s = (Panics e, s)"
  by (simp_all add: tool_bind_def tool_return_def tool_exit_def emit_def must_def mustNoReturn_def)

lemma tool_step_simps [simp]:
  "must (Inr x) s = (Goes x, s)" "must (Inl e) s = (Panics e, s)" "tool_return x s = (Goes x, s)"
  by (simp_all add: must_def tool_return_def)

lemma tool_other_simps [simp]:
  "mustNoReturn None s = (Goes (), s)" "mustNoReturn (Some e) s = (Panics e, s)" "tool_exit n s = (Exits n, s)"
  "emit y s = (Goes (), s\<lparr>to_out := to_out s @ [y]\<rparr>)"
  by (simp_all add: tool_exit_def emit_def mustNoReturn_def)

section \<open>Reading the standard input\<close>

text \<open>\<open>base64.StdEncoding.DecodeString\<close> skips line breaks.\<close>

definition std_decode :: "bytes \<Rightarrow> go_error + bytes" where
  "std_decode text =
     (case b64_decode (filter (\<lambda>b. b \<noteq> 10 \<and> b \<noteq> 13) text) of
        None \<Rightarrow> Inl (ErrText ''illegal base64 data'')
      | Some d \<Rightarrow> Inr d)"

definition drop_CR :: "bytes \<Rightarrow> bytes" where
  "drop_CR l = (if l \<noteq> [] \<and> last l = 13 then butlast l else l)"

definition MaxScanTokenSize :: nat where
  "MaxScanTokenSize = 65536"

text \<open>\<open>Scan\<close> and \<open>Text\<close> of a \<open>bufio.Scanner\<close>: the line, what stays in the buffer of the scanner, and the
  reads that are left.  The text is empty at the end of the input and when the line does not fit into the
  buffer.\<close>

fun scan_line :: "bytes \<Rightarrow> bytes list \<Rightarrow> bytes \<times> bytes \<times> bytes list" where
  "scan_line buf [] =
     (if 10 \<in> set buf then (drop_CR (takeWhile (\<lambda>b. b \<noteq> 10) buf), tl (dropWhile (\<lambda>b. b \<noteq> 10) buf), [])
      else if length buf \<ge> MaxScanTokenSize then ([], buf, [])
      else (drop_CR buf, [], []))"
| "scan_line buf (r # reads) =
     (if 10 \<in> set buf then (drop_CR (takeWhile (\<lambda>b. b \<noteq> 10) buf), tl (dropWhile (\<lambda>b. b \<noteq> 10) buf), r # reads)
      else if length buf \<ge> MaxScanTokenSize then ([], buf, r # reads)
      else scan_line (buf @ r) reads)"

text \<open>\<open>io.ReadAll(os.Stdin)\<close>: what a scanner holds in its buffer is not part of it.\<close>

definition ReadAll :: "bytes tool" where
  "ReadAll s =
     (case to_stdin_error s of
        Some err \<Rightarrow> (Panics err, s\<lparr>to_reads := []\<rparr>)
      | None \<Rightarrow> (Goes (concat (to_reads s)), s\<lparr>to_reads := []\<rparr>))"

section \<open>manualdecrypt\<close>

text \<open>What \<open>pblite.Unmarshal\<close> yields: the data (absent: nil), with its type data (absent: nil).\<close>

record PastedRPC =
  pa_Data :: "(bytes \<times> MessageType option) option"
  pa_DestRegistrationIDs :: "string list"
  pa_Mobile :: "Device option"

record decrypt_env =
  de_json_Decode :: "bytes \<Rightarrow> go_error + AESCTRHelper"
  de_json_Encode :: "AESCTRHelper \<Rightarrow> go_error + bytes"
  de_create :: "go_error option"
  de_json_Valid :: "bytes \<Rightarrow> bool"
  de_pblite :: "bytes \<Rightarrow> go_error + PastedRPC"
  de_outgoing :: "bytes \<Rightarrow> go_error + OutgoingRPCData"
  de_incoming :: "bytes \<Rightarrow> go_error + RPCMessageData"
  de_protoc :: "string list \<Rightarrow> bytes \<Rightarrow> go_error option"
  de_format :: "string \<Rightarrow> bytes \<Rightarrow> go_error + string"
  de_aes :: aes_block
  de_sha256 :: sha256_fun

text \<open>The table of request types, by the full names of the messages.\<close>

definition requestType :: "ActionType \<Rightarrow> string option" where
  "requestType a =
     (case a of
        ActionType_LIST_CONVERSATIONS \<Rightarrow> Some ''client.ListConversationsRequest''
      | ActionType_NOTIFY_DITTO_ACTIVITY \<Rightarrow> Some ''client.NotifyDittoActivityRequest''
      | ActionType_GET_CONVERSATION_TYPE \<Rightarrow> Some ''client.GetConversationTypeRequest''
      | ActionType_GET_CONVERSATION \<Rightarrow> Some ''client.GetConversationRequest''
      | ActionType_LIST_MESSAGES \<Rightarrow> Some ''client.ListMessagesRequest''
      | ActionType_SEND_MESSAGE \<Rightarrow> Some ''client.SendMessageRequest''
      | ActionType_SEND_REACTION \<Rightarrow> Some ''client.SendReactionRequest''
      | ActionType_DELETE_MESSAGE \<Rightarrow> Some ''client.DeleteMessageRequest''
      | ActionType_GET_PARTICIPANTS_THUMBNAIL \<Rightarrow> Some ''client.GetThumbnailRequest''
      | ActionType_GET_CONTACTS_THUMBNAIL \<Rightarrow> Some ''client.GetThumbnailRequest''
      | ActionType_LIST_CONTACTS \<Rightarrow> Some ''client.ListContactsRequest''
      | ActionType_LIST_TOP_CONTACTS \<Rightarrow> Some ''client.ListTopContactsRequest''
      | ActionType_GET_OR_CREATE_CONVERSATION \<Rightarrow> Some ''client.GetOrCreateConversationRequest''
      | ActionType_UPDATE_CONVERSATION \<Rightarrow> Some ''client.UpdateConversationRequest''
      | ActionType_RESEND_MESSAGE \<Rightarrow> Some ''client.ResendMessageRequest''
      | ActionType_TYPING_UPDATES \<Rightarrow> Some ''client.TypingUpdateRequest''
      | ActionType_GET_FULL_SIZE_IMAGE \<Rightarrow> Some ''client.GetFullSizeImageRequest''
      | ActionType_SETTINGS_UPDATE \<Rightarrow> Some ''client.SettingsUpdateRequest''
      | ActionType_CREATE_GAIA_PAIRING_CLIENT_INIT \<Rightarrow> Some ''authentication.GaiaPairingRequestContainer''
      | ActionType_CREATE_GAIA_PAIRING_CLIENT_FINISHED \<Rightarrow> Some ''authentication.GaiaPairingRequestContainer''
      | _ \<Rightarrow> None)"

text \<open>Asking for one of the two keys: the key, and what stays in the buffer of the scanner.\<close>

definition read_key :: "string \<Rightarrow> string \<Rightarrow> bytes \<Rightarrow> (bytes \<times> bytes) tool" where
  "read_key prompt name buf =
     tool_bind (emit (Out_Stderr prompt)) (\<lambda>_ s.
       let l = scan_line buf (to_reads s)
       in tool_bind (must (std_decode (fst l))) (\<lambda>key.
            if length key \<noteq> 32
            then tool_bind (emit (Out_Stderr (name @ '' must be 32 bytes''))) (\<lambda>_. tool_exit 0)
            else tool_return (key, fst (snd l)))
          (s\<lparr>to_reads := snd (snd l)\<rparr>))"

text \<open>Creating the file truncates it before it is encoded.\<close>

definition save_keys :: "decrypt_env \<Rightarrow> AESCTRHelper \<Rightarrow> unit tool" where
  "save_keys de x s =
     (case de_create de of
        Some err \<Rightarrow> tool_bind (emit (Out_Stderr ''Failed to open config.json for writing'')) (\<lambda>_. tool_exit 0) s
      | None \<Rightarrow>
          tool_bind (must (de_json_Encode de x)) (\<lambda>data s1.
            emit (Out_Stderr ''Saved keys to config.json'') (s1\<lparr>to_config := Config_File data\<rparr>))
          (s\<lparr>to_config := Config_File []\<rparr>))"

definition ask_keys :: "decrypt_env \<Rightarrow> AESCTRHelper tool" where
  "ask_keys de =
     tool_bind (emit (Out_Stderr ''config.json doesn't exist'')) (\<lambda>_.
     tool_bind (emit (Out_Stderr ''Please find pr_crypto_msg_enc_key and pr_crypto_msg_hmac from localStorage'')) (\<lambda>_.
     tool_bind (emit (Out_Stderr ''(make sure not to confuse it with pr_crypto_hmac)'')) (\<lambda>_.
     tool_bind (read_key ''AES key (pr_crypto_msg_enc_key): '' ''AES key'' []) (\<lambda>aes.
     tool_bind (read_key ''HMAC key (pr_crypto_msg_hmac): '' ''HMAC key'' (snd aes)) (\<lambda>hmac.
     let x = \<lparr>AESKey = fst aes, HMACKey = fst hmac\<rparr>
     in tool_bind (save_keys de x) (\<lambda>_. tool_return x))))))"

text \<open>A file that exists but cannot be opened leaves a nil file, which the decoder cannot read.\<close>

definition load_keys :: "decrypt_env \<Rightarrow> AESCTRHelper tool" where
  "load_keys de s =
     (case to_config s of
        Config_Missing \<Rightarrow> ask_keys de s
      | Config_Unreadable err \<Rightarrow> (Panics (ErrText ''invalid argument''), s)
      | Config_File data \<Rightarrow> must (de_json_Decode de data) s)"

definition decode_pasted :: "decrypt_env \<Rightarrow> bytes \<Rightarrow> (bytes \<times> MessageType) tool" where
  "decode_pasted de d =
     (if de_json_Valid de d
      then tool_bind (must (de_pblite de d)) (\<lambda>orm.
        case pa_Data orm of
          Some (decoded, Some typ) \<Rightarrow>
            tool_bind (emit (Out_DestRegistrationIDs (pa_DestRegistrationIDs orm))) (\<lambda>_.
            tool_bind (emit (Out_Mobile (pa_Mobile orm))) (\<lambda>_. tool_return (decoded, typ)))
        | _ \<Rightarrow> must (Inl (ErrText ''nil pointer dereference'')))
      else tool_bind (must (std_decode d)) (\<lambda>decoded. tool_return (decoded, MessageType_UNKNOWN_MESSAGE_TYPE)))"

definition show_header :: "MessageType \<Rightarrow> ActionType \<Rightarrow> string \<Rightarrow> unit tool" where
  "show_header typ action requestID =
     tool_bind (emit (Out_Stderr '''')) (\<lambda>_.
     tool_bind (emit (Out_Channel typ)) (\<lambda>_.
     tool_bind (emit (Out_RequestType action)) (\<lambda>_.
     emit (Out_RequestID requestID))))"

definition show_raw :: "bytes \<Rightarrow> unit tool" where
  "show_raw decrypted =
     tool_bind (emit (Out_Stderr ''------------------------------ RAW DECRYPTED DATA ------------------------------'')) (\<lambda>_.
     emit (Out_Stdout (bytes_string (b64_encode decrypted))))"

text \<open>The arguments of \<open>protoc\<close>.\<close>

definition protoc_args :: "string option \<Rightarrow> string list" where
  "protoc_args t =
     (case t of
        Some name \<Rightarrow> [''--proto_path=../gmproto'', ''--decode'', name, ''client.proto'']
      | None \<Rightarrow> [''--decode_raw''])"

definition show_decoded :: "decrypt_env \<Rightarrow> ActionType \<Rightarrow> bytes \<Rightarrow> unit tool" where
  "show_decoded de action decrypted =
     tool_bind (emit (Out_Stderr ''--------------------------------- DECODED DATA ---------------------------------'')) (\<lambda>_.
     tool_bind (emit (Out_Protoc (protoc_args (requestType action)) decrypted)) (\<lambda>_.
     tool_bind (mustNoReturn (de_protoc de (protoc_args (requestType action)) decrypted)) (\<lambda>_.
     case requestType action of
       None \<Rightarrow> tool_return ()
     | Some name \<Rightarrow>
         tool_bind (must (de_format de name decrypted)) (\<lambda>respData.
         tool_bind (emit (Out_Stderr ''------------------------------ PARSED STRUCT DATA ------------------------------'')) (\<lambda>_.
         emit (Out_Stderr respData))))))"

definition decrypt_result :: "decrypt_env \<Rightarrow> AESCTRHelper \<Rightarrow> bytes \<Rightarrow> go_error + bytes" where
  "decrypt_result de x d =
     (case fst (Decrypt (de_aes de) (de_sha256 de) x d) of Inl err \<Rightarrow> Inl (crypto_err err) | Inr p \<Rightarrow> Inr p)"

definition show_outgoing :: "decrypt_env \<Rightarrow> AESCTRHelper \<Rightarrow> bytes \<Rightarrow> MessageType \<Rightarrow> unit tool" where
  "show_outgoing de x decoded typ =
     tool_bind (must (de_outgoing de decoded)) (\<lambda>ord.
     tool_bind (show_header typ (od_Action ord) (od_RequestID ord)) (\<lambda>_.
     tool_bind (case od_EncryptedProtoData ord of
          Some ct \<Rightarrow> must (decrypt_result de x ct)
        | None \<Rightarrow>
            (case od_UnencryptedProtoData ord of
               Some p \<Rightarrow> tool_return p
             | None \<Rightarrow> tool_bind (emit (Out_Stderr ''No encrypted data'')) (\<lambda>_. tool_exit 0))) (\<lambda>decrypted.
     tool_bind (show_raw decrypted) (\<lambda>_. show_decoded de (od_Action ord) decrypted))))"

definition show_incoming :: "decrypt_env \<Rightarrow> AESCTRHelper \<Rightarrow> bytes \<Rightarrow> MessageType \<Rightarrow> unit tool" where
  "show_incoming de x decoded typ =
     tool_bind (must (de_incoming de decoded)) (\<lambda>ird.
     tool_bind (must (decrypt_result de x (case md_EncryptedData ird of None \<Rightarrow> [] | Some d \<Rightarrow> d))) (\<lambda>decrypted.
     tool_bind (show_header typ (md_Action ird) (md_SessionID ird)) (\<lambda>_. show_raw decrypted)))"

text \<open>The direction is a constant of the program.\<close>

definition outgoing_direction :: bool where
  "outgoing_direction = True"

definition manualdecrypt_main :: "decrypt_env \<Rightarrow> unit tool" where
  "manualdecrypt_main de =
     tool_bind (load_keys de) (\<lambda>x.
     tool_bind (emit (Out_Stderr ''Please paste the request body, then press Ctrl+D to close stdin'')) (\<lambda>_.
     tool_bind ReadAll (\<lambda>d.
     tool_bind (decode_pasted de d) (\<lambda>dt.
     tool_bind (if outgoing_direction then show_outgoing de x (fst dt) (snd dt)
                else show_incoming de x (fst dt) (snd dt)) (\<lambda>_.
     emit (Out_Stderr ''--------------------------------------------------------------------------------''))))))"

section \<open>pblitedecode\<close>

text \<open>\<open>files\<close>: the messages of each file descriptor, in the order of the tool.  \<open>format\<close> decodes a message and
  prints it.  The second component is what is printed on the standard emit.\<close>

definition pblitedecode_main ::
  "string list list \<Rightarrow> (string \<Rightarrow> bytes \<Rightarrow> go_error + string) \<Rightarrow> string list \<Rightarrow> unit tool" where
  "pblitedecode_main files format args =
     (case args of
        [] \<Rightarrow> must (Inl (ErrText ''index out of range''))
      | name # _ \<Rightarrow>
          (case find (\<lambda>file. name \<in> set file) files of
             None \<Rightarrow> tool_bind (emit (Out_Stdout ''Message not found'')) (\<lambda>_. tool_exit 1)
           | Some file \<Rightarrow>
               tool_bind ReadAll (\<lambda>d.
                 case format name d of
                   Inl err \<Rightarrow> tool_bind (emit (Out_Error err)) (\<lambda>_. tool_exit 2)
                 | Inr text \<Rightarrow> emit (Out_Stdout text))))"

section \<open>gmtest\<close>

text \<open>The parameters of a run: the files and their JSON decoders, random bytes and keys.\<close>

record test_env =
  te_cookies :: "go_error + bytes"
  te_dec_cookies :: "bytes \<Rightarrow> go_error + headers"
  te_dec :: "bytes \<Rightarrow> go_error + AuthData"
  te_enc :: "AuthData \<Rightarrow> go_error + bytes"
  te_create :: "go_error option"
  te_random :: "nat \<Rightarrow> byte"
  te_key :: "go_error + ec_key"

text \<open>The file \<open>session.json\<close>, the client, whose authentication data is the variable \<open>sess\<close>, and what
  was logged.\<close>

record test_state =
  ts_file :: config_file
  ts_client :: Client
  ts_log :: "string list"

datatype test_run = Test_Goes | Test_Returns | Test_Fatal | Test_Panics go_error | Test_Hangs

definition log_msg :: "string \<Rightarrow> test_state \<Rightarrow> test_state" where
  "log_msg m s = s\<lparr>ts_log := ts_log s @ [m]\<rparr>"

definition saveSession :: "test_env \<Rightarrow> test_state \<Rightarrow> go_error option \<times> test_state" where
  "saveSession te s =
     (case te_create te of
        Some err \<Rightarrow> (Some err, s)
      | None \<Rightarrow>
          (case te_enc te (cl_AuthData (ts_client s)) of
             Inl err \<Rightarrow> (Some err, s\<lparr>ts_file := Config_File []\<rparr>)
           | Inr data \<Rightarrow> (None, s\<lparr>ts_file := Config_File data\<rparr>)))"

text \<open>The types \<open>ClientReady\<close>, \<open>*gmproto.Message\<close> and \<open>BrowserActive\<close> of the switch are never
  triggered: the library wraps messages.\<close>

definition evtHandler :: "test_env \<Rightarrow> event \<Rightarrow> test_state \<Rightarrow> go_error option \<times> test_state" where
  "evtHandler te evt s =
     (case evt of
        Ev_PairSuccessful phoneID qrData \<Rightarrow>
          let r = saveSession te (log_msg ''Pair successful'' s)
          in (case fst r of Some err \<Rightarrow> r | None \<Rightarrow> (None, log_msg ''Wrote session'' (snd r)))
      | Ev_Conversation conv \<Rightarrow> (None, log_msg ''Conversation event'' s)
      | _ \<Rightarrow> (None, log_msg ''Unknown event'' s))"

fun run_events :: "test_env \<Rightarrow> event list \<Rightarrow> test_state \<Rightarrow> go_error option \<times> test_state" where
  "run_events te [] s = (None, s)"
| "run_events te (e # es) s =
     (case evtHandler te e s of
        (None, s1) \<Rightarrow> run_events te es s1
      | (Some err, s1) \<Rightarrow> (Some err, s1))"

text \<open>What a call did to the client, with the events it triggered handled.\<close>

definition after_call :: "test_env \<Rightarrow> Client \<Rightarrow> test_state \<Rightarrow> test_run \<times> test_state" where
  "after_call te c s =
     (case run_events te (drop (length (cl_events (ts_client s))) (cl_events c)) (s\<lparr>ts_client := c\<rparr>) of
        (Some err, s1) \<Rightarrow> (Test_Panics err, s1)
      | (None, s1) \<Rightarrow> (Test_Goes, s1))"

definition pair_new :: "test_env \<Rightarrow> pair_env \<Rightarrow> env \<Rightarrow> time \<Rightarrow> pair_attempt \<Rightarrow> pair_wait \<Rightarrow> test_state \<Rightarrow> test_run \<times> test_state" where
  "pair_new te pe env now pa w s =
     (case DoGaiaPairing pe env now pa w (ts_client s) of
        None \<Rightarrow> (Test_Hangs, s)
      | Some (Panic p, _, c) \<Rightarrow> (Test_Panics (ErrText p), s\<lparr>ts_client := c\<rparr>)
      | Some (Error err, _, c) \<Rightarrow> (Test_Fatal, log_msg ''Failed to pair'' (s\<lparr>ts_client := c\<rparr>))
      | Some (Return _, emoji, c) \<Rightarrow>
          after_call te c (case emoji of None \<Rightarrow> s | Some e \<Rightarrow> log_msg e s))"

definition new_session :: "test_env \<Rightarrow> go_error + AuthData" where
  "new_session te =
     (case NewAuthData (te_random te) (te_key te) of
        Panic p \<Rightarrow> Inl (ErrText p)
      | Error err \<Rightarrow> Inl err
      | Return ad \<Rightarrow>
          (case te_cookies te of
             Inl err \<Rightarrow> Inl err
           | Inr data \<Rightarrow>
               (case te_dec_cookies te data of
                  Inl err \<Rightarrow> Inl err
                | Inr cookies \<Rightarrow> Inr (ad\<lparr>ad_Cookies := Some cookies\<rparr>))))"

definition gmtest_start ::
  "test_env \<Rightarrow> pair_env \<Rightarrow> env \<Rightarrow> time \<Rightarrow> pair_attempt \<Rightarrow> pair_wait \<Rightarrow> test_state \<Rightarrow> test_run \<times> test_state" where
  "gmtest_start te pe env now pa w s =
     (case ts_file s of
        Config_Unreadable err \<Rightarrow> (Test_Panics err, s)
      | Config_Missing \<Rightarrow>
          (case new_session te of
             Inl err \<Rightarrow> (Test_Panics err, s)
           | Inr sess \<Rightarrow> pair_new te pe env now pa w (s\<lparr>ts_client := NewClient sess None\<rparr>))
      | Config_File data \<Rightarrow>
          (case te_dec te data of
             Inl err \<Rightarrow> (Test_Panics err, s)
           | Inr sess \<Rightarrow>
               let r = Connect env now (NewClient sess None);
                   s1 = log_msg ''Loaded session?'' s
               in (case fst r of
                     Some err \<Rightarrow> (Test_Panics err, s1\<lparr>ts_client := snd r\<rparr>)
                   | None \<Rightarrow> after_call te (snd r) (s1\<lparr>ts_client := NewClient sess None\<rparr>))))"

text \<open>\<open>strings.Fields\<close>.\<close>

fun fields_from :: "string \<Rightarrow> nat \<Rightarrow> string \<Rightarrow> string list" where
  "fields_from acc k [] = (if acc = [] then [] else [rev acc])"
| "fields_from acc (Suc k) (x # xs) = fields_from acc k xs"
| "fields_from acc 0 (x # xs) =
     (case find (\<lambda>r. prefix r (x # xs)) space_runes of
        None \<Rightarrow> fields_from (x # acc) 0 xs
      | Some r \<Rightarrow> (if acc = [] then [] else [rev acc]) @ fields_from [] (length r - 1) xs)"

definition Fields :: "string \<Rightarrow> string list" where
  "Fields s = fields_from [] 0 s"

text \<open>The goroutine that forwards the lines of the standard input and then closes the channel.\<close>

definition input_lines :: "string list \<Rightarrow> string list" where
  "input_lines lines = filter (\<lambda>l. l \<noteq> '''') (map trim_space lines)"

definition test_call :: "test_env \<Rightarrow> env \<Rightarrow> time \<Rightarrow> wait \<Rightarrow> phone_call \<Rightarrow> test_state \<Rightarrow> test_run \<times> test_state" where
  "test_call te env now w call s =
     (case run_call env now w call (ts_client s) of
        None \<Rightarrow> (Test_Hangs, s)
      | Some (Panic p, c) \<Rightarrow> (Test_Panics (ErrText p), s\<lparr>ts_client := c\<rparr>)
      | Some (_, c) \<Rightarrow> after_call te c s)"

definition run_command :: "test_env \<Rightarrow> env \<Rightarrow> time \<Rightarrow> wait \<Rightarrow> string \<Rightarrow> test_state \<Rightarrow> test_run \<times> test_state" where
  "run_command te env now w cmd s =
     (case Fields cmd of
        [] \<Rightarrow> (Test_Panics (ErrText ''index out of range''), s)
      | name # args \<Rightarrow>
          if name = ''listcontacts'' then test_call te env now w Call_ListContacts s
          else if name = ''topcontacts'' then test_call te env now w Call_ListTopContacts s
          else if name = ''getconversation'' then
            (case args of
               [] \<Rightarrow> (Test_Panics (ErrText ''index out of range''), s)
             | conv # _ \<Rightarrow> test_call te env now w (Call_GetConversation conv) s)
          else (Test_Goes, s))"

text \<open>The cases that the select of the loop takes, with what runs while a command waits.\<close>

datatype select_case = Sel_Signal | Sel_Input wait

fun gmtest_loop ::
  "test_env \<Rightarrow> env \<Rightarrow> time \<Rightarrow> select_case list \<Rightarrow> string list \<Rightarrow> test_state \<Rightarrow> test_run \<times> test_state" where
  "gmtest_loop te env now [] cmds s = (Test_Hangs, s)"
| "gmtest_loop te env now (Sel_Signal # cs) cmds s = (Test_Returns, log_msg ''Interrupt received, exiting'' s)"
| "gmtest_loop te env now (Sel_Input w # cs) [] s = (Test_Returns, log_msg ''Stdin closed, exiting'' s)"
| "gmtest_loop te env now (Sel_Input w # cs) (cmd # cmds) s =
     (case run_command te env now w cmd s of
        (Test_Goes, s1) \<Rightarrow> gmtest_loop te env now cs cmds s1
      | (r, s1) \<Rightarrow> (r, s1))"

text \<open>The deferred \<open>saveSession\<close> runs when the loop returns and when it panics; \<open>log.Fatal\<close> does not occur in the
  loop.\<close>

definition gmtest_serve ::
  "test_env \<Rightarrow> env \<Rightarrow> time \<Rightarrow> select_case list \<Rightarrow> string list \<Rightarrow> test_state \<Rightarrow> test_run \<times> test_state" where
  "gmtest_serve te env now cs lines s =
     (let r = gmtest_loop te env now cs (input_lines lines) s
      in if fst r = Test_Hangs then r
         else let d = saveSession te (snd r)
              in (case fst d of Some err \<Rightarrow> (Test_Panics err, snd d) | None \<Rightarrow> (fst r, snd d)))"

definition gmtest_main ::
  "test_env \<Rightarrow> pair_env \<Rightarrow> env \<Rightarrow> time \<Rightarrow> pair_attempt \<Rightarrow> pair_wait \<Rightarrow> select_case list \<Rightarrow> string list \<Rightarrow> test_state
    \<Rightarrow> test_run \<times> test_state" where
  "gmtest_main te pe env now pa w cs lines s =
     (case gmtest_start te pe env now pa w s of
        (Test_Goes, s1) \<Rightarrow> gmtest_serve te env now cs lines s1
      | (r, s1) \<Rightarrow> (r, s1))"


section \<open>The decryption tool shows what was sent\<close>

lemma tool_bind_out: "\<exists>rest. to_out (snd (tool_bind f (\<lambda>_. emit x) s)) = to_out (snd (f s)) @ rest"
  by (cases "f s"; cases "fst (f s)") (auto simp: tool_bind_def emit_def)

lemma show_decoded_out:
  "\<exists>rest. to_out (snd (show_decoded de a p s)) = to_out s @
     [Out_Stderr ''--------------------------------- DECODED DATA ---------------------------------'',
      Out_Protoc (protoc_args (requestType a)) p] @ rest"
proof (cases "de_protoc de (protoc_args (requestType a)) p")
  case None
  then show ?thesis
    by (cases "requestType a"; cases "de_format de (the (requestType a)) p") (simp_all add: show_decoded_def)
qed (simp add: show_decoded_def)

text \<open>What the tool has printed when it starts \<open>protoc\<close>.\<close>

definition shown_request :: "OutgoingRPCMessage \<Rightarrow> ActionType \<Rightarrow> string \<Rightarrow> bytes \<Rightarrow> tool_output list" where
  "shown_request m action requestID ser =
     [Out_Stderr ''Please paste the request body, then press Ctrl+D to close stdin'',
      Out_DestRegistrationIDs (om_DestRegistrationIDs m), Out_Mobile (om_Mobile m), Out_Stderr '''',
      Out_Channel (om_MessageType m), Out_RequestType action, Out_RequestID requestID,
      Out_Stderr ''------------------------------ RAW DECRYPTED DATA ------------------------------'',
      Out_Stdout (bytes_string (b64_encode ser)),
      Out_Stderr ''--------------------------------- DECODED DATA ---------------------------------'',
      Out_Protoc (protoc_args (requestType action)) ser]"

text \<open>The standard input carries the message, and the file the keys.\<close>

definition pasted :: "decrypt_env \<Rightarrow> tool_state \<Rightarrow> OutgoingRPCMessage \<Rightarrow> AESCTRHelper \<Rightarrow> bool" where
  "pasted de s m x \<longleftrightarrow>
     (\<exists>cfg. to_config s = Config_File cfg \<and> de_json_Decode de cfg = Inr x) \<and> to_stdin_error s = None \<and>
     de_json_Valid de (concat (to_reads s)) \<and>
     de_pblite de (concat (to_reads s)) = Inr \<lparr>pa_Data = Some (om_MessageData m, Some (om_MessageType m)),
       pa_DestRegistrationIDs = om_DestRegistrationIDs m, pa_Mobile = om_Mobile m\<rparr>"

lemma manualdecrypt_pasted:
  assumes "pasted de s m x"
  shows "\<exists>s1 rest. to_out s1 = to_out s @ take 3 (shown_request m a rid ser) \<and>
    to_out (snd (manualdecrypt_main de s)) = to_out (snd (show_outgoing de x (om_MessageData m) (om_MessageType m) s1)) @ rest"
proof -
  define s1 where "s1 = s\<lparr>to_reads := [], to_out := to_out s @ take 3 (shown_request m a rid ser)\<rparr>"
  have "manualdecrypt_main de s = tool_bind (show_outgoing de x (om_MessageData m) (om_MessageType m))
      (\<lambda>_. emit (Out_Stderr ''--------------------------------------------------------------------------------'')) s1"
    using assms
    by (auto simp: pasted_def manualdecrypt_main_def load_keys_def ReadAll_def decode_pasted_def s1_def shown_request_def
        outgoing_direction_def tool_bind_def emit_def must_def tool_return_def)
  then show ?thesis using tool_bind_out [of "show_outgoing de x (om_MessageData m) (om_MessageType m)" _ s1]
    by (intro exI [of _ s1]) (simp add: s1_def)
qed

lemma show_outgoing_encrypted:
  assumes "de_outgoing de b = Inr od" "od_EncryptedProtoData od = Some ct" "decrypt_result de x ct = Inr ser"
    and "to_out s1 = out @ take 3 (shown_request m (od_Action od) (od_RequestID od) ser)"
  shows "\<exists>rest. to_out (snd (show_outgoing de x b (om_MessageType m) s1)) =
    out @ shown_request m (od_Action od) (od_RequestID od) ser @ rest"
proof -
  define s2 where "s2 = s1\<lparr>to_out := out @ take 9 (shown_request m (od_Action od) (od_RequestID od) ser)\<rparr>"
  have "show_outgoing de x b (om_MessageType m) s1 = show_decoded de (od_Action od) ser s2"
    using assms by (simp add: show_outgoing_def show_header_def show_raw_def shown_request_def tool_bind_def s2_def)
  then show ?thesis using show_decoded_out [of de "od_Action od" ser s2] by (simp add: s2_def shown_request_def)
qed

text \<open>
  (C19) The decryption tool shows what the client sent.  When the file of the tool has the keys of the session and
  its input is a request that \<open>buildMessage\<close> encrypted, the tool prints, in this order, the destination and the
  device, the channel, the action and the identifier of the request, and exactly the bytes of the request that
  the client had serialised (in base64, and as the input of \<open>protoc\<close>, which it asks for the message type of
  the action), whatever \<open>protoc\<close> then does.
\<close>

theorem manualdecrypt_shows_request:
  assumes "fst (buildMessage env params c) = Inr (rid, m)" "pr_Data params = Some d" "\<not> pr_DontEncrypt params"
    and "\<forall>n. length (env_iv env n) = 16" "\<forall>x b. env_marshal_rpc env x = Inr b \<longrightarrow> de_outgoing de b = Inr x"
    and "de_aes de = env_aes env" "de_sha256 de = env_sha256 env"
    and "pasted de s m (ad_RequestCrypto (cl_AuthData c))"
  shows "\<exists>ser rest. env_marshal_data env d = Inr ser \<and>
    to_out (snd (manualdecrypt_main de s)) = to_out s @ shown_request m (pr_Action params) rid ser @ rest"
proof -
  let ?u = "\<lambda>b. case de_outgoing de b of Inl _ \<Rightarrow> None | Inr x \<Rightarrow> Some x"
  let ?x = "ad_RequestCrypto (cl_AuthData c)"
  have "\<forall>x b. env_marshal_rpc env x = Inr b \<longrightarrow> ?u b = Some x" using assms(5) by simp
  then obtain od ct ser where od: "?u (om_MessageData m) = Some od" "od_RequestID od = rid"
    "od_Action od = pr_Action params" "od_EncryptedProtoData od = Some ct" "env_marshal_data env d = Inr ser"
    "fst (Decrypt (env_aes env) (env_sha256 env) ?x ct) = Inr ser"
    using buildMessage_readable_by_phone [OF assms(1-4), of ?u] by blast
  have o: "de_outgoing de (om_MessageData m) = Inr od" using od(1) by (simp split: sum.splits)
  have x: "decrypt_result de ?x ct = Inr ser" using od(6) assms(6,7) by (simp add: decrypt_result_def)
  obtain s1 rest where s1: "to_out s1 = to_out s @ take 3 (shown_request m (od_Action od) (od_RequestID od) ser)"
    "to_out (snd (manualdecrypt_main de s)) = to_out (snd (show_outgoing de ?x (om_MessageData m) (om_MessageType m) s1)) @ rest"
    using manualdecrypt_pasted [OF assms(8)] by blast
  show ?thesis
    using show_outgoing_encrypted [OF o od(4) x s1(1)] s1(2) od(2,3,5) by auto
qed

text \<open>The keys and the request of the sample session.\<close>

definition sample_decrypt :: "OutgoingRPCMessage \<Rightarrow> decrypt_env" where
  "sample_decrypt m = \<lparr>de_json_Decode = (\<lambda>_. Inr (ad_RequestCrypto sample_auth)), de_json_Encode = (\<lambda>_. Inr []),
     de_create = None, de_json_Valid = (\<lambda>b. b \<noteq> []),
     de_pblite = (\<lambda>_. Inr \<lparr>pa_Data = Some (om_MessageData m, Some (om_MessageType m)),
       pa_DestRegistrationIDs = om_DestRegistrationIDs m, pa_Mobile = om_Mobile m\<rparr>),
     de_outgoing = (\<lambda>_. Inr sample_rpc), de_incoming = (\<lambda>_. Inl (ErrText ''x'')), de_protoc = (\<lambda>_ _. None),
     de_format = (\<lambda>_ _. Inr ''message''), de_aes = env_aes sample_env, de_sha256 = env_sha256 sample_env\<rparr>"

definition sample_tool :: tool_state where
  "sample_tool = \<lparr>to_reads = [[91, 93]], to_stdin_error = None, to_config = Config_File [], to_out = []\<rparr>"

theorem manualdecrypt_shows_request_witness:
  "\<exists>m rest. fst (buildMessage phone_env sample_data_params (NewClient sample_auth None)) = Inr (''req'', m) \<and>
     to_out (snd (manualdecrypt_main (sample_decrypt m) sample_tool)) =
       shown_request m (pr_Action sample_data_params) ''req'' [] @ rest"
proof -
  obtain m where m: "fst (buildMessage phone_env sample_data_params (NewClient sample_auth None)) = Inr (''req'', m)"
    using sample_build by blast
  have p: "pr_Data sample_data_params = Some (DeleteMessageRequest ''m'')" "\<not> pr_DontEncrypt sample_data_params"
    by (simp_all add: sample_data_params_def sample_params_def default_params_def)
  have e: "\<forall>n. length (env_iv phone_env n) = 16"
    "\<forall>x b. env_marshal_rpc phone_env x = Inr b \<longrightarrow> de_outgoing (sample_decrypt m) b = Inr x"
    "de_aes (sample_decrypt m) = env_aes phone_env" "de_sha256 (sample_decrypt m) = env_sha256 phone_env"
    "env_marshal_data phone_env (DeleteMessageRequest ''m'') = Inr []"
    by (simp_all add: phone_env_def sample_decrypt_def) (simp_all add: sample_env_def)
  have t: "pasted (sample_decrypt m) sample_tool m (ad_RequestCrypto (cl_AuthData (NewClient sample_auth None)))"
    by (simp add: pasted_def sample_decrypt_def sample_tool_def NewClient_def)
  show ?thesis
    using manualdecrypt_shows_request [OF m p e(1-4) t] m e(5) by (auto simp: sample_tool_def)
qed


text \<open>The table of the tool has the message type of every call of the client that carries a request.\<close>

lemma calls_have_request_types:
  "pr_Data (call_params call c) \<noteq> None \<Longrightarrow> requestType (pr_Action (call_params call c)) \<noteq> None"
  by (cases call) (simp_all add: requestType_def plain_request_def)

section \<open>The scanner keeps what it has read ahead\<close>

lemma scan_line_first:
  assumes "10 \<notin> set l" "l = [] \<or> last l \<noteq> 13"
  shows "scan_line (l @ 10 # rest) reads = (l, rest, reads)"
proof -
  have "takeWhile (\<lambda>b. b \<noteq> 10) (l @ 10 # rest) = l" "dropWhile (\<lambda>b. b \<noteq> 10) (l @ 10 # rest) = 10 # rest"
    using assms(1) by (induction l) auto
  then show ?thesis using assms(2) by (cases reads) (auto simp: drop_CR_def)
qed

lemma scan_line_empty: "scan_line [] (b # reads) = scan_line b reads"
  by (simp add: MaxScanTokenSize_def)

text \<open>
  When the tool is run for the first time with the two keys and the request on a standard input that delivers
  all three at once (a pipe or a file), the scanner has read the request into its own buffer and drops it: the
  tool sees an empty request and stops, after it has saved the keys.
\<close>

lemma piped_request_is_lost:
  assumes "to_config s = Config_Missing" "to_stdin_error s = None"
    and "to_reads s = [k1 @ 10 # k2 @ 10 # body]"
    and "10 \<notin> set k1" "k1 = [] \<or> last k1 \<noteq> 13" "10 \<notin> set k2" "k2 = [] \<or> last k2 \<noteq> 13"
    and "std_decode k1 = Inr a" "length a = 32" "std_decode k2 = Inr h" "length h = 32"
    and "de_create de = None" "de_json_Encode de \<lparr>AESKey = a, HMACKey = h\<rparr> = Inr cfg" "\<not> de_json_Valid de []"
    and "de_outgoing de [] = Inr od" "od_EncryptedProtoData od = None" "od_UnencryptedProtoData od = None"
  shows "fst (manualdecrypt_main de s) = Exits 0 \<and>
    last (to_out (snd (manualdecrypt_main de s))) = Out_Stderr ''No encrypted data'' \<and>
    to_config (snd (manualdecrypt_main de s)) = Config_File cfg"
proof -
  have k: "fst (ask_keys de s) = Goes \<lparr>AESKey = a, HMACKey = h\<rparr>" "to_config (snd (ask_keys de s)) = Config_File cfg"
    "to_reads (snd (ask_keys de s)) = []" "to_stdin_error (snd (ask_keys de s)) = None"
    using assms(2,3,8-13) scan_line_first [OF assms(4,5)] scan_line_first [OF assms(6,7)]
    by (simp_all add: ask_keys_def read_key_def save_keys_def scan_line_empty tool_bind_def Let_def
        del: scan_line.simps)
  have d: "std_decode [] = Inr []" by (simp add: std_decode_def)
  define s1 where "s1 = snd (ask_keys de s)"
  have "load_keys de s = (Goes \<lparr>AESKey = a, HMACKey = h\<rparr>, s1)"
    using assms(1) k(1) by (simp add: load_keys_def s1_def prod_eq_iff)
  then show ?thesis
    using k(2-4) assms(14-17) d
    by (simp add: manualdecrypt_main_def tool_bind_def ReadAll_def decode_pasted_def outgoing_direction_def
        show_outgoing_def show_header_def s1_def [symmetric])
qed

section \<open>The session of the interactive client\<close>

text \<open>However the loop ends, by a signal, by the end of its input or by a command without its argument, the
  file holds the authentication data that the client has then, and the next start connects with it.\<close>

lemma gmtest_keeps_session:
  assumes "gmtest_serve te env now cs lines s = (r, s')" "r \<noteq> Test_Hangs"
    and "te_create te = None" "\<forall>ad. \<exists>b. te_enc te ad = Inr b \<and> te_dec te b = Inr ad"
  shows "\<exists>b. ts_file s' = Config_File b \<and>
    gmtest_start te pe env2 now2 pa w s' =
      (let c = NewClient (cl_AuthData (ts_client s')) None; rc = Connect env2 now2 c; s1 = log_msg ''Loaded session?'' s'
       in case fst rc of
            Some err \<Rightarrow> (Test_Panics err, s1\<lparr>ts_client := snd rc\<rparr>)
          | None \<Rightarrow> after_call te (snd rc) (s1\<lparr>ts_client := c\<rparr>))"
proof -
  let ?l = "gmtest_loop te env now cs (input_lines lines) s"
  obtain b where b: "te_enc te (cl_AuthData (ts_client (snd ?l))) = Inr b"
    "te_dec te b = Inr (cl_AuthData (ts_client (snd ?l)))" using assms(4) by blast
  have n: "fst ?l \<noteq> Test_Hangs" using assms(1,2) by (auto simp: gmtest_serve_def Let_def)
  have "s' = (snd ?l)\<lparr>ts_file := Config_File b\<rparr>"
    using assms(1,3) n b(1) by (simp add: gmtest_serve_def Let_def saveSession_def)
  then show ?thesis using b(2) by (simp add: gmtest_start_def Let_def)
qed


end
